(* ===== verification/Yori_Prelude.thy ===== *)
theory Yori_Prelude
  imports Main "HOL-Library.Word" "HOL-Library.List_Lexorder" "HOL-Library.Char_ord"
    "HOL-Library.Multiset" "HOL-Library.Product_Lexorder"
begin

text \<open>
  Shared vocabulary of the development: names for the machine types the C++ sources use, the
  string helpers that several translation units repeat, \<open>std::map\<close> as a key-ordered association
  list, and the list facts the component theories rely on.

  \<^item> \<open>std::uint8_t\<close> ... \<open>std::uint64_t\<close> are words of that width; \<open>std::size_t\<close> is \<open>nat\<close> (every size
    the code adds up is bounded far below \<open>2 ^ 64\<close> by the checks that are modelled).
  \<^item> \<open>std::chrono::system_clock::time_point\<close> is the \<open>int\<close> count of clock ticks since the epoch.
  \<^item> \<open>std::string\<close> is a \<open>string\<close>: a list of 8-bit characters, ordered bytewise as
    \<open>std::string::operator<\<close> orders it (the linear order of \<open>List_Lexorder\<close> and \<open>Char_ord\<close>).
  \<^item> \<open>std::map\<close> is an association list in strictly increasing key order (\<open>omap_wf\<close>), so that a
    loop over the map is a recursion over the list in the order of the C++ iteration.
\<close>

section \<open>Machine types\<close>

type_synonym u8 = "8 word"
type_synonym u16 = "16 word"
type_synonym u32 = "32 word"
type_synonym u64 = "64 word"
type_synonym time_point = int
type_synonym ('k, 'v) omap = "('k \<times> 'v) list"

named_theorems omap_simps \<open>lookups in updated key-ordered association lists\<close>
named_theorems to_string_simps \<open>the printed names of the enumerations\<close>

section \<open>Strings\<close>

text \<open>\<open>contains_nul\<close> is repeated with the same body in \<open>job.cpp\<close>, \<open>state_store.cpp\<close> and
  \<open>launch_adapter.cpp\<close>; \<open>NUL\<close> is the character with code 0.\<close>

definition NUL :: char where
  "NUL = CHR 0x00"

definition contains_nul :: "string \<Rightarrow> bool" where
  "contains_nul value \<longleftrightarrow> NUL \<in> set value"

text \<open>The entries between commas; a text without a comma is one entry. The loop is repeated in
  \<open>ipc_service.cpp\<close> and \<open>sqlite_state_store.cpp\<close>.\<close>

fun split_commas :: "string \<Rightarrow> string list" where
  "split_commas [] = [[]]"
| "split_commas (c # cs) =
     (if c = CHR '','' then [] # split_commas cs
      else case split_commas cs of [] \<Rightarrow> [[c]] | w # ws \<Rightarrow> (c # w) # ws)"

text \<open>\<open>std::to_string\<close> of an unsigned and of a signed integer.\<close>

fun std_to_string :: "nat \<Rightarrow> string" where
  "std_to_string n =
     (if n < 10 then [char_of (48 + n)] else std_to_string (n div 10) @ [char_of (48 + n mod 10)])"

declare std_to_string.simps [simp del]

definition int_to_string :: "int \<Rightarrow> string" where
  "int_to_string n = (if n < 0 then ''-'' @ std_to_string (nat (- n)) else std_to_string (nat n))"

section \<open>Words\<close>

lemma of_nat_u64_eq:
  assumes "n < 2 ^ 64"
  shows "(of_nat n :: u64) = w \<longleftrightarrow> unat w = n"
proof -
  have "unat (of_nat n :: u64) = n"
    using assms by (simp add: unat_of_nat)
  then show ?thesis by (auto simp: word_unat_eq_iff)
qed

section \<open>Ordered maps\<close>

fun omap_put :: "'k::linorder \<Rightarrow> 'v \<Rightarrow> ('k, 'v) omap \<Rightarrow> ('k, 'v) omap" where
  "omap_put k v [] = [(k, v)]"
| "omap_put k v ((a, b) # m) =
     (if k < a then (k, v) # (a, b) # m
      else if k = a then (k, v) # m
      else (a, b) # omap_put k v m)"

definition omap_erase :: "'k \<Rightarrow> ('k, 'v) omap \<Rightarrow> ('k, 'v) omap" where
  "omap_erase k m = filter (\<lambda>e. fst e \<noteq> k) m"

definition omap_wf :: "('k::linorder, 'v) omap \<Rightarrow> bool" where
  "omap_wf m \<longleftrightarrow> sorted_wrt (<) (map fst m)"

definition omap_contains :: "'k \<Rightarrow> ('k, 'v) omap \<Rightarrow> bool" where
  "omap_contains k m \<longleftrightarrow> map_of m k \<noteq> None"

text \<open>The promise of \<open>std::map\<close> that its clients use: a table with lookup, overwrite and erase
  whose well-formedness every operation keeps. The laws are stated once; what the clients need
  of several updates in a row is derived from them.\<close>

locale ordered_table =
  fixes lookup :: "'m \<Rightarrow> 'k \<Rightarrow> 'v option"
    and put :: "'k \<Rightarrow> 'v \<Rightarrow> 'm \<Rightarrow> 'm"
    and erase :: "'k \<Rightarrow> 'm \<Rightarrow> 'm"
    and wf :: "'m \<Rightarrow> bool"
  assumes lookup_put: "lookup (put k v m) = (lookup m)(k \<mapsto> v)"
    and lookup_erase: "lookup (erase k m) = (lookup m)(k := None)"
    and wf_put: "wf m \<Longrightarrow> wf (put k v m)"
    and wf_erase: "wf m \<Longrightarrow> wf (erase k m)"
    and wf_ext: "wf m \<Longrightarrow> wf m' \<Longrightarrow> lookup m = lookup m' \<Longrightarrow> m = m'"
begin

lemma put_same: "wf m \<Longrightarrow> lookup m k = Some v \<Longrightarrow> put k v m = m"
  by (intro wf_ext wf_put) (auto simp: lookup_put)

lemma put_commute:
  assumes "wf m" and "k \<noteq> k'"
  shows "put k v (put k' v' m) = put k' v' (put k v m)"
  using assms by (intro wf_ext wf_put) (auto simp: lookup_put fun_upd_twist)

lemma put_put: "wf m \<Longrightarrow> put k v (put k v' m) = put k v m"
  by (intro wf_ext wf_put) (auto simp: lookup_put)

lemma erase_absent: "wf m \<Longrightarrow> lookup m k = None \<Longrightarrow> erase k m = m"
  by (intro wf_ext wf_erase) (auto simp: lookup_erase)

lemma erase_put: "wf m \<Longrightarrow> lookup m k = None \<Longrightarrow> erase k (put k v m) = m"
  by (intro wf_ext wf_erase wf_put) (auto simp: lookup_erase lookup_put)

lemma put_erase: "wf m \<Longrightarrow> lookup m k = Some v \<Longrightarrow> put k v (erase k m) = m"
  by (intro wf_ext wf_erase wf_put) (auto simp: lookup_erase lookup_put)

end

lemma map_of_omap_put [omap_simps]: "map_of (omap_put k v m) = (map_of m)(k \<mapsto> v)"
  by (induction m) (auto simp: fun_eq_iff)

lemma map_of_omap_erase [omap_simps]: "map_of (omap_erase k m) = (map_of m)(k := None)"
  by (induction m) (auto simp: omap_erase_def fun_eq_iff)

lemma fst_set_omap_put: "fst ` set (omap_put k v m) = insert k (fst ` set m)"
proof -
  have "dom (map_of (omap_put k v m)) = insert k (dom (map_of m))"
    by (simp add: map_of_omap_put)
  then show ?thesis by (simp add: dom_map_of_conv_image_fst)
qed

lemma set_omap_put: "set (omap_put k v m) \<subseteq> insert (k, v) (set m)"
  by (induction m) (auto split: if_splits)

lemma length_omap_put_new [omap_simps]:
  "map_of m k = None \<Longrightarrow> length (omap_put k v m) = Suc (length m)"
  by (induction m) (auto split: if_splits)

lemma length_omap_erase_le: "length (omap_erase k m) \<le> length m"
  by (simp add: omap_erase_def)

lemma omap_wf_Nil [simp]: "omap_wf []"
  by (simp add: omap_wf_def)

lemma omap_wf_Cons:
  "omap_wf ((a, b) # m) \<longleftrightarrow> (\<forall>k \<in> fst ` set m. a < k) \<and> omap_wf m"
  by (auto simp: omap_wf_def)

lemma length_omap_put_old [omap_simps]:
  "omap_wf m \<Longrightarrow> map_of m k \<noteq> None \<Longrightarrow> length (omap_put k v m) = length m"
proof (induction m)
  case (Cons e m)
  obtain a b where e: "e = (a, b)" by (cases e)
  from Cons.prems have "\<forall>x \<in> fst ` set m. a < x" "omap_wf m"
    by (auto simp: e omap_wf_Cons)
  with Cons show ?case
    by (auto simp: e split: if_splits dest!: map_of_SomeD)
qed simp

lemma omap_wf_put [intro]: "omap_wf m \<Longrightarrow> omap_wf (omap_put k v m)"
proof (induction m)
  case Nil
  then show ?case by (simp add: omap_wf_def)
next
  case (Cons e m)
  obtain a b where e: "e = (a, b)" by (cases e)
  have "\<forall>x \<in> fst ` set m. a < x" "omap_wf m"
    using Cons.prems by (simp_all add: e omap_wf_Cons)
  with Cons.IH show ?case
    by (cases k a rule: linorder_cases) (fastforce simp: e omap_wf_Cons fst_set_omap_put)+
qed

lemma omap_wf_erase [intro]: "omap_wf m \<Longrightarrow> omap_wf (omap_erase k m)"
  by (induction m) (auto simp: omap_wf_Cons omap_erase_def)

lemma omap_wf_distinct: "omap_wf m \<Longrightarrow> distinct (map fst m)"
  by (simp add: omap_wf_def strict_sorted_iff)

lemma omap_lookup_iff: "omap_wf m \<Longrightarrow> map_of m k = Some v \<longleftrightarrow> (k, v) \<in> set m"
  by (simp add: omap_wf_distinct)

lemma list_all_omap:
  "omap_wf m \<Longrightarrow> list_all (\<lambda>(k, v). P k v) m \<longleftrightarrow> (\<forall>k v. map_of m k = Some v \<longrightarrow> P k v)"
  by (auto simp: list_all_iff omap_lookup_iff)

lemma case_option_ex:
  "(case x of None \<Rightarrow> False | Some y \<Rightarrow> P y) \<longleftrightarrow> (\<exists>y. x = Some y \<and> P y)"
  by (cases x) auto

lemma omap_set_eq:
  assumes "omap_wf m" and "omap_wf m'" and "map_of m = map_of m'"
  shows "m = m'"
proof -
  have keys: "map fst m = map fst m'"
  proof (rule strict_sorted_equal)
    show "sorted_wrt (<) (map fst m')" "sorted_wrt (<) (map fst m)"
      using assms by (simp_all add: omap_wf_def)
    have "dom (map_of m) = dom (map_of m')"
      using assms(3) by simp
    then show "set (map fst m) = set (map fst m')"
      by (simp add: dom_map_of_conv_image_fst)
  qed
  have "m = map (\<lambda>k. (k, the (map_of m k))) (map fst m)"
    if "omap_wf m" for m :: "('a, 'b) omap"
  proof (intro nth_equalityI)
    fix i assume "i < length m"
    then have "map_of m (fst (m ! i)) = Some (snd (m ! i))"
      using omap_lookup_iff [OF that] nth_mem by (metis prod.collapse)
    with \<open>i < length m\<close> show "m ! i = map (\<lambda>k. (k, the (map_of m k))) (map fst m) ! i"
      by (simp add: prod_eq_iff)
  qed simp
  then show ?thesis
    using assms keys by metis
qed

interpretation om: ordered_table map_of omap_put omap_erase omap_wf
  by unfold_locales (auto simp: omap_simps intro: omap_set_eq)

text \<open>\<open>std::map::emplace\<close> keeps the value a name already has.\<close>

definition emplace_env :: "(string, string) omap \<Rightarrow> string \<times> string \<Rightarrow> (string, string) omap" where
  "emplace_env m p = (if omap_contains (fst p) m then m else omap_put (fst p) (snd p) m)"

lemma emplace_absent: "\<not> omap_contains (fst p) m \<Longrightarrow> emplace_env m p = omap_put (fst p) (snd p) m"
  by (simp add: emplace_env_def)

lemma mset_omap_put_new:
  "k \<notin> fst ` set m \<Longrightarrow> mset (omap_put k v m) = add_mset (k, v) (mset m)"
  by (induction m) auto

lemma emplace_env_laws:
  shows emplace_wf: "omap_wf m \<Longrightarrow> omap_wf (emplace_env m p)"
    and emplace_mset: "mset (emplace_env m p) \<subseteq># mset m + {#p#}"
  by (auto simp: emplace_env_def omap_contains_def mset_omap_put_new map_of_eq_None_iff)

lemma fold_emplace:
  "omap_wf m \<Longrightarrow> omap_wf (foldl emplace_env m env)"
  "mset (foldl emplace_env m env) \<subseteq># mset m + mset env"
proof -
  show "omap_wf m \<Longrightarrow> omap_wf (foldl emplace_env m env)"
    by (induction env arbitrary: m) (auto intro: emplace_wf)
  show "mset (foldl emplace_env m env) \<subseteq># mset m + mset env"
  proof (induction env arbitrary: m)
    case (Cons p env)
    have "mset (foldl emplace_env m (p # env)) \<subseteq># mset (emplace_env m p) + mset env"
      using Cons.IH [of "emplace_env m p"] by simp
    also have "\<dots> \<subseteq># mset m + {#p#} + mset env"
      by (rule subset_mset.add_right_mono [OF emplace_mset])
    finally show ?case by simp
  qed simp
qed

lemma omap_put_last: "omap_wf (m @ [(k, v)]) \<Longrightarrow> omap_put k v m = m @ [(k, v)]"
  by (induction m) (auto simp: omap_wf_def)

lemma fold_emplace_sorted: "omap_wf (m @ env) \<Longrightarrow> foldl emplace_env m env = m @ env"
proof (induction env arbitrary: m)
  case (Cons p env)
  then have wf: "omap_wf (m @ [p])" and "fst p \<notin> fst ` set m"
    by (auto simp: omap_wf_def sorted_wrt_append)
  then have "emplace_env m p = m @ [p]"
    using omap_put_last [of m "fst p" "snd p"] by (simp add: emplace_env_def omap_contains_def map_of_eq_None_iff)
  with Cons show ?case by simp
qed simp

end
