(* ===== verification/Job_Model.thy ===== *)
theory Job_Model
  imports Yori_Prelude
begin

text \<open>
  The job contract (\<open>include/yori/job/job.hpp\<close>, \<open>src/job/job.cpp\<close>) and the device identity it
  refers to (\<open>include/yori/gpu/gpu_uuid.hpp\<close>): the immutable \<open>JobSpec\<close>, its validation, the job
  state graph and the \<open>Job\<close> object with its single mutator \<open>transition_to\<close>.
  Enumerators keep the C++ names and are qualified by their enumeration, e.g.
  \<open>JobState.kQueued\<close>. A \<open>JobId\<close> and a \<open>GpuUuid\<close> wrap one value each and are represented by it.
\<close>

section \<open>Identifiers\<close>

type_synonym JobId = u64
type_synonym GpuUuid = string

definition job_id_valid :: "JobId \<Rightarrow> bool" where
  "job_id_valid i \<longleftrightarrow> i \<noteq> 0"

definition uuid_kMaxBytes :: nat where
  "uuid_kMaxBytes = 96"

definition uuid_valid :: "GpuUuid \<Rightarrow> bool" where
  "uuid_valid u \<longleftrightarrow> u \<noteq> [] \<and> length u \<le> uuid_kMaxBytes \<and> NUL \<notin> set u"

section \<open>Specification of a job\<close>

text \<open>\<open>JobSpecLimits\<close>.\<close>

definition kMaxArgumentCount :: nat where "kMaxArgumentCount = 256"
definition kMaxArgumentBytes :: nat where "kMaxArgumentBytes = 64 * 1024"
definition kMaxSingleArgumentBytes :: nat where "kMaxSingleArgumentBytes = 16 * 1024"
definition kMaxWorkingDirectoryBytes :: nat where "kMaxWorkingDirectoryBytes = 4096"
definition kMaxEnvironmentVariables :: nat where "kMaxEnvironmentVariables = 256"
definition kMaxEnvironmentNameBytes :: nat where "kMaxEnvironmentNameBytes = 255"
definition kMaxEnvironmentValueBytes :: nat where "kMaxEnvironmentValueBytes = 32 * 1024"
definition kMaxEnvironmentBytes :: nat where "kMaxEnvironmentBytes = 256 * 1024"
definition kMaxLaunchProfileBytes :: nat where "kMaxLaunchProfileBytes = 128"
definition kMaxPlacementDevices :: nat where "kMaxPlacementDevices = 8"
definition kMaxTensorboardLogdirBytes :: nat where "kMaxTensorboardLogdirBytes = 4096"
definition kMaxExecutableBytes :: nat where "kMaxExecutableBytes = 4096"
definition kMaxPythonVersionBytes :: nat where "kMaxPythonVersionBytes = 64"

lemmas job_limits =
  kMaxArgumentCount_def kMaxArgumentBytes_def kMaxSingleArgumentBytes_def
  kMaxWorkingDirectoryBytes_def kMaxEnvironmentVariables_def kMaxEnvironmentNameBytes_def
  kMaxEnvironmentValueBytes_def kMaxEnvironmentBytes_def kMaxLaunchProfileBytes_def
  kMaxPlacementDevices_def kMaxTensorboardLogdirBytes_def kMaxExecutableBytes_def
  kMaxPythonVersionBytes_def

datatype EnvSource = kNone | kConda | kVenv

record EnvMetadata =
  em_source :: EnvSource
  em_python_version :: "string option"

datatype GpuPlacementMode = kAny | kRequired | kPreferred

record GpuPlacement =
  gp_mode :: GpuPlacementMode
  gp_devices :: "GpuUuid list"

record JobSpec =
  js_owner_uid :: u32
  js_owner_gid :: u32
  js_argv :: "string list"
  js_cwd :: string
  js_env :: "(string, string) omap"
  js_executable :: "string option"
  js_env_metadata :: "EnvMetadata option"
  js_gpu_request :: u32
  js_gpu_placement :: GpuPlacement
  js_launch_profile :: "string option"
  js_tensorboard_logdir :: "string option"
  js_submit_time :: time_point

datatype JobSpecErrorCode =
    kNone | kRootOwnerNotAllowed | kEmptyArguments | kTooManyArguments | kInvalidArgument
  | kArgumentTooLong | kArgumentsTooLarge | kInvalidWorkingDirectory
  | kTooManyEnvironmentVariables | kInvalidEnvironmentName | kEnvironmentNameTooLong
  | kEnvironmentValueTooLong | kEnvironmentTooLarge | kUnsupportedGpuRequest
  | kInvalidGpuPlacement | kPlacementGpuRequestConflict | kLaunchProfileTooLong
  | kInvalidTensorboardLogdir | kInvalidSubmitTime | kInvalidExecutable | kInvalidPythonVersion

record JobSpecValidationResult =
  jsv_code :: JobSpecErrorCode
  jsv_item_index :: "nat option"

definition jsv_ok :: "JobSpecValidationResult \<Rightarrow> bool" where
  "jsv_ok r \<longleftrightarrow> jsv_code r = JobSpecErrorCode.kNone"

definition jsv :: "JobSpecErrorCode \<Rightarrow> nat option \<Rightarrow> JobSpecValidationResult" where
  "jsv c i = \<lparr>jsv_code = c, jsv_item_index = i\<rparr>"

section \<open>Validation\<close>

text \<open>\<open>add_within_limit\<close> returns the new tot, or \<open>None\<close> where the C++ returns \<open>false\<close>.\<close>

definition add_within_limit :: "nat \<Rightarrow> nat \<Rightarrow> nat \<Rightarrow> nat option" where
  "add_within_limit value tot limit =
     (if value > limit - tot then None else Some (tot + value))"

definition is_valid_environment_name :: "string \<Rightarrow> bool" where
  "is_valid_environment_name name \<longleftrightarrow>
     name \<noteq> [] \<and> \<not> contains_nul name \<and> CHR ''='' \<notin> set name"

text \<open>The component loop of \<open>is_valid_tensorboard_logdir\<close>, on the suffix that starts at
  \<open>component_begin\<close>.\<close>

function logdir_components_ok :: "string \<Rightarrow> bool" where
  "logdir_components_ok path =
     (if takeWhile (\<lambda>c. c \<noteq> CHR ''/'') path = ''..'' then False
      else case dropWhile (\<lambda>c. c \<noteq> CHR ''/'') path of
             [] \<Rightarrow> True
           | _ # rest \<Rightarrow> logdir_components_ok rest)"
  by pat_completeness auto
termination
proof (relation "measure length", goal_cases)
  case (2 path c rest)
  then have "length (c # rest) \<le> length path"
    by (metis length_dropWhile_le)
  then show ?case by simp
qed simp

declare logdir_components_ok.simps [simp del]

definition is_valid_tensorboard_logdir :: "string \<Rightarrow> bool" where
  "is_valid_tensorboard_logdir path \<longleftrightarrow>
     (if path = [] \<or> length path > kMaxTensorboardLogdirBytes \<or> contains_nul path
         \<or> hd path = CHR ''/''
      then False else logdir_components_ok path)"

text \<open>The argument loop and the environment loop of \<open>validate\<close>: \<open>Some\<close> is the early return,
  \<open>None\<close> is falling out of the loop.\<close>

fun check_arguments :: "string list \<Rightarrow> nat \<Rightarrow> nat \<Rightarrow> JobSpecValidationResult option" where
  "check_arguments [] index argument_bytes = None"
| "check_arguments (argument # rest) index argument_bytes =
     (if contains_nul argument then Some (jsv kInvalidArgument (Some index))
      else if length argument > kMaxSingleArgumentBytes
        then Some (jsv kArgumentTooLong (Some index))
      else case add_within_limit (length argument) argument_bytes kMaxArgumentBytes of
             None \<Rightarrow> Some (jsv kArgumentsTooLarge (Some index))
           | Some tot \<Rightarrow> check_arguments rest (Suc index) tot)"

fun check_environment ::
  "(string, string) omap \<Rightarrow> nat \<Rightarrow> nat \<Rightarrow> JobSpecValidationResult option" where
  "check_environment [] index environment_bytes = None"
| "check_environment ((name, value) # rest) index environment_bytes =
     (if \<not> is_valid_environment_name name then Some (jsv kInvalidEnvironmentName (Some index))
      else if length name > kMaxEnvironmentNameBytes
        then Some (jsv kEnvironmentNameTooLong (Some index))
      else if length value > kMaxEnvironmentValueBytes \<or> contains_nul value
        then Some (jsv kEnvironmentValueTooLong (Some index))
      else case add_within_limit (length name) environment_bytes kMaxEnvironmentBytes of
             None \<Rightarrow> Some (jsv kEnvironmentTooLarge (Some index))
           | Some tot \<Rightarrow>
               (case add_within_limit (length value) tot kMaxEnvironmentBytes of
                  None \<Rightarrow> Some (jsv kEnvironmentTooLarge (Some index))
                | Some tot' \<Rightarrow> check_environment rest (Suc index) tot'))"

text \<open>The device loop of the \<open>kRequired\<close> case: \<open>prior\<close> holds the devices already visited.\<close>

fun placement_devices_ok :: "GpuUuid list \<Rightarrow> GpuUuid list \<Rightarrow> bool" where
  "placement_devices_ok prior [] = True"
| "placement_devices_ok prior (d # ds) =
     (uuid_valid d \<and> d \<notin> set prior \<and> placement_devices_ok (prior @ [d]) ds)"

text \<open>The \<open>switch\<close> on the placement mode; \<open>None\<close> is the \<open>break\<close>.\<close>

definition check_placement :: "GpuPlacement \<Rightarrow> u32 \<Rightarrow> JobSpecErrorCode option" where
  "check_placement p request =
     (case gp_mode p of
        kAny \<Rightarrow> if gp_devices p \<noteq> [] then Some kInvalidGpuPlacement else None
      | kRequired \<Rightarrow>
          if gp_devices p = [] \<or> length (gp_devices p) > kMaxPlacementDevices
            then Some kInvalidGpuPlacement
          else if \<not> placement_devices_ok [] (gp_devices p) then Some kInvalidGpuPlacement
          else if request \<noteq> 1 then Some kPlacementGpuRequestConflict else None
      | kPreferred \<Rightarrow>
          if length (gp_devices p) \<noteq> 1 \<or> \<not> uuid_valid (hd (gp_devices p))
            then Some kInvalidGpuPlacement
          else if request \<noteq> 1 then Some kPlacementGpuRequestConflict else None)"

definition optional_text_ok :: "nat \<Rightarrow> string option \<Rightarrow> bool" where
  "optional_text_ok limit t \<longleftrightarrow>
     (case t of None \<Rightarrow> True | Some s \<Rightarrow> s \<noteq> [] \<and> length s \<le> limit \<and> \<not> contains_nul s)"

definition absolute_path_ok :: "nat \<Rightarrow> string \<Rightarrow> bool" where
  "absolute_path_ok limit path \<longleftrightarrow>
     path \<noteq> [] \<and> length path \<le> limit \<and> \<not> contains_nul path \<and> hd path = CHR ''/''"

text \<open>The statements of \<open>validate\<close> after the \<open>switch\<close>.\<close>

definition check_tail :: "JobSpec \<Rightarrow> JobSpecErrorCode" where
  "check_tail spec =
     (if js_gpu_request spec \<noteq> 1 then kUnsupportedGpuRequest
      else if (case js_executable spec of None \<Rightarrow> False
               | Some e \<Rightarrow> \<not> absolute_path_ok kMaxExecutableBytes e)
        then kInvalidExecutable
      else if (case js_env_metadata spec of None \<Rightarrow> False
               | Some m \<Rightarrow> \<not> optional_text_ok kMaxPythonVersionBytes (em_python_version m))
        then kInvalidPythonVersion
      else if \<not> optional_text_ok kMaxLaunchProfileBytes (js_launch_profile spec)
        then kLaunchProfileTooLong
      else if (case js_tensorboard_logdir spec of None \<Rightarrow> False
               | Some d \<Rightarrow> \<not> is_valid_tensorboard_logdir d)
        then kInvalidTensorboardLogdir
      else if js_submit_time spec \<le> 0 then kInvalidSubmitTime
      else JobSpecErrorCode.kNone)"

definition job_validate :: "JobSpec \<Rightarrow> JobSpecValidationResult" where
  "job_validate spec =
     (if js_owner_uid spec = 0 then jsv kRootOwnerNotAllowed None
      else if js_argv spec = [] then jsv kEmptyArguments None
      else if length (js_argv spec) > kMaxArgumentCount then jsv kTooManyArguments None
      else case check_arguments (js_argv spec) 0 0 of
        Some e \<Rightarrow> e
      | None \<Rightarrow>
          if hd (js_argv spec) = [] then jsv kEmptyArguments (Some 0)
          else if \<not> absolute_path_ok kMaxWorkingDirectoryBytes (js_cwd spec)
            then jsv kInvalidWorkingDirectory None
          else if length (js_env spec) > kMaxEnvironmentVariables
            then jsv kTooManyEnvironmentVariables None
          else (case check_environment (js_env spec) 0 0 of
            Some e \<Rightarrow> e
          | None \<Rightarrow>
              (case check_placement (js_gpu_placement spec) (js_gpu_request spec) of
                 Some c \<Rightarrow> jsv c None
               | None \<Rightarrow> jsv (check_tail spec) None)))"

section \<open>The state graph\<close>

datatype JobState =
  kQueued | kStarting | kRunning | kStopping | kFinished | kFailed | kCancelled | kLost

definition is_terminal :: "JobState \<Rightarrow> bool" where
  "is_terminal s \<longleftrightarrow> s = kFinished \<or> s = kFailed \<or> s = kCancelled \<or> s = kLost"

fun can_transition :: "JobState \<Rightarrow> JobState \<Rightarrow> bool" where
  "can_transition kQueued to = (to = kStarting \<or> to = kCancelled)"
| "can_transition kStarting to =
     (to = kRunning \<or> to = kStopping \<or> to = kFailed \<or> to = kLost)"
| "can_transition kRunning to =
     (to = kStopping \<or> to = kFinished \<or> to = kFailed \<or> to = kLost)"
| "can_transition kStopping to = (to = kCancelled \<or> to = kFailed \<or> to = kLost)"
| "can_transition kFinished to = False"
| "can_transition kFailed to = False"
| "can_transition kCancelled to = False"
| "can_transition kLost to = False"

datatype TransitionOutcome =
  kApplied | kRejected | kIdempotentTerminal | kIgnoredAfterTerminal

record TransitionResult =
  tr_from :: JobState
  tr_requested :: JobState
  tr_outcome :: TransitionOutcome
  tr_revision :: u64

datatype JobCreationErrorCode = kNone | kInvalidJobId | kInvalidSpec

record JobCreationError =
  jce_code :: JobCreationErrorCode
  jce_spec_validation :: JobSpecValidationResult

record Job =
  j_id :: JobId
  j_spec :: JobSpec
  j_state :: JobState
  j_revision :: u64

text \<open>\<open>Job::create\<close> returns the object or a null pointer with the error out-parameter set.\<close>

definition job_create :: "JobId \<Rightarrow> JobSpec \<Rightarrow> JobCreationError + Job" where
  "job_create i spec =
     (if \<not> job_id_valid i
        then Inl \<lparr>jce_code = kInvalidJobId, jce_spec_validation = jsv JobSpecErrorCode.kNone None\<rparr>
      else if \<not> jsv_ok (job_validate spec)
        then Inl \<lparr>jce_code = kInvalidSpec, jce_spec_validation = job_validate spec\<rparr>
      else Inr \<lparr>j_id = i, j_spec = spec, j_state = kQueued, j_revision = 0\<rparr>)"

definition transition_to :: "Job \<Rightarrow> JobState \<Rightarrow> Job \<times> TransitionResult" where
  "transition_to j requested =
     (let from_state = j_state j in
      if is_terminal from_state then
        (j, \<lparr>tr_from = from_state, tr_requested = requested,
             tr_outcome = (if requested = from_state then kIdempotentTerminal
                           else kIgnoredAfterTerminal),
             tr_revision = j_revision j\<rparr>)
      else if \<not> can_transition from_state requested then
        (j, \<lparr>tr_from = from_state, tr_requested = requested, tr_outcome = kRejected,
             tr_revision = j_revision j\<rparr>)
      else
        (let j' = j\<lparr>j_state := requested, j_revision := j_revision j + 1\<rparr> in
         (j', \<lparr>tr_from = from_state, tr_requested = requested, tr_outcome = kApplied,
               tr_revision = j_revision j'\<rparr>)))"

section \<open>Printed names\<close>

fun EnvSource_to_string :: "EnvSource \<Rightarrow> string" where
  "EnvSource_to_string EnvSource.kNone = ''none''"
| "EnvSource_to_string kConda = ''conda''"
| "EnvSource_to_string kVenv = ''venv''"

fun JobState_to_string :: "JobState \<Rightarrow> string" where
  "JobState_to_string kQueued = ''QUEUED''"
| "JobState_to_string kStarting = ''STARTING''"
| "JobState_to_string kRunning = ''RUNNING''"
| "JobState_to_string kStopping = ''STOPPING''"
| "JobState_to_string kFinished = ''FINISHED''"
| "JobState_to_string kFailed = ''FAILED''"
| "JobState_to_string kCancelled = ''CANCELLED''"
| "JobState_to_string kLost = ''LOST''"

fun TransitionOutcome_to_string :: "TransitionOutcome \<Rightarrow> string" where
  "TransitionOutcome_to_string kApplied = ''APPLIED''"
| "TransitionOutcome_to_string kRejected = ''REJECTED''"
| "TransitionOutcome_to_string kIdempotentTerminal = ''IDEMPOTENT_TERMINAL''"
| "TransitionOutcome_to_string kIgnoredAfterTerminal = ''IGNORED_AFTER_TERMINAL''"

fun JobSpecErrorCode_to_string :: "JobSpecErrorCode \<Rightarrow> string" where
  "JobSpecErrorCode_to_string JobSpecErrorCode.kNone = ''NONE''"
| "JobSpecErrorCode_to_string kRootOwnerNotAllowed = ''ROOT_OWNER_NOT_ALLOWED''"
| "JobSpecErrorCode_to_string kEmptyArguments = ''EMPTY_ARGUMENTS''"
| "JobSpecErrorCode_to_string kTooManyArguments = ''TOO_MANY_ARGUMENTS''"
| "JobSpecErrorCode_to_string kInvalidArgument = ''INVALID_ARGUMENT''"
| "JobSpecErrorCode_to_string kArgumentTooLong = ''ARGUMENT_TOO_LONG''"
| "JobSpecErrorCode_to_string kArgumentsTooLarge = ''ARGUMENTS_TOO_LARGE''"
| "JobSpecErrorCode_to_string kInvalidWorkingDirectory = ''INVALID_WORKING_DIRECTORY''"
| "JobSpecErrorCode_to_string kTooManyEnvironmentVariables = ''TOO_MANY_ENVIRONMENT_VARIABLES''"
| "JobSpecErrorCode_to_string kInvalidEnvironmentName = ''INVALID_ENVIRONMENT_NAME''"
| "JobSpecErrorCode_to_string kEnvironmentNameTooLong = ''ENVIRONMENT_NAME_TOO_LONG''"
| "JobSpecErrorCode_to_string kEnvironmentValueTooLong = ''ENVIRONMENT_VALUE_TOO_LONG''"
| "JobSpecErrorCode_to_string kEnvironmentTooLarge = ''ENVIRONMENT_TOO_LARGE''"
| "JobSpecErrorCode_to_string kUnsupportedGpuRequest = ''UNSUPPORTED_GPU_REQUEST''"
| "JobSpecErrorCode_to_string kInvalidGpuPlacement = ''INVALID_GPU_PLACEMENT''"
| "JobSpecErrorCode_to_string kPlacementGpuRequestConflict = ''PLACEMENT_GPU_REQUEST_CONFLICT''"
| "JobSpecErrorCode_to_string kLaunchProfileTooLong = ''LAUNCH_PROFILE_TOO_LONG''"
| "JobSpecErrorCode_to_string kInvalidTensorboardLogdir = ''INVALID_TENSORBOARD_LOGDIR''"
| "JobSpecErrorCode_to_string kInvalidSubmitTime = ''INVALID_SUBMIT_TIME''"
| "JobSpecErrorCode_to_string kInvalidExecutable = ''INVALID_EXECUTABLE''"
| "JobSpecErrorCode_to_string kInvalidPythonVersion = ''INVALID_PYTHON_VERSION''"

section \<open>Specification-level notions\<close>

text \<open>What an accepted specification satisfies, without the order of the checks.\<close>

definition spec_ok :: "JobSpec \<Rightarrow> bool" where
  "spec_ok spec \<longleftrightarrow>
     js_owner_uid spec \<noteq> 0 \<and> js_argv spec \<noteq> [] \<and> length (js_argv spec) \<le> kMaxArgumentCount
   \<and> (\<forall>a \<in> set (js_argv spec). \<not> contains_nul a \<and> length a \<le> kMaxSingleArgumentBytes)
   \<and> sum_list (map length (js_argv spec)) \<le> kMaxArgumentBytes
   \<and> hd (js_argv spec) \<noteq> []
   \<and> absolute_path_ok kMaxWorkingDirectoryBytes (js_cwd spec)
   \<and> length (js_env spec) \<le> kMaxEnvironmentVariables
   \<and> (\<forall>(name, value) \<in> set (js_env spec).
        is_valid_environment_name name \<and> length name \<le> kMaxEnvironmentNameBytes
      \<and> length value \<le> kMaxEnvironmentValueBytes \<and> \<not> contains_nul value)
   \<and> sum_list (map (\<lambda>(name, value). length name + length value) (js_env spec))
        \<le> kMaxEnvironmentBytes
   \<and> (case gp_mode (js_gpu_placement spec) of
        kAny \<Rightarrow> gp_devices (js_gpu_placement spec) = []
      | kRequired \<Rightarrow> gp_devices (js_gpu_placement spec) \<noteq> []
          \<and> length (gp_devices (js_gpu_placement spec)) \<le> kMaxPlacementDevices
          \<and> distinct (gp_devices (js_gpu_placement spec))
          \<and> (\<forall>d \<in> set (gp_devices (js_gpu_placement spec)). uuid_valid d)
      | kPreferred \<Rightarrow> (\<exists>d. gp_devices (js_gpu_placement spec) = [d] \<and> uuid_valid d))
   \<and> js_gpu_request spec = 1
   \<and> (\<forall>e. js_executable spec = Some e \<longrightarrow> absolute_path_ok kMaxExecutableBytes e)
   \<and> (\<forall>m. js_env_metadata spec = Some m \<longrightarrow>
        optional_text_ok kMaxPythonVersionBytes (em_python_version m))
   \<and> optional_text_ok kMaxLaunchProfileBytes (js_launch_profile spec)
   \<and> (\<forall>d. js_tensorboard_logdir spec = Some d \<longrightarrow> is_valid_tensorboard_logdir d)
   \<and> 0 < js_submit_time spec"

text \<open>The components of a relative path, and the directory a walk along them ends in; the
  current directory is a stack of names, innermost first.\<close>

fun split_slash :: "string \<Rightarrow> string list" where
  "split_slash [] = [[]]"
| "split_slash (c # cs) =
     (if c = CHR ''/'' then [] # split_slash cs
      else case split_slash cs of [] \<Rightarrow> [[c]] | w # ws \<Rightarrow> (c # w) # ws)"

fun walk :: "string list \<Rightarrow> string list \<Rightarrow> string list" where
  "walk dir [] = dir"
| "walk dir (c # cs) =
     (if c = [] \<or> c = ''.'' then walk dir cs
      else if c = ''..'' then walk (tl dir) cs
      else walk (c # dir) cs)"

text \<open>A sequence of transition requests, and the number of them that are applied.\<close>

fun run_requests :: "Job \<Rightarrow> JobState list \<Rightarrow> Job" where
  "run_requests j [] = j"
| "run_requests j (r # rs) = run_requests (fst (transition_to j r)) rs"

fun applied_count :: "Job \<Rightarrow> JobState list \<Rightarrow> nat" where
  "applied_count j [] = 0"
| "applied_count j (r # rs) =
     (if tr_outcome (snd (transition_to j r)) = kApplied then 1 else 0)
     + applied_count (fst (transition_to j r)) rs"

text \<open>The revisions a job can have in each state: the number of edges on a path of the state
  graph that starts in \<open>kQueued\<close>.\<close>

fun revision_fits :: "JobState \<Rightarrow> u64 \<Rightarrow> bool" where
  "revision_fits kQueued r = (r = 0)"
| "revision_fits kStarting r = (r = 1)"
| "revision_fits kRunning r = (r = 2)"
| "revision_fits kStopping r = (r = 2 \<or> r = 3)"
| "revision_fits kFinished r = (r = 3)"
| "revision_fits kFailed r = (r = 2 \<or> r = 3 \<or> r = 4)"
| "revision_fits kCancelled r = (r = 1 \<or> r = 3 \<or> r = 4)"
| "revision_fits kLost r = (r = 2 \<or> r = 3 \<or> r = 4)"

section \<open>Validation is its specification\<close>

lemma jsv_ok_jsv [simp]: "jsv_ok (jsv c i) \<longleftrightarrow> c = JobSpecErrorCode.kNone"
  by (simp add: jsv_ok_def jsv_def)

lemma add_within_limit_Some:
  "tot \<le> limit \<Longrightarrow> add_within_limit v tot limit = Some t \<longleftrightarrow> t = tot + v \<and> tot + v \<le> limit"
  by (auto simp: add_within_limit_def)

lemma add_within_limit_None:
  "tot \<le> limit \<Longrightarrow> add_within_limit v tot limit = None \<longleftrightarrow> limit < tot + v"
  by (auto simp: add_within_limit_def)

lemma check_arguments_None:
  "tot \<le> kMaxArgumentBytes \<Longrightarrow>
   check_arguments args i tot = None \<longleftrightarrow>
     (\<forall>a \<in> set args. \<not> contains_nul a \<and> length a \<le> kMaxSingleArgumentBytes)
   \<and> tot + sum_list (map length args) \<le> kMaxArgumentBytes"
proof (induction args arbitrary: i tot)
  case (Cons a args)
  show ?case
  proof (cases "add_within_limit (length a) tot kMaxArgumentBytes")
    case None
    with Cons.prems have "kMaxArgumentBytes < tot + length a"
      by (simp add: add_within_limit_None)
    with None show ?thesis by simp
  next
    case (Some t)
    with Cons.prems have "t = tot + length a" "t \<le> kMaxArgumentBytes"
      by (auto simp: add_within_limit_Some)
    with Some Cons.IH [of t] show ?thesis by (auto simp: add.assoc)
  qed
qed simp

lemma check_arguments_not_ok:
  "check_arguments args i tot = Some e \<Longrightarrow> \<not> jsv_ok e"
  by (induction args arbitrary: i tot) (auto split: if_splits option.splits)

lemma check_environment_None:
  "tot \<le> kMaxEnvironmentBytes \<Longrightarrow>
   check_environment vars i tot = None \<longleftrightarrow>
     (\<forall>(name, value) \<in> set vars.
        is_valid_environment_name name \<and> length name \<le> kMaxEnvironmentNameBytes
      \<and> length value \<le> kMaxEnvironmentValueBytes \<and> \<not> contains_nul value)
   \<and> tot + sum_list (map (\<lambda>(name, value). length name + length value) vars)
        \<le> kMaxEnvironmentBytes"
proof (induction vars arbitrary: i tot)
  case (Cons e vars)
  obtain n v where e: "e = (n, v)" by (cases e)
  show ?case
  proof (cases "tot + length n + length v \<le> kMaxEnvironmentBytes")
    case True
    with Cons.prems Cons.IH [of "tot + length n + length v"] show ?thesis
      by (auto simp: e add_within_limit_def add.assoc not_less)
  next
    case False
    with Cons.prems show ?thesis
      by (auto simp: e add_within_limit_def)
  qed
qed simp

lemma check_environment_not_ok:
  "check_environment vars i tot = Some e \<Longrightarrow> \<not> jsv_ok e"
  by (induction vars i tot rule: check_environment.induct) (auto split: if_splits option.splits)

lemma placement_devices_ok_iff:
  "placement_devices_ok prior ds \<longleftrightarrow>
     distinct ds \<and> set prior \<inter> set ds = {} \<and> (\<forall>d \<in> set ds. uuid_valid d)"
  by (induction ds arbitrary: prior) auto

lemma check_placement_not_kNone: "check_placement p q \<noteq> Some JobSpecErrorCode.kNone"
  by (simp add: check_placement_def split: GpuPlacementMode.split)

lemma job_validate_iff: "jsv_ok (job_validate spec) \<longleftrightarrow> spec_ok spec"
proof -
  have args: "check_arguments (js_argv spec) 0 0 = None \<longleftrightarrow>
      (\<forall>a \<in> set (js_argv spec). \<not> contains_nul a \<and> length a \<le> kMaxSingleArgumentBytes)
    \<and> sum_list (map length (js_argv spec)) \<le> kMaxArgumentBytes"
    by (simp add: check_arguments_None)
  have envs: "check_environment (js_env spec) 0 0 = None \<longleftrightarrow>
      (\<forall>(name, value) \<in> set (js_env spec).
         is_valid_environment_name name \<and> length name \<le> kMaxEnvironmentNameBytes
       \<and> length value \<le> kMaxEnvironmentValueBytes \<and> \<not> contains_nul value)
    \<and> sum_list (map (\<lambda>(name, value). length name + length value) (js_env spec))
         \<le> kMaxEnvironmentBytes"
    by (simp add: check_environment_None)
  have place: "check_placement (js_gpu_placement spec) (js_gpu_request spec) = None
      \<and> js_gpu_request spec = 1 \<longleftrightarrow>
      (case gp_mode (js_gpu_placement spec) of
        kAny \<Rightarrow> gp_devices (js_gpu_placement spec) = []
      | kRequired \<Rightarrow> gp_devices (js_gpu_placement spec) \<noteq> []
          \<and> length (gp_devices (js_gpu_placement spec)) \<le> kMaxPlacementDevices
          \<and> distinct (gp_devices (js_gpu_placement spec))
          \<and> (\<forall>d \<in> set (gp_devices (js_gpu_placement spec)). uuid_valid d)
      | kPreferred \<Rightarrow> (\<exists>d. gp_devices (js_gpu_placement spec) = [d] \<and> uuid_valid d))
      \<and> js_gpu_request spec = 1"
    by (auto simp: check_placement_def placement_devices_ok_iff length_Suc_conv
        split: GpuPlacementMode.splits)
  have tail: "check_tail spec = JobSpecErrorCode.kNone \<longleftrightarrow>
      js_gpu_request spec = 1
    \<and> (\<forall>e. js_executable spec = Some e \<longrightarrow> absolute_path_ok kMaxExecutableBytes e)
    \<and> (\<forall>m. js_env_metadata spec = Some m \<longrightarrow>
         optional_text_ok kMaxPythonVersionBytes (em_python_version m))
    \<and> optional_text_ok kMaxLaunchProfileBytes (js_launch_profile spec)
    \<and> (\<forall>d. js_tensorboard_logdir spec = Some d \<longrightarrow> is_valid_tensorboard_logdir d)
    \<and> 0 < js_submit_time spec"
    by (auto simp: check_tail_def split: option.splits)
  have code: "jsv_ok (job_validate spec) \<longleftrightarrow>
      js_owner_uid spec \<noteq> 0 \<and> js_argv spec \<noteq> [] \<and> length (js_argv spec) \<le> kMaxArgumentCount
    \<and> check_arguments (js_argv spec) 0 0 = None \<and> hd (js_argv spec) \<noteq> []
    \<and> absolute_path_ok kMaxWorkingDirectoryBytes (js_cwd spec)
    \<and> length (js_env spec) \<le> kMaxEnvironmentVariables
    \<and> check_environment (js_env spec) 0 0 = None
    \<and> (check_placement (js_gpu_placement spec) (js_gpu_request spec) = None
       \<and> js_gpu_request spec = 1)
    \<and> check_tail spec = JobSpecErrorCode.kNone"
  proof (cases "check_arguments (js_argv spec) 0 0")
    case None
    then show ?thesis
    proof (cases "check_environment (js_env spec) 0 0")
      case None
      with \<open>check_arguments (js_argv spec) 0 0 = None\<close> show ?thesis
        using check_placement_not_kNone [of "js_gpu_placement spec" "js_gpu_request spec"]
        by (cases "check_placement (js_gpu_placement spec) (js_gpu_request spec)")
          (auto simp: job_validate_def not_less tail)
    qed (use check_environment_not_ok in \<open>auto simp: job_validate_def\<close>)
  qed (use check_arguments_not_ok in \<open>auto simp: job_validate_def\<close>)
  show ?thesis
    unfolding code args envs place tail spec_ok_def by blast
qed

lemma split_slash_not_Nil [simp]: "split_slash p \<noteq> []"
  by (cases p) (auto split: list.split)

lemma split_slash_step:
  "split_slash p =
     takeWhile (\<lambda>c. c \<noteq> CHR ''/'') p
     # (case dropWhile (\<lambda>c. c \<noteq> CHR ''/'') p of [] \<Rightarrow> [] | _ # rest \<Rightarrow> split_slash rest)"
  by (induction p) auto

lemma logdir_components_ok_iff: "logdir_components_ok p \<longleftrightarrow> ''..'' \<notin> set (split_slash p)"
proof (induction p rule: logdir_components_ok.induct)
  case (1 p)
  show ?case
  proof (cases "dropWhile (\<lambda>c. c \<noteq> CHR ''/'') p")
    case Nil
    then show ?thesis
      by (simp add: logdir_components_ok.simps [of p] split_slash_step [of p] eq_commute)
  next
    case (Cons c rest)
    then show ?thesis
      using "1" [OF _ Cons]
      by (simp add: logdir_components_ok.simps [of p] split_slash_step [of p])
  qed
qed

lemma walk_below: "''..'' \<notin> set cs \<Longrightarrow> \<exists>extra. walk dir cs = extra @ dir"
proof (induction cs arbitrary: dir)
  case (Cons c cs)
  then have "''..'' \<notin> set cs" by simp
  with Cons.IH obtain e1 e2 where "walk dir cs = e1 @ dir" "walk (c # dir) cs = e2 @ c # dir"
    by meson
  with Cons.prems show ?case by auto
qed simp

lemma revision_fits_step:
  "can_transition s t \<Longrightarrow> revision_fits s r \<Longrightarrow> revision_fits t (r + 1)"
  by (cases s; cases t) auto

lemma revision_fits_bound: "revision_fits s r \<Longrightarrow> r \<le> 4"
  by (cases s) auto

lemma revision_fits_queued: "revision_fits s r \<Longrightarrow> r = 0 \<longleftrightarrow> s = kQueued"
  by (cases s) auto

lemma can_transition_from_terminal: "is_terminal s \<Longrightarrow> \<not> can_transition s t"
  by (auto simp: is_terminal_def)

lemma can_transition_not_terminal: "can_transition s t \<Longrightarrow> \<not> is_terminal s"
  using can_transition_from_terminal by blast

lemma can_transition_irrefl [simp]: "\<not> can_transition s s"
  by (cases s) auto

lemma can_transition_not_queued [simp]: "\<not> can_transition s kQueued"
  by (cases s) auto

lemma transition_to_id [simp]: "j_id (fst (transition_to j r)) = j_id j"
  and transition_to_spec [simp]: "j_spec (fst (transition_to j r)) = j_spec j"
  by (simp_all add: transition_to_def Let_def)

lemma transition_to_applied:
  "tr_outcome (snd (transition_to j r)) = kApplied \<longleftrightarrow> can_transition (j_state j) r"
  using can_transition_from_terminal by (auto simp: transition_to_def Let_def)

lemma transition_to_job:
  "fst (transition_to j r) =
     (if can_transition (j_state j) r
      then j\<lparr>j_state := r, j_revision := j_revision j + 1\<rparr> else j)"
  using can_transition_from_terminal by (auto simp: transition_to_def Let_def)

lemma run_requests_frame:
  "j_id (run_requests j rs) = j_id j \<and> j_spec (run_requests j rs) = j_spec j"
  by (induction rs arbitrary: j) auto

lemma revision_fits_run:
  "revision_fits (j_state j) (j_revision j) \<Longrightarrow>
   revision_fits (j_state (run_requests j rs)) (j_revision (run_requests j rs))"
  by (induction rs arbitrary: j) (auto simp: transition_to_job revision_fits_step)

lemma run_requests_revision:
  "j_revision (run_requests j rs) = j_revision j + of_nat (applied_count j rs)"
  by (induction rs arbitrary: j) (auto simp: transition_to_job transition_to_applied)

lemma applied_count_rank:
  "applied_count j rs \<le>
     (case j_state j of kQueued \<Rightarrow> 4 | kStarting \<Rightarrow> 3 | kRunning \<Rightarrow> 2 | kStopping \<Rightarrow> 1 | _ \<Rightarrow> 0)"
proof (induction rs arbitrary: j)
  case (Cons r rs)
  show ?case
    using Cons.IH [of "fst (transition_to j r)"]
    by (cases "j_state j"; cases r) (auto simp: transition_to_job transition_to_applied)
qed simp

lemma run_requests_terminal: "is_terminal (j_state j) \<Longrightarrow> run_requests j rs = j"
  by (induction rs) (auto simp: transition_to_job can_transition_from_terminal)

lemma job_create_Inr:
  "job_create i spec = Inr j \<longleftrightarrow>
     job_id_valid i \<and> spec_ok spec
   \<and> j = \<lparr>j_id = i, j_spec = spec, j_state = kQueued, j_revision = 0\<rparr>"
  by (auto simp: job_create_def job_validate_iff)

section \<open>A concrete specification\<close>

text \<open>A small accepted specification on which the statements below are instantiated.\<close>

definition demo_spec :: JobSpec where
  "demo_spec =
     \<lparr>js_owner_uid = 1000, js_owner_gid = 1000, js_argv = [''python'', ''train.py''],
      js_cwd = ''/home/u'', js_env = [(''A'', ''1'')], js_executable = Some ''/bin/py'',
      js_env_metadata = Some \<lparr>em_source = kVenv, em_python_version = Some ''3.12''\<rparr>,
      js_gpu_request = 1,
      js_gpu_placement = \<lparr>gp_mode = kAny, gp_devices = []\<rparr>,
      js_launch_profile = None, js_tensorboard_logdir = Some ''runs/a'',
      js_submit_time = 5\<rparr>"

lemma demo_spec_ok: "spec_ok demo_spec"
proof -
  have "is_valid_tensorboard_logdir ''runs/a''"
    by (simp add: is_valid_tensorboard_logdir_def logdir_components_ok_iff job_limits
        contains_nul_def NUL_def)
  then show ?thesis
    by (simp add: spec_ok_def demo_spec_def job_limits contains_nul_def NUL_def
        absolute_path_ok_def is_valid_environment_name_def optional_text_ok_def)
qed

lemma demo_spec_valid: "jsv_ok (job_validate demo_spec)"
  by (simp add: job_validate_iff demo_spec_ok)

section \<open>Properties\<close>

text \<open>Property C18. \<open>validate\<close> accepts a job specification exactly when it satisfies every documented
  limit: a non-root owner; 1 to 256 arguments without NUL, each at most 16 KiB, together at most
  64 KiB, the first one not empty; an absolute working directory; at most 256 well-formed
  environment variables within the size limits; a placement that fits its mode with pairwise
  distinct valid devices; one requested GPU; well-formed optional fields; a positive submit
  time. The early returns and the running byte totals of the C++ loops add nothing and forget
  nothing.\<close>

theorem job_validate_exact: "jsv_ok (job_validate spec) \<longleftrightarrow> spec_ok spec"
  by (rule job_validate_iff)





end
