(* ===== verification/Gpu_Model.thy ===== *)
theory Gpu_Model
  imports Job_Model
begin

text \<open>
  GPU observations (\<open>include/yori/gpu/gpu_provider.hpp\<close>, \<open>src/gpu/gpu_provider.cpp\<close>): the
  snapshot a provider reports, its validation, leases, and the logical state derived from an
  observation and a lease. The provider itself is device I/O; components that call it take its
  result as an argument. \<open>GpuObservedState\<close> has exactly the three enumerators the \<open>switch\<close> of
  \<open>validate\<close> accepts, so the \<open>kInvalidState\<close> default branch has no counterpart.
\<close>

datatype GpuObservedState = kFree | kExternalBusy | kUnavailable

datatype GpuLogicalState = kFree | kAllocated | kExternalBusy | kUnavailable

record GpuTelemetry =
  gt_utilization_percent :: "u32 option"
  gt_memory_total_bytes :: "u64 option"
  gt_memory_used_bytes :: "u64 option"

record GpuObservation =
  go_uuid :: GpuUuid
  go_index :: u32
  go_state :: GpuObservedState
  go_telemetry :: GpuTelemetry

record GpuObservationSnapshot =
  gs_revision :: u64
  gs_observed_at :: time_point
  gs_devices :: "GpuObservation list"

definition gpu_kMaxDevices :: nat where
  "gpu_kMaxDevices = 128"

datatype GpuObservationErrorCode =
    kNone | kInvalidRevision | kInvalidObservationTime | kTooManyDevices | kInvalidUuid
  | kDuplicateUuid | kDuplicateIndex | kInvalidState | kInvalidUtilization
  | kInvalidMemoryTelemetry

record GpuObservationValidationResult =
  gov_code :: GpuObservationErrorCode
  gov_item_index :: "nat option"

definition gov :: "GpuObservationErrorCode \<Rightarrow> nat option \<Rightarrow> GpuObservationValidationResult" where
  "gov c i = \<lparr>gov_code = c, gov_item_index = i\<rparr>"

definition gov_ok :: "GpuObservationValidationResult \<Rightarrow> bool" where
  "gov_ok r \<longleftrightarrow> gov_code r = GpuObservationErrorCode.kNone"

record GpuLease =
  gl_gpu_uuid :: GpuUuid
  gl_job_id :: JobId

datatype GpuProviderErrorCode =
  kNone | kBackendUnavailable | kPermissionDenied | kObservationFailed

record GpuProviderResult =
  gpr_code :: GpuProviderErrorCode
  gpr_snapshot :: GpuObservationSnapshot

section \<open>Validation of a snapshot\<close>

definition telemetry_error :: "GpuTelemetry \<Rightarrow> GpuObservationErrorCode option" where
  "telemetry_error t =
     (if (case gt_utilization_percent t of None \<Rightarrow> False | Some u \<Rightarrow> u > 100)
        then Some kInvalidUtilization
      else if gt_memory_used_bytes t \<noteq> None \<and> gt_memory_total_bytes t = None
        then Some kInvalidMemoryTelemetry
      else case gt_memory_total_bytes t of
             None \<Rightarrow> None
           | Some tot \<Rightarrow>
               if tot = 0 \<or> (case gt_memory_used_bytes t of None \<Rightarrow> False | Some u \<Rightarrow> u > tot)
               then Some kInvalidMemoryTelemetry else None)"

text \<open>The inner loop over the earlier devices.\<close>

fun check_earlier ::
  "GpuObservation list \<Rightarrow> GpuObservation \<Rightarrow> GpuObservationErrorCode option" where
  "check_earlier [] device = None"
| "check_earlier (e # es) device =
     (if go_uuid e = go_uuid device then Some kDuplicateUuid
      else if go_index e = go_index device then Some kDuplicateIndex
      else check_earlier es device)"

text \<open>The device loop: \<open>earlier\<close> are the devices before index \<open>length earlier\<close>.\<close>

fun check_devices ::
  "GpuObservation list \<Rightarrow> GpuObservation list \<Rightarrow> GpuObservationValidationResult" where
  "check_devices earlier [] = gov GpuObservationErrorCode.kNone None"
| "check_devices earlier (device # rest) =
     (if \<not> uuid_valid (go_uuid device) then gov kInvalidUuid (Some (length earlier))
      else case telemetry_error (go_telemetry device) of
        Some c \<Rightarrow> gov c (Some (length earlier))
      | None \<Rightarrow>
          (case check_earlier earlier device of
             Some c \<Rightarrow> gov c (Some (length earlier))
           | None \<Rightarrow> check_devices (earlier @ [device]) rest))"

definition gpu_validate :: "GpuObservationSnapshot \<Rightarrow> GpuObservationValidationResult" where
  "gpu_validate snapshot =
     (if gs_revision snapshot = 0 then gov kInvalidRevision None
      else if gs_observed_at snapshot \<le> 0 then gov kInvalidObservationTime None
      else if length (gs_devices snapshot) > gpu_kMaxDevices then gov kTooManyDevices None
      else check_devices [] (gs_devices snapshot))"

fun derive_logical_state :: "GpuObservedState \<Rightarrow> bool \<Rightarrow> GpuLogicalState" where
  "derive_logical_state observed_state has_lease =
     (if has_lease then kAllocated
      else case observed_state of
             GpuObservedState.kFree \<Rightarrow> GpuLogicalState.kFree
           | GpuObservedState.kExternalBusy \<Rightarrow> GpuLogicalState.kExternalBusy
           | GpuObservedState.kUnavailable \<Rightarrow> GpuLogicalState.kUnavailable)"

section \<open>Printed names\<close>

fun GpuObservedState_to_string :: "GpuObservedState \<Rightarrow> string" where
  "GpuObservedState_to_string GpuObservedState.kFree = ''FREE''"
| "GpuObservedState_to_string GpuObservedState.kExternalBusy = ''EXTERNAL_BUSY''"
| "GpuObservedState_to_string GpuObservedState.kUnavailable = ''UNAVAILABLE''"

fun GpuLogicalState_to_string :: "GpuLogicalState \<Rightarrow> string" where
  "GpuLogicalState_to_string GpuLogicalState.kFree = ''FREE''"
| "GpuLogicalState_to_string kAllocated = ''ALLOCATED''"
| "GpuLogicalState_to_string GpuLogicalState.kExternalBusy = ''EXTERNAL_BUSY''"
| "GpuLogicalState_to_string GpuLogicalState.kUnavailable = ''UNAVAILABLE''"

fun GpuObservationErrorCode_to_string :: "GpuObservationErrorCode \<Rightarrow> string" where
  "GpuObservationErrorCode_to_string GpuObservationErrorCode.kNone = ''NONE''"
| "GpuObservationErrorCode_to_string kInvalidRevision = ''INVALID_REVISION''"
| "GpuObservationErrorCode_to_string kInvalidObservationTime = ''INVALID_OBSERVATION_TIME''"
| "GpuObservationErrorCode_to_string kTooManyDevices = ''TOO_MANY_DEVICES''"
| "GpuObservationErrorCode_to_string kInvalidUuid = ''INVALID_UUID''"
| "GpuObservationErrorCode_to_string kDuplicateUuid = ''DUPLICATE_UUID''"
| "GpuObservationErrorCode_to_string kDuplicateIndex = ''DUPLICATE_INDEX''"
| "GpuObservationErrorCode_to_string kInvalidState = ''INVALID_STATE''"
| "GpuObservationErrorCode_to_string kInvalidUtilization = ''INVALID_UTILIZATION''"
| "GpuObservationErrorCode_to_string kInvalidMemoryTelemetry = ''INVALID_MEMORY_TELEMETRY''"

fun GpuProviderErrorCode_to_string :: "GpuProviderErrorCode \<Rightarrow> string" where
  "GpuProviderErrorCode_to_string GpuProviderErrorCode.kNone = ''NONE''"
| "GpuProviderErrorCode_to_string kBackendUnavailable = ''BACKEND_UNAVAILABLE''"
| "GpuProviderErrorCode_to_string kPermissionDenied = ''PERMISSION_DENIED''"
| "GpuProviderErrorCode_to_string kObservationFailed = ''OBSERVATION_FAILED''"

section \<open>Validation is its specification\<close>

definition telemetry_ok :: "GpuTelemetry \<Rightarrow> bool" where
  "telemetry_ok t \<longleftrightarrow>
     (\<forall>u. gt_utilization_percent t = Some u \<longrightarrow> u \<le> 100)
   \<and> (\<forall>u. gt_memory_used_bytes t = Some u \<longrightarrow>
        (\<exists>tot. gt_memory_total_bytes t = Some tot \<and> u \<le> tot))
   \<and> gt_memory_total_bytes t \<noteq> Some 0"

definition snapshot_ok :: "GpuObservationSnapshot \<Rightarrow> bool" where
  "snapshot_ok s \<longleftrightarrow>
     gs_revision s \<noteq> 0 \<and> 0 < gs_observed_at s \<and> length (gs_devices s) \<le> gpu_kMaxDevices
   \<and> (\<forall>d \<in> set (gs_devices s). uuid_valid (go_uuid d) \<and> telemetry_ok (go_telemetry d))
   \<and> distinct (map go_uuid (gs_devices s)) \<and> distinct (map go_index (gs_devices s))"

lemma gov_ok_gov [simp]: "gov_ok (gov c i) \<longleftrightarrow> c = GpuObservationErrorCode.kNone"
  by (simp add: gov_ok_def gov_def)

lemma telemetry_error_None: "telemetry_error t = None \<longleftrightarrow> telemetry_ok t"
  by (cases "gt_utilization_percent t"; cases "gt_memory_used_bytes t";
      cases "gt_memory_total_bytes t")
    (auto simp: telemetry_error_def telemetry_ok_def not_le)

lemma telemetry_error_not_kNone: "telemetry_error t \<noteq> Some GpuObservationErrorCode.kNone"
  by (simp add: telemetry_error_def split: option.split)

lemma check_earlier_None:
  "check_earlier es d = None \<longleftrightarrow> go_uuid d \<notin> go_uuid ` set es \<and> go_index d \<notin> go_index ` set es"
  by (induction es) auto

lemma check_earlier_not_kNone: "check_earlier es d \<noteq> Some GpuObservationErrorCode.kNone"
  by (induction es) auto

lemma check_devices_ok:
  "gov_ok (check_devices earlier ds) \<longleftrightarrow>
     (\<forall>d \<in> set ds. uuid_valid (go_uuid d) \<and> telemetry_ok (go_telemetry d))
   \<and> distinct (map go_uuid ds) \<and> distinct (map go_index ds)
   \<and> go_uuid ` set earlier \<inter> go_uuid ` set ds = {}
   \<and> go_index ` set earlier \<inter> go_index ` set ds = {}"
proof (induction ds arbitrary: earlier)
  case Nil
  then show ?case by simp
next
  case (Cons d ds)
  show ?case
  proof (cases "uuid_valid (go_uuid d) \<and> telemetry_ok (go_telemetry d)
      \<and> check_earlier earlier d = None")
    case True
    then have "check_devices earlier (d # ds) = check_devices (earlier @ [d]) ds"
      using telemetry_error_None [of "go_telemetry d"] by simp
    with True Cons.IH [of "earlier @ [d]"] show ?thesis
      by (auto simp: check_earlier_None)
  next
    case False
    then have "\<not> gov_ok (check_devices earlier (d # ds))"
      using telemetry_error_not_kNone [of "go_telemetry d"] check_earlier_not_kNone [of earlier d]
      by (auto simp: telemetry_error_None split: option.split)
    with False show ?thesis
      by (auto simp: check_earlier_None)
  qed
qed

lemma gpu_validate_iff: "gov_ok (gpu_validate s) \<longleftrightarrow> snapshot_ok s"
  by (auto simp: gpu_validate_def snapshot_ok_def check_devices_ok)

lemma derive_logical_free:
  "derive_logical_state st leased = GpuLogicalState.kFree \<longleftrightarrow>
     st = GpuObservedState.kFree \<and> \<not> leased"
  by (cases st) auto

end
