(* ===== verification/Process_Identity.thy ===== *)
theory Process_Identity
  imports Yori_Prelude
begin

text \<open>
  Process identity (\<open>include/yori/process/process_supervisor.hpp\<close>,
  \<open>src/process/process_supervisor.cpp\<close>): the (pid, pgid, start ticks) triple, exit status, and
  how the triple is checked against \<open>/proc/<pid>/stat\<close>. The file system is a parameter: a
  function from a pid to the content \<open>read_proc_stat\<close> obtained, \<open>None\<close> where it returns false.
  \<open>strtoull\<close> and \<open>strtoll\<close> with base 10 are modelled as the C standard gives them.
\<close>

section \<open>Identity and exit status\<close>

record ProcessIdentity =
  pi_pid :: int
  pi_pgid :: int
  pi_start_ticks :: u64

definition identity_valid :: "ProcessIdentity \<Rightarrow> bool" where
  "identity_valid i \<longleftrightarrow> 0 < pi_pid i \<and> 0 < pi_pgid i \<and> 0 < pi_start_ticks i"

definition blank_identity :: ProcessIdentity where
  "blank_identity = \<lparr>pi_pid = 0, pi_pgid = 0, pi_start_ticks = 0\<rparr>"

datatype ExitReason = kExited | kSignaled | kUnknown

record ExitStatus =
  es_reason :: ExitReason
  es_exit_code :: int
  es_signal_number :: int

definition unknown_exit :: ExitStatus where
  "unknown_exit = \<lparr>es_reason = kUnknown, es_exit_code = 0, es_signal_number = 0\<rparr>"

definition exit_is_success :: "ExitStatus \<Rightarrow> bool" where
  "exit_is_success s \<longleftrightarrow> es_reason s = kExited \<and> es_exit_code s = 0"

text \<open>The wait status of Linux: the low seven bits are the terminating signal (0 for a normal
  exit, 0x7f for a stopped process), the next byte is the exit code.\<close>

definition status_from_wait :: "nat \<Rightarrow> ExitStatus" where
  "status_from_wait raw =
     (if raw mod 128 = 0
        then \<lparr>es_reason = kExited, es_exit_code = int (raw div 256 mod 256), es_signal_number = 0\<rparr>
      else if raw mod 128 \<noteq> 127
        then \<lparr>es_reason = kSignaled, es_exit_code = 0, es_signal_number = int (raw mod 128)\<rparr>
      else unknown_exit)"

section \<open>Fields of the stat file\<close>

definition is_blank :: "char \<Rightarrow> bool" where
  "is_blank c \<longleftrightarrow> c = CHR '' '' \<or> c = CHR 0x09"

text \<open>The content up to the terminating NUL that \<open>read_proc_stat\<close> writes is a C string: the
  scanning loops see the characters before the first NUL.\<close>

definition c_string :: "string \<Rightarrow> string" where
  "c_string s = takeWhile (\<lambda>c. c \<noteq> NUL) s"

text \<open>\<open>strrchr(stat, ')')\<close> and the increment: what follows the last closing parenthesis.\<close>

fun after_last_paren :: "string \<Rightarrow> string option" where
  "after_last_paren [] = None"
| "after_last_paren (c # cs) =
     (case after_last_paren cs of
        Some r \<Rightarrow> Some r
      | None \<Rightarrow> if c = CHR '')'' then Some cs else None)"

text \<open>The token loop: \<open>n\<close> tokens are still to be skipped before the one that is returned.\<close>

fun skip_tokens :: "nat \<Rightarrow> string \<Rightarrow> string option" where
  "skip_tokens 0 cursor =
     (let c = dropWhile is_blank cursor in if c = [] then None else Some c)"
| "skip_tokens (Suc n) cursor =
     (let c = dropWhile is_blank cursor in
      if c = [] then None else skip_tokens n (dropWhile (\<lambda>x. \<not> is_blank x) c))"

definition stat_token_after_comm :: "string \<Rightarrow> nat \<Rightarrow> string option" where
  "stat_token_after_comm stat token_index =
     (case after_last_paren (c_string stat) of
        None \<Rightarrow> None
      | Some cursor \<Rightarrow> skip_tokens (token_index - 1) cursor)"

section \<open>Decimal parsing\<close>

definition is_digit :: "char \<Rightarrow> bool" where
  "is_digit c \<longleftrightarrow> 48 \<le> (of_char c :: nat) \<and> (of_char c :: nat) \<le> 57"

definition digit_value :: "char \<Rightarrow> nat" where
  "digit_value c = (of_char c :: nat) - 48"

definition decimal_value :: "string \<Rightarrow> nat" where
  "decimal_value ds = foldl (\<lambda>acc c. 10 * acc + digit_value c) 0 ds"

definition is_c_space :: "char \<Rightarrow> bool" where
  "is_c_space c \<longleftrightarrow> c = CHR '' '' \<or> (9 \<le> (of_char c :: nat) \<and> (of_char c :: nat) \<le> 13)"

text \<open>The subject sequence of \<open>strtoull\<close>/\<open>strtoll\<close>: sign and digits, \<open>None\<close> when there is no
  digit (the end pointer then equals the start).\<close>

definition strto_subject :: "string \<Rightarrow> (bool \<times> nat) option" where
  "strto_subject s =
     (let t = dropWhile is_c_space s;
          neg = (t \<noteq> [] \<and> hd t = CHR ''-'');
          u = (if t \<noteq> [] \<and> (hd t = CHR ''-'' \<or> hd t = CHR ''+'') then tl t else t);
          ds = takeWhile is_digit u
      in if ds = [] then None else Some (neg, decimal_value ds))"

text \<open>\<open>strtoull\<close>: the value and whether \<open>errno\<close> became \<open>ERANGE\<close>.\<close>

definition strtoull :: "string \<Rightarrow> (u64 \<times> bool) option" where
  "strtoull s =
     (case strto_subject s of
        None \<Rightarrow> None
      | Some (neg, n) \<Rightarrow>
          if n \<ge> 2 ^ 64 then Some (- 1, True)
          else Some (if neg then - of_nat n else of_nat n, False))"

definition strtoll :: "string \<Rightarrow> int option" where
  "strtoll s =
     (case strto_subject s of
        None \<Rightarrow> None
      | Some (neg, n) \<Rightarrow>
          Some (if neg then max (- (2 ^ 63)) (- int n) else min (2 ^ 63 - 1) (int n)))"

section \<open>Reading and verifying\<close>

type_synonym proc_stat = "int \<Rightarrow> string option"

definition read_process_start_ticks :: "proc_stat \<Rightarrow> int \<Rightarrow> u64 option" where
  "read_process_start_ticks read_proc_stat pid =
     (case read_proc_stat pid of
        None \<Rightarrow> None
      | Some buffer \<Rightarrow>
          (case stat_token_after_comm buffer 20 of
             None \<Rightarrow> None
           | Some cursor \<Rightarrow> map_option fst (strtoull cursor)))"

definition read_process_pgid :: "proc_stat \<Rightarrow> int \<Rightarrow> int option" where
  "read_process_pgid read_proc_stat pid =
     (case read_proc_stat pid of
        None \<Rightarrow> None
      | Some buffer \<Rightarrow>
          (case stat_token_after_comm buffer 3 of
             None \<Rightarrow> None
           | Some cursor \<Rightarrow>
               (case strtoll cursor of
                  None \<Rightarrow> None
                | Some pgid \<Rightarrow> if pgid \<le> 0 then None else Some pgid)))"

definition verify_process_identity :: "proc_stat \<Rightarrow> ProcessIdentity \<Rightarrow> bool" where
  "verify_process_identity read_proc_stat i =
     (if \<not> identity_valid i then False
      else case read_proc_stat (pi_pid i) of
        None \<Rightarrow> False
      | Some buffer \<Rightarrow>
          (case stat_token_after_comm buffer 3 of
             None \<Rightarrow> False
           | Some pgid_token \<Rightarrow>
               (case strtoll pgid_token of
                  None \<Rightarrow> False
                | Some pgid \<Rightarrow>
                    if pgid \<noteq> pi_pgid i then False
                    else (case stat_token_after_comm buffer 20 of
                            None \<Rightarrow> False
                          | Some ticks_token \<Rightarrow>
                              (case strtoull ticks_token of
                                 None \<Rightarrow> False
                               | Some (ticks, erange) \<Rightarrow>
                                   \<not> erange \<and> ticks = pi_start_ticks i)))))"

fun ExitReason_to_string :: "ExitReason \<Rightarrow> string" where
  "ExitReason_to_string kExited = ''exited''"
| "ExitReason_to_string kSignaled = ''signaled''"
| "ExitReason_to_string kUnknown = ''unknown''"

section \<open>Lemmas\<close>

lemma verify_process_identity_iff:
  "verify_process_identity rd i \<Longrightarrow>
     identity_valid i \<and> read_process_pgid rd (pi_pid i) = Some (pi_pgid i)
   \<and> read_process_start_ticks rd (pi_pid i) = Some (pi_start_ticks i)"
  by (auto simp: verify_process_identity_def read_process_pgid_def
      read_process_start_ticks_def identity_valid_def split: if_splits option.splits)

text \<open>A stat line is \<open>pid (comm) f3 f4 ... f22 ...\<close>; \<open>comm\<close> may itself contain blanks and
  parentheses.\<close>

lemma after_last_paren_append:
  "CHR '')'' \<notin> set rest \<Longrightarrow> after_last_paren (pre @ CHR '')'' # rest) = Some rest"
proof (induction pre)
  case Nil
  have "after_last_paren rest = None" if "CHR '')'' \<notin> set rest" for rest
    using that by (induction rest) auto
  with Nil show ?case by simp
qed auto

fun join_tokens :: "string list \<Rightarrow> string" where
  "join_tokens [] = []"
| "join_tokens (t # ts) = CHR '' '' # t @ join_tokens ts"

definition token_ok :: "string \<Rightarrow> bool" where
  "token_ok t \<longleftrightarrow> t \<noteq> [] \<and> (\<forall>c \<in> set t. \<not> is_blank c \<and> c \<noteq> NUL \<and> c \<noteq> CHR '')'')"

lemma join_tokens_head:
  "join_tokens ts = [] \<or> (\<exists>r. join_tokens ts = CHR '' '' # r)"
  by (cases ts) auto

lemma dropWhile_token:
  assumes "\<forall>c \<in> set t. \<not> is_blank c"
  shows "dropWhile (\<lambda>x. \<not> is_blank x) (t @ join_tokens ts) = join_tokens ts"
  using assms join_tokens_head [of ts]
  by (induction t) (auto simp: is_blank_def)

lemma skip_tokens_join:
  "n < length ts \<Longrightarrow> \<forall>t \<in> set ts. token_ok t \<Longrightarrow>
   skip_tokens n (join_tokens ts) = Some (ts ! n @ join_tokens (drop (Suc n) ts))"
proof (induction n arbitrary: ts)
  case 0
  then obtain t us where "ts = t # us" by (cases ts) auto
  with 0 show ?case
    by (cases t) (auto simp: token_ok_def is_blank_def Let_def)
next
  case (Suc n)
  then obtain t us where ts: "ts = t # us" by (cases ts) auto
  with Suc.prems have t: "t \<noteq> []" "\<forall>c \<in> set t. \<not> is_blank c" by (auto simp: token_ok_def)
  then have "dropWhile is_blank (join_tokens ts) = t @ join_tokens us"
    by (cases t) (auto simp: ts is_blank_def)
  then have "skip_tokens (Suc n) (join_tokens ts) = skip_tokens n (join_tokens us)"
    using t by (simp only: skip_tokens.simps Let_def dropWhile_token append_is_Nil_conv simp_thms
        if_False)
  with Suc ts show ?case by simp
qed

lemma stat_token_found:
  assumes "\<forall>t \<in> set ts. token_ok t" and "NUL \<notin> set pre" and "1 \<le> k" and "k \<le> length ts"
  shows "stat_token_after_comm (pre @ CHR '')'' # join_tokens ts) k
    = Some (ts ! (k - 1) @ join_tokens (drop k ts))"
proof -
  have join: "NUL \<notin> set (join_tokens ts) \<and> CHR '')'' \<notin> set (join_tokens ts)"
    using assms(1) by (induction ts) (auto simp: token_ok_def NUL_def)
  then have "c_string (pre @ CHR '')'' # join_tokens ts) = pre @ CHR '')'' # join_tokens ts"
    using assms(2) by (auto simp: c_string_def NUL_def takeWhile_eq_all_conv)
  with join assms skip_tokens_join [of "k - 1" ts] show ?thesis
    by (simp add: stat_token_after_comm_def after_last_paren_append)
qed

definition digits_ok :: "string \<Rightarrow> bool" where
  "digits_ok t \<longleftrightarrow> t \<noteq> [] \<and> (\<forall>c \<in> set t. is_digit c)"

lemma is_digit_facts:
  assumes "is_digit c"
  shows "\<not> is_c_space c" "\<not> is_blank c" "c \<noteq> CHR ''-''" "c \<noteq> CHR ''+''" "c \<noteq> NUL" "c \<noteq> CHR '')''"
  using assms by (auto simp: is_digit_def is_c_space_def is_blank_def NUL_def)

lemma digits_ok_token: "digits_ok t \<Longrightarrow> token_ok t"
  by (auto simp: digits_ok_def token_ok_def dest: is_digit_facts)

lemma takeWhile_digits:
  assumes "digits_ok t"
  shows "takeWhile is_digit (t @ join_tokens ts) = t"
proof -
  have "takeWhile is_digit (join_tokens ts) = []"
    using join_tokens_head [of ts] by (auto simp: is_digit_def)
  with assms show ?thesis by (simp add: digits_ok_def takeWhile_append2)
qed

lemma strto_subject_digits:
  assumes "digits_ok t"
  shows "strto_subject (t @ join_tokens ts) = Some (False, decimal_value t)"
proof -
  obtain c cs where t: "t = c # cs" and c: "is_digit c"
    using assms by (cases t) (auto simp: digits_ok_def)
  have "dropWhile is_c_space (t @ join_tokens ts) = t @ join_tokens ts"
    using c by (simp add: t is_digit_facts)
  moreover have "hd (t @ join_tokens ts) \<noteq> CHR ''-''" "hd (t @ join_tokens ts) \<noteq> CHR ''+''"
    using c by (auto simp: t is_digit_facts)
  ultimately show ?thesis
    using assms takeWhile_digits [OF assms, of ts] by (simp add: strto_subject_def digits_ok_def)
qed

text \<open>A stat line with an arbitrary command field.\<close>

lemma verify_identity_tokens:
  assumes "read_proc_stat (pi_pid i) = Some (pre @ CHR '')'' # join_tokens ts)"
    and "NUL \<notin> set pre" and "20 \<le> length ts" and "\<forall>t \<in> set ts. token_ok t"
    and "digits_ok (ts ! 2)" and "decimal_value (ts ! 2) < 2 ^ 63"
    and "digits_ok (ts ! 19)" and "decimal_value (ts ! 19) < 2 ^ 64"
  shows "verify_process_identity read_proc_stat i \<longleftrightarrow>
    identity_valid i \<and> pi_pgid i = int (decimal_value (ts ! 2))
    \<and> unat (pi_start_ticks i) = decimal_value (ts ! 19)"
proof -
  let ?buf = "pre @ CHR '')'' # join_tokens ts"
  have three: "stat_token_after_comm ?buf 3 = Some (ts ! 2 @ join_tokens (drop 3 ts))"
    and twenty: "stat_token_after_comm ?buf 20 = Some (ts ! 19 @ join_tokens (drop 20 ts))"
    using stat_token_found [OF assms(4,2), of 3] stat_token_found [OF assms(4,2), of 20] assms(3)
    by simp_all
  have pgid: "strtoll (ts ! 2 @ join_tokens (drop 3 ts)) = Some (int (decimal_value (ts ! 2)))"
    using assms(5,6) by (simp add: strtoll_def strto_subject_digits)
  have ticks: "strtoull (ts ! 19 @ join_tokens (drop 20 ts))
      = Some (of_nat (decimal_value (ts ! 19)), False)"
    using assms(7,8) by (simp add: strtoull_def strto_subject_digits)
  have "of_nat (decimal_value (ts ! 19)) = pi_start_ticks i \<longleftrightarrow>
      unat (pi_start_ticks i) = decimal_value (ts ! 19)"
    using assms(8) by (rule of_nat_u64_eq)
  then show ?thesis
    unfolding verify_process_identity_def assms(1)
    by (auto simp: three twenty pgid ticks)
qed

definition demo_stat_tokens :: "string list" where
  "demo_stat_tokens = [''S'', ''1'', ''42''] @ replicate 16 ''0'' @ [''987'', ''0'']"

section \<open>Properties\<close>

text \<open>Property C22. The identity check reads the right fields of the stat file whatever the process calls
  itself. For a stat line whose command field is arbitrary (it may contain blanks and closing
  parentheses) followed by at least twenty NUL-free tokens, \<open>verify_process_identity\<close> accepts
  exactly when the triple is valid and both the process group (third token) and the start ticks
  (twentieth token) agree with it; a recycled pid is never accepted.\<close>

theorem verify_identity_exact:
  assumes "read_proc_stat (pi_pid i) = Some (pre @ CHR '')'' # join_tokens ts)"
    and "NUL \<notin> set pre" and "20 \<le> length ts" and "\<forall>t \<in> set ts. token_ok t"
    and "digits_ok (ts ! 2)" and "decimal_value (ts ! 2) < 2 ^ 63"
    and "digits_ok (ts ! 19)" and "decimal_value (ts ! 19) < 2 ^ 64"
  shows "verify_process_identity read_proc_stat i \<longleftrightarrow>
    identity_valid i \<and> pi_pgid i = int (decimal_value (ts ! 2))
    \<and> unat (pi_start_ticks i) = decimal_value (ts ! 19)"
  using assms by (rule verify_identity_tokens)

theorem verify_identity_exact_witness:
  "verify_process_identity
     (\<lambda>p. if p = 42 then Some (''42 (a) b'' @ CHR '')'' # join_tokens demo_stat_tokens) else None)
     \<lparr>pi_pid = 42, pi_pgid = 42, pi_start_ticks = 987\<rparr>"
proof -
  let ?rd = "\<lambda>p::int. if p = 42 then Some (''42 (a) b'' @ CHR '')'' # join_tokens demo_stat_tokens)
    else None"
  let ?i = "\<lparr>pi_pid = 42, pi_pgid = 42, pi_start_ticks = 987\<rparr> :: ProcessIdentity"
  have "\<forall>t \<in> set demo_stat_tokens. token_ok t"
    by (auto simp: demo_stat_tokens_def token_ok_def is_blank_def NUL_def)
  moreover have "demo_stat_tokens ! 2 = ''42''" "demo_stat_tokens ! 19 = ''987''"
    by (simp_all add: demo_stat_tokens_def nth_append)
  moreover have "digits_ok ''42''" "digits_ok ''987''" "decimal_value ''42'' = 42"
      "decimal_value ''987'' = 987"
    by (simp_all add: digits_ok_def is_digit_def decimal_value_def digit_value_def)
  ultimately show ?thesis
    using verify_identity_exact [of ?rd ?i "''42 (a) b''" demo_stat_tokens]
    by (simp add: demo_stat_tokens_def NUL_def identity_valid_def)
qed

end
