(* ===== verification/Store_Model.thy ===== *)
theory Store_Model
  imports Gpu_Model Process_Identity
begin

text \<open>
  The state store (\<open>include/yori/store/state_store.hpp\<close>, \<open>src/store/state_store.cpp\<close>,
  \<open>src/store/mutation_core.{hpp,cpp}\<close>): execution records and their validation, mutations, the
  validation core \<open>apply_mutation\<close> that every backend shares, and the in-memory backend
  \<open>src/testing/in_memory_state_store.cpp\<close> with its injected failures. The virtual interface
  \<open>StateStore\<close> is a record of its two operations, so that clients are written against any
  backend; its contract is the locale \<open>state_store\<close>, which the in-memory backend interprets.
\<close>

section \<open>Execution records\<close>

record JobExecutionRecord =
  er_identity :: ProcessIdentity
  er_start_time :: "time_point option"
  er_end_time :: "time_point option"
  er_exit :: "ExitStatus option"
  er_failure_reason :: "string option"
  er_log_path :: "string option"

definition blank_execution :: JobExecutionRecord where
  "blank_execution = \<lparr>er_identity = blank_identity, er_start_time = None, er_end_time = None,
     er_exit = None, er_failure_reason = None, er_log_path = None\<rparr>"

definition has_identity :: "JobExecutionRecord \<Rightarrow> bool" where
  "has_identity e \<longleftrightarrow> identity_valid (er_identity e)"

definition kMaxFailureReasonBytes :: nat where "kMaxFailureReasonBytes = 4096"
definition kMaxLogPathBytes :: nat where "kMaxLogPathBytes = 4096"

datatype JobExecutionValidationCode =
    kNone | kInvalidIdentity | kIdentityNotAllowed | kIdentityRequired | kExitNotAllowed
  | kStartTimeNotAllowed | kInvalidStartTime | kEndTimeNotAllowed | kInvalidEndTime
  | kFailureReasonNotAllowed | kInvalidFailureReason | kInvalidLogPath | kLogPathNotAllowed

definition identity_is_blank :: "ProcessIdentity \<Rightarrow> bool" where
  "identity_is_blank i \<longleftrightarrow> pi_pid i = 0 \<and> pi_pgid i = 0 \<and> pi_start_ticks i = 0"

text \<open>The checks of \<open>validate_execution\<close> group by group; \<open>None\<close> means that the group falls
  through.\<close>

definition check_identity ::
  "JobExecutionRecord \<Rightarrow> JobState \<Rightarrow> JobExecutionValidationCode option" where
  "check_identity e s =
     (if \<not> identity_is_blank (er_identity e) \<and> \<not> identity_valid (er_identity e)
        then Some kInvalidIdentity
      else if has_identity e \<and> s = kQueued then Some kIdentityNotAllowed
      else if \<not> has_identity e \<and> (s = kRunning \<or> s = kStopping) then Some kIdentityRequired
      else if er_exit e \<noteq> None \<and> \<not> is_terminal s then Some kExitNotAllowed
      else None)"

definition check_times ::
  "JobExecutionRecord \<Rightarrow> JobState \<Rightarrow> JobSpec \<Rightarrow> JobExecutionValidationCode option" where
  "check_times e s spec =
     (case (case er_start_time e of
              None \<Rightarrow> None
            | Some t \<Rightarrow>
                if \<not> has_identity e then Some kStartTimeNotAllowed
                else if t < js_submit_time spec then Some kInvalidStartTime else None) of
        Some c \<Rightarrow> Some c
      | None \<Rightarrow>
          (case er_end_time e of
             None \<Rightarrow> None
           | Some t \<Rightarrow>
               if \<not> is_terminal s then Some kEndTimeNotAllowed
               else (case er_start_time e of
                       None \<Rightarrow> None
                     | Some t0 \<Rightarrow> if t < t0 then Some kInvalidEndTime else None)))"

definition check_reason ::
  "JobExecutionRecord \<Rightarrow> JobState \<Rightarrow> JobExecutionValidationCode option" where
  "check_reason e s =
     (case er_failure_reason e of
        None \<Rightarrow> None
      | Some reason \<Rightarrow>
          if \<not> is_terminal s then Some kFailureReasonNotAllowed
          else if reason = [] \<or> length reason > kMaxFailureReasonBytes \<or> contains_nul reason
            then Some kInvalidFailureReason
          else None)"

definition check_log_path ::
  "JobExecutionRecord \<Rightarrow> JobState \<Rightarrow> JobExecutionValidationCode option" where
  "check_log_path e s =
     (case er_log_path e of
        None \<Rightarrow> None
      | Some path \<Rightarrow>
          if s = kQueued then Some kLogPathNotAllowed
          else if \<not> absolute_path_ok kMaxLogPathBytes path then Some kInvalidLogPath
          else None)"

definition validate_execution ::
  "JobExecutionRecord \<Rightarrow> JobState \<Rightarrow> JobSpec \<Rightarrow> JobExecutionValidationCode" where
  "validate_execution e s spec =
     (case check_identity e s of Some c \<Rightarrow> c
      | None \<Rightarrow> (case check_times e s spec of Some c \<Rightarrow> c
      | None \<Rightarrow> (case check_reason e s of Some c \<Rightarrow> c
      | None \<Rightarrow> (case check_log_path e s of Some c \<Rightarrow> c
      | None \<Rightarrow> JobExecutionValidationCode.kNone))))"

section \<open>Snapshots and mutations\<close>

record StoredJob =
  sj_id :: JobId
  sj_spec :: JobSpec
  sj_state :: JobState
  sj_revision :: u64
  sj_execution :: JobExecutionRecord

record StateSnapshot =
  ss_revision :: u64
  ss_jobs :: "StoredJob list"
  ss_leases :: "GpuLease list"

record StateMutation =
  sm_expected_revision :: u64
  sm_create_jobs :: "StoredJob list"
  sm_update_jobs :: "StoredJob list"
  sm_acquire_leases :: "GpuLease list"
  sm_release_leases :: "GpuUuid list"

definition empty_mutation :: StateMutation where
  "empty_mutation = \<lparr>sm_expected_revision = 0, sm_create_jobs = [], sm_update_jobs = [],
     sm_acquire_leases = [], sm_release_leases = []\<rparr>"

definition kMaxEntries :: nat where
  "kMaxEntries = 64"

definition entry_count :: "StateMutation \<Rightarrow> nat" where
  "entry_count m =
     (if length (sm_create_jobs m) > kMaxEntries then kMaxEntries + 1
      else let t1 = length (sm_create_jobs m) in
        if length (sm_update_jobs m) > kMaxEntries - t1 then kMaxEntries + 1
        else let t2 = t1 + length (sm_update_jobs m) in
          if length (sm_acquire_leases m) > kMaxEntries - t2 then kMaxEntries + 1
          else let t3 = t2 + length (sm_acquire_leases m) in
            if length (sm_release_leases m) > kMaxEntries - t3 then kMaxEntries + 1
            else t3 + length (sm_release_leases m))"

datatype StateStoreErrorCode =
    kNone | kBackendUnavailable | kRevisionConflict | kInvalidMutation | kCapacityExceeded
  | kInvalidJob | kInvalidExecutionRecord | kJobAlreadyExists | kJobNotFound
  | kInvalidJobRevision | kJobSpecChanged | kInvalidJobTransition | kInvalidLease
  | kGpuAlreadyLeased | kJobAlreadyLeased | kLeaseNotFound

record StateStoreLoadResult =
  slr_code :: StateStoreErrorCode
  slr_snapshot :: StateSnapshot

record StateStoreWriteResult =
  swr_code :: StateStoreErrorCode
  swr_revision :: u64

definition slr_ok :: "StateStoreLoadResult \<Rightarrow> bool" where
  "slr_ok r \<longleftrightarrow> slr_code r = StateStoreErrorCode.kNone"

definition swr_ok :: "StateStoreWriteResult \<Rightarrow> bool" where
  "swr_ok r \<longleftrightarrow> swr_code r = StateStoreErrorCode.kNone"

text \<open>The virtual interface: \<open>load\<close> reads, \<open>apply\<close> may change the backend's state.\<close>

record 's StateStore =
  st_load :: "'s \<Rightarrow> StateStoreLoadResult"
  st_apply :: "'s \<Rightarrow> StateMutation \<Rightarrow> StateStoreWriteResult \<times> 's"

section \<open>The mutation core\<close>

record ValidationConfig =
  vc_max_jobs :: nat
  vc_max_leases :: nat

type_synonym job_table = "(JobId, StoredJob) omap"
type_synonym lease_table = "(GpuUuid, GpuLease) omap"

record MutationOutcome =
  mo_code :: StateStoreErrorCode
  mo_next_revision :: u64
  mo_next_jobs :: job_table
  mo_next_leases :: lease_table

definition mutation_failure :: "StateStoreErrorCode \<Rightarrow> MutationOutcome" where
  "mutation_failure c =
     \<lparr>mo_code = c, mo_next_revision = 0, mo_next_jobs = [], mo_next_leases = []\<rparr>"

definition same_spec :: "JobSpec \<Rightarrow> JobSpec \<Rightarrow> bool" where
  "same_spec a b \<longleftrightarrow>
     js_owner_uid a = js_owner_uid b \<and> js_owner_gid a = js_owner_gid b \<and> js_argv a = js_argv b
   \<and> js_cwd a = js_cwd b \<and> js_env a = js_env b \<and> js_executable a = js_executable b
   \<and> js_env_metadata a = js_env_metadata b \<and> js_gpu_request a = js_gpu_request b
   \<and> js_gpu_placement a = js_gpu_placement b \<and> js_launch_profile a = js_launch_profile b
   \<and> js_tensorboard_logdir a = js_tensorboard_logdir b \<and> js_submit_time a = js_submit_time b"

definition leaseable :: "JobState \<Rightarrow> bool" where
  "leaseable s \<longleftrightarrow> s = kStarting \<or> s = kRunning \<or> s = kStopping"

abbreviation u64_max :: u64 where
  "u64_max \<equiv> - 1"

fun apply_creates ::
  "ValidationConfig \<Rightarrow> StoredJob list \<Rightarrow> job_table \<Rightarrow> StateStoreErrorCode + job_table" where
  "apply_creates config [] jobs = Inr jobs"
| "apply_creates config (record # rest) jobs =
     (if \<not> job_id_valid (sj_id record) \<or> \<not> jsv_ok (job_validate (sj_spec record))
         \<or> sj_state record \<noteq> kQueued \<or> sj_revision record \<noteq> 0
        then Inl kInvalidJob
      else if validate_execution (sj_execution record) (sj_state record) (sj_spec record)
                \<noteq> JobExecutionValidationCode.kNone
        then Inl kInvalidExecutionRecord
      else if omap_contains (sj_id record) jobs then Inl kJobAlreadyExists
      else if length jobs \<ge> vc_max_jobs config then Inl kCapacityExceeded
      else apply_creates config rest (omap_put (sj_id record) record jobs))"

fun apply_updates :: "StoredJob list \<Rightarrow> job_table \<Rightarrow> StateStoreErrorCode + job_table" where
  "apply_updates [] jobs = Inr jobs"
| "apply_updates (record # rest) jobs =
     (if \<not> job_id_valid (sj_id record) \<or> \<not> jsv_ok (job_validate (sj_spec record))
        then Inl kInvalidJob
      else if validate_execution (sj_execution record) (sj_state record) (sj_spec record)
                \<noteq> JobExecutionValidationCode.kNone
        then Inl kInvalidExecutionRecord
      else case map_of jobs (sj_id record) of
        None \<Rightarrow> Inl kJobNotFound
      | Some existing \<Rightarrow>
          if sj_revision existing = u64_max \<or> sj_revision record \<noteq> sj_revision existing + 1
            then Inl kInvalidJobRevision
          else if \<not> same_spec (sj_spec existing) (sj_spec record) then Inl kJobSpecChanged
          else if \<not> can_transition (sj_state existing) (sj_state record)
            then Inl kInvalidJobTransition
          else apply_updates rest (omap_put (sj_id record) record jobs))"

fun apply_releases :: "GpuUuid list \<Rightarrow> lease_table \<Rightarrow> StateStoreErrorCode + lease_table" where
  "apply_releases [] leases = Inr leases"
| "apply_releases (uuid # rest) leases =
     (if \<not> uuid_valid uuid then Inl kInvalidLease
      else if \<not> omap_contains uuid leases then Inl kLeaseNotFound
      else apply_releases rest (omap_erase uuid leases))"

fun apply_acquires ::
  "ValidationConfig \<Rightarrow> job_table \<Rightarrow> GpuLease list \<Rightarrow> lease_table
     \<Rightarrow> StateStoreErrorCode + lease_table" where
  "apply_acquires config jobs [] leases = Inr leases"
| "apply_acquires config jobs (lease # rest) leases =
     (if \<not> uuid_valid (gl_gpu_uuid lease) \<or> \<not> job_id_valid (gl_job_id lease)
        then Inl kInvalidLease
      else if omap_contains (gl_gpu_uuid lease) leases then Inl kGpuAlreadyLeased
      else if (case map_of jobs (gl_job_id lease) of
                 None \<Rightarrow> True | Some j \<Rightarrow> \<not> leaseable (sj_state j))
        then Inl kInvalidLease
      else if list_ex (\<lambda>(_, existing). gl_job_id existing = gl_job_id lease) leases
        then Inl kJobAlreadyLeased
      else if length leases \<ge> vc_max_leases config then Inl kCapacityExceeded
      else apply_acquires config jobs rest (omap_put (gl_gpu_uuid lease) lease leases))"

text \<open>The final sweep over the lease matrix.\<close>

definition lease_count :: "JobId \<Rightarrow> lease_table \<Rightarrow> nat" where
  "lease_count i leases = length (filter (\<lambda>(_, lease). gl_job_id lease = i) leases)"

definition lease_matrix_ok :: "job_table \<Rightarrow> lease_table \<Rightarrow> bool" where
  "lease_matrix_ok jobs leases \<longleftrightarrow>
     list_all (\<lambda>(_, lease). case map_of jobs (gl_job_id lease) of
                  None \<Rightarrow> False | Some j \<Rightarrow> leaseable (sj_state j)) leases
   \<and> list_all (\<lambda>(i, record). lease_count i leases = (if leaseable (sj_state record) then 1 else 0))
        jobs"

definition apply_mutation ::
  "job_table \<Rightarrow> lease_table \<Rightarrow> u64 \<Rightarrow> ValidationConfig \<Rightarrow> StateMutation \<Rightarrow> MutationOutcome" where
  "apply_mutation jobs leases current_revision config m =
     (if sm_expected_revision m \<noteq> current_revision then mutation_failure kRevisionConflict
      else if entry_count m = 0 \<or> entry_count m > kMaxEntries \<or> current_revision = u64_max
        then mutation_failure kInvalidMutation
      else case apply_creates config (sm_create_jobs m) jobs of
        Inl c \<Rightarrow> mutation_failure c
      | Inr jobs1 \<Rightarrow> (case apply_updates (sm_update_jobs m) jobs1 of
        Inl c \<Rightarrow> mutation_failure c
      | Inr jobs2 \<Rightarrow> (case apply_releases (sm_release_leases m) leases of
        Inl c \<Rightarrow> mutation_failure c
      | Inr leases1 \<Rightarrow> (case apply_acquires config jobs2 (sm_acquire_leases m) leases1 of
        Inl c \<Rightarrow> mutation_failure c
      | Inr leases2 \<Rightarrow>
          if \<not> lease_matrix_ok jobs2 leases2 then mutation_failure kInvalidLease
          else \<lparr>mo_code = StateStoreErrorCode.kNone, mo_next_revision = current_revision + 1,
                mo_next_jobs = jobs2, mo_next_leases = leases2\<rparr>))))"

section \<open>The in-memory backend\<close>

record InMemoryStateStore =
  im_config :: ValidationConfig
  im_revision :: u64
  im_jobs :: job_table
  im_leases :: lease_table
  im_failure :: "StateStoreErrorCode option"
  im_next_apply_failure :: "StateStoreErrorCode option"

definition fail_with :: "InMemoryStateStore \<Rightarrow> StateStoreErrorCode \<Rightarrow> InMemoryStateStore" where
  "fail_with s error =
     (if error = StateStoreErrorCode.kNone then s\<lparr>im_failure := None\<rparr>
      else s\<lparr>im_failure := Some error\<rparr>)"

definition fail_next_apply_with ::
  "InMemoryStateStore \<Rightarrow> StateStoreErrorCode \<Rightarrow> InMemoryStateStore" where
  "fail_next_apply_with s error =
     (if error = StateStoreErrorCode.kNone then s\<lparr>im_next_apply_failure := None\<rparr>
      else s\<lparr>im_next_apply_failure := Some error\<rparr>)"

definition clear_failure :: "InMemoryStateStore \<Rightarrow> InMemoryStateStore" where
  "clear_failure s = s\<lparr>im_failure := None\<rparr>"

definition empty_snapshot :: StateSnapshot where
  "empty_snapshot = \<lparr>ss_revision = 0, ss_jobs = [], ss_leases = []\<rparr>"

definition im_load :: "InMemoryStateStore \<Rightarrow> StateStoreLoadResult" where
  "im_load s =
     (case im_failure s of
        Some e \<Rightarrow> \<lparr>slr_code = e, slr_snapshot = empty_snapshot\<rparr>
      | None \<Rightarrow> \<lparr>slr_code = StateStoreErrorCode.kNone,
                 slr_snapshot = \<lparr>ss_revision = im_revision s, ss_jobs = map snd (im_jobs s),
                                 ss_leases = map snd (im_leases s)\<rparr>\<rparr>)"

definition im_apply ::
  "InMemoryStateStore \<Rightarrow> StateMutation \<Rightarrow> StateStoreWriteResult \<times> InMemoryStateStore" where
  "im_apply s m =
     (case im_failure s of
        Some e \<Rightarrow> (\<lparr>swr_code = e, swr_revision = im_revision s\<rparr>, s)
      | None \<Rightarrow>
          (case im_next_apply_failure s of
             Some e \<Rightarrow> (\<lparr>swr_code = e, swr_revision = im_revision s\<rparr>,
                         s\<lparr>im_next_apply_failure := None\<rparr>)
           | None \<Rightarrow>
               (let outcome = apply_mutation (im_jobs s) (im_leases s) (im_revision s)
                                (im_config s) m in
                if mo_code outcome \<noteq> StateStoreErrorCode.kNone
                  then (\<lparr>swr_code = mo_code outcome, swr_revision = im_revision s\<rparr>, s)
                else (\<lparr>swr_code = StateStoreErrorCode.kNone,
                       swr_revision = mo_next_revision outcome\<rparr>,
                      s\<lparr>im_jobs := mo_next_jobs outcome, im_leases := mo_next_leases outcome,
                        im_revision := mo_next_revision outcome\<rparr>))))"

definition in_memory_store :: "InMemoryStateStore StateStore" where
  "in_memory_store = \<lparr>st_load = im_load, st_apply = im_apply\<rparr>"

section \<open>Printed names\<close>

fun JobExecutionValidationCode_to_string :: "JobExecutionValidationCode \<Rightarrow> string" where
  "JobExecutionValidationCode_to_string JobExecutionValidationCode.kNone = ''NONE''"
| "JobExecutionValidationCode_to_string kInvalidIdentity = ''INVALID_IDENTITY''"
| "JobExecutionValidationCode_to_string kIdentityNotAllowed = ''IDENTITY_NOT_ALLOWED''"
| "JobExecutionValidationCode_to_string kIdentityRequired = ''IDENTITY_REQUIRED''"
| "JobExecutionValidationCode_to_string kExitNotAllowed = ''EXIT_NOT_ALLOWED''"
| "JobExecutionValidationCode_to_string kStartTimeNotAllowed = ''START_TIME_NOT_ALLOWED''"
| "JobExecutionValidationCode_to_string kInvalidStartTime = ''INVALID_START_TIME''"
| "JobExecutionValidationCode_to_string kEndTimeNotAllowed = ''END_TIME_NOT_ALLOWED''"
| "JobExecutionValidationCode_to_string kInvalidEndTime = ''INVALID_END_TIME''"
| "JobExecutionValidationCode_to_string kFailureReasonNotAllowed = ''FAILURE_REASON_NOT_ALLOWED''"
| "JobExecutionValidationCode_to_string kInvalidFailureReason = ''INVALID_FAILURE_REASON''"
| "JobExecutionValidationCode_to_string kInvalidLogPath = ''INVALID_LOG_PATH''"
| "JobExecutionValidationCode_to_string kLogPathNotAllowed = ''LOG_PATH_NOT_ALLOWED''"

fun StateStoreErrorCode_to_string :: "StateStoreErrorCode \<Rightarrow> string" where
  "StateStoreErrorCode_to_string StateStoreErrorCode.kNone = ''NONE''"
| "StateStoreErrorCode_to_string StateStoreErrorCode.kBackendUnavailable = ''BACKEND_UNAVAILABLE''"
| "StateStoreErrorCode_to_string kRevisionConflict = ''REVISION_CONFLICT''"
| "StateStoreErrorCode_to_string kInvalidMutation = ''INVALID_MUTATION''"
| "StateStoreErrorCode_to_string kCapacityExceeded = ''CAPACITY_EXCEEDED''"
| "StateStoreErrorCode_to_string kInvalidJob = ''INVALID_JOB''"
| "StateStoreErrorCode_to_string kInvalidExecutionRecord = ''INVALID_EXECUTION_RECORD''"
| "StateStoreErrorCode_to_string kJobAlreadyExists = ''JOB_ALREADY_EXISTS''"
| "StateStoreErrorCode_to_string kJobNotFound = ''JOB_NOT_FOUND''"
| "StateStoreErrorCode_to_string kInvalidJobRevision = ''INVALID_JOB_REVISION''"
| "StateStoreErrorCode_to_string kJobSpecChanged = ''JOB_SPEC_CHANGED''"
| "StateStoreErrorCode_to_string kInvalidJobTransition = ''INVALID_JOB_TRANSITION''"
| "StateStoreErrorCode_to_string kInvalidLease = ''INVALID_LEASE''"
| "StateStoreErrorCode_to_string kGpuAlreadyLeased = ''GPU_ALREADY_LEASED''"
| "StateStoreErrorCode_to_string kJobAlreadyLeased = ''JOB_ALREADY_LEASED''"
| "StateStoreErrorCode_to_string kLeaseNotFound = ''LEASE_NOT_FOUND''"

end
