(* ===== verification/Store_Laws.thy ===== *)
theory Store_Laws
  imports Store_Model
begin

text \<open>
  What the state store promises. \<open>content_wf\<close> is the invariant of the persisted content: keys
  agree with the records, every record is valid, its revision is one the state graph allows, and
  the lease matrix holds (a starting, running or stopping job holds exactly one GPU, any other
  job none). The locale \<open>state_store\<close> is the contract of the virtual interface; its clients are
  the scheduler, the recovery and the job manager. \<open>apply_mutation\<close> is shown to be sound for it
  and the in-memory backend interprets it.
\<close>

section \<open>Abstract content\<close>

record store_content =
  sc_revision :: u64
  sc_jobs :: job_table
  sc_leases :: lease_table

definition stored_job_ok :: "JobId \<Rightarrow> StoredJob \<Rightarrow> bool" where
  "stored_job_ok i r \<longleftrightarrow>
     sj_id r = i \<and> job_id_valid i \<and> jsv_ok (job_validate (sj_spec r))
   \<and> validate_execution (sj_execution r) (sj_state r) (sj_spec r)
       = JobExecutionValidationCode.kNone
   \<and> revision_fits (sj_state r) (sj_revision r)"

definition job_table_ok :: "job_table \<Rightarrow> bool" where
  "job_table_ok jobs \<longleftrightarrow> omap_wf jobs \<and> list_all (\<lambda>(i, r). stored_job_ok i r) jobs"

definition lease_table_ok :: "lease_table \<Rightarrow> bool" where
  "lease_table_ok leases \<longleftrightarrow>
     omap_wf leases \<and> list_all (\<lambda>(u, l). gl_gpu_uuid l = u \<and> uuid_valid u) leases"

definition content_wf :: "store_content \<Rightarrow> bool" where
  "content_wf c \<longleftrightarrow>
     job_table_ok (sc_jobs c) \<and> lease_table_ok (sc_leases c)
   \<and> lease_matrix_ok (sc_jobs c) (sc_leases c)"

definition snapshot_of :: "store_content \<Rightarrow> StateSnapshot" where
  "snapshot_of c = \<lparr>ss_revision = sc_revision c, ss_jobs = map snd (sc_jobs c),
     ss_leases = map snd (sc_leases c)\<rparr>"

definition put_jobs :: "StoredJob list \<Rightarrow> job_table \<Rightarrow> job_table" where
  "put_jobs rs jobs = fold (\<lambda>r. omap_put (sj_id r) r) rs jobs"

definition put_leases :: "GpuLease list \<Rightarrow> lease_table \<Rightarrow> lease_table" where
  "put_leases ls leases = fold (\<lambda>l. omap_put (gl_gpu_uuid l) l) ls leases"

definition mutation_effect :: "store_content \<Rightarrow> StateMutation \<Rightarrow> store_content" where
  "mutation_effect c m =
     \<lparr>sc_revision = sc_revision c + 1,
      sc_jobs = put_jobs (sm_create_jobs m @ sm_update_jobs m) (sc_jobs c),
      sc_leases = put_leases (sm_acquire_leases m)
                    (fold omap_erase (sm_release_leases m) (sc_leases c))\<rparr>"

text \<open>How one record may change: not at all, or along at least one edge of the state graph with
  the same identity and specification.\<close>

definition job_evolves :: "StoredJob \<Rightarrow> StoredJob \<Rightarrow> bool" where
  "job_evolves a b \<longleftrightarrow>
     a = b
   \<or> sj_id b = sj_id a \<and> sj_spec b = sj_spec a \<and> can_transition\<^sup>+\<^sup>+ (sj_state a) (sj_state b)"

definition jobs_evolve :: "job_table \<Rightarrow> job_table \<Rightarrow> bool" where
  "jobs_evolve jobs jobs' \<longleftrightarrow>
     (\<forall>i r. map_of jobs i = Some r \<longrightarrow> (\<exists>r'. map_of jobs' i = Some r' \<and> job_evolves r r'))"

section \<open>The contract of a backend\<close>

locale state_store =
  fixes store :: "'s StateStore"
    and content :: "'s \<Rightarrow> store_content"
    and inv :: "'s \<Rightarrow> bool"
  assumes inv_wf: "inv s \<Longrightarrow> content_wf (content s)"
    and load_reads: "inv s \<Longrightarrow> slr_ok (st_load store s) \<Longrightarrow>
      slr_snapshot (st_load store s) = snapshot_of (content s)"
    and apply_rejects: "inv s \<Longrightarrow> st_apply store s m = (r, s') \<Longrightarrow> \<not> swr_ok r \<Longrightarrow>
      inv s' \<and> content s' = content s"
    and apply_accepts: "inv s \<Longrightarrow> st_apply store s m = (r, s') \<Longrightarrow> swr_ok r \<Longrightarrow>
      inv s' \<and> sm_expected_revision m = sc_revision (content s)
      \<and> swr_revision r = sc_revision (content s) + 1
      \<and> content s' = mutation_effect (content s) m
      \<and> jobs_evolve (sc_jobs (content s)) (sc_jobs (content s'))"

section \<open>Record and table lemmas\<close>

lemma same_spec_iff: "same_spec a b \<longleftrightarrow> a = b"
  by (cases a; cases b) (auto simp: same_spec_def)

lemma job_table_okD:
  assumes "job_table_ok jobs" and "map_of jobs i = Some r"
  shows "stored_job_ok i r"
  using assms map_of_SomeD by (fastforce simp: job_table_ok_def list_all_iff)

lemma job_table_ok_put:
  assumes "job_table_ok jobs" and "stored_job_ok (sj_id r) r"
  shows "job_table_ok (omap_put (sj_id r) r jobs)"
proof -
  have "stored_job_ok i x" if "(i, x) \<in> set (omap_put (sj_id r) r jobs)" for i x
    using that assms set_omap_put [of "sj_id r" r jobs]
    by (auto simp: job_table_ok_def list_all_iff)
  with assms show ?thesis by (auto simp: job_table_ok_def list_all_iff)
qed

lemma lease_table_okD:
  assumes "lease_table_ok leases" and "map_of leases u = Some l"
  shows "gl_gpu_uuid l = u \<and> uuid_valid u"
  using assms map_of_SomeD by (fastforce simp: lease_table_ok_def list_all_iff)

lemma lease_table_ok_put:
  assumes "lease_table_ok leases" and "uuid_valid (gl_gpu_uuid l)"
  shows "lease_table_ok (omap_put (gl_gpu_uuid l) l leases)"
proof -
  have "gl_gpu_uuid x = u \<and> uuid_valid u" if "(u, x) \<in> set (omap_put (gl_gpu_uuid l) l leases)"
    for u x
    using that assms set_omap_put [of "gl_gpu_uuid l" l leases]
    by (auto simp: lease_table_ok_def list_all_iff)
  with assms show ?thesis by (auto simp: lease_table_ok_def list_all_iff)
qed

lemma lease_table_ok_erase: "lease_table_ok leases \<Longrightarrow> lease_table_ok (omap_erase u leases)"
  by (auto simp: lease_table_ok_def list_all_iff omap_erase_def dest: omap_wf_erase [of _ u])

lemma job_evolves_refl [simp, intro]: "job_evolves r r"
  by (simp add: job_evolves_def)

lemma job_evolves_trans: "job_evolves a b \<Longrightarrow> job_evolves b c \<Longrightarrow> job_evolves a c"
  by (auto simp: job_evolves_def dest: tranclp_trans)

lemma job_evolves_step:
  "sj_id b = sj_id a \<Longrightarrow> sj_spec b = sj_spec a \<Longrightarrow> can_transition (sj_state a) (sj_state b)
   \<Longrightarrow> job_evolves a b"
  by (auto simp: job_evolves_def)

lemma job_evolves_terminal: "job_evolves a b \<Longrightarrow> is_terminal (sj_state a) \<Longrightarrow> b = a"
  by (auto simp: job_evolves_def dest: tranclpD can_transition_from_terminal)

lemma jobs_evolve_refl [simp]: "jobs_evolve jobs jobs"
  by (auto simp: jobs_evolve_def)

lemma jobs_evolve_trans: "jobs_evolve a b \<Longrightarrow> jobs_evolve b c \<Longrightarrow> jobs_evolve a c"
  by (fastforce simp: jobs_evolve_def intro: job_evolves_trans)

lemma jobs_evolve_put:
  assumes "case map_of jobs (sj_id r) of None \<Rightarrow> True | Some old \<Rightarrow> job_evolves old r"
  shows "jobs_evolve jobs (omap_put (sj_id r) r jobs)"
  using assms by (auto simp: jobs_evolve_def omap_simps)

section \<open>Soundness of the mutation core\<close>

lemma apply_creates_sound:
  assumes "apply_creates config rs jobs = Inr jobs'" and "job_table_ok jobs"
  shows "jobs' = put_jobs rs jobs \<and> job_table_ok jobs' \<and> jobs_evolve jobs jobs'
    \<and> length jobs' = length jobs + length rs
    \<and> (rs \<noteq> [] \<longrightarrow> length jobs' \<le> vc_max_jobs config)"
  using assms
proof (induction rs arbitrary: jobs)
  case Nil
  then show ?case by (simp add: put_jobs_def)
next
  case (Cons r rs)
  from Cons.prems(1) have ok: "stored_job_ok (sj_id r) r" and new: "map_of jobs (sj_id r) = None"
    and room: "length jobs < vc_max_jobs config"
    and rest: "apply_creates config rs (omap_put (sj_id r) r jobs) = Inr jobs'"
    by (auto simp: stored_job_ok_def omap_contains_def split: if_splits)
  have "job_table_ok (omap_put (sj_id r) r jobs)"
    using Cons.prems(2) ok by (rule job_table_ok_put)
  note ih = Cons.IH [OF rest this]
  have "jobs_evolve jobs (omap_put (sj_id r) r jobs)"
    using new by (intro jobs_evolve_put) simp
  with ih have "jobs_evolve jobs jobs'" by (blast intro: jobs_evolve_trans)
  moreover have "length jobs' \<le> vc_max_jobs config"
    using ih room new by (cases rs) (auto simp: omap_simps put_jobs_def)
  ultimately show ?case
    using ih new by (auto simp: put_jobs_def omap_simps)
qed

lemma apply_updates_sound:
  assumes "apply_updates rs jobs = Inr jobs'" and "job_table_ok jobs"
  shows "jobs' = put_jobs rs jobs \<and> job_table_ok jobs' \<and> jobs_evolve jobs jobs'
    \<and> length jobs' = length jobs"
  using assms
proof (induction rs arbitrary: jobs)
  case Nil
  then show ?case by (simp add: put_jobs_def)
next
  case (Cons r rs)
  from Cons.prems(1) obtain old where old: "map_of jobs (sj_id r) = Some old"
    and rv: "sj_revision r = sj_revision old + 1" and spec: "sj_spec old = sj_spec r"
    and step: "can_transition (sj_state old) (sj_state r)"
    and rest: "apply_updates rs (omap_put (sj_id r) r jobs) = Inr jobs'"
    and valid: "job_id_valid (sj_id r)" "jsv_ok (job_validate (sj_spec r))"
      "validate_execution (sj_execution r) (sj_state r) (sj_spec r)
         = JobExecutionValidationCode.kNone"
    by (auto simp: same_spec_iff split: if_splits option.splits)
  have oldok: "stored_job_ok (sj_id r) old"
    using Cons.prems(2) old by (rule job_table_okD)
  then have ok: "stored_job_ok (sj_id r) r"
    using rv step valid revision_fits_step by (auto simp: stored_job_ok_def)
  have "job_evolves old r"
    using oldok spec step by (intro job_evolves_step) (auto simp: stored_job_ok_def)
  then have ev: "jobs_evolve jobs (omap_put (sj_id r) r jobs)"
    by (intro jobs_evolve_put) (simp add: old)
  have "job_table_ok (omap_put (sj_id r) r jobs)"
    using Cons.prems(2) ok by (rule job_table_ok_put)
  moreover have "length (omap_put (sj_id r) r jobs) = length jobs"
    using Cons.prems(2) old by (simp add: omap_simps job_table_ok_def)
  ultimately show ?case
    using Cons.IH [OF rest] jobs_evolve_trans [OF ev, of jobs'] by (auto simp: put_jobs_def)
qed

lemma apply_releases_sound:
  assumes "apply_releases us leases = Inr leases'" and "lease_table_ok leases"
  shows "leases' = fold omap_erase us leases \<and> lease_table_ok leases'
    \<and> length leases' \<le> length leases"
  using assms
proof (induction us arbitrary: leases)
  case (Cons u us)
  then have "apply_releases us (omap_erase u leases) = Inr leases'"
    by (auto split: if_splits)
  from Cons.IH [OF this lease_table_ok_erase [OF Cons.prems(2)]] show ?case
    using length_omap_erase_le [of u leases] by auto
qed simp

lemma apply_acquires_sound:
  assumes "apply_acquires config jobs ls leases = Inr leases'" and "lease_table_ok leases"
  shows "leases' = put_leases ls leases \<and> lease_table_ok leases'
    \<and> length leases' = length leases + length ls
    \<and> (ls \<noteq> [] \<longrightarrow> length leases' \<le> vc_max_leases config)"
  using assms
proof (induction ls arbitrary: leases)
  case Nil
  then show ?case by (simp add: put_leases_def)
next
  case (Cons l ls)
  from Cons.prems(1) have rest:
      "apply_acquires config jobs ls (omap_put (gl_gpu_uuid l) l leases) = Inr leases'"
    and valid: "uuid_valid (gl_gpu_uuid l)" and new: "map_of leases (gl_gpu_uuid l) = None"
    and room: "length leases < vc_max_leases config"
    by (auto simp: omap_contains_def split: if_splits)
  from Cons.IH [OF rest lease_table_ok_put [OF Cons.prems(2) valid]] new room show ?case
    by (cases ls) (auto simp: put_leases_def omap_simps)
qed

definition mutation_ok :: "MutationOutcome \<Rightarrow> bool" where
  "mutation_ok o' \<longleftrightarrow> mo_code o' = StateStoreErrorCode.kNone"

text \<open>The stages never report \<open>kNone\<close> as an error.\<close>

lemma apply_creates_error: "apply_creates config rs jobs \<noteq> Inl StateStoreErrorCode.kNone"
  by (induction rs arbitrary: jobs) auto

lemma apply_updates_error: "apply_updates rs jobs \<noteq> Inl StateStoreErrorCode.kNone"
  by (induction rs arbitrary: jobs) (auto split: option.split)

lemma apply_releases_error: "apply_releases us leases \<noteq> Inl StateStoreErrorCode.kNone"
  by (induction us arbitrary: leases) auto

lemma apply_acquires_error: "apply_acquires config jobs ls leases \<noteq> Inl StateStoreErrorCode.kNone"
  by (induction ls arbitrary: leases) auto

lemmas stage_errors =
  apply_creates_error apply_updates_error apply_releases_error apply_acquires_error

lemma apply_mutation_ok_iff:
  "mutation_ok (apply_mutation jobs leases rv config m) \<longleftrightarrow>
     sm_expected_revision m = rv \<and> entry_count m \<noteq> 0 \<and> entry_count m \<le> kMaxEntries
   \<and> rv \<noteq> u64_max
   \<and> (\<exists>jobs1 jobs2 leases1 leases2.
        apply_creates config (sm_create_jobs m) jobs = Inr jobs1
      \<and> apply_updates (sm_update_jobs m) jobs1 = Inr jobs2
      \<and> apply_releases (sm_release_leases m) leases = Inr leases1
      \<and> apply_acquires config jobs2 (sm_acquire_leases m) leases1 = Inr leases2
      \<and> lease_matrix_ok jobs2 leases2
      \<and> apply_mutation jobs leases rv config m =
          \<lparr>mo_code = StateStoreErrorCode.kNone, mo_next_revision = rv + 1,
           mo_next_jobs = jobs2, mo_next_leases = leases2\<rparr>)"
proof (cases "sm_expected_revision m = rv \<and> entry_count m \<noteq> 0 \<and> entry_count m \<le> kMaxEntries
    \<and> rv \<noteq> u64_max")
  case False
  then show ?thesis
    by (auto simp: mutation_ok_def apply_mutation_def mutation_failure_def)
next
  case True
  note guards = this
  show ?thesis
  proof (cases "apply_creates config (sm_create_jobs m) jobs")
    case (Inl c)
    then show ?thesis using guards apply_creates_error [of config "sm_create_jobs m" jobs]
      by (auto simp: mutation_ok_def apply_mutation_def mutation_failure_def)
  next
    case (Inr jobs1)
    note cr = this
    show ?thesis
    proof (cases "apply_updates (sm_update_jobs m) jobs1")
      case (Inl c)
      then show ?thesis using guards cr apply_updates_error [of "sm_update_jobs m" jobs1]
        by (auto simp: mutation_ok_def apply_mutation_def mutation_failure_def)
    next
      case (Inr jobs2)
      note up = this
      show ?thesis
      proof (cases "apply_releases (sm_release_leases m) leases")
        case (Inl c)
        then show ?thesis
          using guards cr up apply_releases_error [of "sm_release_leases m" leases]
          by (auto simp: mutation_ok_def apply_mutation_def mutation_failure_def)
      next
        case (Inr leases1)
        then show ?thesis
          using guards cr up
            apply_acquires_error [of config jobs2 "sm_acquire_leases m" leases1]
          by (cases "apply_acquires config jobs2 (sm_acquire_leases m) leases1")
            (auto simp: mutation_ok_def apply_mutation_def mutation_failure_def)
      qed
    qed
  qed
qed

lemma apply_mutation_sound:
  assumes ok: "mutation_ok (apply_mutation jobs leases rv config m)"
    and wf: "content_wf \<lparr>sc_revision = rv, sc_jobs = jobs, sc_leases = leases\<rparr>"
  shows "content_wf (mutation_effect \<lparr>sc_revision = rv, sc_jobs = jobs, sc_leases = leases\<rparr> m)"
    and "apply_mutation jobs leases rv config m =
      (let c = mutation_effect \<lparr>sc_revision = rv, sc_jobs = jobs, sc_leases = leases\<rparr> m in
       \<lparr>mo_code = StateStoreErrorCode.kNone, mo_next_revision = sc_revision c,
        mo_next_jobs = sc_jobs c, mo_next_leases = sc_leases c\<rparr>)"
    and "jobs_evolve jobs
      (sc_jobs (mutation_effect \<lparr>sc_revision = rv, sc_jobs = jobs, sc_leases = leases\<rparr> m))"
proof -
  from ok obtain jobs1 jobs2 leases1 leases2 where
      cr: "apply_creates config (sm_create_jobs m) jobs = Inr jobs1"
    and up: "apply_updates (sm_update_jobs m) jobs1 = Inr jobs2"
    and rl: "apply_releases (sm_release_leases m) leases = Inr leases1"
    and aq: "apply_acquires config jobs2 (sm_acquire_leases m) leases1 = Inr leases2"
    and mx: "lease_matrix_ok jobs2 leases2"
    and res: "apply_mutation jobs leases rv config m =
        \<lparr>mo_code = StateStoreErrorCode.kNone, mo_next_revision = rv + 1,
         mo_next_jobs = jobs2, mo_next_leases = leases2\<rparr>"
    unfolding apply_mutation_ok_iff by blast
  have jt: "job_table_ok jobs" and lt: "lease_table_ok leases"
    using wf by (simp_all add: content_wf_def)
  note c = apply_creates_sound [OF cr jt]
  then have u: "jobs2 = put_jobs (sm_update_jobs m) jobs1 \<and> job_table_ok jobs2
      \<and> jobs_evolve jobs1 jobs2"
    using apply_updates_sound [OF up] by blast
  note r = apply_releases_sound [OF rl lt]
  then have a: "leases2 = put_leases (sm_acquire_leases m) leases1 \<and> lease_table_ok leases2"
    using apply_acquires_sound [OF aq] by blast
  have eff: "mutation_effect \<lparr>sc_revision = rv, sc_jobs = jobs, sc_leases = leases\<rparr> m =
      \<lparr>sc_revision = rv + 1, sc_jobs = jobs2, sc_leases = leases2\<rparr>"
    using c u r a by (simp add: mutation_effect_def put_jobs_def)
  show "content_wf (mutation_effect \<lparr>sc_revision = rv, sc_jobs = jobs, sc_leases = leases\<rparr> m)"
    unfolding eff content_wf_def store_content.simps using u a mx by blast
  show "apply_mutation jobs leases rv config m =
      (let c = mutation_effect \<lparr>sc_revision = rv, sc_jobs = jobs, sc_leases = leases\<rparr> m in
       \<lparr>mo_code = StateStoreErrorCode.kNone, mo_next_revision = sc_revision c,
        mo_next_jobs = sc_jobs c, mo_next_leases = sc_leases c\<rparr>)"
    by (simp add: eff res)
  show "jobs_evolve jobs
      (sc_jobs (mutation_effect \<lparr>sc_revision = rv, sc_jobs = jobs, sc_leases = leases\<rparr> m))"
    using c u jobs_evolve_trans by (simp add: eff) blast
qed

section \<open>The in-memory backend meets the contract\<close>

definition im_content :: "InMemoryStateStore \<Rightarrow> store_content" where
  "im_content s = \<lparr>sc_revision = im_revision s, sc_jobs = im_jobs s, sc_leases = im_leases s\<rparr>"

definition im_inv :: "InMemoryStateStore \<Rightarrow> bool" where
  "im_inv s \<longleftrightarrow> content_wf (im_content s) \<and> im_failure s \<noteq> Some StateStoreErrorCode.kNone
     \<and> im_next_apply_failure s \<noteq> Some StateStoreErrorCode.kNone"

lemma im_apply_reject:
  assumes "im_inv s" and "im_apply s m = (r, s')" and "\<not> swr_ok r"
  shows "im_inv s' \<and> im_content s' = im_content s"
  using assms
  by (auto simp: im_apply_def im_inv_def im_content_def swr_ok_def Let_def
      split: option.splits if_splits)

lemma im_apply_accept:
  assumes inv: "im_inv s" and ap: "im_apply s m = (r, s')" and ok: "swr_ok r"
  shows "im_inv s' \<and> sm_expected_revision m = sc_revision (im_content s)
    \<and> swr_revision r = sc_revision (im_content s) + 1
    \<and> im_content s' = mutation_effect (im_content s) m
    \<and> jobs_evolve (sc_jobs (im_content s)) (sc_jobs (im_content s'))"
proof -
  let ?o = "apply_mutation (im_jobs s) (im_leases s) (im_revision s) (im_config s) m"
  from inv ap ok have mo: "mutation_ok ?o" and nf: "im_failure s = None"
      "im_next_apply_failure s = None"
    by (auto simp: im_apply_def im_inv_def swr_ok_def mutation_ok_def Let_def
        split: option.splits if_splits)
  have wf: "content_wf (im_content s)" using inv by (simp add: im_inv_def)
  note snd = apply_mutation_sound [OF mo wf [unfolded im_content_def]]
  have exp: "sm_expected_revision m = im_revision s"
    using mo by (simp add: apply_mutation_ok_iff)
  from ap mo nf snd(2) show ?thesis
    using snd(1,3) exp
    by (auto simp: im_apply_def im_inv_def im_content_def mutation_ok_def Let_def
        mutation_effect_def)
qed

interpretation im: state_store in_memory_store im_content im_inv
proof unfold_locales
  show "content_wf (im_content s)" if "im_inv s" for s
    using that by (simp add: im_inv_def)
  show "slr_snapshot (st_load in_memory_store s) = snapshot_of (im_content s)"
    if "im_inv s" and "slr_ok (st_load in_memory_store s)" for s
    using that
    by (auto simp: in_memory_store_def im_load_def im_inv_def slr_ok_def snapshot_of_def
        im_content_def split: option.splits)
next
  fix s m r s' assume a: "im_inv s" "st_apply in_memory_store s m = (r, s')"
  then have ap: "im_apply s m = (r, s')" by (simp add: in_memory_store_def)
  show "im_inv s' \<and> im_content s' = im_content s" if "\<not> swr_ok r"
    using a(1) ap that by (rule im_apply_reject)
  show "im_inv s' \<and> sm_expected_revision m = sc_revision (im_content s)
    \<and> swr_revision r = sc_revision (im_content s) + 1
    \<and> im_content s' = mutation_effect (im_content s) m
    \<and> jobs_evolve (sc_jobs (im_content s)) (sc_jobs (im_content s'))" if "swr_ok r"
    using a(1) ap that by (rule im_apply_accept)
qed

text \<open>A backend that is not failing reads, and accepts every mutation the shared rules accept. The
  progress of the scheduler rests on this.\<close>

locale available_store = state_store store content inv
  for store :: "'s StateStore" and content :: "'s \<Rightarrow> store_content" and inv :: "'s \<Rightarrow> bool" +
  fixes ready :: "'s \<Rightarrow> bool"
    and limits :: "'s \<Rightarrow> ValidationConfig"
  assumes ready_load: "inv s \<Longrightarrow> ready s \<Longrightarrow> slr_ok (st_load store s)"
    and ready_apply: "inv s \<Longrightarrow> ready s \<Longrightarrow>
      mutation_ok (apply_mutation (sc_jobs (content s)) (sc_leases (content s))
        (sc_revision (content s)) (limits s) m) \<Longrightarrow>
      swr_ok (fst (st_apply store s m))"
    and ready_stays: "inv s \<Longrightarrow> ready s \<Longrightarrow> ready (snd (st_apply store s m))"

definition im_ready :: "InMemoryStateStore \<Rightarrow> bool" where
  "im_ready s \<longleftrightarrow> im_failure s = None \<and> im_next_apply_failure s = None"

interpretation ima: available_store in_memory_store im_content im_inv im_ready im_config
  by unfold_locales
    (simp_all add: in_memory_store_def im_load_def im_apply_def im_ready_def slr_ok_def swr_ok_def
      mutation_ok_def im_content_def Let_def)

section \<open>Runs of the backend\<close>

text \<open>Everything a client can do to the backend: apply a mutation, and inject or clear
  failures.\<close>

inductive im_step :: "InMemoryStateStore \<Rightarrow> InMemoryStateStore \<Rightarrow> bool" where
  step_apply: "im_step s (snd (im_apply s m))"
| step_fail: "im_step s (fail_with s e)"
| step_fail_next: "im_step s (fail_next_apply_with s e)"
| step_clear: "im_step s (clear_failure s)"

definition empty_store :: "ValidationConfig \<Rightarrow> InMemoryStateStore" where
  "empty_store config = \<lparr>im_config = config, im_revision = 0, im_jobs = [], im_leases = [],
     im_failure = None, im_next_apply_failure = None\<rparr>"

lemma im_inv_empty: "im_inv (empty_store config)"
  by (simp add: im_inv_def empty_store_def im_content_def content_wf_def job_table_ok_def
      lease_table_ok_def lease_matrix_ok_def)

lemma im_step_sound:
  assumes "im_step s s'" and "im_inv s"
  shows "im_inv s' \<and> jobs_evolve (im_jobs s) (im_jobs s')"
  using assms
proof cases
  case (step_apply m)
  obtain r t where ap: "im_apply s m = (r, t)" by fastforce
  with step_apply assms(2) im_apply_accept [OF assms(2) ap] im_apply_reject [OF assms(2) ap]
  show ?thesis by (cases "swr_ok r") (auto simp: im_content_def)
qed (auto simp: fail_with_def fail_next_apply_with_def clear_failure_def im_inv_def im_content_def)

lemma im_steps_sound:
  assumes "im_step\<^sup>*\<^sup>* s s'" and "im_inv s"
  shows "im_inv s' \<and> jobs_evolve (im_jobs s) (im_jobs s')"
  using assms
  by (induction rule: rtranclp_induct) (auto dest: im_step_sound intro: jobs_evolve_trans)

section \<open>Reading the lease matrix\<close>

lemma lease_count_one:
  assumes "lease_count i leases = 1" and "omap_wf leases"
  shows "\<exists>!u. \<exists>l. map_of leases u = Some l \<and> gl_job_id l = i"
proof -
  obtain e where "filter (\<lambda>(_, lease). gl_job_id lease = i) leases = [e]"
    using assms(1) by (auto simp: lease_count_def length_Suc_conv)
  then have "{x \<in> set leases. gl_job_id (snd x) = i} = {e}"
    by (metis (mono_tags, lifting) list.set(1) list.set(2) set_filter case_prod_beta' Collect_cong)
  then have "\<And>u l. (u, l) \<in> set leases \<and> gl_job_id l = i \<longleftrightarrow> (u, l) = e"
    by (auto simp: set_eq_iff)
  then show ?thesis
    using omap_lookup_iff [OF assms(2)] by (metis fst_conv prod.collapse)
qed

lemma lease_count_zero:
  assumes "lease_count i leases = 0" and "map_of leases u = Some l"
  shows "gl_job_id l \<noteq> i"
  using assms map_of_SomeD by (fastforce simp: lease_count_def filter_empty_conv)

lemma lease_count_card:
  assumes "omap_wf leases"
  shows "lease_count i leases = card {u. \<exists>l. map_of leases u = Some l \<and> gl_job_id l = i}"
proof -
  let ?f = "filter (\<lambda>(_, lease). gl_job_id lease = i) leases"
  have "distinct (map fst leases)" using assms by (auto simp: omap_wf_def strict_sorted_iff)
  then have d: "distinct (map fst ?f)" by (rule distinct_map_filter)
  have "fst ` set ?f = {u. \<exists>l. map_of leases u = Some l \<and> gl_job_id l = i}"
    using omap_lookup_iff [OF assms] by (force simp: image_iff)
  with distinct_card [OF d] show ?thesis by (simp add: lease_count_def)
qed

lemma lease_matrix_iff:
  assumes "omap_wf jobs" and "omap_wf leases"
  shows "lease_matrix_ok jobs leases \<longleftrightarrow>
    (\<forall>u l. map_of leases u = Some l \<longrightarrow>
       (\<exists>r. map_of jobs (gl_job_id l) = Some r \<and> leaseable (sj_state r)))
  \<and> (\<forall>i r. map_of jobs i = Some r \<longrightarrow> leaseable (sj_state r) \<longrightarrow>
       (\<exists>!u. \<exists>l. map_of leases u = Some l \<and> gl_job_id l = i))"
    (is "_ \<longleftrightarrow> ?A \<and> ?B")
proof -
  let ?U = "\<lambda>i. {u. \<exists>l. map_of leases u = Some l \<and> gl_job_id l = i}"
  have fin: "finite (?U i)" for i
    by (rule finite_subset [OF _ finite_dom_map_of [of leases]]) (auto simp: dom_def)
  have one: "card (?U i) = 1 \<longleftrightarrow> (\<exists>!u. \<exists>l. map_of leases u = Some l \<and> gl_job_id l = i)" for i
    by (simp add: card_1_singleton_iff set_eq_iff Ex1_def) blast
  have zero: "card (?U i) = 0 \<longleftrightarrow> (\<forall>u l. map_of leases u = Some l \<longrightarrow> gl_job_id l \<noteq> i)" for i
    using fin by auto
  have "lease_matrix_ok jobs leases \<longleftrightarrow> ?A \<and>
      (\<forall>i r. map_of jobs i = Some r \<longrightarrow>
        card (?U i) = (if leaseable (sj_state r) then 1 else 0))"
    by (simp add: lease_matrix_ok_def list_all_omap assms lease_count_card [OF assms(2)]
        case_option_ex)
  also have "\<dots> \<longleftrightarrow> ?A \<and> ?B"
  proof (rule conj_cong [OF refl])
    assume a: ?A
    have "card (?U i) = (if leaseable (sj_state r) then 1 else 0) \<longleftrightarrow>
        (leaseable (sj_state r) \<longrightarrow> (\<exists>!u. \<exists>l. map_of leases u = Some l \<and> gl_job_id l = i))"
      if "map_of jobs i = Some r" for i r
    proof (cases "leaseable (sj_state r)")
      case True
      then show ?thesis using one [of i] by simp
    next
      case False
      with a that have "\<forall>u l. map_of leases u = Some l \<longrightarrow> gl_job_id l \<noteq> i" by force
      with False show ?thesis using zero [of i] by simp
    qed
    then show "(\<forall>i r. map_of jobs i = Some r \<longrightarrow>
        card (?U i) = (if leaseable (sj_state r) then 1 else 0)) \<longleftrightarrow> ?B" by simp
  qed
  finally show ?thesis .
qed

lemma content_wf_matrix:
  assumes "content_wf c" and "map_of (sc_jobs c) i = Some r"
  shows "if leaseable (sj_state r)
    then \<exists>!u. \<exists>l. map_of (sc_leases c) u = Some l \<and> gl_job_id l = i
    else \<forall>u l. map_of (sc_leases c) u = Some l \<longrightarrow> gl_job_id l \<noteq> i"
proof -
  have "(i, r) \<in> set (sc_jobs c)" using assms(2) by (rule map_of_SomeD)
  then have cnt: "lease_count i (sc_leases c) = (if leaseable (sj_state r) then 1 else 0)"
    using assms(1) by (auto simp: content_wf_def lease_matrix_ok_def list_all_iff)
  have "omap_wf (sc_leases c)" using assms(1) by (simp add: content_wf_def lease_table_ok_def)
  with cnt lease_count_one lease_count_zero show ?thesis by (auto split: if_splits)
qed

lemma content_wf_id:
  assumes "content_wf c" and "map_of (sc_jobs c) i = Some r"
  shows "stored_job_ok i r" and "sj_id r = i"
  using assms job_table_okD [of "sc_jobs c" i r]
  by (auto simp: content_wf_def stored_job_ok_def)

lemma content_wf_range:
  assumes "content_wf c"
  shows "r \<in> snd ` set (sc_jobs c) \<longleftrightarrow> map_of (sc_jobs c) (sj_id r) = Some r"
proof
  have wf: "omap_wf (sc_jobs c)" using assms by (simp add: content_wf_def job_table_ok_def)
  assume "r \<in> snd ` set (sc_jobs c)"
  then obtain i where "(i, r) \<in> set (sc_jobs c)" by auto
  then have i: "map_of (sc_jobs c) i = Some r" by (simp add: omap_lookup_iff [OF wf])
  with content_wf_id(2) [OF assms i] show "map_of (sc_jobs c) (sj_id r) = Some r" by simp
next
  assume "map_of (sc_jobs c) (sj_id r) = Some r"
  from map_of_SomeD [OF this] show "r \<in> snd ` set (sc_jobs c)" by force
qed

lemma content_wf_lease:
  assumes "content_wf c" and "map_of (sc_leases c) u = Some l"
  shows "gl_gpu_uuid l = u \<and> uuid_valid u
    \<and> (\<exists>r. map_of (sc_jobs c) (gl_job_id l) = Some r \<and> leaseable (sj_state r))"
proof -
  have "(u, l) \<in> set (sc_leases c)" using assms(2) by (rule map_of_SomeD)
  then show ?thesis
    using assms(1) lease_table_okD [OF _ assms(2)]
    by (auto simp: content_wf_def lease_matrix_ok_def list_all_iff split: option.splits)
qed

section \<open>Execution records\<close>

text \<open>The documented rules for an execution record in a given state.\<close>

definition execution_ok :: "JobExecutionRecord \<Rightarrow> JobState \<Rightarrow> JobSpec \<Rightarrow> bool" where
  "execution_ok e s spec \<longleftrightarrow>
     (er_identity e = blank_identity \<or> identity_valid (er_identity e))
   \<and> (s = kQueued \<longrightarrow> er_identity e = blank_identity \<and> er_log_path e = None)
   \<and> (s = kRunning \<or> s = kStopping \<longrightarrow> identity_valid (er_identity e))
   \<and> (\<not> is_terminal s \<longrightarrow> er_exit e = None \<and> er_end_time e = None \<and> er_failure_reason e = None)
   \<and> (\<forall>t. er_start_time e = Some t \<longrightarrow>
        identity_valid (er_identity e) \<and> js_submit_time spec \<le> t)
   \<and> (\<forall>t0 t. er_start_time e = Some t0 \<and> er_end_time e = Some t \<longrightarrow> t0 \<le> t)
   \<and> optional_text_ok kMaxFailureReasonBytes (er_failure_reason e)
   \<and> (\<forall>p. er_log_path e = Some p \<longrightarrow> absolute_path_ok kMaxLogPathBytes p)"

lemma identity_is_blank_iff: "identity_is_blank i \<longleftrightarrow> i = blank_identity"
  by (cases i) (simp add: identity_is_blank_def blank_identity_def)

lemma blank_not_valid [simp]: "\<not> identity_valid blank_identity"
  by (simp add: identity_valid_def blank_identity_def)

lemma check_identity_None:
  "check_identity e s = None \<longleftrightarrow>
     (er_identity e = blank_identity \<or> identity_valid (er_identity e))
   \<and> (s = kQueued \<longrightarrow> er_identity e = blank_identity)
   \<and> (s = kRunning \<or> s = kStopping \<longrightarrow> identity_valid (er_identity e))
   \<and> (\<not> is_terminal s \<longrightarrow> er_exit e = None)"
  by (auto simp: check_identity_def has_identity_def identity_is_blank_iff)

lemma check_times_None:
  "check_times e s spec = None \<longleftrightarrow>
     (\<forall>t. er_start_time e = Some t \<longrightarrow> identity_valid (er_identity e) \<and> js_submit_time spec \<le> t)
   \<and> (\<not> is_terminal s \<longrightarrow> er_end_time e = None)
   \<and> (\<forall>t0 t. er_start_time e = Some t0 \<and> er_end_time e = Some t \<longrightarrow> t0 \<le> t)"
  by (cases "er_start_time e"; cases "er_end_time e")
    (auto simp: check_times_def has_identity_def)

lemma check_reason_None:
  "check_reason e s = None \<longleftrightarrow>
     (\<not> is_terminal s \<longrightarrow> er_failure_reason e = None)
   \<and> optional_text_ok kMaxFailureReasonBytes (er_failure_reason e)"
  by (cases "er_failure_reason e") (auto simp: check_reason_def optional_text_ok_def)

lemma check_log_path_None:
  "check_log_path e s = None \<longleftrightarrow>
     (s = kQueued \<longrightarrow> er_log_path e = None)
   \<and> (\<forall>p. er_log_path e = Some p \<longrightarrow> absolute_path_ok kMaxLogPathBytes p)"
  by (cases "er_log_path e") (auto simp: check_log_path_def)

lemma check_not_kNone:
  "check_identity e s \<noteq> Some JobExecutionValidationCode.kNone"
  "check_times e s spec \<noteq> Some JobExecutionValidationCode.kNone"
  "check_reason e s \<noteq> Some JobExecutionValidationCode.kNone"
  "check_log_path e s \<noteq> Some JobExecutionValidationCode.kNone"
  by (simp_all add: check_identity_def check_times_def check_reason_def check_log_path_def
      split: option.split)

lemma validate_execution_iff:
  "validate_execution e s spec = JobExecutionValidationCode.kNone \<longleftrightarrow> execution_ok e s spec"
proof -
  have "validate_execution e s spec = JobExecutionValidationCode.kNone \<longleftrightarrow>
      check_identity e s = None \<and> check_times e s spec = None
    \<and> check_reason e s = None \<and> check_log_path e s = None"
    using check_not_kNone(1) [of e s] check_not_kNone(2) [of e s spec]
      check_not_kNone(3,4) [of e s]
    by (auto simp: validate_execution_def split: option.split)
  then show ?thesis
    unfolding execution_ok_def check_identity_None check_times_None check_reason_None
      check_log_path_None
    by blast
qed

lemma entry_count_eq:
  "entry_count m =
     (let n = length (sm_create_jobs m) + length (sm_update_jobs m)
            + length (sm_acquire_leases m) + length (sm_release_leases m)
      in if n \<le> kMaxEntries then n else kMaxEntries + 1)"
  by (auto simp: entry_count_def Let_def)

section \<open>A concrete run\<close>

definition demo_config :: ValidationConfig where
  "demo_config = \<lparr>vc_max_jobs = 4, vc_max_leases = 2\<rparr>"

definition demo_job :: StoredJob where
  "demo_job = \<lparr>sj_id = 7, sj_spec = demo_spec, sj_state = kQueued, sj_revision = 0,
     sj_execution = blank_execution\<rparr>"

definition demo_create :: StateMutation where
  "demo_create = empty_mutation\<lparr>sm_create_jobs := [demo_job]\<rparr>"

definition demo_start :: StateMutation where
  "demo_start = empty_mutation\<lparr>sm_expected_revision := 1,
     sm_update_jobs := [demo_job\<lparr>sj_state := kStarting, sj_revision := 1\<rparr>],
     sm_acquire_leases := [\<lparr>gl_gpu_uuid = ''GPU-a'', gl_job_id = 7\<rparr>]\<rparr>"

definition demo_store1 :: InMemoryStateStore where
  "demo_store1 = (empty_store demo_config)\<lparr>im_revision := 1, im_jobs := [(7, demo_job)]\<rparr>"

definition demo_store2 :: InMemoryStateStore where
  "demo_store2 = (empty_store demo_config)\<lparr>im_revision := 2,
     im_jobs := [(7, demo_job\<lparr>sj_state := kStarting, sj_revision := 1\<rparr>)],
     im_leases := [(''GPU-a'', \<lparr>gl_gpu_uuid = ''GPU-a'', gl_job_id = 7\<rparr>)]\<rparr>"

lemmas demo_defs = demo_config_def demo_job_def demo_create_def demo_start_def demo_store1_def
  demo_store2_def empty_store_def empty_mutation_def blank_execution_def

lemma demo_execution_valid:
  "validate_execution blank_execution s demo_spec = JobExecutionValidationCode.kNone"
  if "s = kQueued \<or> s = kStarting"
  using that
  by (auto simp: validate_execution_iff execution_ok_def blank_execution_def optional_text_ok_def)

lemma demo_create_applies:
  "im_apply (empty_store demo_config) demo_create
     = (\<lparr>swr_code = StateStoreErrorCode.kNone, swr_revision = 1\<rparr>, demo_store1)"
  using demo_execution_valid [of kQueued] demo_spec_valid
  by (simp add: im_apply_def apply_mutation_def demo_defs entry_count_eq kMaxEntries_def
      job_id_valid_def omap_contains_def lease_matrix_ok_def lease_count_def leaseable_def
      blank_execution_def)

lemma demo_start_applies:
  "im_apply demo_store1 demo_start
     = (\<lparr>swr_code = StateStoreErrorCode.kNone, swr_revision = 2\<rparr>, demo_store2)"
  using demo_execution_valid [of kStarting] demo_spec_valid
  by (simp add: im_apply_def apply_mutation_def demo_defs entry_count_eq kMaxEntries_def
      job_id_valid_def omap_contains_def lease_matrix_ok_def lease_count_def leaseable_def
      blank_execution_def same_spec_iff uuid_valid_def uuid_kMaxBytes_def NUL_def)

lemma demo_store1_reached: "im_step\<^sup>*\<^sup>* (empty_store demo_config) demo_store1"
  using step_apply [of "empty_store demo_config" demo_create] demo_create_applies
  by (metis r_into_rtranclp snd_conv)

lemma demo_store2_reached: "im_step\<^sup>*\<^sup>* (empty_store demo_config) demo_store2"
  using step_apply [of demo_store1 demo_start] demo_start_applies demo_store1_reached
  by (metis rtranclp.rtrancl_into_rtrancl snd_conv)

lemma demo_store1_inv: "im_inv demo_store1"
  using im_steps_sound [OF demo_store1_reached im_inv_empty] by blast

section \<open>Properties\<close>

text \<open>Property C2. Applying a mutation is all or nothing. On a well-formed store either the write is
  rejected and the persisted content is what it was, or it is accepted, the caller's expected
  revision was the current one, the revision grows by exactly one, the new content is the old
  one with the creations, updates, releases and acquisitions carried out, it is again well
  formed, and every job that existed still exists with the same specification, either unchanged
  or moved along the state graph.\<close>

theorem store_apply_atomic:
  assumes "im_inv s" and "im_apply s m = (r, s')"
  shows "im_inv s' \<and>
    (if swr_ok r
     then sm_expected_revision m = im_revision s \<and> swr_revision r = im_revision s + 1
        \<and> im_content s' = mutation_effect (im_content s) m
        \<and> jobs_evolve (im_jobs s) (im_jobs s')
     else im_content s' = im_content s)"
  using im_apply_accept [OF assms] im_apply_reject [OF assms]
  by (auto simp: im_content_def)

theorem store_apply_atomic_witness:
  "im_inv demo_store1 \<and> swr_ok (fst (im_apply demo_store1 demo_start))
   \<and> im_content demo_store2 = mutation_effect (im_content demo_store1) demo_start"
  using store_apply_atomic [OF demo_store1_inv demo_start_applies] demo_store1_inv
  by (simp add: swr_ok_def demo_start_applies)

text \<open>Property C10. GPUs are never shared. In every store content reachable from the empty store by any
  sequence of mutations and injected failures, each starting, running or stopping job holds
  exactly one GPU, no other job holds any, and each leased GPU belongs to exactly one job, which
  exists and is starting, running or stopping.\<close>

theorem lease_exclusive:
  assumes "im_step\<^sup>*\<^sup>* (empty_store config) s"
  shows "(\<forall>i r. map_of (im_jobs s) i = Some r \<longrightarrow>
      (if leaseable (sj_state r)
       then \<exists>!u. \<exists>l. map_of (im_leases s) u = Some l \<and> gl_job_id l = i
       else \<forall>u l. map_of (im_leases s) u = Some l \<longrightarrow> gl_job_id l \<noteq> i))
    \<and> (\<forall>u l. map_of (im_leases s) u = Some l \<longrightarrow> gl_gpu_uuid l = u
      \<and> (\<exists>r. map_of (im_jobs s) (gl_job_id l) = Some r \<and> leaseable (sj_state r)))"
proof -
  have wf: "content_wf (im_content s)"
    using im_steps_sound [OF assms im_inv_empty] by (simp add: im_inv_def)
  show ?thesis
    using content_wf_matrix [OF wf] content_wf_lease [OF wf]
    unfolding im_content_def store_content.simps by blast
qed

theorem lease_exclusive_witness:
  "map_of (im_jobs demo_store2) 7 = Some (demo_job\<lparr>sj_state := kStarting, sj_revision := 1\<rparr>)
   \<and> (\<exists>!u. \<exists>l. map_of (im_leases demo_store2) u = Some l \<and> gl_job_id l = 7)"
proof -
  have "map_of (im_jobs demo_store2) 7
      = Some (demo_job\<lparr>sj_state := kStarting, sj_revision := 1\<rparr>)"
    by (simp add: demo_store2_def)
  with lease_exclusive [OF demo_store2_reached] show ?thesis
    by (fastforce simp: leaseable_def)
qed

text \<open>Property C13. History is append-only. Between any two moments of a store's life no job disappears,
  no specification changes, a job's state only moves along the state graph, and the record of a
  job that has reached a terminal state is never written again.\<close>

theorem job_history:
  assumes "im_step\<^sup>*\<^sup>* (empty_store config) s" and "im_step\<^sup>*\<^sup>* s s'"
    and "map_of (im_jobs s) i = Some r"
  shows "\<exists>r'. map_of (im_jobs s') i = Some r' \<and> sj_spec r' = sj_spec r
    \<and> can_transition\<^sup>*\<^sup>* (sj_state r) (sj_state r')
    \<and> revision_fits (sj_state r') (sj_revision r')
    \<and> (is_terminal (sj_state r) \<longrightarrow> r' = r)"
proof -
  have inv: "im_inv s" using im_steps_sound [OF assms(1) im_inv_empty] by blast
  note snd = im_steps_sound [OF assms(2) inv]
  then obtain r' where r': "map_of (im_jobs s') i = Some r'" and ev: "job_evolves r r'"
    using assms(3) by (auto simp: jobs_evolve_def)
  have "stored_job_ok i r'"
    using snd r' by (auto simp: im_inv_def content_wf_def im_content_def intro: job_table_okD)
  with r' ev show ?thesis
    using job_evolves_terminal [OF ev]
    by (auto simp: job_evolves_def stored_job_ok_def intro: tranclp_into_rtranclp)
qed

theorem job_history_witness:
  "\<exists>r'. map_of (im_jobs demo_store2) 7 = Some r' \<and> sj_spec r' = demo_spec
    \<and> can_transition\<^sup>*\<^sup>* kQueued (sj_state r')"
proof -
  have "im_step\<^sup>*\<^sup>* demo_store1 demo_store2"
    using step_apply [of demo_store1 demo_start] demo_start_applies
    by (metis r_into_rtranclp snd_conv)
  moreover have "map_of (im_jobs demo_store1) 7 = Some demo_job"
    by (simp add: demo_store1_def)
  ultimately show ?thesis
    using job_history [OF demo_store1_reached, of demo_store2 7 demo_job]
    by (auto simp: demo_job_def)
qed

end
