(* ===== verification/Job_Queue.thy ===== *)
theory Job_Queue
  imports Store_Laws
begin

text \<open>
  The global FIFO queue (\<open>include/yori/queue/job_queue.hpp\<close>, \<open>src/queue/job_queue.cpp\<close>): a vector
  of (job id, submit time) entries kept sorted by \<open>entry_less\<close>, with \<open>admit\<close>, \<open>remove\<close> and
  \<open>restore\<close>, each returning the operation result with its event. \<open>std::lower_bound\<close> on the
  sorted vector is the length of the prefix of smaller entries, \<open>std::sort\<close> is \<open>sort_key\<close>. Every
  \<open>JobState\<close> of the model is one \<open>known_state\<close> accepts, so the \<open>kInvalidJobState\<close> branches have
  the constantly true guard of the source. The locale \<open>job_queue\<close> is what the scheduler, the
  recovery and the job manager rely on.
\<close>

section \<open>Definitions\<close>

definition kDefaultCapacity :: nat where "kDefaultCapacity = 1024"
definition kMaxCapacity :: nat where "kMaxCapacity = 4096"

datatype QueueErrorCode =
    kNone | kInvalidCapacity | kInvalidSnapshotRevision | kInvalidJobId | kInvalidJobSpec
  | kInvalidJobState | kInvalidJobRevision | kJobNotQueued | kDuplicateJob | kCapacityExceeded
  | kJobNotFound

datatype QueueEventKind =
    kNone | kAdmissionAccepted | kAdmissionRejected | kRemovalApplied | kRemovalRejected
  | kRestoreApplied | kRestoreRejected

record QueueEvent =
  qv_kind :: QueueEventKind
  qv_code :: QueueErrorCode
  qv_job_id :: "JobId option"
  qv_size_before :: nat
  qv_size_after :: nat
  qv_capacity :: nat

record QueueEntry =
  qe_job_id :: JobId
  qe_submit_time :: time_point

record QueueOperationResult =
  qr_code :: QueueErrorCode
  qr_event :: QueueEvent
  qr_position :: "nat option"
  qr_item_index :: "nat option"
  qr_spec_validation :: JobSpecValidationResult

record GlobalJobQueue =
  q_capacity :: nat
  q_entries :: "QueueEntry list"

definition qr_ok :: "QueueOperationResult \<Rightarrow> bool" where
  "qr_ok r \<longleftrightarrow> qr_code r = QueueErrorCode.kNone"

definition entry_less :: "QueueEntry \<Rightarrow> QueueEntry \<Rightarrow> bool" where
  "entry_less lhs rhs =
     (if qe_submit_time lhs \<noteq> qe_submit_time rhs then qe_submit_time lhs < qe_submit_time rhs
      else qe_job_id lhs < qe_job_id rhs)"

definition qe_key :: "QueueEntry \<Rightarrow> time_point \<times> JobId" where
  "qe_key e = (qe_submit_time e, qe_job_id e)"

fun known_state :: "JobState \<Rightarrow> bool" where
  "known_state kQueued = True"
| "known_state kStarting = True"
| "known_state kRunning = True"
| "known_state kStopping = True"
| "known_state kFinished = True"
| "known_state kFailed = True"
| "known_state kCancelled = True"
| "known_state kLost = True"

definition queue_result ::
  "QueueEventKind \<Rightarrow> QueueErrorCode \<Rightarrow> JobId option \<Rightarrow> nat \<Rightarrow> nat \<Rightarrow> nat \<Rightarrow> nat option
     \<Rightarrow> nat option \<Rightarrow> JobSpecValidationResult \<Rightarrow> QueueOperationResult" where
  "queue_result kind code job before after capacity position item validation =
     \<lparr>qr_code = code,
      qr_event = \<lparr>qv_kind = kind, qv_code = code, qv_job_id = job, qv_size_before = before,
                  qv_size_after = after, qv_capacity = capacity\<rparr>,
      qr_position = position, qr_item_index = item, qr_spec_validation = validation\<rparr>"

abbreviation spec_fine :: JobSpecValidationResult where
  "spec_fine \<equiv> jsv JobSpecErrorCode.kNone None"

definition queue_create :: "nat \<Rightarrow> QueueErrorCode + GlobalJobQueue" where
  "queue_create capacity =
     (if capacity = 0 \<or> capacity > kMaxCapacity then Inl kInvalidCapacity
      else Inr \<lparr>q_capacity = capacity, q_entries = []\<rparr>)"

definition queue_contains :: "GlobalJobQueue \<Rightarrow> JobId \<Rightarrow> bool" where
  "queue_contains q i \<longleftrightarrow> list_ex (\<lambda>e. qe_job_id e = i) (q_entries q)"

definition queue_front :: "GlobalJobQueue \<Rightarrow> QueueEntry option" where
  "queue_front q = (case q_entries q of [] \<Rightarrow> None | e # _ \<Rightarrow> Some e)"

definition queue_size :: "GlobalJobQueue \<Rightarrow> nat" where
  "queue_size q = length (q_entries q)"

definition entry_of :: "StoredJob \<Rightarrow> QueueEntry" where
  "entry_of r = \<lparr>qe_job_id = sj_id r, qe_submit_time = js_submit_time (sj_spec r)\<rparr>"

definition lower_bound :: "QueueEntry list \<Rightarrow> QueueEntry \<Rightarrow> nat" where
  "lower_bound es e = length (takeWhile (\<lambda>x. entry_less x e) es)"

definition queue_admit :: "GlobalJobQueue \<Rightarrow> StoredJob \<Rightarrow> GlobalJobQueue \<times> QueueOperationResult" where
  "queue_admit q record =
     (let size_before = length (q_entries q);
          reported = (if job_id_valid (sj_id record) then Some (sj_id record) else None);
          rejected = (\<lambda>code validation.
            (q, queue_result kAdmissionRejected code reported size_before size_before
                  (q_capacity q) None None validation));
          validation = job_validate (sj_spec record)
      in if \<not> job_id_valid (sj_id record) then rejected QueueErrorCode.kInvalidJobId spec_fine
      else if \<not> jsv_ok validation then rejected kInvalidJobSpec validation
      else if \<not> known_state (sj_state record) then rejected kInvalidJobState spec_fine
      else if sj_state record \<noteq> kQueued then rejected kJobNotQueued spec_fine
      else if sj_revision record \<noteq> 0 then rejected QueueErrorCode.kInvalidJobRevision spec_fine
      else if queue_contains q (sj_id record) then rejected kDuplicateJob spec_fine
      else if length (q_entries q) \<ge> q_capacity q
        then rejected QueueErrorCode.kCapacityExceeded spec_fine
      else
        (let entry = entry_of record;
             position = lower_bound (q_entries q) entry;
             entries = take position (q_entries q) @ entry # drop position (q_entries q)
         in (q\<lparr>q_entries := entries\<rparr>,
             queue_result kAdmissionAccepted QueueErrorCode.kNone (Some (sj_id record)) size_before
               (length entries) (q_capacity q) (Some position) None spec_fine)))"

text \<open>\<open>std::find_if\<close> with the erase of the found element.\<close>

fun find_position :: "JobId \<Rightarrow> QueueEntry list \<Rightarrow> nat option" where
  "find_position i [] = None"
| "find_position i (e # es) =
     (if qe_job_id e = i then Some 0 else map_option Suc (find_position i es))"

definition queue_remove :: "GlobalJobQueue \<Rightarrow> JobId \<Rightarrow> GlobalJobQueue \<times> QueueOperationResult" where
  "queue_remove q i =
     (let size_before = length (q_entries q) in
      if \<not> job_id_valid i
        then (q, queue_result kRemovalRejected QueueErrorCode.kInvalidJobId None size_before
                size_before (q_capacity q) None None spec_fine)
      else case find_position i (q_entries q) of
        None \<Rightarrow> (q, queue_result kRemovalRejected QueueErrorCode.kJobNotFound (Some i) size_before
                   size_before (q_capacity q) None None spec_fine)
      | Some position \<Rightarrow>
          (let entries = take position (q_entries q) @ drop (Suc position) (q_entries q) in
           (q\<lparr>q_entries := entries\<rparr>,
            queue_result kRemovalApplied QueueErrorCode.kNone (Some i) size_before
              (length entries) (q_capacity q) (Some position) None spec_fine)))"

text \<open>The loop of \<open>restore\<close>: the rejected result's code, id, index and validation, or the
  entries collected so far.\<close>

fun restore_loop ::
  "nat \<Rightarrow> StoredJob list \<Rightarrow> nat \<Rightarrow> JobId list \<Rightarrow> QueueEntry list
     \<Rightarrow> (QueueErrorCode \<times> JobId option \<times> nat \<times> JobSpecValidationResult) + QueueEntry list" where
  "restore_loop capacity [] index seen restored = Inr restored"
| "restore_loop capacity (record # rest) index seen restored =
     (let i = (if job_id_valid (sj_id record) then Some (sj_id record) else None);
          validation = job_validate (sj_spec record)
      in if \<not> job_id_valid (sj_id record)
           then Inl (QueueErrorCode.kInvalidJobId, None, index, spec_fine)
      else if \<not> jsv_ok validation then Inl (kInvalidJobSpec, i, index, validation)
      else if \<not> known_state (sj_state record) then Inl (kInvalidJobState, i, index, spec_fine)
      else if (sj_state record = kQueued \<and> sj_revision record \<noteq> 0)
              \<or> (sj_state record \<noteq> kQueued \<and> sj_revision record = 0)
        then Inl (QueueErrorCode.kInvalidJobRevision, i, index, spec_fine)
      else if sj_id record \<in> set seen then Inl (kDuplicateJob, i, index, spec_fine)
      else if sj_state record \<noteq> kQueued
        then restore_loop capacity rest (Suc index) (sj_id record # seen) restored
      else if length restored \<ge> capacity
        then Inl (QueueErrorCode.kCapacityExceeded, i, index, spec_fine)
      else restore_loop capacity rest (Suc index) (sj_id record # seen)
             (restored @ [entry_of record]))"

definition queue_restore ::
  "GlobalJobQueue \<Rightarrow> StateSnapshot \<Rightarrow> GlobalJobQueue \<times> QueueOperationResult" where
  "queue_restore q snapshot =
     (let size_before = length (q_entries q);
          rejected = (\<lambda>code i item validation.
            (q, queue_result kRestoreRejected code i size_before size_before (q_capacity q)
                  None item validation))
      in if ss_revision snapshot = 0 \<and> (ss_jobs snapshot \<noteq> [] \<or> ss_leases snapshot \<noteq> [])
           then rejected kInvalidSnapshotRevision None None spec_fine
      else case restore_loop (q_capacity q) (ss_jobs snapshot) 0 [] [] of
        Inl (code, i, index, validation) \<Rightarrow> rejected code i (Some index) validation
      | Inr restored \<Rightarrow>
          (let entries = sort_key qe_key restored in
           (q\<lparr>q_entries := entries\<rparr>,
            queue_result kRestoreApplied QueueErrorCode.kNone None size_before (length entries)
              (q_capacity q) None None spec_fine)))"

fun QueueErrorCode_to_string :: "QueueErrorCode \<Rightarrow> string" where
  "QueueErrorCode_to_string QueueErrorCode.kNone = ''NONE''"
| "QueueErrorCode_to_string kInvalidCapacity = ''INVALID_CAPACITY''"
| "QueueErrorCode_to_string kInvalidSnapshotRevision = ''INVALID_SNAPSHOT_REVISION''"
| "QueueErrorCode_to_string QueueErrorCode.kInvalidJobId = ''INVALID_JOB_ID''"
| "QueueErrorCode_to_string kInvalidJobSpec = ''INVALID_JOB_SPEC''"
| "QueueErrorCode_to_string kInvalidJobState = ''INVALID_JOB_STATE''"
| "QueueErrorCode_to_string QueueErrorCode.kInvalidJobRevision = ''INVALID_JOB_REVISION''"
| "QueueErrorCode_to_string kJobNotQueued = ''JOB_NOT_QUEUED''"
| "QueueErrorCode_to_string kDuplicateJob = ''DUPLICATE_JOB''"
| "QueueErrorCode_to_string QueueErrorCode.kCapacityExceeded = ''CAPACITY_EXCEEDED''"
| "QueueErrorCode_to_string QueueErrorCode.kJobNotFound = ''JOB_NOT_FOUND''"

fun QueueEventKind_to_string :: "QueueEventKind \<Rightarrow> string" where
  "QueueEventKind_to_string QueueEventKind.kNone = ''NONE''"
| "QueueEventKind_to_string kAdmissionAccepted = ''ADMISSION_ACCEPTED''"
| "QueueEventKind_to_string kAdmissionRejected = ''ADMISSION_REJECTED''"
| "QueueEventKind_to_string kRemovalApplied = ''REMOVAL_APPLIED''"
| "QueueEventKind_to_string kRemovalRejected = ''REMOVAL_REJECTED''"
| "QueueEventKind_to_string kRestoreApplied = ''RESTORE_APPLIED''"
| "QueueEventKind_to_string kRestoreRejected = ''RESTORE_REJECTED''"

section \<open>The invariant and the contract\<close>

definition entry_ids :: "QueueEntry list \<Rightarrow> JobId set" where
  "entry_ids es = qe_job_id ` set es"

definition queue_inv :: "GlobalJobQueue \<Rightarrow> bool" where
  "queue_inv q \<longleftrightarrow>
     sorted_wrt entry_less (q_entries q) \<and> distinct (map qe_job_id (q_entries q))
   \<and> length (q_entries q) \<le> q_capacity q \<and> 0 < q_capacity q \<and> q_capacity q \<le> kMaxCapacity
   \<and> list_all (\<lambda>e. job_id_valid (qe_job_id e)) (q_entries q)"

text \<open>When a record may enter the queue, apart from room and duplicates.\<close>

definition admissible :: "StoredJob \<Rightarrow> bool" where
  "admissible r \<longleftrightarrow> job_id_valid (sj_id r) \<and> jsv_ok (job_validate (sj_spec r))
     \<and> sj_state r = kQueued \<and> sj_revision r = 0"

locale job_queue =
  fixes admit :: "'q \<Rightarrow> StoredJob \<Rightarrow> 'q \<times> QueueOperationResult"
    and remove :: "'q \<Rightarrow> JobId \<Rightarrow> 'q \<times> QueueOperationResult"
    and entries :: "'q \<Rightarrow> QueueEntry list"
    and capacity :: "'q \<Rightarrow> nat"
    and inv :: "'q \<Rightarrow> bool"
  assumes inv_sorted: "inv q \<Longrightarrow> sorted_wrt entry_less (entries q)"
    and inv_distinct: "inv q \<Longrightarrow> distinct (map qe_job_id (entries q))"
    and inv_bounded: "inv q \<Longrightarrow> length (entries q) \<le> capacity q"
    and inv_ids: "inv q \<Longrightarrow> i \<in> entry_ids (entries q) \<Longrightarrow> job_id_valid i"
    and inv_ext: "inv q \<Longrightarrow> inv q' \<Longrightarrow> capacity q = capacity q' \<Longrightarrow> entries q = entries q' \<Longrightarrow> q = q'"
    and admit_ok_iff: "inv q \<Longrightarrow> qr_ok (snd (admit q r)) \<longleftrightarrow>
      admissible r \<and> sj_id r \<notin> entry_ids (entries q) \<and> length (entries q) < capacity q"
    and admit_ok: "inv q \<Longrightarrow> qr_ok (snd (admit q r)) \<Longrightarrow>
      inv (fst (admit q r)) \<and> capacity (fst (admit q r)) = capacity q
      \<and> set (entries (fst (admit q r))) = insert (entry_of r) (set (entries q))"
    and admit_rejected: "\<not> qr_ok (snd (admit q r)) \<Longrightarrow> fst (admit q r) = q"
    and remove_ok_iff: "inv q \<Longrightarrow>
      qr_ok (snd (remove q i)) \<longleftrightarrow> i \<in> entry_ids (entries q)"
    and remove_ok: "inv q \<Longrightarrow> qr_ok (snd (remove q i)) \<Longrightarrow>
      inv (fst (remove q i)) \<and> capacity (fst (remove q i)) = capacity q
      \<and> entries (fst (remove q i)) = filter (\<lambda>e. qe_job_id e \<noteq> i) (entries q)"
    and remove_rejected: "\<not> qr_ok (snd (remove q i)) \<Longrightarrow> fst (remove q i) = q"

lemma entry_less_key: "entry_less a b \<longleftrightarrow> qe_key a < qe_key b"
  by (auto simp: entry_less_def qe_key_def less_prod_def')

lemma entry_less_fun: "entry_less = (\<lambda>a b. qe_key a < qe_key b)"
  by (simp add: fun_eq_iff entry_less_key)

lemma qe_key_inj: "qe_key a = qe_key b \<Longrightarrow> a = b"
  by (cases a; cases b) (auto simp: qe_key_def)

lemma sorted_entries_unique:
  assumes "sorted_wrt entry_less xs" and "sorted_wrt entry_less ys" and "set xs = set ys"
  shows "xs = ys"
proof -
  have "sorted_wrt (<) (map qe_key xs)" "sorted_wrt (<) (map qe_key ys)"
    using assms(1,2) by (simp_all add: entry_less_fun sorted_wrt_map)
  then have "map qe_key xs = map qe_key ys"
    using assms(3) by (intro strict_sorted_equal) auto
  then show ?thesis
    by (rule map_injective) (auto simp: inj_def dest: qe_key_inj)
qed

context job_queue
begin

text \<open>The scheduler's rollback: a job taken out of the queue and admitted again leaves the
  queue as it was.\<close>

lemma rollback:
  assumes inv: "inv q" and adm: "admissible r" and mem: "entry_of r \<in> set (entries q)"
  shows "qr_ok (snd (remove q (sj_id r)))
    \<and> qr_ok (snd (admit (fst (remove q (sj_id r))) r))
    \<and> fst (admit (fst (remove q (sj_id r))) r) = q"
proof -
  let ?q1 = "fst (remove q (sj_id r))"
  have id: "sj_id r \<in> entry_ids (entries q)"
    using mem by (force simp: entry_ids_def entry_of_def)
  then have ok1: "qr_ok (snd (remove q (sj_id r)))"
    using inv by (simp add: remove_ok_iff)
  from remove_ok [OF inv ok1] have inv1: "inv ?q1" and cap1: "capacity ?q1 = capacity q"
    and es1: "entries ?q1 = filter (\<lambda>e. qe_job_id e \<noteq> sj_id r) (entries q)" by auto
  have "length (entries ?q1) < length (entries q)"
    using id by (auto simp: es1 entry_ids_def intro!: length_filter_less)
  then have ok2: "qr_ok (snd (admit ?q1 r))"
    using inv1 adm inv_bounded [OF inv]
    by (auto simp: admit_ok_iff es1 cap1 entry_ids_def)
  from admit_ok [OF inv1 ok2] have inv2: "inv (fst (admit ?q1 r))"
    and cap2: "capacity (fst (admit ?q1 r)) = capacity q"
    and es2: "set (entries (fst (admit ?q1 r))) = insert (entry_of r) (set (entries ?q1))"
    using cap1 by auto
  have "e = entry_of r" if "e \<in> set (entries q)" "qe_job_id e = sj_id r" for e
    using that mem inv_distinct [OF inv]
    by (auto simp: distinct_map inj_on_def entry_of_def)
  then have "set (entries (fst (admit ?q1 r))) = set (entries q)"
    using mem by (auto simp: es2 es1)
  then have "entries (fst (admit ?q1 r)) = entries q"
    by (rule sorted_entries_unique [OF inv_sorted [OF inv2] inv_sorted [OF inv]])
  with ok1 ok2 inv2 cap2 inv show ?thesis using inv_ext by blast
qed

lemma remove_ids:
  assumes "inv q" and "qr_ok (snd (remove q i))"
  shows "entry_ids (entries (fst (remove q i))) = entry_ids (entries q) - {i}"
  using remove_ok [OF assms] by (auto simp: entry_ids_def)

lemma admit_ids:
  assumes "inv q" and "qr_ok (snd (admit q r))"
  shows "entry_ids (entries (fst (admit q r))) = insert (sj_id r) (entry_ids (entries q))"
  using admit_ok [OF assms] by (auto simp: entry_ids_def entry_of_def)

end

section \<open>The queue meets the contract\<close>

lemma sorted_dropWhile_less:
  assumes "sorted_wrt entry_less es" and "x \<in> set (dropWhile (\<lambda>x. entry_less x e) es)"
  shows "\<not> entry_less x e"
  using assms
proof (induction es)
  case (Cons a es)
  then show ?case
    by (cases "entry_less a e") (auto simp: entry_less_key)
qed simp

lemma insert_at_lower_bound:
  assumes "sorted_wrt entry_less es" and "qe_job_id e \<notin> entry_ids es"
  defines "es' \<equiv> take (lower_bound es e) es @ e # drop (lower_bound es e) es"
  shows "sorted_wrt entry_less es' \<and> set es' = insert e (set es) \<and> length es' = Suc (length es)"
proof -
  let ?P = "\<lambda>x. entry_less x e"
  have es': "es' = takeWhile ?P es @ e # dropWhile ?P es"
    by (simp add: es'_def lower_bound_def takeWhile_eq_take [symmetric] dropWhile_eq_drop [symmetric])
  have "set es = set (takeWhile ?P es) \<union> set (dropWhile ?P es)"
    by (metis set_append takeWhile_dropWhile_id)
  moreover have "sorted_wrt entry_less (takeWhile ?P es @ dropWhile ?P es)"
    using assms(1) by simp
  moreover have "entry_less e y" if "y \<in> set (dropWhile ?P es)" for y
  proof -
    have "qe_job_id y \<noteq> qe_job_id e"
      using that assms(2) by (metis entry_ids_def imageI set_dropWhileD)
    then have "qe_key y \<noteq> qe_key e" by (auto simp: qe_key_def)
    with sorted_dropWhile_less [OF assms(1) that] show ?thesis by (simp add: entry_less_key)
  qed
  moreover have "entry_less x e" if "x \<in> set (takeWhile ?P es)" for x
    using that by (rule set_takeWhileD [THEN conjunct2])
  moreover have "length es' = Suc (length es)"
    by (simp add: es'_def lower_bound_def length_takeWhile_le)
  ultimately show ?thesis
    by (auto simp: es' sorted_wrt_append entry_less_key intro: less_trans)
qed

lemma distinct_map_insert:
  assumes "distinct (map f (xs @ ys))" and "f e \<notin> f ` set (xs @ ys)"
  shows "distinct (map f (xs @ e # ys))"
  using assms by auto

lemma find_position_None: "find_position i es = None \<longleftrightarrow> i \<notin> entry_ids es"
  by (induction es) (auto simp: entry_ids_def)

lemma find_position_Some:
  "find_position i es = Some p \<Longrightarrow> distinct (map qe_job_id es) \<Longrightarrow>
   p < length es \<and> qe_job_id (es ! p) = i
   \<and> take p es @ drop (Suc p) es = filter (\<lambda>e. qe_job_id e \<noteq> i) es"
proof (induction es arbitrary: p)
  case (Cons e es)
  show ?case
  proof (cases "qe_job_id e = i")
    case True
    then have "filter (\<lambda>e. qe_job_id e \<noteq> i) es = es"
      using Cons.prems(2) by (auto simp: filter_id_conv) (metis imageI)
    with True Cons.prems show ?thesis by simp
  next
    case False
    with Cons show ?thesis by auto
  qed
qed simp

lemma known_state_True [simp]: "known_state s"
  by (cases s) simp_all

lemma queue_contains_iff: "queue_contains q i \<longleftrightarrow> i \<in> entry_ids (q_entries q)"
  by (auto simp: queue_contains_def entry_ids_def list_ex_iff)

lemma queue_admit_fst:
  "fst (queue_admit q r) =
     (if admissible r \<and> sj_id r \<notin> entry_ids (q_entries q) \<and> length (q_entries q) < q_capacity q
      then q\<lparr>q_entries := take (lower_bound (q_entries q) (entry_of r)) (q_entries q)
              @ entry_of r # drop (lower_bound (q_entries q) (entry_of r)) (q_entries q)\<rparr>
      else q)"
  and queue_admit_ok_iff:
  "qr_ok (snd (queue_admit q r)) \<longleftrightarrow>
     admissible r \<and> sj_id r \<notin> entry_ids (q_entries q) \<and> length (q_entries q) < q_capacity q"
  by (auto simp: queue_admit_def Let_def queue_contains_iff admissible_def queue_result_def
      qr_ok_def)

lemma queue_admit_ok:
  assumes inv: "queue_inv q" and ok: "qr_ok (snd (queue_admit q r))"
  shows "queue_inv (fst (queue_admit q r)) \<and> q_capacity (fst (queue_admit q r)) = q_capacity q
    \<and> set (q_entries (fst (queue_admit q r))) = insert (entry_of r) (set (q_entries q))"
proof -
  let ?e = "entry_of r" and ?es = "q_entries q"
  let ?es' = "take (lower_bound ?es ?e) ?es @ ?e # drop (lower_bound ?es ?e) ?es"
  have adm: "admissible r" and new: "sj_id r \<notin> entry_ids ?es"
    and room: "length ?es < q_capacity q"
    using ok by (auto simp: queue_admit_ok_iff)
  have q': "fst (queue_admit q r) = q\<lparr>q_entries := ?es'\<rparr>"
    using adm new room by (simp add: queue_admit_fst)
  have id: "qe_job_id ?e = sj_id r" by (simp add: entry_of_def)
  have ins: "sorted_wrt entry_less ?es' \<and> set ?es' = insert ?e (set ?es)
      \<and> length ?es' = Suc (length ?es)"
    using inv new id by (intro insert_at_lower_bound) (auto simp: queue_inv_def)
  have "distinct (map qe_job_id ?es')"
    using inv new id
    by (intro distinct_map_insert) (simp_all add: queue_inv_def entry_ids_def)
  with inv adm ins room id show ?thesis
    unfolding q' by (auto simp: queue_inv_def admissible_def list_all_iff)
qed

lemma queue_remove_ok_iff:
  assumes "queue_inv q"
  shows "qr_ok (snd (queue_remove q i)) \<longleftrightarrow> i \<in> entry_ids (q_entries q)"
proof -
  have "job_id_valid i" if "i \<in> entry_ids (q_entries q)"
    using that assms by (auto simp: entry_ids_def queue_inv_def list_all_iff)
  then show ?thesis
    using find_position_None [of i "q_entries q"]
    by (auto simp: queue_remove_def Let_def queue_result_def qr_ok_def split: option.splits)
qed

lemma queue_remove_ok:
  assumes inv: "queue_inv q" and ok: "qr_ok (snd (queue_remove q i))"
  shows "queue_inv (fst (queue_remove q i)) \<and> q_capacity (fst (queue_remove q i)) = q_capacity q
    \<and> q_entries (fst (queue_remove q i)) = filter (\<lambda>e. qe_job_id e \<noteq> i) (q_entries q)"
proof -
  from ok obtain p where p: "find_position i (q_entries q) = Some p" and "job_id_valid i"
    by (auto simp: queue_remove_def Let_def queue_result_def qr_ok_def
        split: option.splits if_splits)
  then have q': "fst (queue_remove q i)
      = q\<lparr>q_entries := filter (\<lambda>e. qe_job_id e \<noteq> i) (q_entries q)\<rparr>"
    using find_position_Some [OF p] inv by (simp add: queue_remove_def Let_def queue_inv_def)
  show ?thesis
    unfolding q' using inv
    by (auto simp: queue_inv_def sorted_wrt_filter distinct_map_filter list_all_iff
        intro: le_trans [OF length_filter_le])
qed

interpretation jq: job_queue queue_admit queue_remove q_entries q_capacity queue_inv
proof unfold_locales
  fix q q' :: GlobalJobQueue and i r
  show "sorted_wrt entry_less (q_entries q)" "distinct (map qe_job_id (q_entries q))"
      "length (q_entries q) \<le> q_capacity q" if "queue_inv q"
    using that by (simp_all add: queue_inv_def)
  show "job_id_valid i" if "queue_inv q" "i \<in> entry_ids (q_entries q)"
    using that by (auto simp: queue_inv_def entry_ids_def list_all_iff)
  show "q = q'" if "q_capacity q = q_capacity q'" "q_entries q = q_entries q'"
    using that by (cases q; cases q') simp
  show "qr_ok (snd (queue_admit q r)) \<longleftrightarrow> admissible r \<and> sj_id r \<notin> entry_ids (q_entries q)
      \<and> length (q_entries q) < q_capacity q"
    by (rule queue_admit_ok_iff)
  show "fst (queue_admit q r) = q" if "\<not> qr_ok (snd (queue_admit q r))"
    using that by (simp only: queue_admit_fst queue_admit_ok_iff if_False)
  show "fst (queue_remove q i) = q" if "\<not> qr_ok (snd (queue_remove q i))"
    using that
    by (auto simp: queue_remove_def Let_def queue_result_def qr_ok_def split: option.splits)
qed (simp_all add: queue_admit_ok queue_remove_ok queue_remove_ok_iff)

section \<open>Restoring\<close>

definition queued_jobs :: "StoredJob list \<Rightarrow> StoredJob list" where
  "queued_jobs rs = filter (\<lambda>r. sj_state r = kQueued) rs"

definition restorable :: "StoredJob \<Rightarrow> bool" where
  "restorable r \<longleftrightarrow> job_id_valid (sj_id r) \<and> jsv_ok (job_validate (sj_spec r))
     \<and> (sj_revision r = 0 \<longleftrightarrow> sj_state r = kQueued)"

lemma restore_loop_complete:
  assumes "list_all restorable rs" and "distinct (map sj_id rs)" and "set seen \<inter> sj_id ` set rs = {}"
    and "length restored + length (queued_jobs rs) \<le> capacity"
  shows "restore_loop capacity rs k seen restored = Inr (restored @ map entry_of (queued_jobs rs))"
  using assms
proof (induction rs arbitrary: k seen restored)
  case (Cons r rs)
  then show ?case
    by (cases "sj_state r = kQueued") (auto simp: restorable_def queued_jobs_def Let_def)
qed (simp add: queued_jobs_def)

lemma restore_loop_code:
  "restore_loop capacity rs k seen restored = Inl (c, i, n, v) \<Longrightarrow> c \<noteq> QueueErrorCode.kNone"
  by (induction rs arbitrary: k seen restored) (auto simp: Let_def split: if_splits)

lemma restore_loop_sound:
  assumes "restore_loop capacity rs k seen restored = Inr es" and "length restored \<le> capacity"
  shows "es = restored @ map entry_of (queued_jobs rs) \<and> length es \<le> capacity
    \<and> list_all restorable rs \<and> distinct (map sj_id rs) \<and> set seen \<inter> sj_id ` set rs = {}"
  using assms
proof (induction rs arbitrary: k seen restored)
  case (Cons r rs)
  from Cons.prems(1) have r: "restorable r" "sj_id r \<notin> set seen"
    by (auto simp: Let_def restorable_def split: if_splits)
  show ?case
  proof (cases "sj_state r = kQueued")
    case True
    with Cons.prems have "restore_loop capacity rs (Suc k) (sj_id r # seen)
        (restored @ [entry_of r]) = Inr es" and "length (restored @ [entry_of r]) \<le> capacity"
      by (auto simp: Let_def split: if_splits)
    from Cons.IH [OF this] r True show ?thesis by (auto simp: queued_jobs_def)
  next
    case False
    with Cons.prems have "restore_loop capacity rs (Suc k) (sj_id r # seen) restored = Inr es"
      by (auto simp: Let_def split: if_splits)
    from Cons.IH [OF this Cons.prems(2)] r False show ?thesis by (auto simp: queued_jobs_def)
  qed
qed (simp add: queued_jobs_def)

lemma sorted_wrt_sort_key:
  assumes "distinct (map qe_job_id es)"
  shows "sorted_wrt entry_less (sort_key qe_key es)"
proof -
  have "inj_on qe_key (set es)" by (auto simp: inj_on_def dest: qe_key_inj)
  then have "distinct (map qe_key (sort_key qe_key es))"
    using assms by (simp add: distinct_map)
  moreover have "sorted (map qe_key (sort_key qe_key es))" by (rule sorted_sort_key)
  ultimately have "sorted_wrt (<) (map qe_key (sort_key qe_key es))"
    by (simp add: strict_sorted_iff)
  then show ?thesis by (simp add: entry_less_fun sorted_wrt_map)
qed

lemma queue_restore_ok_iff:
  "qr_ok (snd (queue_restore q snap)) \<longleftrightarrow>
     \<not> (ss_revision snap = 0 \<and> (ss_jobs snap \<noteq> [] \<or> ss_leases snap \<noteq> []))
   \<and> list_all restorable (ss_jobs snap) \<and> distinct (map sj_id (ss_jobs snap))
   \<and> length (queued_jobs (ss_jobs snap)) \<le> q_capacity q"
proof (cases "ss_revision snap = 0 \<and> (ss_jobs snap \<noteq> [] \<or> ss_leases snap \<noteq> [])")
  case True
  then show ?thesis by (simp add: queue_restore_def qr_ok_def queue_result_def Let_def)
next
  case False
  show ?thesis
  proof (cases "restore_loop (q_capacity q) (ss_jobs snap) 0 [] []")
    case (Inl e)
    then have "\<not> (list_all restorable (ss_jobs snap) \<and> distinct (map sj_id (ss_jobs snap))
        \<and> length (queued_jobs (ss_jobs snap)) \<le> q_capacity q)"
      using restore_loop_complete [of "ss_jobs snap" "[]" "[]" "q_capacity q" 0] by auto
    moreover obtain c i k v where e: "e = (c, i, k, v)" by (cases e)
    moreover have "c \<noteq> QueueErrorCode.kNone"
      using Inl unfolding e by (rule restore_loop_code)
    ultimately show ?thesis
      using False Inl by (auto simp: queue_restore_def qr_ok_def queue_result_def Let_def)
  next
    case (Inr es)
    with False restore_loop_sound [OF Inr] show ?thesis
      by (auto simp: queue_restore_def qr_ok_def queue_result_def Let_def)
  qed
qed

lemma queue_restore_ok:
  assumes ok: "qr_ok (snd (queue_restore q snap))" and cap: "0 < q_capacity q"
    "q_capacity q \<le> kMaxCapacity"
  shows "queue_inv (fst (queue_restore q snap))"
    and "q_capacity (fst (queue_restore q snap)) = q_capacity q"
    and "q_entries (fst (queue_restore q snap))
      = sort_key qe_key (map entry_of (queued_jobs (ss_jobs snap)))"
proof -
  let ?es = "map entry_of (queued_jobs (ss_jobs snap))"
  have facts: "\<not> (ss_revision snap = 0 \<and> (ss_jobs snap \<noteq> [] \<or> ss_leases snap \<noteq> []))"
      "list_all restorable (ss_jobs snap)" "distinct (map sj_id (ss_jobs snap))"
      "length (queued_jobs (ss_jobs snap)) \<le> q_capacity q"
    using ok by (auto simp: queue_restore_ok_iff)
  have "restore_loop (q_capacity q) (ss_jobs snap) 0 [] [] = Inr ?es"
    using restore_loop_complete [OF facts(2,3), of "[]" "[]" "q_capacity q" 0] facts(4) by simp
  then have q': "fst (queue_restore q snap) = q\<lparr>q_entries := sort_key qe_key ?es\<rparr>"
    unfolding queue_restore_def Let_def using facts(1) by auto
  have ids: "map qe_job_id ?es = map sj_id (queued_jobs (ss_jobs snap))"
    by (simp add: entry_of_def comp_def)
  have dist: "distinct (map qe_job_id ?es)"
    unfolding ids using facts(3) by (simp add: queued_jobs_def distinct_map_filter)
  then have "distinct (map qe_job_id (sort_key qe_key ?es))"
    by (simp only: distinct_map distinct_sort set_sort simp_thms)
  then show "queue_inv (fst (queue_restore q snap))"
    using facts cap sorted_wrt_sort_key [OF dist]
    by (auto simp: q' queue_inv_def list_all_iff queued_jobs_def restorable_def entry_of_def)
  show "q_capacity (fst (queue_restore q snap)) = q_capacity q"
    "q_entries (fst (queue_restore q snap)) = sort_key qe_key ?es"
    by (simp_all add: q')
qed

lemma queue_restore_rejected: "\<not> qr_ok (snd (queue_restore q snap)) \<Longrightarrow> fst (queue_restore q snap) = q"
  by (auto simp: queue_restore_def qr_ok_def queue_result_def Let_def split: sum.splits)

text \<open>The queue mirrors the store: its entries are exactly those of the queued jobs.\<close>

definition queue_mirrors :: "GlobalJobQueue \<Rightarrow> store_content \<Rightarrow> bool" where
  "queue_mirrors q c \<longleftrightarrow>
     set (q_entries q) = entry_of ` set (queued_jobs (map snd (sc_jobs c)))"

lemma content_wf_restorable:
  assumes "content_wf c"
  shows "list_all restorable (map snd (sc_jobs c))" and "distinct (map sj_id (map snd (sc_jobs c)))"
proof -
  have jt: "job_table_ok (sc_jobs c)" using assms by (simp add: content_wf_def)
  have "restorable r" if "stored_job_ok i r" for i r
    using that revision_fits_queued by (auto simp: stored_job_ok_def restorable_def)
  with jt show "list_all restorable (map snd (sc_jobs c))"
    by (auto simp: job_table_ok_def list_all_iff)
  have "map sj_id (map snd (sc_jobs c)) = map fst (sc_jobs c)"
    using jt by (auto simp: job_table_ok_def list_all_iff stored_job_ok_def)
  then show "distinct (map sj_id (map snd (sc_jobs c)))"
    using jt by (simp only: job_table_ok_def omap_wf_distinct)
qed

lemma queue_mirrors_iff:
  assumes "content_wf c"
  shows "queue_mirrors q c \<longleftrightarrow>
    (\<forall>e. e \<in> set (q_entries q) \<longleftrightarrow>
      (\<exists>r. map_of (sc_jobs c) (qe_job_id e) = Some r \<and> sj_state r = kQueued \<and> entry_of r = e))"
proof -
  have "e \<in> entry_of ` set (queued_jobs (map snd (sc_jobs c))) \<longleftrightarrow>
      (\<exists>r. map_of (sc_jobs c) (qe_job_id e) = Some r \<and> sj_state r = kQueued \<and> entry_of r = e)" for e
    using content_wf_range [OF assms]
    by (auto simp: queued_jobs_def entry_of_def image_iff)
  then show ?thesis by (auto simp: queue_mirrors_def set_eq_iff)
qed

lemma restore_mirrors:
  assumes "content_wf c" and "sc_revision c \<noteq> 0 \<or> (sc_jobs c = [] \<and> sc_leases c = [])"
    and "length (queued_jobs (map snd (sc_jobs c))) \<le> q_capacity q"
    and "0 < q_capacity q" and "q_capacity q \<le> kMaxCapacity"
  shows "qr_ok (snd (queue_restore q (snapshot_of c)))
    \<and> queue_inv (fst (queue_restore q (snapshot_of c)))
    \<and> q_capacity (fst (queue_restore q (snapshot_of c))) = q_capacity q
    \<and> queue_mirrors (fst (queue_restore q (snapshot_of c))) c"
proof -
  have "qr_ok (snd (queue_restore q (snapshot_of c)))"
    using assms content_wf_restorable [OF assms(1)]
    by (auto simp: queue_restore_ok_iff snapshot_of_def)
  from queue_restore_ok [OF this assms(4,5)] this show ?thesis
    by (simp add: queue_mirrors_def snapshot_of_def)
qed

lemma queue_mirrors_unique:
  assumes "queue_inv q" "queue_inv q'" "queue_mirrors q c" "queue_mirrors q' c"
    and "q_capacity q = q_capacity q'"
  shows "q = q'"
proof -
  have "q_entries q = q_entries q'"
    using assms by (intro sorted_entries_unique) (auto simp: queue_inv_def queue_mirrors_def)
  with assms(5) show ?thesis by (cases q; cases q') simp
qed

section \<open>Runs of the queue\<close>

inductive queue_step :: "GlobalJobQueue \<Rightarrow> GlobalJobQueue \<Rightarrow> bool" where
  step_admit: "queue_step q (fst (queue_admit q r))"
| step_remove: "queue_step q (fst (queue_remove q i))"
| step_restore: "queue_step q (fst (queue_restore q snap))"

lemma queue_create_inv: "queue_create n = Inr q \<Longrightarrow> queue_inv q \<and> q_capacity q = n"
  by (auto simp: queue_create_def queue_inv_def split: if_splits)

lemma queue_step_inv:
  assumes "queue_step q q'" and "queue_inv q"
  shows "queue_inv q' \<and> q_capacity q' = q_capacity q"
  using assms(1)
proof cases
  case (step_admit r)
  with assms(2) jq.admit_rejected [of q r] queue_admit_ok [of q r] show ?thesis by metis
next
  case (step_remove i)
  with assms(2) jq.remove_rejected [of q i] queue_remove_ok [of q i] show ?thesis by metis
next
  case (step_restore snap)
  with assms(2) queue_restore_rejected [of q snap] queue_restore_ok(1,2) [of q snap]
  show ?thesis by (metis queue_inv_def)
qed

lemma queue_steps_inv:
  assumes "queue_step\<^sup>*\<^sup>* q q'" and "queue_inv q"
  shows "queue_inv q' \<and> q_capacity q' = q_capacity q"
  using assms by (induction rule: rtranclp_induct) (auto dest: queue_step_inv)

section \<open>Properties\<close>

text \<open>Property C15. The queue is a bounded strict FIFO. After any sequence of \<open>admit\<close>, \<open>remove\<close> and
  \<open>restore\<close> calls on a queue made by \<open>create\<close>, no job is queued twice, the queue holds at most
  its capacity, and its entries are strictly ordered by (submit time, job id), so the front is
  the job that was submitted first.\<close>

theorem queue_fifo:
  assumes "queue_create n = Inr q0" and "queue_step\<^sup>*\<^sup>* q0 q"
  shows "distinct (map qe_job_id (q_entries q)) \<and> length (q_entries q) \<le> n
    \<and> sorted_wrt entry_less (q_entries q)
    \<and> (\<forall>e. queue_front q = Some e \<longrightarrow>
         (\<forall>e' \<in> set (q_entries q). e' = e \<or> entry_less e e'))"
proof -
  have inv: "queue_inv q" and cap: "q_capacity q = n"
    using queue_create_inv [OF assms(1)] queue_steps_inv [OF assms(2)] by auto
  then show ?thesis
    by (auto simp: queue_inv_def queue_front_def split: list.splits)
qed

definition demo_queue :: GlobalJobQueue where
  "demo_queue = \<lparr>q_capacity = 2, q_entries = [\<lparr>qe_job_id = 7, qe_submit_time = 5\<rparr>]\<rparr>"

lemma demo_admissible: "admissible demo_job"
  using demo_spec_valid by (simp add: admissible_def demo_job_def job_id_valid_def)

lemma demo_queue_admit:
  "fst (queue_admit \<lparr>q_capacity = 2, q_entries = []\<rparr> demo_job) = demo_queue"
proof -
  have "entry_of demo_job = \<lparr>qe_job_id = 7, qe_submit_time = 5\<rparr>"
    by (simp add: entry_of_def demo_job_def demo_spec_def)
  then show ?thesis
    using demo_admissible by (simp add: queue_admit_fst entry_ids_def demo_queue_def)
qed

lemma demo_queue_inv: "queue_inv demo_queue"
  by (simp add: demo_queue_def queue_inv_def kMaxCapacity_def job_id_valid_def)

theorem queue_fifo_witness:
  "queue_front demo_queue = Some \<lparr>qe_job_id = 7, qe_submit_time = 5\<rparr>
   \<and> sorted_wrt entry_less (q_entries demo_queue)"
proof -
  have cr: "queue_create 2 = Inr \<lparr>q_capacity = 2, q_entries = []\<rparr>"
    by (simp add: queue_create_def kMaxCapacity_def)
  have "queue_step\<^sup>*\<^sup>* \<lparr>q_capacity = 2, q_entries = []\<rparr> demo_queue"
    using step_admit [of "\<lparr>q_capacity = 2, q_entries = []\<rparr>" demo_job] demo_queue_admit
    by (metis r_into_rtranclp)
  from queue_fifo [OF cr this] show ?thesis
    by (simp add: queue_front_def demo_queue_def)
qed



end
