(* ===== verification/Scheduler.thy ===== *)
theory Scheduler
  imports Job_Queue
begin

text \<open>
  The FIFO scheduler (\<open>include/yori/scheduler/scheduler.hpp\<close>, \<open>src/scheduler/scheduler.cpp\<close>). One
  call of \<open>run_once\<close> validates the GPU snapshot, loads the store, checks that the queue mirrors
  the store, scans a bounded window from the front of the queue and moves the first schedulable
  job to \<open>kStarting\<close> with one GPU lease. The scheduler is written against an arbitrary
  \<open>StateStore\<close>. A \<open>const GpuObservation*\<close> is an \<open>option\<close>; comparing two such pointers compares the
  devices, which a validated snapshot keeps distinct. \<open>std::map::at\<close> throws on a missing key:
  the functions that use it return \<open>None\<close> there, and \<open>run_once\<close> is shown never to do so.
\<close>

section \<open>Types\<close>

datatype SchedulerTrigger =
  kJobSubmitted | kJobExited | kJobCancelled | kGpuStateChanged | kRecoveryCompleted
| kAdminStateChanged

definition kDefaultScanWindow :: nat where "kDefaultScanWindow = 32"
definition kMaxScanWindow :: nat where "kMaxScanWindow = kMaxCapacity"

record SchedulerConfig =
  scfg_scan_window :: nat

definition scheduler_config_valid :: "SchedulerConfig \<Rightarrow> bool" where
  "scheduler_config_valid c \<longleftrightarrow> scfg_scan_window c \<ge> 1 \<and> scfg_scan_window c \<le> kMaxScanWindow"

datatype WaitReason =
  kNone | kNoFreeGpu | kAffinityGpuAllocated | kAffinityGpuExternal | kAffinityGpuState

datatype GpuSelectionReason =
  kDefault | kAvoidRequiredAffinity | kAffinityFallback | kPreferredFallback

record ScheduleSkip =
  sk_job :: JobId
  sk_reason :: WaitReason
  sk_target :: "GpuUuid option"

record ScheduleEvaluation =
  sv_skipped :: "ScheduleSkip list"
  sv_window_truncated :: bool

datatype ScheduleResultCode =
  kScheduled | kQueueEmpty | kNoCandidate | kCancelled | kInvalidGpuSnapshot | kStateLoadFailed
| kQueueStateDiverged | kStateWriteFailed | kQueueRollbackFailed

record SchedulerEvent =
  sev_trigger :: SchedulerTrigger
  sev_code :: ScheduleResultCode
  sev_job_id :: "JobId option"
  sev_gpu_uuid :: "GpuUuid option"
  sev_selection_reason :: GpuSelectionReason
  sev_gpu_validation :: GpuObservationValidationResult
  sev_store_error :: StateStoreErrorCode
  sev_queue_error :: QueueErrorCode
  sev_store_revision :: u64

record ScheduleResult =
  sr_code :: ScheduleResultCode
  sr_event :: SchedulerEvent
  sr_evaluation :: ScheduleEvaluation

definition schedule_failed :: "ScheduleResult \<Rightarrow> bool" where
  "schedule_failed r \<longleftrightarrow>
     sr_code r = kInvalidGpuSnapshot \<or> sr_code r = kStateLoadFailed
   \<or> sr_code r = kQueueStateDiverged \<or> sr_code r = kStateWriteFailed
   \<or> sr_code r = kQueueRollbackFailed"

section \<open>Helpers\<close>

definition no_evaluation :: ScheduleEvaluation where
  "no_evaluation = \<lparr>sv_skipped = [], sv_window_truncated = False\<rparr>"

definition schedule_result ::
  "SchedulerTrigger \<Rightarrow> ScheduleResultCode \<Rightarrow> JobId option \<Rightarrow> GpuUuid option
     \<Rightarrow> GpuObservationValidationResult \<Rightarrow> StateStoreErrorCode \<Rightarrow> QueueErrorCode \<Rightarrow> u64
     \<Rightarrow> ScheduleEvaluation \<Rightarrow> GpuSelectionReason \<Rightarrow> ScheduleResult" where
  "schedule_result trigger code job gpu validation store_error queue_error rv evaluation reason =
     \<lparr>sr_code = code,
      sr_event = \<lparr>sev_trigger = trigger, sev_code = code, sev_job_id = job, sev_gpu_uuid = gpu,
                  sev_selection_reason = reason, sev_gpu_validation = validation,
                  sev_store_error = store_error, sev_queue_error = queue_error,
                  sev_store_revision = rv\<rparr>,
      sr_evaluation = evaluation\<rparr>"

abbreviation gpu_fine :: GpuObservationValidationResult where
  "gpu_fine \<equiv> gov GpuObservationErrorCode.kNone None"

definition leased :: "StateSnapshot \<Rightarrow> GpuUuid \<Rightarrow> bool" where
  "leased snapshot uuid \<longleftrightarrow> list_ex (\<lambda>lease. gl_gpu_uuid lease = uuid) (ss_leases snapshot)"

text \<open>The window of entries is the prefix of the queue that is scanned.\<close>

fun collect_affinity_targets ::
  "QueueEntry list \<Rightarrow> (JobId, StoredJob) omap \<Rightarrow> GpuUuid list option" where
  "collect_affinity_targets [] queued_records = Some []"
| "collect_affinity_targets (e # es) queued_records =
     (case map_of queued_records (qe_job_id e) of
        None \<Rightarrow> None
      | Some record \<Rightarrow>
          (case collect_affinity_targets es queued_records of
             None \<Rightarrow> None
           | Some targets \<Rightarrow>
               Some (if gp_mode (js_gpu_placement (sj_spec record)) = kRequired
                     then gp_devices (js_gpu_placement (sj_spec record)) @ targets
                     else targets)))"

text \<open>The device loop of \<open>select_any_gpu\<close> with its two running minima.\<close>

fun any_gpu_loop ::
  "StateSnapshot \<Rightarrow> GpuUuid list \<Rightarrow> GpuObservation list \<Rightarrow> GpuObservation option
     \<Rightarrow> GpuObservation option \<Rightarrow> GpuObservation option \<times> GpuObservation option" where
  "any_gpu_loop state_snapshot targets [] preferred fallback = (preferred, fallback)"
| "any_gpu_loop state_snapshot targets (device # rest) preferred fallback =
     (if go_state device \<noteq> GpuObservedState.kFree \<or> leased state_snapshot (go_uuid device)
      then any_gpu_loop state_snapshot targets rest preferred fallback
      else any_gpu_loop state_snapshot targets rest
             (if go_uuid device \<notin> set targets
                 \<and> (case preferred of None \<Rightarrow> True | Some p \<Rightarrow> go_index device < go_index p)
              then Some device else preferred)
             (if (case fallback of None \<Rightarrow> True | Some f \<Rightarrow> go_index device < go_index f)
              then Some device else fallback))"

definition select_any_gpu ::
  "GpuObservationSnapshot \<Rightarrow> StateSnapshot \<Rightarrow> GpuUuid list
     \<Rightarrow> GpuObservation option \<times> GpuSelectionReason" where
  "select_any_gpu gpu_snapshot state_snapshot affinity_targets =
     (case any_gpu_loop state_snapshot affinity_targets (gs_devices gpu_snapshot) None None of
        (Some preferred, fallback) \<Rightarrow>
          (Some preferred, if Some preferred = fallback then kDefault else kAvoidRequiredAffinity)
      | (None, Some fallback) \<Rightarrow> (Some fallback, kAffinityFallback)
      | (None, None) \<Rightarrow> (None, kDefault))"

definition find_device :: "GpuObservationSnapshot \<Rightarrow> GpuUuid \<Rightarrow> GpuObservation option" where
  "find_device gpu_snapshot uuid = find (\<lambda>d. go_uuid d = uuid) (gs_devices gpu_snapshot)"

definition device_available ::
  "GpuObservationSnapshot \<Rightarrow> StateSnapshot \<Rightarrow> GpuUuid \<Rightarrow> GpuObservation option" where
  "device_available gpu_snapshot state_snapshot uuid =
     (case find_device gpu_snapshot uuid of
        None \<Rightarrow> None
      | Some d \<Rightarrow>
          if go_state d \<noteq> GpuObservedState.kFree \<or> leased state_snapshot uuid then None else Some d)"

fun required_gpu_loop ::
  "GpuObservationSnapshot \<Rightarrow> StateSnapshot \<Rightarrow> GpuUuid list \<Rightarrow> GpuObservation option
     \<Rightarrow> GpuObservation option" where
  "required_gpu_loop gpu_snapshot state_snapshot [] selected = selected"
| "required_gpu_loop gpu_snapshot state_snapshot (uuid # rest) selected =
     (case device_available gpu_snapshot state_snapshot uuid of
        None \<Rightarrow> required_gpu_loop gpu_snapshot state_snapshot rest selected
      | Some d \<Rightarrow>
          required_gpu_loop gpu_snapshot state_snapshot rest
            (if (case selected of None \<Rightarrow> True | Some s \<Rightarrow> go_index d < go_index s)
             then Some d else selected))"

definition select_required_gpu ::
  "GpuObservationSnapshot \<Rightarrow> StateSnapshot \<Rightarrow> GpuUuid list \<Rightarrow> GpuObservation option" where
  "select_required_gpu gpu_snapshot state_snapshot devices =
     required_gpu_loop gpu_snapshot state_snapshot devices None"

fun wait_reason_loop ::
  "GpuObservationSnapshot \<Rightarrow> StateSnapshot \<Rightarrow> GpuUuid list \<Rightarrow> bool \<times> bool \<times> GpuObservation option
     \<Rightarrow> bool \<times> bool \<times> GpuObservation option" where
  "wait_reason_loop gpu_snapshot state_snapshot [] acc = acc"
| "wait_reason_loop gpu_snapshot state_snapshot (uuid # rest) (any_leased, any_external, repr) =
     (let any_leased' = (any_leased \<or> leased state_snapshot uuid) in
      case find_device gpu_snapshot uuid of
        None \<Rightarrow>
          wait_reason_loop gpu_snapshot state_snapshot rest (any_leased', any_external, repr)
      | Some d \<Rightarrow>
          wait_reason_loop gpu_snapshot state_snapshot rest
            (any_leased',
             any_external \<or> go_state d = GpuObservedState.kExternalBusy,
             if (case repr of None \<Rightarrow> True | Some r \<Rightarrow> go_index d < go_index r)
             then Some d else repr))"

definition required_wait_reason ::
  "GpuObservationSnapshot \<Rightarrow> StateSnapshot \<Rightarrow> GpuUuid list \<Rightarrow> WaitReason \<times> GpuUuid option" where
  "required_wait_reason gpu_snapshot state_snapshot devices =
     (case wait_reason_loop gpu_snapshot state_snapshot devices (False, False, None) of
        (any_leased, any_external, repr) \<Rightarrow>
          (if any_leased then kAffinityGpuAllocated
           else if any_external then kAffinityGpuExternal
           else kAffinityGpuState,
           map_option go_uuid repr))"

section \<open>One scheduling pass\<close>

definition queued_records :: "StoredJob list \<Rightarrow> (JobId, StoredJob) omap" where
  "queued_records jobs =
     fold (\<lambda>r m. if sj_state r = kQueued \<and> \<not> omap_contains (sj_id r) m
                 then omap_put (sj_id r) r m else m) jobs []"

text \<open>The diagnostic loop for a queue of the wrong size.\<close>

fun earliest_missing_loop ::
  "GlobalJobQueue \<Rightarrow> (JobId, StoredJob) omap \<Rightarrow> StoredJob option \<Rightarrow> StoredJob option" where
  "earliest_missing_loop q [] acc = acc"
| "earliest_missing_loop q ((_, record) # rest) acc =
     earliest_missing_loop q rest
       (if \<not> queue_contains q (sj_id record)
           \<and> (case acc of
                None \<Rightarrow> True
              | Some m \<Rightarrow>
                  js_submit_time (sj_spec record) < js_submit_time (sj_spec m)
                \<or> (js_submit_time (sj_spec record) = js_submit_time (sj_spec m)
                   \<and> sj_id record < sj_id m))
        then Some record else acc)"

text \<open>The consistency loop over the entries: the job id and queue error it reports.\<close>

fun check_entries ::
  "nat \<Rightarrow> nat \<Rightarrow> (JobId, StoredJob) omap \<Rightarrow> QueueEntry list \<Rightarrow> (JobId \<times> QueueErrorCode) option" where
  "check_entries index window records [] = None"
| "check_entries index window records (entry # rest) =
     (case map_of records (qe_job_id entry) of
        None \<Rightarrow> Some (qe_job_id entry, QueueErrorCode.kJobNotFound)
      | Some record \<Rightarrow>
          if index < window \<and> js_submit_time (sj_spec record) \<noteq> qe_submit_time entry
            then Some (qe_job_id entry, kInvalidJobSpec)
          else if index < window \<and> sj_revision record \<noteq> 0
            then Some (qe_job_id entry, QueueErrorCode.kInvalidJobRevision)
          else check_entries (Suc index) window records rest)"

definition choose_gpu ::
  "GpuObservationSnapshot \<Rightarrow> StateSnapshot \<Rightarrow> GpuObservation option \<Rightarrow> GpuSelectionReason
     \<Rightarrow> GpuPlacement \<Rightarrow> GpuObservation option \<times> GpuSelectionReason" where
  "choose_gpu gpu_snapshot state_snapshot any_candidate any_reason placement =
     (case gp_mode placement of
        kRequired \<Rightarrow>
          (select_required_gpu gpu_snapshot state_snapshot (gp_devices placement), kDefault)
      | kPreferred \<Rightarrow>
          (case device_available gpu_snapshot state_snapshot (hd (gp_devices placement)) of
             Some d \<Rightarrow> (Some d, kDefault)
           | None \<Rightarrow>
               (case any_candidate of
                  Some d \<Rightarrow> (Some d, kPreferredFallback)
                | None \<Rightarrow> (None, kDefault)))
      | kAny \<Rightarrow> (any_candidate, any_reason))"

definition make_skip ::
  "GpuObservationSnapshot \<Rightarrow> StateSnapshot \<Rightarrow> JobId \<Rightarrow> GpuPlacement \<Rightarrow> ScheduleSkip" where
  "make_skip gpu_snapshot state_snapshot i placement =
     (if gp_mode placement = kRequired
      then (case required_wait_reason gpu_snapshot state_snapshot (gp_devices placement) of
              (reason, target) \<Rightarrow> \<lparr>sk_job = i, sk_reason = reason, sk_target = target\<rparr>)
      else \<lparr>sk_job = i, sk_reason = kNoFreeGpu, sk_target = None\<rparr>)"

datatype scan_outcome =
    Selected StoredJob GpuObservation GpuSelectionReason "ScheduleSkip list"
  | Exhausted "ScheduleSkip list"

fun scan_window ::
  "GpuObservationSnapshot \<Rightarrow> StateSnapshot \<Rightarrow> (JobId, StoredJob) omap \<Rightarrow> GpuObservation option
     \<Rightarrow> GpuSelectionReason \<Rightarrow> QueueEntry list \<Rightarrow> ScheduleSkip list \<Rightarrow> scan_outcome option" where
  "scan_window gpu_snapshot state_snapshot records any_candidate any_reason [] skipped =
     Some (Exhausted skipped)"
| "scan_window gpu_snapshot state_snapshot records any_candidate any_reason (entry # rest) skipped =
     (case map_of records (qe_job_id entry) of
        None \<Rightarrow> None
      | Some record \<Rightarrow>
          (case choose_gpu gpu_snapshot state_snapshot any_candidate any_reason
                  (js_gpu_placement (sj_spec record)) of
             (Some d, reason) \<Rightarrow> Some (Selected record d reason skipped)
           | (None, _) \<Rightarrow>
               scan_window gpu_snapshot state_snapshot records any_candidate any_reason rest
                 (skipped @ [make_skip gpu_snapshot state_snapshot (qe_job_id entry)
                               (js_gpu_placement (sj_spec record))])))"

definition start_mutation :: "u64 \<Rightarrow> StoredJob \<Rightarrow> GpuUuid \<Rightarrow> StateMutation" where
  "start_mutation expected record uuid =
     empty_mutation\<lparr>sm_expected_revision := expected,
       sm_update_jobs := [record\<lparr>sj_state := kStarting, sj_revision := sj_revision record + 1\<rparr>],
       sm_acquire_leases := [\<lparr>gl_gpu_uuid = uuid, gl_job_id = sj_id record\<rparr>]\<rparr>"

text \<open>What follows the selection of a device: take the job out of the queue, write, and put it
  back if the write fails.\<close>

definition commit_start ::
  "'s StateStore \<Rightarrow> SchedulerTrigger \<Rightarrow> u64 \<Rightarrow> StoredJob \<Rightarrow> GpuObservation \<Rightarrow> GpuSelectionReason
     \<Rightarrow> ScheduleEvaluation \<Rightarrow> GlobalJobQueue \<Rightarrow> 's \<Rightarrow> ScheduleResult \<times> GlobalJobQueue \<times> 's" where
  "commit_start store trigger rv record selected reason evaluation q s =
     (let (q1, removal) = queue_remove q (sj_id record) in
      if \<not> qr_ok removal
        then (schedule_result trigger kQueueStateDiverged (Some (sj_id record))
                (Some (go_uuid selected)) gpu_fine StateStoreErrorCode.kNone (qr_code removal) rv
                no_evaluation kDefault, q1, s)
      else
        (let (written, s') = st_apply store s (start_mutation rv record (go_uuid selected)) in
         if \<not> swr_ok written
           then
             (let (q2, rollback) = queue_admit q1 record in
              if \<not> qr_ok rollback
                then (schedule_result trigger kQueueRollbackFailed (Some (sj_id record))
                        (Some (go_uuid selected)) gpu_fine (swr_code written) (qr_code rollback)
                        (swr_revision written) no_evaluation kDefault, q2, s')
              else (schedule_result trigger kStateWriteFailed (Some (sj_id record))
                      (Some (go_uuid selected)) gpu_fine (swr_code written) QueueErrorCode.kNone
                      (swr_revision written) no_evaluation kDefault, q2, s'))
         else (schedule_result trigger kScheduled (Some (sj_id record)) (Some (go_uuid selected))
                 gpu_fine StateStoreErrorCode.kNone QueueErrorCode.kNone (swr_revision written)
                 evaluation reason, q1, s')))"

definition run_once ::
  "'s StateStore \<Rightarrow> SchedulerConfig \<Rightarrow> SchedulerTrigger \<Rightarrow> GpuObservationSnapshot
     \<Rightarrow> GlobalJobQueue \<Rightarrow> 's \<Rightarrow> (ScheduleResult \<times> GlobalJobQueue \<times> 's) option" where
  "run_once store config trigger gpu_snapshot q s =
     (let gpu_validation = gpu_validate gpu_snapshot in
      if \<not> gov_ok gpu_validation
        then Some (schedule_result trigger kInvalidGpuSnapshot None None gpu_validation
                     StateStoreErrorCode.kNone QueueErrorCode.kNone 0 no_evaluation kDefault, q, s)
      else let entries = q_entries q; front = queue_front q; loaded = st_load store s in
      if \<not> slr_ok loaded
        then Some (schedule_result trigger kStateLoadFailed (map_option qe_job_id front) None
                     gpu_fine (slr_code loaded) QueueErrorCode.kNone 0 no_evaluation kDefault, q, s)
      else let snapshot = slr_snapshot loaded; records = queued_records (ss_jobs snapshot);
               rv = ss_revision snapshot;
               diverged = (\<lambda>job err. schedule_result trigger kQueueStateDiverged job None gpu_fine
                 StateStoreErrorCode.kNone err rv no_evaluation kDefault) in
      if length records \<noteq> queue_size q
        then Some (diverged
               (case earliest_missing_loop q records None of
                  Some m \<Rightarrow> Some (sj_id m) | None \<Rightarrow> map_option qe_job_id front)
               QueueErrorCode.kJobNotFound, q, s)
      else let window = min (scfg_scan_window config) (length entries) in
      case check_entries 0 window records entries of
        Some (job, err) \<Rightarrow> Some (diverged (Some job) err, q, s)
      | None \<Rightarrow>
          if entries = []
            then Some (schedule_result trigger kQueueEmpty None None gpu_fine
                         StateStoreErrorCode.kNone QueueErrorCode.kNone rv no_evaluation kDefault,
                       q, s)
          else (case collect_affinity_targets (take window entries) records of
            None \<Rightarrow> None
          | Some targets \<Rightarrow>
              let (any_candidate, any_reason) = select_any_gpu gpu_snapshot snapshot targets in
              (case scan_window gpu_snapshot snapshot records any_candidate any_reason
                      (take window entries) [] of
                 None \<Rightarrow> None
               | Some (Selected record selected reason skipped) \<Rightarrow>
                   Some (commit_start store trigger rv record selected reason
                     \<lparr>sv_skipped = skipped, sv_window_truncated = length entries > window\<rparr> q s)
               | Some (Exhausted skipped) \<Rightarrow>
                   Some (schedule_result trigger kNoCandidate None None gpu_fine
                     StateStoreErrorCode.kNone QueueErrorCode.kNone rv
                     \<lparr>sv_skipped = skipped, sv_window_truncated = length entries > window\<rparr>
                     kDefault, q, s))))"

definition schedule_cancelled :: "SchedulerTrigger \<Rightarrow> ScheduleResult" where
  "schedule_cancelled trigger =
     schedule_result trigger kCancelled None None gpu_fine StateStoreErrorCode.kNone
       QueueErrorCode.kNone 0 no_evaluation kDefault"

section \<open>Printed names\<close>

fun SchedulerTrigger_to_string :: "SchedulerTrigger \<Rightarrow> string" where
  "SchedulerTrigger_to_string kJobSubmitted = ''JOB_SUBMITTED''"
| "SchedulerTrigger_to_string kJobExited = ''JOB_EXITED''"
| "SchedulerTrigger_to_string kJobCancelled = ''JOB_CANCELLED''"
| "SchedulerTrigger_to_string kGpuStateChanged = ''GPU_STATE_CHANGED''"
| "SchedulerTrigger_to_string kRecoveryCompleted = ''RECOVERY_COMPLETED''"
| "SchedulerTrigger_to_string kAdminStateChanged = ''ADMIN_STATE_CHANGED''"

fun WaitReason_to_string :: "WaitReason \<Rightarrow> string" where
  "WaitReason_to_string WaitReason.kNone = ''NONE''"
| "WaitReason_to_string kNoFreeGpu = ''NO_FREE_GPU''"
| "WaitReason_to_string kAffinityGpuAllocated = ''AFFINITY_GPU_ALLOCATED''"
| "WaitReason_to_string kAffinityGpuExternal = ''AFFINITY_GPU_EXTERNAL''"
| "WaitReason_to_string kAffinityGpuState = ''AFFINITY_GPU_STATE''"

fun GpuSelectionReason_to_string :: "GpuSelectionReason \<Rightarrow> string" where
  "GpuSelectionReason_to_string kDefault = ''DEFAULT''"
| "GpuSelectionReason_to_string kAvoidRequiredAffinity = ''AVOID_REQUIRED_AFFINITY''"
| "GpuSelectionReason_to_string kAffinityFallback = ''AFFINITY_FALLBACK''"
| "GpuSelectionReason_to_string kPreferredFallback = ''PREFERRED_FALLBACK''"

fun ScheduleResultCode_to_string :: "ScheduleResultCode \<Rightarrow> string" where
  "ScheduleResultCode_to_string kScheduled = ''SCHEDULED''"
| "ScheduleResultCode_to_string kQueueEmpty = ''QUEUE_EMPTY''"
| "ScheduleResultCode_to_string kNoCandidate = ''NO_CANDIDATE''"
| "ScheduleResultCode_to_string ScheduleResultCode.kCancelled = ''CANCELLED''"
| "ScheduleResultCode_to_string kInvalidGpuSnapshot = ''INVALID_GPU_SNAPSHOT''"
| "ScheduleResultCode_to_string kStateLoadFailed = ''STATE_LOAD_FAILED''"
| "ScheduleResultCode_to_string kQueueStateDiverged = ''QUEUE_STATE_DIVERGED''"
| "ScheduleResultCode_to_string kStateWriteFailed = ''STATE_WRITE_FAILED''"
| "ScheduleResultCode_to_string kQueueRollbackFailed = ''QUEUE_ROLLBACK_FAILED''"

end
