(* ===== verification/Scheduler_Laws.thy ===== *)
theory Scheduler_Laws
  imports Scheduler
begin

text \<open>
  What a scheduling pass guarantees, proved once for every backend that meets the contract
  \<open>state_store\<close> and instantiated for the in-memory backend: devices are only taken when observed
  free and not leased, required sets are never left, the first schedulable job of the window is
  chosen and every earlier one is skipped for a reason, an unsuccessful pass changes neither the
  queue nor the store, and queue and store stay mirror images.
\<close>

section \<open>Running minima\<close>

text \<open>The three selection loops all keep the device of least index among those that satisfy a
  condition.\<close>

fun min_by :: "(GpuObservation \<Rightarrow> bool) \<Rightarrow> GpuObservation list \<Rightarrow> GpuObservation option
     \<Rightarrow> GpuObservation option" where
  "min_by P [] acc = acc"
| "min_by P (d # ds) acc =
     min_by P ds
       (if P d \<and> (case acc of None \<Rightarrow> True | Some a \<Rightarrow> go_index d < go_index a)
        then Some d else acc)"

definition available :: "StateSnapshot \<Rightarrow> GpuObservation \<Rightarrow> bool" where
  "available snap d \<longleftrightarrow> go_state d = GpuObservedState.kFree \<and> \<not> leased snap (go_uuid d)"

lemma min_by_Some_acc:
  "\<exists>d. min_by P ds (Some a) = Some d \<and> (d = a \<or> d \<in> set ds \<and> P d)
     \<and> go_index d \<le> go_index a \<and> (\<forall>d' \<in> set ds. P d' \<longrightarrow> go_index d \<le> go_index d')"
proof (induction ds arbitrary: a)
  case (Cons e ds)
  show ?case
  proof (cases "P e \<and> go_index e < go_index a")
    case True
    from Cons.IH [of e] True show ?thesis by (auto intro: order.trans less_imp_le)
  next
    case False
    then have keep: "min_by P (e # ds) (Some a) = min_by P ds (Some a)" by auto
    from Cons.IH [of a] obtain d where "min_by P ds (Some a) = Some d"
        "d = a \<or> d \<in> set ds \<and> P d" "go_index d \<le> go_index a"
        "\<forall>d' \<in> set ds. P d' \<longrightarrow> go_index d \<le> go_index d'" by blast
    with False keep show ?thesis by (intro exI [of _ d]) (auto simp: not_less)
  qed
qed auto

lemma min_by_None: "min_by P ds None = None \<longleftrightarrow> (\<forall>d \<in> set ds. \<not> P d)"
proof (induction ds)
  case (Cons e ds)
  then show ?case
    using min_by_Some_acc [of P ds e] by (cases "P e") auto
qed simp

lemma min_by_Some:
  assumes "min_by P ds None = Some d"
  shows "d \<in> set ds \<and> P d \<and> (\<forall>d' \<in> set ds. P d' \<longrightarrow> go_index d \<le> go_index d')"
  using assms
proof (induction ds)
  case (Cons e ds)
  show ?case
  proof (cases "P e")
    case True
    then show ?thesis using min_by_Some_acc [of P ds e] Cons.prems by auto
  next
    case False
    then show ?thesis using Cons by auto
  qed
qed simp

lemma any_gpu_loop_eq:
  "any_gpu_loop snap targets ds preferred fallback =
     (min_by (\<lambda>d. available snap d \<and> go_uuid d \<notin> set targets) ds preferred,
      min_by (available snap) ds fallback)"
  by (induction ds arbitrary: preferred fallback) (auto simp: available_def)

lemma find_device_Some:
  "find_device gpus u = Some d \<Longrightarrow> d \<in> set (gs_devices gpus) \<and> go_uuid d = u"
  by (auto simp: find_device_def find_Some_iff)

lemma find_device_None: "find_device gpus u = None \<longleftrightarrow> u \<notin> go_uuid ` set (gs_devices gpus)"
  by (auto simp: find_device_def find_None_iff)

lemma device_available_Some:
  "device_available gpus snap u = Some d \<Longrightarrow>
     d \<in> set (gs_devices gpus) \<and> go_uuid d = u \<and> available snap d"
  by (auto simp: device_available_def available_def dest: find_device_Some
      split: option.splits if_splits)

lemma device_available_None:
  assumes "distinct (map go_uuid (gs_devices gpus))" and "d \<in> set (gs_devices gpus)"
    and "device_available gpus snap (go_uuid d) = None"
  shows "\<not> available snap d"
proof -
  have "find_device gpus (go_uuid d) \<noteq> None"
    using assms(2) by (simp add: find_device_None)
  then obtain d' where d': "find_device gpus (go_uuid d) = Some d'" by blast
  with assms(1,2) find_device_Some [OF d'] have "d' = d"
    by (auto simp: distinct_map inj_on_def)
  with d' assms(3) show ?thesis
    by (auto simp: device_available_def available_def split: if_splits)
qed

lemma required_gpu_loop_eq:
  "required_gpu_loop gpus snap us acc =
     min_by (\<lambda>_. True) (List.map_filter (device_available gpus snap) us) acc"
  by (induction us arbitrary: acc) (auto simp: List.map_filter_def split: option.split)

lemma set_map_filter: "set (List.map_filter f xs) = {y. \<exists>x \<in> set xs. f x = Some y}"
  by (induction xs) (auto simp: List.map_filter_def split: option.splits)

lemma select_required_gpu_Some:
  assumes "select_required_gpu gpus snap us = Some d"
  shows "d \<in> set (gs_devices gpus) \<and> available snap d \<and> go_uuid d \<in> set us"
  using min_by_Some [of "\<lambda>_. True" "List.map_filter (device_available gpus snap) us" d] assms
    device_available_Some
  by (fastforce simp: select_required_gpu_def required_gpu_loop_eq set_map_filter)

lemma select_required_gpu_None:
  "select_required_gpu gpus snap us = None \<longleftrightarrow> (\<forall>u \<in> set us. device_available gpus snap u = None)"
  by (auto simp: select_required_gpu_def required_gpu_loop_eq min_by_None set_map_filter)
    (metis not_None_eq)

lemma select_any_gpu_Some:
  assumes "select_any_gpu gpus snap targets = (Some d, reason)"
  shows "d \<in> set (gs_devices gpus) \<and> available snap d"
  using assms min_by_Some
  by (fastforce simp: select_any_gpu_def any_gpu_loop_eq split: option.splits prod.splits)

lemma select_any_gpu_None:
  assumes "select_any_gpu gpus snap targets = (None, reason)"
  shows "\<forall>d \<in> set (gs_devices gpus). \<not> available snap d"
  using assms
  by (auto simp: select_any_gpu_def any_gpu_loop_eq min_by_None split: option.splits prod.splits)

section \<open>Choosing a device\<close>

text \<open>Whether any device a placement allows is available.\<close>

definition placement_satisfiable ::
  "GpuObservationSnapshot \<Rightarrow> StateSnapshot \<Rightarrow> GpuPlacement \<Rightarrow> bool" where
  "placement_satisfiable gpus snap p \<longleftrightarrow>
     (\<exists>d \<in> set (gs_devices gpus). available snap d
        \<and> (gp_mode p = kRequired \<longrightarrow> go_uuid d \<in> set (gp_devices p)))"

lemma choose_gpu_Some:
  assumes "select_any_gpu gpus snap targets = (any, any_reason)"
    and "choose_gpu gpus snap any any_reason p = (Some d, reason)"
  shows "d \<in> set (gs_devices gpus) \<and> available snap d
    \<and> (gp_mode p = kRequired \<longrightarrow> go_uuid d \<in> set (gp_devices p))"
  using assms select_any_gpu_Some [of gpus snap targets d any_reason]
  by (auto simp: choose_gpu_def dest: select_required_gpu_Some device_available_Some
      split: GpuPlacementMode.splits option.splits)

lemma choose_gpu_None:
  assumes any: "select_any_gpu gpus snap targets = (any, any_reason)"
    and none: "choose_gpu gpus snap any any_reason p = (None, reason)"
    and dist: "distinct (map go_uuid (gs_devices gpus))"
  shows "\<not> placement_satisfiable gpus snap p"
proof
  assume "placement_satisfiable gpus snap p"
  then obtain d where d: "d \<in> set (gs_devices gpus)" "available snap d"
    and req: "gp_mode p = kRequired \<longrightarrow> go_uuid d \<in> set (gp_devices p)"
    by (auto simp: placement_satisfiable_def)
  have "any \<noteq> None" using any d select_any_gpu_None by fastforce
  moreover have "device_available gpus snap (go_uuid d) \<noteq> None"
    using device_available_None [OF dist d(1)] d(2) by blast
  ultimately show False
    using none req
    by (auto simp: choose_gpu_def select_required_gpu_None
        split: GpuPlacementMode.splits option.splits)
qed

section \<open>The records of the queued jobs\<close>

abbreviation add_queued :: "StoredJob \<Rightarrow> (JobId, StoredJob) omap \<Rightarrow> (JobId, StoredJob) omap" where
  "add_queued r m \<equiv>
     (if sj_state r = kQueued \<and> \<not> omap_contains (sj_id r) m then omap_put (sj_id r) r m else m)"

lemma add_queued_fold:
  assumes "distinct (map sj_id jobs)" and "\<forall>r \<in> set jobs. map_of m (sj_id r) = None"
  shows "length (fold add_queued jobs m) = length m + length (queued_jobs jobs)
    \<and> (map_of (fold add_queued jobs m) i = Some r \<longleftrightarrow>
        map_of m i = Some r \<or> r \<in> set (queued_jobs jobs) \<and> sj_id r = i)"
  using assms
proof (induction jobs arbitrary: m)
  case Nil
  then show ?case by (simp add: queued_jobs_def)
next
  case (Cons x jobs)
  let ?m = "add_queued x m"
  have "\<forall>r \<in> set jobs. map_of ?m (sj_id r) = None"
    using Cons.prems by (auto simp: omap_simps) (metis imageI)
  from Cons.IH [OF _ this] Cons.prems show ?case
    by (auto simp: queued_jobs_def omap_contains_def omap_simps)
qed

lemma queued_records_iff:
  assumes "content_wf c"
  shows "map_of (queued_records (ss_jobs (snapshot_of c))) i = Some r \<longleftrightarrow>
    map_of (sc_jobs c) i = Some r \<and> sj_state r = kQueued"
proof -
  have jt: "job_table_ok (sc_jobs c)" using assms by (simp add: content_wf_def)
  have "map_of (queued_records (map snd (sc_jobs c))) i = Some r \<longleftrightarrow>
      r \<in> set (queued_jobs (map snd (sc_jobs c))) \<and> sj_id r = i"
    unfolding queued_records_def
    using add_queued_fold [OF content_wf_restorable(2) [OF assms], of "[]" i r] by simp
  moreover have "r \<in> snd ` set (sc_jobs c) \<and> sj_id r = i \<longleftrightarrow> map_of (sc_jobs c) i = Some r"
    using jt omap_lookup_iff [of "sc_jobs c"]
    by (force simp: job_table_ok_def list_all_iff stored_job_ok_def)
  ultimately show ?thesis
    by (auto simp: snapshot_of_def queued_jobs_def)
qed

lemma length_queued_records:
  assumes "content_wf c"
  shows "length (queued_records (ss_jobs (snapshot_of c)))
    = length (queued_jobs (map snd (sc_jobs c)))"
  using add_queued_fold [OF content_wf_restorable(2) [OF assms], of "[]"]
  by (simp add: queued_records_def snapshot_of_def)

lemma check_entries_None:
  assumes "check_entries k window records es = None"
  shows "(\<forall>e \<in> set es. map_of records (qe_job_id e) \<noteq> None)
    \<and> (\<forall>j < length es. k + j < window \<longrightarrow>
        (\<exists>r. map_of records (qe_job_id (es ! j)) = Some r
          \<and> js_submit_time (sj_spec r) = qe_submit_time (es ! j) \<and> sj_revision r = 0))"
  using assms
proof (induction es arbitrary: k)
  case (Cons e es)
  then have rest: "check_entries (Suc k) window records es = None"
    by (auto split: option.splits if_splits)
  from Cons.prems obtain r where r: "map_of records (qe_job_id e) = Some r"
      "k < window \<longrightarrow> js_submit_time (sj_spec r) = qe_submit_time e \<and> sj_revision r = 0"
    by (auto split: option.splits if_splits)
  from Cons.IH [OF rest] r show ?case
    by (auto simp: nth_Cons split: nat.split)
qed simp

lemma check_entries_mirror:
  assumes "\<forall>e \<in> set es. \<exists>r. map_of records (qe_job_id e) = Some r
      \<and> js_submit_time (sj_spec r) = qe_submit_time e \<and> sj_revision r = 0"
  shows "check_entries k window records es = None"
  using assms by (induction es arbitrary: k) (auto split: option.split)

lemma collect_affinity_total:
  assumes "\<forall>e \<in> set es. map_of records (qe_job_id e) \<noteq> None"
  shows "collect_affinity_targets es records \<noteq> None"
  using assms by (induction es) (auto split: option.split)

section \<open>The window scan\<close>

text \<open>The record of an entry and the choice made for it.\<close>

definition chosen_for ::
  "GpuObservationSnapshot \<Rightarrow> StateSnapshot \<Rightarrow> (JobId, StoredJob) omap \<Rightarrow> GpuObservation option
     \<Rightarrow> GpuSelectionReason \<Rightarrow> QueueEntry \<Rightarrow> GpuObservation option" where
  "chosen_for gpus snap records any any_reason e =
     (case map_of records (qe_job_id e) of
        None \<Rightarrow> None
      | Some r \<Rightarrow> fst (choose_gpu gpus snap any any_reason (js_gpu_placement (sj_spec r))))"

lemma scan_window_Selected:
  assumes "scan_window gpus snap records any any_reason es sk = Some (Selected r d reason sk')"
  shows "\<exists>pre e post. es = pre @ e # post \<and> map_of records (qe_job_id e) = Some r
    \<and> choose_gpu gpus snap any any_reason (js_gpu_placement (sj_spec r)) = (Some d, reason)
    \<and> (\<forall>x \<in> set pre. chosen_for gpus snap records any any_reason x = None
         \<and> map_of records (qe_job_id x) \<noteq> None)
    \<and> map sk_job sk' = map sk_job sk @ map qe_job_id pre"
  using assms
proof (induction es arbitrary: sk)
  case (Cons e es)
  from Cons.prems obtain r0 where r0: "map_of records (qe_job_id e) = Some r0"
    by (auto split: option.splits)
  obtain ch rs where ch: "choose_gpu gpus snap any any_reason (js_gpu_placement (sj_spec r0))
      = (ch, rs)" by fastforce
  show ?case
  proof (cases ch)
    case (Some x)
    with Cons.prems r0 ch show ?thesis by (intro exI [of _ "[]"] exI [of _ e] exI [of _ es]) auto
  next
    case None
    let ?sk = "sk @ [make_skip gpus snap (qe_job_id e) (js_gpu_placement (sj_spec r0))]"
    have job: "sk_job (make_skip gpus snap (qe_job_id e) (js_gpu_placement (sj_spec r0)))
        = qe_job_id e"
      by (simp add: make_skip_def split: prod.split)
    from None Cons.prems r0 ch
    have "scan_window gpus snap records any any_reason es ?sk = Some (Selected r d reason sk')"
      by simp
    from Cons.IH [OF this] obtain pre e' post where
        "es = pre @ e' # post" "map_of records (qe_job_id e') = Some r"
        "choose_gpu gpus snap any any_reason (js_gpu_placement (sj_spec r)) = (Some d, reason)"
        "\<forall>x \<in> set pre. chosen_for gpus snap records any any_reason x = None
          \<and> map_of records (qe_job_id x) \<noteq> None"
        "map sk_job sk' = map sk_job ?sk @ map qe_job_id pre"
      by blast
    with None r0 ch job show ?thesis
      by (intro exI [of _ "e # pre"] exI [of _ e'] exI [of _ post]) (auto simp: chosen_for_def)
  qed
qed simp

lemma scan_window_Exhausted:
  assumes "scan_window gpus snap records any any_reason es sk = Some (Exhausted sk')"
  shows "(\<forall>x \<in> set es. chosen_for gpus snap records any any_reason x = None)
    \<and> map sk_job sk' = map sk_job sk @ map qe_job_id es"
  using assms
proof (induction es arbitrary: sk)
  case (Cons e es)
  from Cons.prems obtain r0 rs where r0: "map_of records (qe_job_id e) = Some r0"
    and ch: "choose_gpu gpus snap any any_reason (js_gpu_placement (sj_spec r0)) = (None, rs)"
    and rest: "scan_window gpus snap records any any_reason es
      (sk @ [make_skip gpus snap (qe_job_id e) (js_gpu_placement (sj_spec r0))])
      = Some (Exhausted sk')"
    by (auto split: option.splits prod.splits)
  from Cons.IH [OF rest] r0 ch show ?case
    by (auto simp: chosen_for_def make_skip_def split: prod.split)
qed simp

lemma scan_window_total:
  assumes "\<forall>e \<in> set es. map_of records (qe_job_id e) \<noteq> None"
  shows "scan_window gpus snap records any any_reason es sk \<noteq> None"
  using assms
  by (induction es arbitrary: sk) (auto split: option.split prod.split)

section \<open>Committing the start\<close>

lemma start_effect:
  "mutation_effect c (start_mutation rv r u) =
     \<lparr>sc_revision = sc_revision c + 1,
      sc_jobs = omap_put (sj_id r)
        (r\<lparr>sj_state := kStarting, sj_revision := sj_revision r + 1\<rparr>) (sc_jobs c),
      sc_leases = omap_put u \<lparr>gl_gpu_uuid = u, gl_job_id = sj_id r\<rparr> (sc_leases c)\<rparr>"
  by (simp add: mutation_effect_def start_mutation_def empty_mutation_def put_jobs_def
      put_leases_def)

lemma mirrors_after_start:
  assumes "content_wf c" and "content_wf (mutation_effect c (start_mutation rv r u))"
    and "queue_mirrors q c" and "queue_inv q"
    and "qr_ok (snd (queue_remove q (sj_id r)))"
  shows "queue_mirrors (fst (queue_remove q (sj_id r)))
    (mutation_effect c (start_mutation rv r u))"
  using assms(3)
  unfolding queue_mirrors_iff [OF assms(1)] queue_mirrors_iff [OF assms(2)]
  using queue_remove_ok [OF assms(4,5)]
  by (auto simp: start_effect omap_simps)

lemma stored_queued_admissible:
  assumes "content_wf c" and "map_of (sc_jobs c) i = Some r" and "sj_state r = kQueued"
  shows "admissible r \<and> sj_id r = i"
proof -
  have "stored_job_ok i r" using assms by (auto simp: content_wf_def intro: job_table_okD)
  with assms(3) show ?thesis
    using revision_fits_queued by (auto simp: admissible_def stored_job_ok_def)
qed

lemma start_execution_ok:
  assumes "validate_execution ex kQueued spec = JobExecutionValidationCode.kNone"
  shows "validate_execution ex kStarting spec = JobExecutionValidationCode.kNone"
  using assms unfolding validate_execution_iff by (auto simp: execution_ok_def is_terminal_def)

lemma start_accepted:
  assumes wf: "content_wf c" and job: "map_of (sc_jobs c) (sj_id r) = Some r"
    and st: "sj_state r = kQueued" and u: "uuid_valid u" and free: "map_of (sc_leases c) u = None"
    and room: "length (sc_leases c) < vc_max_leases config" and rv: "sc_revision c \<noteq> u64_max"
  shows "mutation_ok (apply_mutation (sc_jobs c) (sc_leases c) (sc_revision c) config
    (start_mutation (sc_revision c) r u))"
proof -
  let ?r = "r\<lparr>sj_state := kStarting, sj_revision := sj_revision r + 1\<rparr>"
  let ?l = "\<lparr>gl_gpu_uuid = u, gl_job_id = sj_id r\<rparr>"
  let ?jobs = "omap_put (sj_id r) ?r (sc_jobs c)" and ?leases = "omap_put u ?l (sc_leases c)"
  have ok: "stored_job_ok (sj_id r) r" and wj: "omap_wf (sc_jobs c)" and wl: "omap_wf (sc_leases c)"
    using wf job by (auto simp: content_wf_def job_table_ok_def lease_table_ok_def
        intro: job_table_okD)
  have rev0: "sj_revision r = 0" using ok st revision_fits_queued by (simp add: stored_job_ok_def)
  have up: "apply_updates [?r] (sc_jobs c) = Inr ?jobs"
    using ok st job rev0 start_execution_ok by (simp add: stored_job_ok_def same_spec_iff)
  have nolease: "\<forall>x l. map_of (sc_leases c) x = Some l \<longrightarrow> gl_job_id l \<noteq> sj_id r"
    using content_wf_matrix [OF wf job] st by (simp add: leaseable_def)
  have ac: "apply_acquires config ?jobs [?l] (sc_leases c) = Inr ?leases"
    using nolease ok u free room omap_lookup_iff [OF wl]
    by (auto simp: stored_job_ok_def omap_contains_def omap_simps leaseable_def list_ex_iff)
  have put: "(\<exists>l. map_of ?leases x = Some l \<and> gl_job_id l = i) \<longleftrightarrow>
      (if i = sj_id r then x = u else \<exists>l. map_of (sc_leases c) x = Some l \<and> gl_job_id l = i)" for x i
    using nolease free by (auto simp: omap_simps)
  have "lease_matrix_ok (sc_jobs c) (sc_leases c)" using wf by (simp add: content_wf_def)
  then have "lease_matrix_ok ?jobs ?leases"
    unfolding lease_matrix_iff [OF wj wl]
      lease_matrix_iff [OF omap_wf_put [OF wj] omap_wf_put [OF wl]] put
    using nolease free st job by (auto simp: omap_simps leaseable_def split: if_splits)
  with up ac rv show ?thesis
    by (auto simp: mutation_ok_def apply_mutation_def start_mutation_def empty_mutation_def
        entry_count_eq kMaxEntries_def)
qed


lemma leased_iff:
  assumes "content_wf c"
  shows "leased (snapshot_of c) u \<longleftrightarrow> map_of (sc_leases c) u \<noteq> None"
proof -
  have lt: "omap_wf (sc_leases c)"
    "\<forall>(u, l) \<in> set (sc_leases c). gl_gpu_uuid l = u"
    using assms by (auto simp: content_wf_def lease_table_ok_def list_all_iff)
  then have "leased (snapshot_of c) u \<longleftrightarrow> u \<in> fst ` set (sc_leases c)"
    by (force simp: leased_def snapshot_of_def list_ex_iff)
  then show ?thesis by (simp add: map_of_eq_None_iff)
qed

text \<open>What is known when the scan has selected a job.\<close>

definition selected_job ::
  "SchedulerConfig \<Rightarrow> GpuObservationSnapshot \<Rightarrow> GlobalJobQueue \<Rightarrow> store_content \<Rightarrow> QueueEntry list \<Rightarrow> StoredJob
     \<Rightarrow> GpuObservation \<Rightarrow> bool" where
  "selected_job config gpus q c pre r d \<longleftrightarrow>
     snapshot_ok gpus
   \<and> (\<exists>post. take (scfg_scan_window config) (q_entries q) = pre @ entry_of r # post)
   \<and> map_of (sc_jobs c) (sj_id r) = Some r \<and> sj_state r = kQueued \<and> admissible r
   \<and> d \<in> set (gs_devices gpus) \<and> available (snapshot_of c) d
   \<and> (gp_mode (js_gpu_placement (sj_spec r)) = kRequired \<longrightarrow>
        go_uuid d \<in> set (gp_devices (js_gpu_placement (sj_spec r))))
   \<and> (\<forall>x \<in> set pre. \<exists>rx. map_of (sc_jobs c) (qe_job_id x) = Some rx
        \<and> \<not> placement_satisfiable gpus (snapshot_of c) (js_gpu_placement (sj_spec rx)))"

lemma selected_jobD:
  assumes "selected_job config gpus q c pre r d"
  shows "admissible r" and "entry_of r \<in> set (q_entries q)"
proof -
  from assms obtain post where "admissible r"
    and tk: "take (scfg_scan_window config) (q_entries q) = pre @ entry_of r # post"
    by (auto simp: selected_job_def)
  then show "admissible r" by blast
  show "entry_of r \<in> set (q_entries q)"
    by (rule in_set_takeD [of _ "scfg_scan_window config"]) (simp add: tk)
qed

text \<open>What a pass does with the outcome of the scan.\<close>

definition pass_end ::
  "'s StateStore \<Rightarrow> SchedulerConfig \<Rightarrow> SchedulerTrigger \<Rightarrow> scan_outcome \<Rightarrow> GlobalJobQueue \<Rightarrow> 's
     \<Rightarrow> u64 \<Rightarrow> ScheduleResult \<times> GlobalJobQueue \<times> 's" where
  "pass_end store config trigger out q s rv =
     (let ev = (\<lambda>skipped. \<lparr>sv_skipped = skipped,
          sv_window_truncated = length (q_entries q) > scfg_scan_window config\<rparr>) in
      case out of
        Exhausted skipped \<Rightarrow>
          (schedule_result trigger kNoCandidate None None gpu_fine StateStoreErrorCode.kNone
             QueueErrorCode.kNone rv (ev skipped) kDefault, q, s)
      | Selected r d reason skipped \<Rightarrow>
          commit_start store trigger rv r d reason (ev skipped) q s)"

text \<open>The guards of a pass that reaches the window scan, and what it computes then.\<close>

definition pass_guards :: 
  "'s StateStore \<Rightarrow> SchedulerConfig \<Rightarrow> GpuObservationSnapshot \<Rightarrow> GlobalJobQueue \<Rightarrow> 's
     \<Rightarrow> store_content \<Rightarrow> bool" where
  "pass_guards store config gpus q s c \<longleftrightarrow>
     gov_ok (gpu_validate gpus) \<and> slr_ok (st_load store s)
   \<and> length (queued_records (ss_jobs (snapshot_of c))) = queue_size q
   \<and> check_entries 0 (min (scfg_scan_window config) (length (q_entries q)))
       (queued_records (ss_jobs (snapshot_of c))) (q_entries q) = None
   \<and> q_entries q \<noteq> []"

context state_store
begin

lemma commit_start_cases:
  assumes inv: "inv s" and q: "queue_inv q" and adm: "admissible r"
    and mem: "entry_of r \<in> set (q_entries q)"
    and res: "commit_start store trigger rv r d reason ev q s = (res, q', s')"
  shows "(sr_code res = kScheduled \<and> sr_evaluation res = ev
      \<and> sr_event res = \<lparr>sev_trigger = trigger, sev_code = kScheduled, sev_job_id = Some (sj_id r),
          sev_gpu_uuid = Some (go_uuid d), sev_selection_reason = reason,
          sev_gpu_validation = gpu_fine, sev_store_error = StateStoreErrorCode.kNone,
          sev_queue_error = QueueErrorCode.kNone, sev_store_revision = sc_revision (content s')\<rparr>
      \<and> rv = sc_revision (content s) \<and> inv s'
      \<and> content s' = mutation_effect (content s) (start_mutation rv r (go_uuid d))
      \<and> qr_ok (snd (queue_remove q (sj_id r))) \<and> q' = fst (queue_remove q (sj_id r)))
    \<or> (sr_code res = kStateWriteFailed \<and> inv s' \<and> content s' = content s \<and> q' = q
      \<and> \<not> swr_ok (fst (st_apply store s (start_mutation rv r (go_uuid d)))))"
proof -
  obtain q1 rem where rem: "queue_remove q (sj_id r) = (q1, rem)" by fastforce
  obtain w s1 where w: "st_apply store s (start_mutation rv r (go_uuid d)) = (w, s1)" by fastforce
  note rb = jq.rollback [OF q adm mem]
  show ?thesis
  proof (cases "swr_ok w")
    case True
    note acc = apply_accepts [OF inv w True]
    then have "swr_revision w = sc_revision (content s1)"
      by (simp add: mutation_effect_def)
    with True rem w rb res acc show ?thesis
      by (auto simp: commit_start_def schedule_result_def start_mutation_def)
  next
    case False
    note rej = apply_rejects [OF inv w False]
    obtain q2 rr where ad: "queue_admit q1 r = (q2, rr)" by fastforce
    with False rem w rb res rej show ?thesis
      by (auto simp: commit_start_def schedule_result_def)
  qed
qed

lemma run_once_stops:
  assumes "inv s" and "\<not> pass_guards store config gpus q s (content s)"
  shows "\<exists>res. run_once store config trigger gpus q s = Some (res, q, s)
    \<and> sr_code res \<in> {kInvalidGpuSnapshot, kStateLoadFailed, kQueueStateDiverged, kQueueEmpty}"
  using assms load_reads [OF assms(1)]
  by (auto simp: run_once_def Let_def schedule_result_def pass_guards_def
      split: if_splits option.splits)

lemma window_entry_record:
  assumes inv: "inv s" and chk: "check_entries 0 (min w (length es))
      (queued_records (ss_jobs (snapshot_of (content s)))) es = None" and e: "e \<in> set (take w es)"
  shows "\<exists>r. map_of (queued_records (ss_jobs (snapshot_of (content s)))) (qe_job_id e) = Some r
    \<and> entry_of r = e"
proof -
  from e obtain j where j: "j < min w (length es)" "e = es ! j"
    by (auto simp: in_set_conv_nth)
  with check_entries_None [OF chk] obtain r where
      r: "map_of (queued_records (ss_jobs (snapshot_of (content s)))) (qe_job_id e) = Some r"
      "js_submit_time (sj_spec r) = qe_submit_time e" by auto
  then have "sj_id r = qe_job_id e"
    using queued_records_iff [OF inv_wf [OF inv]] stored_queued_admissible [OF inv_wf [OF inv]]
    by blast
  with r show ?thesis by (cases e) (auto simp: entry_of_def)
qed

lemma run_once_scans:
  assumes inv: "inv s" and guards: "pass_guards store config gpus q s (content s)"
  obtains targets any any_reason out where
    "collect_affinity_targets (take (scfg_scan_window config) (q_entries q))
       (queued_records (ss_jobs (snapshot_of (content s)))) = Some targets"
    "select_any_gpu gpus (snapshot_of (content s)) targets = (any, any_reason)"
    "scan_window gpus (snapshot_of (content s))
       (queued_records (ss_jobs (snapshot_of (content s)))) any any_reason
       (take (scfg_scan_window config) (q_entries q)) [] = Some out"
    "run_once store config trigger gpus q s = Some (pass_end store config trigger out q s
        (sc_revision (content s)))"
proof -
  let ?es = "q_entries q" and ?snap = "snapshot_of (content s)"
  let ?records = "queued_records (ss_jobs ?snap)" and ?w = "scfg_scan_window config"
  have tk: "take (min ?w (length ?es)) ?es = take ?w ?es" by (simp add: min_def)
  have tr: "length ?es > min ?w (length ?es) \<longleftrightarrow> length ?es > ?w" by auto
  have snap: "slr_snapshot (st_load store s) = ?snap"
    using load_reads [OF inv] guards by (simp add: pass_guards_def)
  have total: "\<forall>e \<in> set (take ?w ?es). map_of ?records (qe_job_id e) \<noteq> None"
  proof
    fix e assume "e \<in> set (take ?w ?es)"
    with guards window_entry_record [OF inv, of ?w ?es e]
    show "map_of ?records (qe_job_id e) \<noteq> None" by (auto simp: pass_guards_def)
  qed
  obtain targets where tg: "collect_affinity_targets (take ?w ?es) ?records = Some targets"
    using collect_affinity_total [OF total] by blast
  obtain any any_reason where any: "select_any_gpu gpus ?snap targets = (any, any_reason)"
    by fastforce
  obtain out where out: "scan_window gpus ?snap ?records any any_reason (take ?w ?es) [] = Some out"
    using scan_window_total [OF total] by blast
  show ?thesis
    using guards snap tg any out
    by (intro that [OF tg any out])
      (cases out; simp add: run_once_def pass_end_def Let_def pass_guards_def tk tr snapshot_of_def)
qed

lemma run_once_returns: "inv s \<Longrightarrow> \<exists>res. run_once store config trigger gpus q s = Some res"
  by (cases "pass_guards store config gpus q s (content s)")
    (rule run_once_scans, assumption+, erule exI, drule (1) run_once_stops, erule exE, erule conjE,
     erule exI)

lemma scan_selected_job:
  assumes inv: "inv s" and guards: "pass_guards store config gpus q s (content s)"
    and any: "select_any_gpu gpus (snapshot_of (content s)) targets = (any, any_reason)"
    and out: "scan_window gpus (snapshot_of (content s))
       (queued_records (ss_jobs (snapshot_of (content s)))) any any_reason
       (take (scfg_scan_window config) (q_entries q)) [] = Some (Selected r d reason skipped)"
  shows "\<exists>pre. selected_job config gpus q (content s) pre r d \<and> map sk_job skipped = map qe_job_id pre"
proof -
  let ?snap = "snapshot_of (content s)" and ?tk = "take (scfg_scan_window config) (q_entries q)"
  let ?records = "queued_records (ss_jobs ?snap)"
  have wf: "content_wf (content s)" using inv by (rule inv_wf)
  have gpus: "snapshot_ok gpus" using guards by (simp add: pass_guards_def gpu_validate_iff)
  from scan_window_Selected [OF out] obtain pre e post where
      tk: "?tk = pre @ e # post" and rec: "map_of ?records (qe_job_id e) = Some r"
    and ch: "choose_gpu gpus ?snap any any_reason (js_gpu_placement (sj_spec r)) = (Some d, reason)"
    and pre: "\<forall>x \<in> set pre. chosen_for gpus ?snap ?records any any_reason x = None
        \<and> map_of ?records (qe_job_id x) \<noteq> None"
    and sk: "map sk_job skipped = map qe_job_id pre"
    by auto
  have er: "entry_of r = e"
    using window_entry_record [OF inv, of "scfg_scan_window config" "q_entries q" e] guards tk rec
    by (auto simp: pass_guards_def)
  have "\<exists>rx. map_of (sc_jobs (content s)) (qe_job_id x) = Some rx
      \<and> \<not> placement_satisfiable gpus ?snap (js_gpu_placement (sj_spec rx))" if "x \<in> set pre" for x
  proof -
    from pre that obtain rx where rx: "map_of ?records (qe_job_id x) = Some rx"
      and none: "chosen_for gpus ?snap ?records any any_reason x = None" by auto
    then obtain rs where
        "choose_gpu gpus ?snap any any_reason (js_gpu_placement (sj_spec rx)) = (None, rs)"
      by (auto simp: chosen_for_def) (metis prod.collapse)
    from choose_gpu_None [OF any this] gpus rx queued_records_iff [OF wf] show ?thesis
      by (auto simp: snapshot_ok_def)
  qed
  moreover have "map_of (sc_jobs (content s)) (qe_job_id e) = Some r" "sj_state r = kQueued"
    using rec queued_records_iff [OF wf] by auto
  moreover from this have "admissible r" "sj_id r = qe_job_id e"
    using stored_queued_admissible [OF wf] by auto
  ultimately show ?thesis
    using gpus tk er sk choose_gpu_Some [OF any ch]
    by (intro exI [of _ pre]) (auto simp: selected_job_def)
qed

text \<open>Every way a pass can end: unchanged, or committed for a selected job.\<close>

lemma run_once_cases:
  assumes inv: "inv s" and q: "queue_inv q"
    and res: "run_once store config trigger gpus q s = Some (res, q', s')"
  shows "(sr_code res \<noteq> kScheduled \<and> sr_code res \<noteq> kQueueRollbackFailed
        \<and> inv s' \<and> content s' = content s \<and> q' = q)
    \<or> (\<exists>pre r d. selected_job config gpus q (content s) pre r d
        \<and> sr_code res = kScheduled
        \<and> sev_job_id (sr_event res) = Some (sj_id r)
        \<and> sev_gpu_uuid (sr_event res) = Some (go_uuid d)
        \<and> map sk_job (sv_skipped (sr_evaluation res)) = map qe_job_id pre
        \<and> inv s' \<and> content s' = mutation_effect (content s)
            (start_mutation (sc_revision (content s)) r (go_uuid d))
        \<and> qr_ok (snd (queue_remove q (sj_id r))) \<and> q' = fst (queue_remove q (sj_id r)))"
proof (cases "pass_guards store config gpus q s (content s)")
  case False
  with run_once_stops [OF inv False, of trigger] res inv show ?thesis by auto
next
  case True
  obtain targets any any_reason out where
      tg: "collect_affinity_targets (take (scfg_scan_window config) (q_entries q))
       (queued_records (ss_jobs (snapshot_of (content s)))) = Some targets"
    and any: "select_any_gpu gpus (snapshot_of (content s)) targets = (any, any_reason)"
    and out: "scan_window gpus (snapshot_of (content s))
       (queued_records (ss_jobs (snapshot_of (content s)))) any any_reason
       (take (scfg_scan_window config) (q_entries q)) [] = Some out"
    and ro: "run_once store config trigger gpus q s = Some (pass_end store config trigger out q s
        (sc_revision (content s)))"
    by (rule run_once_scans [OF inv True])
  show ?thesis
  proof (cases out)
    case (Exhausted skipped)
    then show ?thesis using res ro inv by (auto simp: pass_end_def schedule_result_def)
  next
    case (Selected r d reason skipped)
    from scan_selected_job [OF inv True any out [unfolded Selected]] obtain pre where
        sel: "selected_job config gpus q (content s) pre r d" "map sk_job skipped = map qe_job_id pre"
      by blast
    note adm = selected_jobD(1) [OF sel(1)] and mem = selected_jobD(2) [OF sel(1)]
    have "commit_start store trigger (sc_revision (content s)) r d reason
        \<lparr>sv_skipped = skipped,
         sv_window_truncated = length (q_entries q) > scfg_scan_window config\<rparr> q s = (res, q', s')"
      using res ro Selected by (simp add: pass_end_def)
    from commit_start_cases [OF inv q adm mem this] show ?thesis
    proof (elim disjE, goal_cases)
      case 1
      then show ?case
        by (intro disjI2 exI [of _ pre] exI [of _ r] exI [of _ d]) (simp add: sel)
    next
      case 2
      then show ?case by (intro disjI1) simp
    qed
  qed
qed

text \<open>A mirroring queue never counts as diverged.\<close>

lemma mirror_guards:
  assumes inv: "inv s" and q: "queue_inv q" and mir: "queue_mirrors q (content s)"
    and gpus: "snapshot_ok gpus" and load: "slr_ok (st_load store s)" and ne: "q_entries q \<noteq> []"
  shows "pass_guards store config gpus q s (content s)"
proof -
  have wf: "content_wf (content s)" using inv by (rule inv_wf)
  let ?qj = "queued_jobs (map snd (sc_jobs (content s)))"
  have "distinct (map sj_id ?qj)"
    unfolding queued_jobs_def by (rule distinct_map_filter [OF content_wf_restorable(2) [OF wf]])
  then have "distinct (map entry_of ?qj)"
    by (auto simp: distinct_map inj_on_def entry_of_def)
  moreover have "distinct (q_entries q)" using q by (auto simp: queue_inv_def distinct_map)
  moreover have "set (q_entries q) = set (map entry_of ?qj)"
    using mir by (simp add: queue_mirrors_def)
  ultimately have "length (q_entries q) = length ?qj"
    by (metis distinct_card length_map)
  moreover have "\<exists>r. map_of (queued_records (ss_jobs (snapshot_of (content s)))) (qe_job_id e) = Some r
      \<and> js_submit_time (sj_spec r) = qe_submit_time e \<and> sj_revision r = 0"
    if "e \<in> set (q_entries q)" for e
  proof -
    from that mir obtain r where r: "map_of (sc_jobs (content s)) (qe_job_id e) = Some r"
        "sj_state r = kQueued" "entry_of r = e"
      unfolding queue_mirrors_iff [OF wf] by blast
    then have "sj_revision r = 0"
      using stored_queued_admissible [OF wf r(1,2)] by (simp add: admissible_def)
    with r show ?thesis
      unfolding queued_records_iff [OF wf] by (auto simp: entry_of_def)
  qed
  ultimately show ?thesis
    using gpus load ne length_queued_records [OF wf]
    by (auto simp: pass_guards_def gpu_validate_iff queue_size_def intro!: check_entries_mirror)
qed

text \<open>A pass that finds no candidate has looked at the whole window.\<close>

lemma scan_exhausted:
  assumes inv: "inv s" and guards: "pass_guards store config gpus q s (content s)"
    and any: "select_any_gpu gpus (snapshot_of (content s)) targets = (any, any_reason)"
    and out: "scan_window gpus (snapshot_of (content s))
       (queued_records (ss_jobs (snapshot_of (content s)))) any any_reason
       (take (scfg_scan_window config) (q_entries q)) [] = Some (Exhausted skipped)"
    and e: "e \<in> set (take (scfg_scan_window config) (q_entries q))"
    and r: "map_of (sc_jobs (content s)) (qe_job_id e) = Some r"
  shows "\<not> placement_satisfiable gpus (snapshot_of (content s)) (js_gpu_placement (sj_spec r))"
proof -
  let ?snap = "snapshot_of (content s)"
  have "check_entries 0 (min (scfg_scan_window config) (length (q_entries q)))
      (queued_records (ss_jobs ?snap)) (q_entries q) = None"
    using guards by (simp add: pass_guards_def)
  from window_entry_record [OF inv this e] obtain r' where
      "map_of (queued_records (ss_jobs ?snap)) (qe_job_id e) = Some r'" by blast
  with r have rec: "map_of (queued_records (ss_jobs ?snap)) (qe_job_id e) = Some r"
    using queued_records_iff [OF inv_wf [OF inv]] by auto
  have "chosen_for gpus ?snap (queued_records (ss_jobs ?snap)) any any_reason e = None"
    using scan_window_Exhausted [OF out] e by blast
  then obtain rs where
      "choose_gpu gpus ?snap any any_reason (js_gpu_placement (sj_spec r)) = (None, rs)"
    using rec by (simp add: chosen_for_def) (metis prod.collapse)
  from choose_gpu_None [OF any this] guards show ?thesis
    by (simp add: pass_guards_def gpu_validate_iff snapshot_ok_def)
qed

end

text \<open>Progress: on a backend that is not failing, a pass over a window that contains a satisfiable
  job starts one.\<close>

context available_store
begin

lemma run_once_progress:
  assumes inv: "inv s" and rdy: "ready s" and q: "queue_inv q"
    and mir: "queue_mirrors q (content s)" and gpus: "snapshot_ok gpus"
    and room: "length (sc_leases (content s)) < vc_max_leases (limits s)"
    and rv: "sc_revision (content s) \<noteq> u64_max"
    and e: "e \<in> set (take (scfg_scan_window config) (q_entries q))"
    and r: "map_of (sc_jobs (content s)) (qe_job_id e) = Some r"
    and sat: "placement_satisfiable gpus (snapshot_of (content s)) (js_gpu_placement (sj_spec r))"
  shows "\<exists>res q' s'. run_once store config trigger gpus q s = Some (res, q', s')
    \<and> sr_code res = kScheduled"
proof -
  have "q_entries q \<noteq> []" using e by auto
  note guards = mirror_guards [OF inv q mir gpus ready_load [OF inv rdy] this, of config]
  obtain targets any any_reason out where
      tg: "collect_affinity_targets (take (scfg_scan_window config) (q_entries q))
       (queued_records (ss_jobs (snapshot_of (content s)))) = Some targets"
    and any: "select_any_gpu gpus (snapshot_of (content s)) targets = (any, any_reason)"
    and out: "scan_window gpus (snapshot_of (content s))
       (queued_records (ss_jobs (snapshot_of (content s)))) any any_reason
       (take (scfg_scan_window config) (q_entries q)) [] = Some out"
    and ro: "run_once store config trigger gpus q s = Some (pass_end store config trigger out q s
        (sc_revision (content s)))"
    by (rule run_once_scans [OF inv guards])
  show ?thesis
  proof (cases out)
    case (Exhausted skipped)
    with scan_exhausted [OF inv guards any _ e r] out sat show ?thesis by blast
  next
    case (Selected r' d reason skipped)
    from scan_selected_job [OF inv guards any out [unfolded Selected]] obtain pre where
        sel: "selected_job config gpus q (content s) pre r' d" by blast
    obtain res q' s' where run: "pass_end store config trigger out q s (sc_revision (content s))
        = (res, q', s')" by (rule prod_cases3)
    have d: "uuid_valid (go_uuid d)" "map_of (sc_leases (content s)) (go_uuid d) = None"
      using sel leased_iff [OF inv_wf [OF inv], of "go_uuid d"]
      by (auto simp: selected_job_def snapshot_ok_def available_def)
    have "swr_ok (fst (st_apply store s (start_mutation (sc_revision (content s)) r' (go_uuid d))))"
      using sel d room rv
      by (intro ready_apply [OF inv rdy] start_accepted [OF inv_wf [OF inv]])
        (auto simp: selected_job_def)
    with commit_start_cases [OF inv q, of r' trigger "sc_revision (content s)" d reason _ res q' s']
      run Selected selected_jobD [OF sel] have "sr_code res = kScheduled"
      by (auto simp: pass_end_def)
    with run ro show ?thesis by auto
  qed
qed

end

end
