(* ===== verification/Scheduler_Props.thy ===== *)
theory Scheduler_Props
  imports Scheduler_Laws
begin

text \<open>
  The properties of a scheduling pass, at the in-memory backend: the lemmas of the contexts
  \<open>state_store\<close> and \<open>available_store\<close> hold for every backend that keeps the contract, and
  these are their instances. A concrete pass over one free device serves as the example.
\<close>

section \<open>A concrete pass\<close>

definition demo_gpu :: GpuObservation where
  "demo_gpu = \<lparr>go_uuid = ''GPU-a'', go_index = 0, go_state = GpuObservedState.kFree,
     go_telemetry = \<lparr>gt_utilization_percent = Some 3, gt_memory_total_bytes = Some 100,
       gt_memory_used_bytes = Some 7\<rparr>\<rparr>"

definition demo_gpus :: GpuObservationSnapshot where
  "demo_gpus = \<lparr>gs_revision = 1, gs_observed_at = 9, gs_devices = [demo_gpu]\<rparr>"

definition demo_window :: SchedulerConfig where
  "demo_window = \<lparr>scfg_scan_window = 4\<rparr>"

lemma demo_gpus_ok: "snapshot_ok demo_gpus"
  by (simp add: snapshot_ok_def demo_gpus_def demo_gpu_def telemetry_ok_def gpu_kMaxDevices_def
      uuid_valid_def uuid_kMaxBytes_def NUL_def)

lemma demo_mirrors: "queue_mirrors demo_queue (im_content demo_store1)"
  by (simp add: queue_mirrors_def queued_jobs_def im_content_def demo_store1_def demo_job_def
      demo_queue_def entry_of_def demo_spec_def)

lemma demo_available: "available (snapshot_of (im_content demo_store1)) demo_gpu"
  by (simp add: available_def demo_gpu_def leased_def snapshot_of_def im_content_def demo_store1_def
      empty_store_def)

lemma demo_satisfiable:
  "placement_satisfiable demo_gpus (snapshot_of (im_content demo_store1))
     (js_gpu_placement (sj_spec demo_job))"
  using demo_available
  by (simp add: placement_satisfiable_def demo_gpus_def demo_job_def demo_spec_def)

lemma demo_room:
  "im_ready demo_store1" "im_leases demo_store1 = []" "0 < vc_max_leases (im_config demo_store1)"
  "im_revision demo_store1 = 1" "map_of (im_jobs demo_store1) 7 = Some demo_job"
  "take (scfg_scan_window demo_window) (q_entries demo_queue) = [\<lparr>qe_job_id = 7, qe_submit_time = 5\<rparr>]"
  "sc_leases (im_content demo_store1) = []" "sc_revision (im_content demo_store1) = 1"
  "map_of (sc_jobs (im_content demo_store1)) 7 = Some demo_job"
  by (simp_all add: im_ready_def im_content_def demo_store1_def empty_store_def demo_config_def
      demo_queue_def demo_window_def)

lemmas demo_pass_facts = demo_room demo_store1_inv demo_queue_inv demo_mirrors demo_gpus_ok demo_satisfiable

lemma demo_pass:
  "\<exists>res q' s'. run_once in_memory_store demo_window kJobSubmitted demo_gpus demo_queue demo_store1
     = Some (res, q', s') \<and> sr_code res = kScheduled"
  by (rule ima.run_once_progress [where r = demo_job
        and e = "\<lparr>qe_job_id = 7, qe_submit_time = 5\<rparr>"])
    (simp_all add: demo_pass_facts)

section \<open>Properties\<close>

text \<open>Property C1. When a pass reports \<open>kScheduled\<close>, it names a job that was queued inside the
  window and a device of a valid observation that is free, unleased and in the job's required set;
  the store now holds that job as starting, one revision later, and the device leased to it, and
  differs in nothing else; the queue has lost exactly that entry; and every job before it in the
  window is reported as skipped, in order, and had no device it could have used.\<close>

theorem schedule_sound:
  assumes "im_inv s" and "queue_inv q"
    and "run_once in_memory_store config trigger gpus q s = Some (res, q', s')"
    and "sr_code res = kScheduled"
  shows "\<exists>pre r d. selected_job config gpus q (im_content s) pre r d
    \<and> sev_job_id (sr_event res) = Some (sj_id r) \<and> sev_gpu_uuid (sr_event res) = Some (go_uuid d)
    \<and> map sk_job (sv_skipped (sr_evaluation res)) = map qe_job_id pre
    \<and> im_revision s' = im_revision s + 1
    \<and> map_of (im_jobs s') = (map_of (im_jobs s))
        (sj_id r \<mapsto> r\<lparr>sj_state := kStarting, sj_revision := sj_revision r + 1\<rparr>)
    \<and> map_of (im_leases s') = (map_of (im_leases s))
        (go_uuid d \<mapsto> \<lparr>gl_gpu_uuid = go_uuid d, gl_job_id = sj_id r\<rparr>)
    \<and> q_entries q' = filter (\<lambda>e. qe_job_id e \<noteq> sj_id r) (q_entries q)"
proof -
  from im.run_once_cases [OF assms(1-3)] assms(4) obtain pre r d where
      sel: "selected_job config gpus q (im_content s) pre r d"
    and ev: "sev_job_id (sr_event res) = Some (sj_id r)"
      "sev_gpu_uuid (sr_event res) = Some (go_uuid d)"
      "map sk_job (sv_skipped (sr_evaluation res)) = map qe_job_id pre"
    and c: "im_content s' = mutation_effect (im_content s)
        (start_mutation (sc_revision (im_content s)) r (go_uuid d))"
    and rem: "qr_ok (snd (queue_remove q (sj_id r)))" "q' = fst (queue_remove q (sj_id r))"
    by blast
  have "q_entries q' = filter (\<lambda>e. qe_job_id e \<noteq> sj_id r) (q_entries q)"
    using queue_remove_ok [OF assms(2) rem(1)] rem(2) by simp
  with sel ev c show ?thesis
    unfolding start_effect
    by (intro exI [of _ pre] exI [of _ r] exI [of _ d]) (simp add: im_content_def omap_simps)
qed

theorem schedule_sound_witness:
  "\<exists>res q' s'. run_once in_memory_store demo_window kJobSubmitted demo_gpus demo_queue demo_store1
       = Some (res, q', s') \<and> sr_code res = kScheduled
     \<and> map_of (im_leases s') ''GPU-a'' = Some \<lparr>gl_gpu_uuid = ''GPU-a'', gl_job_id = 7\<rparr>
     \<and> q_entries q' = []"
proof -
  from demo_pass obtain res q' s' where run: "run_once in_memory_store demo_window kJobSubmitted
      demo_gpus demo_queue demo_store1 = Some (res, q', s')" "sr_code res = kScheduled" by blast
  from schedule_sound [OF demo_store1_inv demo_queue_inv run] obtain pre r d where
      sel: "selected_job demo_window demo_gpus demo_queue (im_content demo_store1) pre r d"
    and l: "map_of (im_leases s') = (map_of (im_leases demo_store1))
        (go_uuid d \<mapsto> \<lparr>gl_gpu_uuid = go_uuid d, gl_job_id = sj_id r\<rparr>)"
    and q: "q_entries q' = filter (\<lambda>e. qe_job_id e \<noteq> sj_id r) (q_entries demo_queue)" by blast
  have "sj_id r = 7" "go_uuid d = ''GPU-a''"
    using sel
    by (auto simp: selected_job_def im_content_def demo_store1_def demo_gpus_def demo_gpu_def
        split: if_splits)
  with run l q show ?thesis by (simp add: demo_queue_def)
qed

text \<open>Property C11. A pass always returns. It never ends in \<open>kQueueRollbackFailed\<close>; unless it
  reports \<open>kScheduled\<close> it leaves the queue and the stored content exactly as they were; the
  invariants of the store and of the queue hold afterwards; and a queue that mirrored the stored
  queued jobs still does.\<close>

theorem schedule_frame:
  assumes "im_inv s" and "queue_inv q"
  shows "\<exists>res q' s'. run_once in_memory_store config trigger gpus q s = Some (res, q', s')
    \<and> sr_code res \<noteq> kQueueRollbackFailed
    \<and> (sr_code res \<noteq> kScheduled \<longrightarrow> q' = q \<and> im_content s' = im_content s)
    \<and> im_inv s' \<and> queue_inv q'
    \<and> (queue_mirrors q (im_content s) \<longrightarrow> queue_mirrors q' (im_content s'))"
proof -
  obtain res q' s' where run: "run_once in_memory_store config trigger gpus q s = Some (res, q', s')"
    using im.run_once_returns [OF assms(1)] by (metis prod_cases3)
  from im.run_once_cases [OF assms run] show ?thesis
  proof (elim disjE, goal_cases)
    case 1
    with run assms(2) show ?case by auto
  next
    case 2
    then obtain r and d :: GpuObservation where inv: "im_inv s'" and code: "sr_code res = kScheduled"
      and c: "im_content s' = mutation_effect (im_content s)
          (start_mutation (sc_revision (im_content s)) r (go_uuid d))"
      and rem: "qr_ok (snd (queue_remove q (sj_id r)))" and q': "q' = fst (queue_remove q (sj_id r))"
      by blast
    have "queue_mirrors q' (im_content s')" if "queue_mirrors q (im_content s)"
      unfolding c q'
      using mirrors_after_start [OF im.inv_wf [OF assms(1)] _ that assms(2) rem] im.inv_wf [OF inv] c
      by simp
    with run inv code queue_remove_ok [OF assms(2) rem] q' show ?case by auto
  qed
qed

theorem schedule_frame_witness:
  "\<exists>res q' s'. run_once in_memory_store demo_window kJobSubmitted demo_gpus demo_queue demo_store1
       = Some (res, q', s')
     \<and> im_inv s' \<and> queue_inv q' \<and> queue_mirrors q' (im_content s')"
  using schedule_frame [OF demo_store1_inv demo_queue_inv, of demo_window kJobSubmitted demo_gpus]
    demo_mirrors
  by blast

text \<open>Property C12. Progress: if the queue mirrors the store, the backend is not failing, the lease
  table and the revision counter have room, and some job in the scan window has an available
  device, then the pass schedules a job.\<close>

theorem schedule_progress:
  assumes "im_inv s" and "im_ready s" and "queue_inv q" and "queue_mirrors q (im_content s)"
    and "snapshot_ok gpus" and "length (im_leases s) < vc_max_leases (im_config s)"
    and "im_revision s \<noteq> u64_max"
    and "e \<in> set (take (scfg_scan_window config) (q_entries q))"
    and "map_of (im_jobs s) (qe_job_id e) = Some r"
    and "placement_satisfiable gpus (snapshot_of (im_content s)) (js_gpu_placement (sj_spec r))"
  shows "\<exists>res q' s'. run_once in_memory_store config trigger gpus q s = Some (res, q', s')
    \<and> sr_code res = kScheduled"
  using ima.run_once_progress [OF assms(1-5) _ _ assms(8) _ assms(10)] assms(6,7,9)
  by (simp add: im_content_def)

theorem schedule_progress_witness:
  "\<exists>res q' s'. run_once in_memory_store demo_window kJobSubmitted demo_gpus demo_queue demo_store1
     = Some (res, q', s') \<and> sr_code res = kScheduled"
  by (rule schedule_progress [where r = demo_job
        and e = "\<lparr>qe_job_id = 7, qe_submit_time = 5\<rparr>"])
    (simp_all add: demo_pass_facts)

text \<open>Property C17. The device offered to jobs that accept any GPU: none exactly when no device is
  free and unleased; otherwise an available one that no waiting job requires if there is such a
  device, and the lowest index among the devices of its kind.\<close>

theorem select_any_exact:
  "case fst (select_any_gpu gpus snap targets) of
     None \<Rightarrow> (\<forall>d \<in> set (gs_devices gpus). \<not> available snap d)
   | Some d \<Rightarrow> d \<in> set (gs_devices gpus) \<and> available snap d
       \<and> (\<forall>d' \<in> set (gs_devices gpus). available snap d' \<longrightarrow>
            (go_uuid d \<in> set targets \<longrightarrow> go_uuid d' \<in> set targets)
          \<and> ((go_uuid d' \<in> set targets \<longleftrightarrow> go_uuid d \<in> set targets) \<longrightarrow> go_index d \<le> go_index d'))"
proof -
  let ?P = "\<lambda>d. available snap d \<and> go_uuid d \<notin> set targets" and ?ds = "gs_devices gpus"
  show ?thesis
  proof (cases "min_by ?P ?ds None")
    case None
    then have "\<forall>d \<in> set ?ds. available snap d \<longrightarrow> go_uuid d \<in> set targets"
      by (simp add: min_by_None)
    with None show ?thesis
      using min_by_Some [of "available snap" ?ds] min_by_None [of "available snap" ?ds]
      by (auto simp: select_any_gpu_def any_gpu_loop_eq split: option.split)
  next
    case (Some d)
    then show ?thesis
      using min_by_Some [OF Some] by (auto simp: select_any_gpu_def any_gpu_loop_eq)
  qed
qed

theorem select_any_exact_witness:
  "fst (select_any_gpu demo_gpus (snapshot_of (im_content demo_store1)) [''GPU-a'']) = Some demo_gpu"
proof -
  note e = select_any_exact [of demo_gpus "snapshot_of (im_content demo_store1)" "[''GPU-a'']"]
  show ?thesis
    using e demo_available by (auto simp: demo_gpus_def split: option.splits)
qed

end
