(* ===== verification/Recovery.thy ===== *)
theory Recovery
  imports Job_Queue
begin

text \<open>
  Recovery after a restart of the daemon: \<^verbatim>\<open>src/include/yori/recovery/job_recovery.hpp\<close> and
  \<^verbatim>\<open>src/src/recovery/job_recovery.cpp\<close>. \<open>recovery_plan\<close> decides for every stored job,
  \<open>recover\<close> writes the decisions in chunks of at most \<open>kMaxEntries\<close> entries and rebuilds the
  queue. The injected verifier of process identities and the reading of the clock are parameters.
\<close>

section \<open>Decisions\<close>

datatype RecoveryDecisionCode =
    kAdoptedRunning | kAdoptedPromotedToRunning | kAdoptedStoppingNeedsRecancel | kQueuedRestored
  | kLostProcessGone | kLostIdentityMismatch | kLostIdentityMissing | kTerminalUntouched

datatype IdentityVerification = kVerified | kProcessGone | kMismatch

record RecoveryJobOutcome =
  ro_job_id :: JobId
  ro_previous_state :: JobState
  ro_decision :: RecoveryDecisionCode
  ro_released_gpu :: "GpuUuid option"

record RecoveryMutationEntry =
  rme_update_job :: StoredJob
  rme_release_gpu :: "GpuUuid option"

record RecoveryPlan =
  rp_outcomes :: "RecoveryJobOutcome list"
  rp_mutations :: "RecoveryMutationEntry list"

datatype RecoveryErrorCode = kNone | kStoreLoadFailed | kStoreWriteFailed | kQueueRestoreFailed

record RecoveryResult =
  rr_code :: RecoveryErrorCode
  rr_outcomes :: "RecoveryJobOutcome list"
  rr_store_error :: StateStoreErrorCode
  rr_queue_error :: QueueErrorCode
  rr_store_revision :: u64

definition rr_ok :: "RecoveryResult \<Rightarrow> bool" where
  "rr_ok r \<longleftrightarrow> rr_code r = RecoveryErrorCode.kNone"

type_synonym identity_verifier = "ProcessIdentity \<Rightarrow> IdentityVerification"

definition is_active :: "JobState \<Rightarrow> bool" where
  "is_active s \<longleftrightarrow> s = kStarting \<or> s = kRunning \<or> s = kStopping"

definition find_lease_gpu :: "StateSnapshot \<Rightarrow> JobId \<Rightarrow> GpuUuid option" where
  "find_lease_gpu snapshot i =
     map_option gl_gpu_uuid (find (\<lambda>lease. gl_job_id lease = i) (ss_leases snapshot))"

fun recovery_failure_reason :: "RecoveryDecisionCode \<Rightarrow> string" where
  "recovery_failure_reason kLostProcessGone =
     ''recovery: process gone before or during daemon restart''"
| "recovery_failure_reason kLostIdentityMismatch =
     ''recovery: pid reused by another process (pgid/start ticks mismatch)''"
| "recovery_failure_reason kLostIdentityMissing =
     ''recovery: active job without recorded process identity''"
| "recovery_failure_reason _ = []"

text \<open>The two reads of the stat file happen one after the other and may see different contents.\<close>

definition verify_identity_via_proc ::
  "proc_stat \<Rightarrow> proc_stat \<Rightarrow> ProcessIdentity \<Rightarrow> IdentityVerification" where
  "verify_identity_via_proc first_read second_read i =
     (if \<not> identity_valid i then kMismatch
      else case read_process_start_ticks first_read (pi_pid i) of
        None \<Rightarrow> kProcessGone
      | Some live_ticks \<Rightarrow>
          if live_ticks \<noteq> pi_start_ticks i then kMismatch
          else case read_process_pgid second_read (pi_pid i) of
            None \<Rightarrow> kProcessGone
          | Some live_pgid \<Rightarrow> if live_pgid \<noteq> pi_pgid i then kMismatch else kVerified)"

definition recovery_decision :: "identity_verifier \<Rightarrow> StoredJob \<Rightarrow> RecoveryDecisionCode" where
  "recovery_decision verifier record =
     (if \<not> is_active (sj_state record)
        then (if sj_state record = kQueued then kQueuedRestored else kTerminalUntouched)
      else if \<not> has_identity (sj_execution record) then kLostIdentityMissing
      else case verifier (er_identity (sj_execution record)) of
        kVerified \<Rightarrow>
          (if sj_state record = kStarting then kAdoptedPromotedToRunning
           else if sj_state record = kStopping then kAdoptedStoppingNeedsRecancel
           else kAdoptedRunning)
      | kProcessGone \<Rightarrow> kLostProcessGone
      | kMismatch \<Rightarrow> kLostIdentityMismatch)"

fun is_lost_decision :: "RecoveryDecisionCode \<Rightarrow> bool" where
  "is_lost_decision kLostProcessGone = True"
| "is_lost_decision kLostIdentityMismatch = True"
| "is_lost_decision kLostIdentityMissing = True"
| "is_lost_decision _ = False"

definition promoted_record :: "StoredJob \<Rightarrow> StoredJob" where
  "promoted_record r = r\<lparr>sj_state := kRunning, sj_revision := sj_revision r + 1\<rparr>"

definition lost_record :: "RecoveryDecisionCode \<Rightarrow> time_point \<Rightarrow> StoredJob \<Rightarrow> StoredJob" where
  "lost_record d now r = r\<lparr>sj_state := kLost, sj_revision := sj_revision r + 1,
     sj_execution := (sj_execution r)\<lparr>er_failure_reason := Some (recovery_failure_reason d),
       er_end_time := Some now\<rparr>\<rparr>"

text \<open>One turn of the loop of \<open>plan\<close>: what it appends to the outcomes and to the mutations.\<close>

definition plan_job ::
  "identity_verifier \<Rightarrow> time_point \<Rightarrow> StateSnapshot \<Rightarrow> StoredJob
     \<Rightarrow> RecoveryJobOutcome \<times> RecoveryMutationEntry list" where
  "plan_job verifier now snapshot record =
     (let d = recovery_decision verifier record;
          outcome = \<lparr>ro_job_id = sj_id record, ro_previous_state = sj_state record,
                     ro_decision = d, ro_released_gpu = None\<rparr> in
      if d = kAdoptedPromotedToRunning
        then (outcome, [\<lparr>rme_update_job = promoted_record record, rme_release_gpu = None\<rparr>])
      else if is_lost_decision d
        then (let leased_gpu = find_lease_gpu snapshot (sj_id record) in
              (outcome\<lparr>ro_released_gpu := leased_gpu\<rparr>,
               [\<lparr>rme_update_job = lost_record d now record, rme_release_gpu = leased_gpu\<rparr>]))
      else (outcome, []))"

definition recovery_plan :: "identity_verifier \<Rightarrow> time_point \<Rightarrow> StateSnapshot \<Rightarrow> RecoveryPlan" where
  "recovery_plan verifier now snapshot =
     \<lparr>rp_outcomes = map (fst \<circ> plan_job verifier now snapshot) (ss_jobs snapshot),
      rp_mutations = concat (map (snd \<circ> plan_job verifier now snapshot) (ss_jobs snapshot))\<rparr>"

section \<open>Writing the plan\<close>

text \<open>The lambda \<open>flush_chunk\<close>: the pending chunk, the expected revision and the store. A failed
  write gives the error code, the revision it reported and the store after it.\<close>

definition flush_chunk ::
  "'s StateStore \<Rightarrow> StateMutation \<times> u64 \<times> 's
     \<Rightarrow> (StateStoreErrorCode \<times> u64 \<times> 's) + (StateMutation \<times> u64 \<times> 's)" where
  "flush_chunk store st =
     (case st of (chunk, expected_revision, s) \<Rightarrow>
        if entry_count chunk = 0 then Inr st
        else (case st_apply store s (chunk\<lparr>sm_expected_revision := expected_revision\<rparr>) of
          (written, s') \<Rightarrow>
            if \<not> swr_ok written then Inl (swr_code written, swr_revision written, s')
            else Inr (empty_mutation, swr_revision written, s')))"

definition add_to_chunk :: "RecoveryMutationEntry \<Rightarrow> StateMutation \<Rightarrow> StateMutation" where
  "add_to_chunk entry chunk =
     chunk\<lparr>sm_update_jobs := sm_update_jobs chunk @ [rme_update_job entry],
       sm_release_leases := sm_release_leases chunk
         @ (case rme_release_gpu entry of None \<Rightarrow> [] | Some u \<Rightarrow> [u])\<rparr>"

fun write_plan ::
  "'s StateStore \<Rightarrow> RecoveryMutationEntry list \<Rightarrow> StateMutation \<times> u64 \<times> 's
     \<Rightarrow> (StateStoreErrorCode \<times> u64 \<times> 's) + (StateMutation \<times> u64 \<times> 's)" where
  "write_plan store [] st = flush_chunk store st"
| "write_plan store (entry # rest) st =
     (let entries_needed = (if rme_release_gpu entry \<noteq> None then 2 else 1) in
      case (if entry_count (fst st) + entries_needed > kMaxEntries then flush_chunk store st
            else Inr st) of
        Inl err \<Rightarrow> Inl err
      | Inr (chunk, expected_revision, s) \<Rightarrow>
          write_plan store rest (add_to_chunk entry chunk, expected_revision, s))"

definition recover ::
  "'s StateStore \<Rightarrow> identity_verifier \<Rightarrow> time_point \<Rightarrow> GlobalJobQueue \<Rightarrow> 's
     \<Rightarrow> RecoveryResult \<times> GlobalJobQueue \<times> 's" where
  "recover store verifier now q s =
     (let loaded = st_load store s;
          blank = \<lparr>rr_code = RecoveryErrorCode.kNone, rr_outcomes = [],
                   rr_store_error = StateStoreErrorCode.kNone,
                   rr_queue_error = QueueErrorCode.kNone, rr_store_revision = 0\<rparr> in
      if \<not> slr_ok loaded
        then (blank\<lparr>rr_code := kStoreLoadFailed, rr_store_error := slr_code loaded\<rparr>, q, s)
      else let snapshot = slr_snapshot loaded; plan = recovery_plan verifier now snapshot;
               result = blank\<lparr>rr_outcomes := rp_outcomes plan\<rparr> in
        case write_plan store (rp_mutations plan) (empty_mutation, ss_revision snapshot, s) of
          Inl (code, rv, s') \<Rightarrow>
            (result\<lparr>rr_code := kStoreWriteFailed, rr_store_error := code, rr_store_revision := rv\<rparr>,
             q, s')
        | Inr (chunk, expected_revision, s') \<Rightarrow>
            (case queue_restore q snapshot of (q', restored) \<Rightarrow>
               if \<not> qr_ok restored
                 then (result\<lparr>rr_code := kQueueRestoreFailed, rr_queue_error := qr_code restored\<rparr>,
                       q', s')
               else (result\<lparr>rr_store_revision := expected_revision\<rparr>, q', s')))"

section \<open>Printed names\<close>

fun RecoveryDecisionCode_to_string :: "RecoveryDecisionCode \<Rightarrow> string" where
  "RecoveryDecisionCode_to_string kAdoptedRunning = ''ADOPTED_RUNNING''"
| "RecoveryDecisionCode_to_string kAdoptedPromotedToRunning = ''ADOPTED_PROMOTED_TO_RUNNING''"
| "RecoveryDecisionCode_to_string kAdoptedStoppingNeedsRecancel =
     ''ADOPTED_STOPPING_NEEDS_RECANCEL''"
| "RecoveryDecisionCode_to_string kQueuedRestored = ''QUEUED_RESTORED''"
| "RecoveryDecisionCode_to_string kLostProcessGone = ''LOST_PROCESS_GONE''"
| "RecoveryDecisionCode_to_string kLostIdentityMismatch = ''LOST_IDENTITY_MISMATCH''"
| "RecoveryDecisionCode_to_string kLostIdentityMissing = ''LOST_IDENTITY_MISSING''"
| "RecoveryDecisionCode_to_string kTerminalUntouched = ''TERMINAL_UNTOUCHED''"

fun IdentityVerification_to_string :: "IdentityVerification \<Rightarrow> string" where
  "IdentityVerification_to_string kVerified = ''VERIFIED''"
| "IdentityVerification_to_string kProcessGone = ''PROCESS_GONE''"
| "IdentityVerification_to_string kMismatch = ''MISMATCH''"

fun RecoveryErrorCode_to_string :: "RecoveryErrorCode \<Rightarrow> string" where
  "RecoveryErrorCode_to_string RecoveryErrorCode.kNone = ''NONE''"
| "RecoveryErrorCode_to_string kStoreLoadFailed = ''STORE_LOAD_FAILED''"
| "RecoveryErrorCode_to_string kStoreWriteFailed = ''STORE_WRITE_FAILED''"
| "RecoveryErrorCode_to_string kQueueRestoreFailed = ''QUEUE_RESTORE_FAILED''"

end
