(* ===== verification/Recovery_Laws.thy ===== *)
theory Recovery_Laws
  imports Recovery
begin

text \<open>
  What recovery guarantees. \<open>recovered_job\<close> is the fate of one record; \<open>write_plan_effect\<close>
  shows, for every backend that keeps the store contract, that the chunked writes together apply
  exactly the plan, and \<open>write_plan_accepted\<close> that a backend that is not failing accepts them.
\<close>

section \<open>Iterated table updates\<close>

lemma put_jobs_append: "put_jobs (xs @ ys) jobs = put_jobs ys (put_jobs xs jobs)"
  by (simp add: put_jobs_def)

lemma put_jobs_Cons: "put_jobs (x # xs) jobs = put_jobs xs (omap_put (sj_id x) x jobs)"
  by (simp add: put_jobs_def)

lemma put_jobs_Nil [simp]: "put_jobs [] jobs = jobs"
  by (simp add: put_jobs_def)

lemma map_of_put_jobs_other:
  "i \<notin> sj_id ` set rs \<Longrightarrow> map_of (put_jobs rs jobs) i = map_of jobs i"
  by (induction rs arbitrary: jobs) (simp_all add: put_jobs_Cons omap_simps)

lemma map_of_put_jobs:
  assumes "distinct (map sj_id rs)" and "r \<in> set rs"
  shows "map_of (put_jobs rs jobs) (sj_id r) = Some r"
  using assms
proof (induction rs arbitrary: jobs)
  case (Cons x rs)
  show ?case
  proof (cases "r = x")
    case True
    with Cons.prems have "sj_id r \<notin> sj_id ` set rs" by simp
    with True show ?thesis by (simp add: put_jobs_Cons map_of_put_jobs_other omap_simps)
  next
    case False
    with Cons show ?thesis by (simp add: put_jobs_Cons)
  qed
qed simp

lemma omap_wf_put_jobs [intro]: "omap_wf jobs \<Longrightarrow> omap_wf (put_jobs rs jobs)"
  by (induction rs arbitrary: jobs) (auto simp: put_jobs_Cons)

lemma map_of_fold_erase:
  "map_of (fold omap_erase us m) u = (if u \<in> set us then None else map_of m u)"
  by (induction us arbitrary: m) (auto simp: omap_simps)

lemma omap_wf_fold_erase [intro]: "omap_wf m \<Longrightarrow> omap_wf (fold omap_erase us m)"
  by (induction us arbitrary: m) auto

lemma find_SomeD: "find P xs = Some x \<Longrightarrow> x \<in> set xs \<and> P x"
  by (auto simp: find_Some_iff)

section \<open>The fate of one record\<close>

definition recovered_job :: "identity_verifier \<Rightarrow> time_point \<Rightarrow> StoredJob \<Rightarrow> StoredJob" where
  "recovered_job verifier now r =
     (let d = recovery_decision verifier r in
      if d = kAdoptedPromotedToRunning then promoted_record r
      else if is_lost_decision d then lost_record d now r else r)"

definition plan_changes :: "identity_verifier \<Rightarrow> StoredJob \<Rightarrow> bool" where
  "plan_changes verifier r \<longleftrightarrow>
     recovery_decision verifier r = kAdoptedPromotedToRunning
   \<or> is_lost_decision (recovery_decision verifier r)"

definition verified :: "identity_verifier \<Rightarrow> StoredJob \<Rightarrow> bool" where
  "verified verifier r \<longleftrightarrow> identity_valid (er_identity (sj_execution r))
     \<and> verifier (er_identity (sj_execution r)) = kVerified"

lemma is_active_leaseable: "is_active = leaseable"
  by (simp add: fun_eq_iff is_active_def leaseable_def)

lemma lost_decision_iff:
  "is_lost_decision (recovery_decision verifier r) \<longleftrightarrow>
     leaseable (sj_state r) \<and> \<not> verified verifier r"
  by (auto simp: recovery_decision_def verified_def has_identity_def is_active_leaseable
      split: IdentityVerification.split)

lemma promoted_decision_iff:
  "recovery_decision verifier r = kAdoptedPromotedToRunning \<longleftrightarrow>
     sj_state r = kStarting \<and> verified verifier r"
  by (auto simp: recovery_decision_def verified_def has_identity_def is_active_def
      split: IdentityVerification.split)

lemma recovered_job_simps:
  "\<not> leaseable (sj_state r) \<Longrightarrow> recovered_job verifier now r = r"
  "leaseable (sj_state r) \<Longrightarrow> \<not> verified verifier r \<Longrightarrow>
     recovered_job verifier now r = lost_record (recovery_decision verifier r) now r"
  "verified verifier r \<Longrightarrow> sj_state r = kStarting \<Longrightarrow>
     recovered_job verifier now r = promoted_record r"
  "verified verifier r \<Longrightarrow> sj_state r \<noteq> kStarting \<Longrightarrow> recovered_job verifier now r = r"
  by (auto simp: recovered_job_def Let_def lost_decision_iff promoted_decision_iff leaseable_def)

lemma recovered_job_id [simp]:
  "sj_id (recovered_job verifier now r) = sj_id r"
  "sj_spec (recovered_job verifier now r) = sj_spec r"
  "er_identity (sj_execution (recovered_job verifier now r)) = er_identity (sj_execution r)"
  by (simp_all add: recovered_job_def promoted_record_def lost_record_def Let_def)

lemma recovered_job_unchanged: "\<not> plan_changes verifier r \<Longrightarrow> recovered_job verifier now r = r"
  by (auto simp: plan_changes_def recovered_job_def Let_def)

lemma recovered_job_settled: "\<not> plan_changes verifier (recovered_job verifier now r)"
proof -
  have "verified verifier (recovered_job verifier now r) \<longleftrightarrow> verified verifier r"
    by (simp add: verified_def)
  then show ?thesis
    unfolding plan_changes_def lost_decision_iff promoted_decision_iff
    by (cases "leaseable (sj_state r)"; cases "verified verifier r"; cases "sj_state r = kStarting")
      (auto simp: recovered_job_simps lost_record_def promoted_record_def leaseable_def)
qed

lemma recovered_job_queued:
  "sj_state (recovered_job verifier now r) = kQueued \<longleftrightarrow> sj_state r = kQueued"
  "sj_state r = kQueued \<Longrightarrow> recovered_job verifier now r = r"
  by (cases "leaseable (sj_state r)"; cases "verified verifier r"; cases "sj_state r = kStarting";
      auto simp: recovered_job_simps lost_record_def promoted_record_def leaseable_def)+

lemma lost_reason_ok:
  "is_lost_decision d \<Longrightarrow> optional_text_ok kMaxFailureReasonBytes (Some (recovery_failure_reason d))"
  by (cases d) (simp_all add: optional_text_ok_def kMaxFailureReasonBytes_def contains_nul_def
      NUL_def)

section \<open>The plan as a list of updates and releases\<close>

abbreviation release_list :: "RecoveryMutationEntry \<Rightarrow> GpuUuid list" where
  "release_list e \<equiv> (case rme_release_gpu e of None \<Rightarrow> [] | Some u \<Rightarrow> [u])"

definition plan_entry ::
  "identity_verifier \<Rightarrow> time_point \<Rightarrow> StateSnapshot \<Rightarrow> StoredJob \<Rightarrow> RecoveryMutationEntry" where
  "plan_entry verifier now snap r =
     \<lparr>rme_update_job = recovered_job verifier now r,
      rme_release_gpu = (if is_lost_decision (recovery_decision verifier r)
        then find_lease_gpu snap (sj_id r) else None)\<rparr>"

lemma plan_mutations:
  "rp_mutations (recovery_plan verifier now snap)
     = map (plan_entry verifier now snap) (filter (plan_changes verifier) (ss_jobs snap))"
proof -
  have "concat (map (snd \<circ> plan_job verifier now snap) rs)
      = map (plan_entry verifier now snap) (filter (plan_changes verifier) rs)" for rs
    by (induction rs)
      (auto simp: plan_job_def plan_entry_def plan_changes_def recovered_job_def Let_def)
  then show ?thesis by (simp add: recovery_plan_def)
qed

lemma lease_unique:
  assumes wf: "content_wf c" and u: "map_of (sc_leases c) u = Some l"
    and v: "map_of (sc_leases c) v = Some k" and "gl_job_id l = gl_job_id k"
  shows "u = v"
proof -
  from content_wf_lease [OF wf u] obtain r where
      "map_of (sc_jobs c) (gl_job_id l) = Some r" "leaseable (sj_state r)" by blast
  with content_wf_matrix [OF wf this(1)]
  have "\<exists>!u. \<exists>k. map_of (sc_leases c) u = Some k \<and> gl_job_id k = gl_job_id l" by simp
  with u v assms(4) show ?thesis by metis
qed

lemma find_lease_gpu_iff:
  assumes wf: "content_wf c"
  shows "find_lease_gpu (snapshot_of c) i = Some u \<longleftrightarrow>
    (\<exists>l. map_of (sc_leases c) u = Some l \<and> gl_job_id l = i)"
proof -
  have lt: "omap_wf (sc_leases c)" "\<forall>(u, l) \<in> set (sc_leases c). gl_gpu_uuid l = u"
    using wf by (auto simp: content_wf_def lease_table_ok_def list_all_iff)
  show ?thesis
  proof
    assume "find_lease_gpu (snapshot_of c) i = Some u"
    then obtain l where "l \<in> snd ` set (sc_leases c)" "gl_job_id l = i" "gl_gpu_uuid l = u"
      by (auto simp: find_lease_gpu_def snapshot_of_def dest!: find_SomeD)
    then show "\<exists>l. map_of (sc_leases c) u = Some l \<and> gl_job_id l = i"
      using lt omap_lookup_iff [OF lt(1)] by force
  next
    assume "\<exists>l. map_of (sc_leases c) u = Some l \<and> gl_job_id l = i"
    then obtain l where l: "map_of (sc_leases c) u = Some l" "gl_job_id l = i" by blast
    then have "l \<in> set (ss_leases (snapshot_of c))"
      using map_of_SomeD by (force simp: snapshot_of_def)
    with l(2) have "find (\<lambda>lease. gl_job_id lease = i) (ss_leases (snapshot_of c)) \<noteq> None"
      by (auto simp: find_None_iff)
    then obtain k where k: "find (\<lambda>lease. gl_job_id lease = i) (ss_leases (snapshot_of c)) = Some k"
      by blast
    then have "k \<in> snd ` set (sc_leases c)" "gl_job_id k = i"
      by (auto simp: snapshot_of_def dest!: find_SomeD)
    then have "map_of (sc_leases c) (gl_gpu_uuid k) = Some k"
      using lt omap_lookup_iff [OF lt(1)] by force
    with lease_unique [OF wf l(1) this] l(2) \<open>gl_job_id k = i\<close> k show "find_lease_gpu (snapshot_of c) i = Some u"
      by (simp add: find_lease_gpu_def)
  qed
qed

lemma plan_jobs_lookup:
  assumes wf: "content_wf c"
  shows "map_of (put_jobs (map rme_update_job
      (rp_mutations (recovery_plan verifier now (snapshot_of c)))) (sc_jobs c)) i
    = map_option (recovered_job verifier now) (map_of (sc_jobs c) i)"
proof -
  let ?rs = "filter (plan_changes verifier) (map snd (sc_jobs c))"
  let ?us = "map (recovered_job verifier now) ?rs"
  have us: "map rme_update_job (rp_mutations (recovery_plan verifier now (snapshot_of c))) = ?us"
    by (simp add: plan_mutations plan_entry_def snapshot_of_def)
  have dist: "distinct (map sj_id ?us)"
    using distinct_map_filter [OF content_wf_restorable(2) [OF wf], of "plan_changes verifier"]
    by (simp add: comp_def)
  note key = content_wf_range [OF wf, THEN iffD1]
  show ?thesis
  proof (cases "map_of (sc_jobs c) i")
    case None
    then have "i \<notin> sj_id ` set ?us" using key by force
    from map_of_put_jobs_other [OF this] None show ?thesis unfolding us by simp
  next
    case (Some r)
    then have r: "r \<in> snd ` set (sc_jobs c)" "sj_id r = i"
      using content_wf_id(2) [OF wf Some] content_wf_range [OF wf] by auto
    show ?thesis
    proof (cases "plan_changes verifier r")
      case True
      with r have "recovered_job verifier now r \<in> set ?us" by auto
      from map_of_put_jobs [OF dist this] Some r(2) show ?thesis unfolding us by simp
    next
      case False
      have "i \<notin> sj_id ` set ?us" using False key Some by force
      from map_of_put_jobs_other [OF this] Some recovered_job_unchanged [OF False] show ?thesis
        unfolding us by simp
    qed
  qed
qed

lemma plan_releases:
  assumes wf: "content_wf c"
  shows "u \<in> set (concat (map release_list
      (rp_mutations (recovery_plan verifier now (snapshot_of c))))) \<longleftrightarrow>
    (\<exists>l r. map_of (sc_leases c) u = Some l \<and> map_of (sc_jobs c) (gl_job_id l) = Some r
      \<and> \<not> verified verifier r)"
proof -
  have jobs: "ss_jobs (snapshot_of c) = map snd (sc_jobs c)" by (simp add: snapshot_of_def)
  have point: "plan_changes verifier r \<and> u \<in> set (release_list (plan_entry verifier now (snapshot_of c) r))
      \<longleftrightarrow> leaseable (sj_state r) \<and> \<not> verified verifier r
        \<and> find_lease_gpu (snapshot_of c) (sj_id r) = Some u" for r
    by (auto simp: plan_entry_def plan_changes_def lost_decision_iff promoted_decision_iff
        split: option.split)
  have "u \<in> set (concat (map release_list
      (rp_mutations (recovery_plan verifier now (snapshot_of c))))) \<longleftrightarrow>
    (\<exists>r \<in> snd ` set (sc_jobs c). plan_changes verifier r
      \<and> u \<in> set (release_list (plan_entry verifier now (snapshot_of c) r)))"
    unfolding plan_mutations jobs by auto
  also have "\<dots> \<longleftrightarrow> (\<exists>r l. map_of (sc_jobs c) (sj_id r) = Some r \<and> leaseable (sj_state r)
      \<and> \<not> verified verifier r \<and> map_of (sc_leases c) u = Some l \<and> gl_job_id l = sj_id r)"
    unfolding point find_lease_gpu_iff [OF wf] Bex_def content_wf_range [OF wf] by blast
  also have "\<dots> \<longleftrightarrow> (\<exists>l r. map_of (sc_leases c) u = Some l \<and> map_of (sc_jobs c) (gl_job_id l) = Some r
      \<and> \<not> verified verifier r)"
  proof (intro iffI; elim exE conjE)
    fix r l assume "map_of (sc_jobs c) (sj_id r) = Some r" "\<not> verified verifier r"
      "map_of (sc_leases c) u = Some l" "gl_job_id l = sj_id r"
    then show "\<exists>l r. map_of (sc_leases c) u = Some l \<and> map_of (sc_jobs c) (gl_job_id l) = Some r
      \<and> \<not> verified verifier r" by (intro exI [of _ l] exI [of _ r]) simp
  next
    fix l r assume l: "map_of (sc_leases c) u = Some l"
      and r: "map_of (sc_jobs c) (gl_job_id l) = Some r" and v: "\<not> verified verifier r"
    have "leaseable (sj_state r)" using content_wf_lease [OF wf l] r by auto
    with l r v content_wf_id(2) [OF wf r] show "\<exists>r l. map_of (sc_jobs c) (sj_id r) = Some r
      \<and> leaseable (sj_state r) \<and> \<not> verified verifier r \<and> map_of (sc_leases c) u = Some l
      \<and> gl_job_id l = sj_id r" by (intro exI [of _ r] exI [of _ l]) simp
  qed
  finally show ?thesis .
qed

lemma plan_leases_lookup:
  assumes wf: "content_wf c"
  shows "map_of (fold omap_erase (concat (map release_list
      (rp_mutations (recovery_plan verifier now (snapshot_of c))))) (sc_leases c)) u
    = (case map_of (sc_leases c) u of
        None \<Rightarrow> None
      | Some l \<Rightarrow> (case map_of (sc_jobs c) (gl_job_id l) of
          None \<Rightarrow> None | Some r \<Rightarrow> if verified verifier r then Some l else None))"
  unfolding map_of_fold_erase plan_releases [OF wf]
  using content_wf_lease [OF wf, of u] by (auto split: option.splits)

section \<open>The chunked writes apply the plan\<close>

definition chunk_pure :: "StateMutation \<Rightarrow> bool" where
  "chunk_pure m \<longleftrightarrow> sm_create_jobs m = [] \<and> sm_acquire_leases m = []"

lemma chunk_pure_simps [simp]:
  "chunk_pure empty_mutation" "chunk_pure m \<Longrightarrow> chunk_pure (add_to_chunk e m)"
  by (simp_all add: chunk_pure_def empty_mutation_def add_to_chunk_def)

lemma entry_count_zero: "entry_count m = 0 \<longleftrightarrow>
    sm_create_jobs m = [] \<and> sm_update_jobs m = [] \<and> sm_acquire_leases m = []
  \<and> sm_release_leases m = []"
  by (auto simp: entry_count_eq Let_def)

context state_store
begin

text \<open>The content reached after a list of updates and releases.\<close>

definition plan_written :: "StoredJob list \<Rightarrow> GpuUuid list \<Rightarrow> 's \<Rightarrow> 's \<Rightarrow> bool" where
  "plan_written us rs s s' \<longleftrightarrow>
     inv s' \<and> sc_jobs (content s') = put_jobs us (sc_jobs (content s))
   \<and> sc_leases (content s') = fold omap_erase rs (sc_leases (content s))
   \<and> jobs_evolve (sc_jobs (content s)) (sc_jobs (content s'))"

lemma flush_chunk_effect:
  assumes inv: "inv s" and pure: "chunk_pure chunk" and rv: "rv = sc_revision (content s)"
  shows "case flush_chunk store (chunk, rv, s) of
      Inl (code, r, s') \<Rightarrow> inv s' \<and> content s' = content s
    | Inr (chunk', rv', s') \<Rightarrow>
        chunk_pure chunk' \<and> sm_update_jobs chunk' = [] \<and> sm_release_leases chunk' = []
      \<and> rv' = sc_revision (content s')
      \<and> plan_written (sm_update_jobs chunk) (sm_release_leases chunk) s s'"
proof (cases "entry_count chunk = 0")
  case True
  with assms show ?thesis
    by (simp add: flush_chunk_def plan_written_def entry_count_zero)
next
  case False
  let ?m = "chunk\<lparr>sm_expected_revision := rv\<rparr>"
  obtain w s' where w: "st_apply store s ?m = (w, s')" by fastforce
  show ?thesis
  proof (cases "swr_ok w")
    case True
    from apply_accepts [OF inv w True] pure False w True rv show ?thesis
      by (auto simp: flush_chunk_def plan_written_def mutation_effect_def chunk_pure_def
          empty_mutation_def put_leases_def)
  next
    case bad: False
    from apply_rejects [OF inv w bad] False w bad show ?thesis by (simp add: flush_chunk_def)
  qed
qed

lemma plan_written_trans:
  "plan_written us rs s s' \<Longrightarrow> plan_written us' rs' s' s'' \<Longrightarrow> plan_written (us @ us') (rs @ rs') s s''"
  by (auto simp: plan_written_def put_jobs_append intro: jobs_evolve_trans)

lemma write_plan_effect:
  assumes "inv s" and "chunk_pure chunk" and "rv = sc_revision (content s)"
  shows "case write_plan store es (chunk, rv, s) of
      Inl (code, r, s') \<Rightarrow> inv s' \<and> jobs_evolve (sc_jobs (content s)) (sc_jobs (content s'))
    | Inr (chunk', rv', s') \<Rightarrow> rv' = sc_revision (content s')
      \<and> plan_written (sm_update_jobs chunk @ map rme_update_job es)
          (sm_release_leases chunk @ concat (map release_list es)) s s'"
  using assms
proof (induction es arbitrary: chunk rv s)
  case Nil
  from flush_chunk_effect [OF Nil.prems] show ?case by (auto split: sum.splits)
next
  case (Cons e es)
  define st where "st = (if entry_count chunk + (if rme_release_gpu e \<noteq> None then 2 else 1) > kMaxEntries
    then flush_chunk store (chunk, rv, s) else Inr (chunk, rv, s))"
  have eq: "write_plan store (e # es) (chunk, rv, s) = (case st of Inl err \<Rightarrow> Inl err
      | Inr (chunk, rv, s) \<Rightarrow> write_plan store es (add_to_chunk e chunk, rv, s))"
    by (simp add: st_def)
  show ?case
  proof (cases st)
    case (Inl err)
    then show ?thesis
      using flush_chunk_effect [OF Cons.prems] eq by (auto simp: st_def split: if_splits)
  next
    case (Inr t)
    obtain chunk1 rv1 s1 where t: "t = (chunk1, rv1, s1)" by (cases t)
    obtain us rs where now: "chunk_pure chunk1" "rv1 = sc_revision (content s1)" "plan_written us rs s s1"
        "us @ sm_update_jobs chunk1 = sm_update_jobs chunk"
        "rs @ sm_release_leases chunk1 = sm_release_leases chunk"
    proof (cases "flush_chunk store (chunk, rv, s) = Inr t")
      case True
      with flush_chunk_effect [OF Cons.prems] t show ?thesis
        by (intro that [of "sm_update_jobs chunk" "sm_release_leases chunk"]) auto
    next
      case False
      with Inr t have "chunk1 = chunk" "rv1 = rv" "s1 = s" by (auto simp: st_def split: if_splits)
      with Cons.prems show ?thesis by (intro that [of "[]" "[]"]) (auto simp: plan_written_def)
    qed
    have "inv s1" using now(3) by (simp add: plan_written_def)
    note ih = Cons.IH [OF this chunk_pure_simps(2) [OF now(1), of e] now(2)]
    show ?thesis
    proof (cases "write_plan store es (add_to_chunk e chunk1, rv1, s1)")
      case (Inl err)
      with ih now(3) \<open>st = Inr t\<close> show ?thesis
        unfolding eq t by (auto simp: plan_written_def intro: jobs_evolve_trans)
    next
      case res: (Inr u)
      obtain chunk2 rv2 s2 where u: "u = (chunk2, rv2, s2)" by (cases u)
      from ih res u have "rv2 = sc_revision (content s2)"
        and w: "plan_written (sm_update_jobs (add_to_chunk e chunk1) @ map rme_update_job es)
          (sm_release_leases (add_to_chunk e chunk1) @ concat (map release_list es)) s1 s2"
        by simp_all
      with plan_written_trans [OF now(3) w] show ?thesis
        unfolding eq \<open>st = Inr t\<close> t
        by (simp add: res u) (simp add: add_to_chunk_def flip: now(4,5))
    qed
  qed
qed

text \<open>What a successful recovery leaves behind, at the level of lookups.\<close>

lemma recover_effect:
  assumes inv: "inv s" and q: "queue_inv q"
    and run: "recover store verifier now q s = (res, q', s')" and ok: "rr_ok res"
  shows "inv s'" and "queue_inv q'" and "queue_mirrors q' (content s')"
    and "rr_store_revision res = sc_revision (content s')"
    and "rr_outcomes res = rp_outcomes (recovery_plan verifier now (snapshot_of (content s)))"
    and "map_of (sc_jobs (content s')) i
      = map_option (recovered_job verifier now) (map_of (sc_jobs (content s)) i)"
    and "map_of (sc_leases (content s')) u = (case map_of (sc_leases (content s)) u of
        None \<Rightarrow> None
      | Some l \<Rightarrow> (case map_of (sc_jobs (content s)) (gl_job_id l) of
          None \<Rightarrow> None | Some r \<Rightarrow> if verified verifier r then Some l else None))"
proof -
  let ?c = "content s" and ?snap = "snapshot_of (content s)"
  let ?ms = "rp_mutations (recovery_plan verifier now ?snap)"
  have wf: "content_wf ?c" using inv by (rule inv_wf)
  have load: "slr_ok (st_load store s)"
    using run ok by (cases "slr_ok (st_load store s)") (auto simp: recover_def rr_ok_def)
  note snap = load_reads [OF inv load]
  obtain t where t: "write_plan store ?ms (empty_mutation, sc_revision ?c, s) = Inr t"
    using run ok load snap
    by (cases "write_plan store ?ms (empty_mutation, sc_revision ?c, s)")
      (auto simp: recover_def rr_ok_def Let_def snapshot_of_def)
  obtain chunk rv s1 where t': "t = (chunk, rv, s1)" by (cases t)
  from write_plan_effect [OF inv chunk_pure_simps(1) refl, of ?ms] t t'
  have rv: "rv = sc_revision (content s1)"
    and pw: "plan_written (map rme_update_job ?ms) (concat (map release_list ?ms)) s s1"
    by (simp_all add: empty_mutation_def)
  from run ok load snap t t' have res: "s' = s1" "qr_ok (snd (queue_restore q ?snap))"
      "q' = fst (queue_restore q ?snap)" "rr_store_revision res = rv"
      "rr_outcomes res = rp_outcomes (recovery_plan verifier now ?snap)"
    by (auto simp: recover_def rr_ok_def Let_def snapshot_of_def split: prod.splits if_splits)
  show "inv s'" "rr_store_revision res = sc_revision (content s')"
    "rr_outcomes res = rp_outcomes (recovery_plan verifier now (snapshot_of (content s)))"
    using res rv pw by (simp_all add: plan_written_def)
  have jobs: "sc_jobs (content s') = put_jobs (map rme_update_job ?ms) (sc_jobs ?c)"
    and leases: "sc_leases (content s') = fold omap_erase (concat (map release_list ?ms)) (sc_leases ?c)"
    using pw res(1) by (simp_all add: plan_written_def)
  show J: "map_of (sc_jobs (content s')) i
      = map_option (recovered_job verifier now) (map_of (sc_jobs ?c) i)" for i
    unfolding jobs by (rule plan_jobs_lookup [OF wf])
  show "map_of (sc_leases (content s')) u = (case map_of (sc_leases ?c) u of
        None \<Rightarrow> None
      | Some l \<Rightarrow> (case map_of (sc_jobs ?c) (gl_job_id l) of
          None \<Rightarrow> None | Some r \<Rightarrow> if verified verifier r then Some l else None))"
    unfolding leases by (rule plan_leases_lookup [OF wf])
  have cap: "0 < q_capacity q" "q_capacity q \<le> kMaxCapacity"
    using q by (simp_all add: queue_inv_def)
  show "queue_inv q'" using queue_restore_ok(1) [OF res(2) cap] res(3) by simp
  have "queue_mirrors q' ?c"
    using queue_restore_ok(3) [OF res(2) cap] res(3) by (simp add: queue_mirrors_def snapshot_of_def)
  then show "queue_mirrors q' (content s')"
    unfolding queue_mirrors_iff [OF wf] queue_mirrors_iff [OF inv_wf [OF \<open>inv s'\<close>]] J
    using recovered_job_queued by auto
qed

end

end
