(* ===== verification/Recovery_Props.thy ===== *)
theory Recovery_Props
  imports Recovery_Laws
begin

text \<open>
  The properties of recovery. The first part shows that a backend that is not failing accepts every
  chunk of a plan, so that recovery ends; the properties follow, at the in-memory backend.
\<close>

section \<open>Chunks are accepted\<close>

lemma apply_updates_accepts:
  assumes "distinct (map sj_id rs)"
    and "\<And>r. r \<in> set rs \<Longrightarrow> \<exists>old. map_of jobs (sj_id r) = Some old
      \<and> stored_job_ok (sj_id r) old \<and> sj_revision old \<noteq> u64_max
      \<and> sj_revision r = sj_revision old + 1 \<and> sj_spec r = sj_spec old
      \<and> can_transition (sj_state old) (sj_state r)
      \<and> validate_execution (sj_execution r) (sj_state r) (sj_spec r)
          = JobExecutionValidationCode.kNone"
  shows "apply_updates rs jobs = Inr (put_jobs rs jobs)"
  using assms
proof (induction rs arbitrary: jobs)
  case (Cons r rs)
  have "apply_updates rs (omap_put (sj_id r) r jobs) = Inr (put_jobs rs (omap_put (sj_id r) r jobs))"
  proof (rule Cons.IH)
    show "distinct (map sj_id rs)" using Cons.prems(1) by simp
    fix r' assume r': "r' \<in> set rs"
    then have "sj_id r' \<in> sj_id ` set rs" by (rule imageI)
    with Cons.prems(1) have "sj_id r' \<noteq> sj_id r" by auto
    with Cons.prems(2) [of r'] r' show "\<exists>old. map_of (omap_put (sj_id r) r jobs) (sj_id r') = Some old
      \<and> stored_job_ok (sj_id r') old \<and> sj_revision old \<noteq> u64_max
      \<and> sj_revision r' = sj_revision old + 1 \<and> sj_spec r' = sj_spec old
      \<and> can_transition (sj_state old) (sj_state r')
      \<and> validate_execution (sj_execution r') (sj_state r') (sj_spec r')
          = JobExecutionValidationCode.kNone" by (simp add: omap_simps)
  qed
  moreover from Cons.prems(2) [of r] obtain old where "map_of jobs (sj_id r) = Some old"
      "stored_job_ok (sj_id r) old" "sj_revision old \<noteq> u64_max" "sj_revision r = sj_revision old + 1"
      "sj_spec r = sj_spec old" "can_transition (sj_state old) (sj_state r)"
      "validate_execution (sj_execution r) (sj_state r) (sj_spec r) = JobExecutionValidationCode.kNone"
    by auto
  ultimately show ?case
    by (simp add: stored_job_ok_def same_spec_iff put_jobs_Cons)
qed simp

lemma apply_releases_accepts:
  assumes "distinct us" and "\<And>u. u \<in> set us \<Longrightarrow> uuid_valid u \<and> map_of leases u \<noteq> None"
  shows "apply_releases us leases = Inr (fold omap_erase us leases)"
  using assms
proof (induction us arbitrary: leases)
  case (Cons u us)
  have "apply_releases us (omap_erase u leases) = Inr (fold omap_erase us (omap_erase u leases))"
    using Cons.prems by (intro Cons.IH) (auto simp: omap_simps)
  with Cons.prems(2) [of u] show ?case by (simp add: omap_contains_def)
qed simp

text \<open>An entry that fits the current content: a legal next record, and a release exactly where the
  new state may not keep a lease.\<close>

definition entry_fits :: "store_content \<Rightarrow> RecoveryMutationEntry \<Rightarrow> bool" where
  "entry_fits c e \<longleftrightarrow>
     (\<exists>old. map_of (sc_jobs c) (sj_id (rme_update_job e)) = Some old \<and> leaseable (sj_state old)
      \<and> sj_revision old \<noteq> u64_max \<and> sj_revision (rme_update_job e) = sj_revision old + 1
      \<and> sj_spec (rme_update_job e) = sj_spec old
      \<and> can_transition (sj_state old) (sj_state (rme_update_job e))
      \<and> validate_execution (sj_execution (rme_update_job e)) (sj_state (rme_update_job e))
          (sj_spec (rme_update_job e)) = JobExecutionValidationCode.kNone)
   \<and> (if leaseable (sj_state (rme_update_job e)) then rme_release_gpu e = None
      else \<exists>u l. rme_release_gpu e = Some u \<and> map_of (sc_leases c) u = Some l
        \<and> gl_job_id l = sj_id (rme_update_job e))"

abbreviation entry_id :: "RecoveryMutationEntry \<Rightarrow> JobId" where
  "entry_id e \<equiv> sj_id (rme_update_job e)"

definition chunk_holds :: "RecoveryMutationEntry list \<Rightarrow> StateMutation \<Rightarrow> bool" where
  "chunk_holds es m \<longleftrightarrow> sm_create_jobs m = [] \<and> sm_acquire_leases m = []
     \<and> sm_update_jobs m = map rme_update_job es
     \<and> sm_release_leases m = concat (map release_list es)"

lemma released_iff:
  assumes "\<And>e. e \<in> set es \<Longrightarrow> entry_fits c e" and "map_of (sc_leases c) u = Some l"
    and wf: "content_wf c"
  shows "u \<in> set (concat (map release_list es)) \<longleftrightarrow>
    (\<exists>e \<in> set es. \<not> leaseable (sj_state (rme_update_job e)) \<and> gl_job_id l = entry_id e)"
proof
  assume "u \<in> set (concat (map release_list es))"
  then obtain e where e: "e \<in> set es" "rme_release_gpu e = Some u" by (auto split: option.splits)
  from assms(1) [OF e(1)] e(2) assms(2)
  have "\<not> leaseable (sj_state (rme_update_job e)) \<and> gl_job_id l = entry_id e"
    by (auto simp: entry_fits_def split: if_splits)
  with e(1) show "\<exists>e \<in> set es. \<not> leaseable (sj_state (rme_update_job e)) \<and> gl_job_id l = entry_id e"
    by blast
next
  assume "\<exists>e \<in> set es. \<not> leaseable (sj_state (rme_update_job e)) \<and> gl_job_id l = entry_id e"
  then obtain e where e: "e \<in> set es" "\<not> leaseable (sj_state (rme_update_job e))"
    "gl_job_id l = entry_id e" by blast
  with assms(1) [OF e(1)] obtain v k where v: "rme_release_gpu e = Some v"
    "map_of (sc_leases c) v = Some k" "gl_job_id k = entry_id e" by (auto simp: entry_fits_def)
  have "u = v" using lease_unique [OF wf assms(2) v(2)] e(3) v(3) by simp
  with v(1) e(1) show "u \<in> set (concat (map release_list es))" by force
qed

lemma releases_distinct:
  assumes "\<And>e. e \<in> set es \<Longrightarrow> entry_fits c e" and "distinct (map entry_id es)"
  shows "distinct (concat (map release_list es))"
  using assms
proof (induction es)
  case (Cons e es)
  have "u \<notin> set (concat (map release_list es))" if "rme_release_gpu e = Some u" for u
  proof
    assume "u \<in> set (concat (map release_list es))"
    then obtain e' where e': "e' \<in> set es" "rme_release_gpu e' = Some u"
      by (auto split: option.splits)
    with Cons.prems(1) [of e] Cons.prems(1) [of e'] that have "entry_id e = entry_id e'"
      by (auto simp: entry_fits_def split: if_splits)
    with e'(1) Cons.prems(2) show False by auto
  qed
  with Cons show ?case by (auto split: option.split)
qed simp

text \<open>The lease matrix after a chunk.\<close>

lemma chunk_matrix:
  assumes wf: "content_wf c" and fits: "\<And>e. e \<in> set es \<Longrightarrow> entry_fits c e"
    and dist: "distinct (map entry_id es)"
  shows "lease_matrix_ok (put_jobs (map rme_update_job es) (sc_jobs c))
    (fold omap_erase (concat (map release_list es)) (sc_leases c))"
proof -
  let ?jobs = "put_jobs (map rme_update_job es) (sc_jobs c)"
  let ?leases = "fold omap_erase (concat (map release_list es)) (sc_leases c)"
  have w: "omap_wf (sc_jobs c)" "omap_wf (sc_leases c)"
    using wf by (auto simp: content_wf_def job_table_ok_def lease_table_ok_def)
  have new: "map_of ?jobs (entry_id e) = Some (rme_update_job e)" if "e \<in> set es" for e
    using map_of_put_jobs [of "map rme_update_job es" "rme_update_job e" "sc_jobs c"] dist that
    by (simp add: comp_def)
  have old: "map_of ?jobs i = map_of (sc_jobs c) i" if "i \<notin> entry_id ` set es" for i
    using that by (intro map_of_put_jobs_other) auto
  have act: "\<exists>r. map_of (sc_jobs c) (entry_id e) = Some r \<and> leaseable (sj_state r)"
    if "e \<in> set es" for e using fits [OF that] by (auto simp: entry_fits_def)
  have kept: "(\<exists>l. map_of ?leases u = Some l \<and> gl_job_id l = i) \<longleftrightarrow>
      (\<exists>l. map_of (sc_leases c) u = Some l \<and> gl_job_id l = i)
      \<and> \<not> (\<exists>e \<in> set es. \<not> leaseable (sj_state (rme_update_job e)) \<and> i = entry_id e)" for u i
    using released_iff [OF fits _ wf, where u = u]
    by (cases "map_of (sc_leases c) u") (auto simp: map_of_fold_erase)
  show ?thesis
    unfolding lease_matrix_iff [OF omap_wf_put_jobs [OF w(1)] omap_wf_fold_erase [OF w(2)]]
  proof (intro conjI allI impI)
    fix u l assume "map_of ?leases u = Some l"
    then have l: "map_of (sc_leases c) u = Some l"
      and no: "\<not> (\<exists>e \<in> set es. \<not> leaseable (sj_state (rme_update_job e)) \<and> gl_job_id l = entry_id e)"
      using kept [of u "gl_job_id l"] by (auto simp: map_of_fold_erase split: if_splits)
    show "\<exists>r. map_of ?jobs (gl_job_id l) = Some r \<and> leaseable (sj_state r)"
    proof (cases "gl_job_id l \<in> entry_id ` set es")
      case True
      then obtain e where "e \<in> set es" "gl_job_id l = entry_id e" by auto
      with new no show ?thesis by auto
    next
      case False
      with old content_wf_lease [OF wf l] show ?thesis by auto
    qed
  next
    fix i r assume r: "map_of ?jobs i = Some r" "leaseable (sj_state r)"
    have stays: "\<not> (\<exists>e \<in> set es. \<not> leaseable (sj_state (rme_update_job e)) \<and> i = entry_id e)"
      using r new by auto
    have "\<exists>r0. map_of (sc_jobs c) i = Some r0 \<and> leaseable (sj_state r0)"
      using r old act by (cases "i \<in> entry_id ` set es") auto
    with content_wf_matrix [OF wf]
    have "\<exists>!u. \<exists>l. map_of (sc_leases c) u = Some l \<and> gl_job_id l = i" by fastforce
    with stays show "\<exists>!u. \<exists>l. map_of ?leases u = Some l \<and> gl_job_id l = i"
      unfolding kept by simp
  qed
qed

lemma chunk_accepted:
  assumes wf: "content_wf c" and fits: "\<And>e. e \<in> set es \<Longrightarrow> entry_fits c e"
    and dist: "distinct (map entry_id es)" and ne: "es \<noteq> []" and chunk: "chunk_holds es m"
    and cnt: "entry_count m \<le> kMaxEntries" and rv: "sc_revision c \<noteq> u64_max"
  shows "mutation_ok (apply_mutation (sc_jobs c) (sc_leases c) (sc_revision c) config
    (m\<lparr>sm_expected_revision := sc_revision c\<rparr>))"
proof -
  have "apply_updates (map rme_update_job es) (sc_jobs c)
      = Inr (put_jobs (map rme_update_job es) (sc_jobs c))"
  proof (rule apply_updates_accepts)
    show "distinct (map sj_id (map rme_update_job es))" using dist by (simp add: comp_def)
    fix r assume "r \<in> set (map rme_update_job es)"
    then obtain e where "e \<in> set es" "r = rme_update_job e" by auto
    with fits [OF this(1)] content_wf_id(1) [OF wf] show "\<exists>old. map_of (sc_jobs c) (sj_id r) = Some old
      \<and> stored_job_ok (sj_id r) old \<and> sj_revision old \<noteq> u64_max
      \<and> sj_revision r = sj_revision old + 1 \<and> sj_spec r = sj_spec old
      \<and> can_transition (sj_state old) (sj_state r)
      \<and> validate_execution (sj_execution r) (sj_state r) (sj_spec r)
          = JobExecutionValidationCode.kNone" by (auto simp: entry_fits_def)
  qed
  moreover have "apply_releases (concat (map release_list es)) (sc_leases c)
      = Inr (fold omap_erase (concat (map release_list es)) (sc_leases c))"
  proof (rule apply_releases_accepts [OF releases_distinct [OF fits dist]])
    fix u assume "u \<in> set (concat (map release_list es))"
    then obtain e where e: "e \<in> set es" "rme_release_gpu e = Some u" by (auto split: option.splits)
    with fits [OF e(1)] content_wf_lease [OF wf, of u] show "uuid_valid u \<and> map_of (sc_leases c) u \<noteq> None"
      by (auto simp: entry_fits_def split: if_splits)
  qed
  moreover have "entry_count m \<noteq> 0"
    using ne chunk by (auto simp: entry_count_zero chunk_holds_def)
  moreover have "entry_count (m\<lparr>sm_expected_revision := sc_revision c\<rparr>) = entry_count m"
    by (simp add: entry_count_eq)
  ultimately show ?thesis
    using chunk chunk_matrix [OF wf fits dist] cnt rv
    by (simp add: mutation_ok_def apply_mutation_def chunk_holds_def)
qed

text \<open>Entries of other jobs still fit after a chunk has been written.\<close>

lemma entry_fits_after:
  assumes wf: "content_wf c" and fits: "\<And>e. e \<in> set es \<Longrightarrow> entry_fits c e"
    and e: "entry_fits c e" and other: "entry_id e \<notin> entry_id ` set es"
    and jobs: "sc_jobs c' = put_jobs (map rme_update_job es) (sc_jobs c)"
    and leases: "sc_leases c' = fold omap_erase (concat (map release_list es)) (sc_leases c)"
  shows "entry_fits c' e"
proof -
  have "map_of (sc_jobs c') (entry_id e) = map_of (sc_jobs c) (entry_id e)"
    unfolding jobs using other by (intro map_of_put_jobs_other) auto
  moreover have "map_of (sc_leases c') u = Some l" if "map_of (sc_leases c) u = Some l"
    "gl_job_id l = entry_id e" for u l
    using released_iff [OF fits that(1) wf] that other unfolding leases map_of_fold_erase by auto
  ultimately show ?thesis
    using e unfolding entry_fits_def by fastforce
qed

lemma chunk_holds_add:
  "chunk_holds es m \<Longrightarrow> chunk_holds (es @ [e]) (add_to_chunk e m)"
  by (simp add: chunk_holds_def add_to_chunk_def)

lemma chunk_holds_pure: "chunk_holds es m \<Longrightarrow> chunk_pure m"
  by (simp add: chunk_holds_def chunk_pure_def)

lemma entry_count_add:
  assumes "chunk_pure m"
    and "entry_count m + (if rme_release_gpu e \<noteq> None then 2 else 1) \<le> kMaxEntries"
  shows "entry_count (add_to_chunk e m) \<le> kMaxEntries"
  using assms
  by (auto simp: entry_count_eq add_to_chunk_def chunk_pure_def Let_def split: if_splits option.splits)

context available_store
begin

text \<open>Flushing a chunk of fitting entries succeeds and leaves the rest of the plan applicable.\<close>

lemma flush_chunk_accepted:
  assumes inv: "inv s" and rdy: "ready s" and chunk: "chunk_holds pend chunk"
    and cnt: "entry_count chunk \<le> kMaxEntries" and dist: "distinct (map entry_id (pend @ es))"
    and fits: "\<And>e. e \<in> set (pend @ es) \<Longrightarrow> entry_fits (content s) e"
    and room: "unat (sc_revision (content s)) + length (pend @ es) < 2 ^ 64 - 1"
  shows "\<exists>chunk' s'. flush_chunk store (chunk, sc_revision (content s), s)
      = Inr (chunk', sc_revision (content s'), s')
    \<and> inv s' \<and> ready s' \<and> chunk_holds [] chunk' \<and> entry_count chunk' = 0
    \<and> (\<forall>e \<in> set es. entry_fits (content s') e)
    \<and> unat (sc_revision (content s')) + length es < 2 ^ 64 - 1"
proof (cases "pend = []")
  case True
  with chunk have "entry_count chunk = 0" by (simp add: entry_count_zero chunk_holds_def)
  with True assms show ?thesis by (simp add: flush_chunk_def)
next
  case False
  let ?c = "content s" and ?m = "chunk\<lparr>sm_expected_revision := sc_revision (content s)\<rparr>"
  have lt: "unat (sc_revision ?c) + 1 < 2 ^ 64"
    using room False by (cases pend) auto
  then have rv: "sc_revision ?c \<noteq> u64_max" "unat (sc_revision ?c + 1) = unat (sc_revision ?c) + 1"
    by (auto simp: unat_word_ariths unsigned_minus_1_eq_mask mask_eq_exp_minus_1)
  obtain w s' where w: "st_apply store s ?m = (w, s')" by fastforce
  have ok: "swr_ok w"
    using ready_apply [OF inv rdy chunk_accepted [OF inv_wf [OF inv] _ _ False chunk cnt rv(1)]]
      fits dist w by simp
  note acc = apply_accepts [OF inv w ok]
  have jl: "sc_jobs (content s') = put_jobs (map rme_update_job pend) (sc_jobs ?c)"
      "sc_leases (content s') = fold omap_erase (concat (map release_list pend)) (sc_leases ?c)"
    using acc chunk by (simp_all add: mutation_effect_def chunk_holds_def put_leases_def)
  have "entry_fits (content s') e" if "e \<in> set es" for e
  proof (rule entry_fits_after [OF inv_wf [OF inv] _ _ _ jl])
    show "entry_fits ?c e'" if "e' \<in> set pend" for e' using fits that by simp
    show "entry_fits ?c e" using fits that by simp
    have "entry_id e \<in> entry_id ` set es" using that by (rule imageI)
    then show "entry_id e \<notin> entry_id ` set pend" using dist by auto
  qed
  moreover have "entry_count chunk \<noteq> 0"
    using False chunk by (auto simp: entry_count_zero chunk_holds_def)
  moreover have "ready s'" using ready_stays [OF inv rdy, of ?m] w by simp
  moreover have "unat (sc_revision (content s')) + length es < 2 ^ 64 - 1"
    using acc rv(2) room False by (cases pend) (auto simp: mutation_effect_def)
  ultimately show ?thesis
    using w ok acc
    by (intro exI [of _ empty_mutation] exI [of _ s'])
      (simp add: flush_chunk_def chunk_holds_def empty_mutation_def entry_count_zero
        mutation_effect_def)
qed

lemma write_plan_accepted:
  assumes "inv s" and "ready s" and "chunk_holds pend chunk" and "entry_count chunk \<le> kMaxEntries"
    and "distinct (map entry_id (pend @ es))"
    and "\<And>e. e \<in> set (pend @ es) \<Longrightarrow> entry_fits (content s) e"
    and "unat (sc_revision (content s)) + length (pend @ es) < 2 ^ 64 - 1"
  shows "\<exists>t. write_plan store es (chunk, sc_revision (content s), s) = Inr t"
  using assms
proof (induction es arbitrary: pend chunk s)
  case Nil
  from flush_chunk_accepted [OF Nil.prems(1-7)] show ?case by auto
next
  case (Cons e es)
  let ?need = "if rme_release_gpu e \<noteq> None then 2 else 1 :: nat"
  show ?case
  proof (cases "entry_count chunk + ?need > kMaxEntries")
    case True
    from flush_chunk_accepted [OF Cons.prems(1-7)] obtain chunk' s' where
        f: "flush_chunk store (chunk, sc_revision (content s), s)
          = Inr (chunk', sc_revision (content s'), s')"
      and s': "inv s'" "ready s'" "chunk_holds [] chunk'" "entry_count chunk' = 0"
        "\<forall>e' \<in> set (e # es). entry_fits (content s') e'"
        "unat (sc_revision (content s')) + length (e # es) < 2 ^ 64 - 1"
      by blast
    have "\<exists>t. write_plan store es (add_to_chunk e chunk', sc_revision (content s'), s') = Inr t"
    proof (rule Cons.IH [OF s'(1,2)])
      show "chunk_holds [e] (add_to_chunk e chunk')" using chunk_holds_add [OF s'(3)] by simp
      show "entry_count (add_to_chunk e chunk') \<le> kMaxEntries"
        by (rule entry_count_add) (simp_all add: chunk_holds_pure [OF s'(3)] s'(4) kMaxEntries_def)
    qed (use s' Cons.prems(5) in auto)
    with True f show ?thesis by simp
  next
    case False
    have "\<exists>t. write_plan store es (add_to_chunk e chunk, sc_revision (content s), s) = Inr t"
    proof (rule Cons.IH [OF Cons.prems(1,2)])
      show "chunk_holds (pend @ [e]) (add_to_chunk e chunk)"
        by (rule chunk_holds_add [OF Cons.prems(3)])
      show "entry_count (add_to_chunk e chunk) \<le> kMaxEntries"
        using False chunk_holds_pure [OF Cons.prems(3)] by (intro entry_count_add) auto
    qed (use Cons.prems(5-7) in auto)
    with False show ?thesis by simp
  qed
qed

end

text \<open>The entries of a plan fit the content it was made for, provided the clock has not gone back
  behind a recorded start.\<close>

lemma lost_record_valid:
  assumes "execution_ok (sj_execution r) (sj_state r) (sj_spec r)" and "is_lost_decision d"
    and "\<forall>t. er_start_time (sj_execution r) = Some t \<longrightarrow> t \<le> now" and "leaseable (sj_state r)"
  shows "execution_ok (sj_execution (lost_record d now r)) kLost (sj_spec r)"
  using assms lost_reason_ok [OF assms(2)]
  by (auto simp: execution_ok_def lost_record_def is_terminal_def leaseable_def)

lemma active_edges:
  assumes "stored_job_ok i r" and "leaseable (sj_state r)"
  shows "can_transition (sj_state r) kLost" and "sj_revision r \<noteq> u64_max"
  using assms by (auto simp: stored_job_ok_def leaseable_def)

lemma plan_entry_fits:
  assumes wf: "content_wf c" and r: "map_of (sc_jobs c) (sj_id r) = Some r"
    and ch: "plan_changes verifier r"
    and clock: "\<forall>t. er_start_time (sj_execution r) = Some t \<longrightarrow> t \<le> now"
  shows "entry_fits c (plan_entry verifier now (snapshot_of c) r)"
proof -
  have ok: "stored_job_ok (sj_id r) r" using content_wf_id(1) [OF wf r] .
  then have ex: "execution_ok (sj_execution r) (sj_state r) (sj_spec r)"
    by (simp add: stored_job_ok_def validate_execution_iff)
  show ?thesis
  proof (cases "is_lost_decision (recovery_decision verifier r)")
    case True
    then have a: "leaseable (sj_state r)" "\<not> verified verifier r" by (simp_all add: lost_decision_iff)
    from content_wf_matrix [OF wf r] a(1) obtain u l where
        "map_of (sc_leases c) u = Some l" "gl_job_id l = sj_id r" by auto
    moreover from this find_lease_gpu_iff [OF wf] have "find_lease_gpu (snapshot_of c) (sj_id r) = Some u"
      by blast
    ultimately show ?thesis
      using True a r active_edges [OF ok a(1)] lost_record_valid [OF ex True clock a(1)]
      by (simp add: entry_fits_def plan_entry_def recovered_job_simps validate_execution_iff)
        (simp add: lost_record_def leaseable_def)
  next
    case False
    with ch have st: "sj_state r = kStarting" "verified verifier r"
      by (auto simp: plan_changes_def promoted_decision_iff)
    moreover have "execution_ok (sj_execution r) kRunning (sj_spec r)"
      using ex st by (auto simp: execution_ok_def verified_def is_terminal_def)
    moreover have "leaseable kStarting" by (simp add: leaseable_def)
    ultimately show ?thesis
      using False r active_edges(2) [OF ok]
      by (auto simp: entry_fits_def plan_entry_def recovered_job_simps promoted_record_def
          validate_execution_iff leaseable_def)
  qed
qed

context available_store
begin

lemma recover_accepted:
  assumes inv: "inv s" and rdy: "ready s" and q: "queue_inv q"
    and clock: "\<And>i r t. map_of (sc_jobs (content s)) i = Some r \<Longrightarrow>
      er_start_time (sj_execution r) = Some t \<Longrightarrow> t \<le> now"
    and room: "unat (sc_revision (content s)) + length (sc_jobs (content s)) < 2 ^ 64 - 1"
    and used: "sc_revision (content s) \<noteq> 0 \<or> sc_jobs (content s) = [] \<and> sc_leases (content s) = []"
    and cap: "length (queued_jobs (map snd (sc_jobs (content s)))) \<le> q_capacity q"
  shows "rr_ok (fst (recover store verifier now q s))"
proof -
  let ?c = "content s" and ?snap = "snapshot_of (content s)"
  let ?rs = "filter (plan_changes verifier) (map snd (sc_jobs ?c))"
  let ?ms = "rp_mutations (recovery_plan verifier now ?snap)"
  have wf: "content_wf ?c" using inv by (rule inv_wf)
  have ms: "?ms = map (plan_entry verifier now ?snap) ?rs"
    by (simp add: plan_mutations snapshot_of_def)
  have ids: "map entry_id ?ms = map sj_id ?rs" unfolding ms by (simp add: plan_entry_def)
  have "\<exists>t. write_plan store ?ms (empty_mutation, sc_revision ?c, s) = Inr t"
  proof (rule write_plan_accepted [OF inv rdy, of "[]"])
    show "chunk_holds [] empty_mutation" by (simp add: chunk_holds_def empty_mutation_def)
    show "entry_count empty_mutation \<le> kMaxEntries"
      by (simp add: entry_count_eq empty_mutation_def)
    show "distinct (map entry_id ([] @ ?ms))"
      unfolding append_Nil ids by (rule distinct_map_filter [OF content_wf_restorable(2) [OF wf]])
    have "length ?ms \<le> length (sc_jobs ?c)"
      unfolding ms using length_filter_le [of "plan_changes verifier" "map snd (sc_jobs ?c)"] by simp
    then show "unat (sc_revision ?c) + length ([] @ ?ms) < 2 ^ 64 - 1" using room by simp
    fix e assume "e \<in> set ([] @ ?ms)"
    then obtain r where e: "e = plan_entry verifier now ?snap r" "plan_changes verifier r"
      and "r \<in> snd ` set (sc_jobs ?c)" unfolding ms by auto
    then have r: "map_of (sc_jobs ?c) (sj_id r) = Some r" using content_wf_range [OF wf] by blast
    show "entry_fits ?c e" unfolding e(1) using clock [OF r] by (intro plan_entry_fits wf r e(2)) auto
  qed
  then obtain chunk rv s1 where w: "write_plan store ?ms (empty_mutation, sc_revision ?c, s)
      = Inr (chunk, rv, s1)" by (metis prod_cases3)
  have "0 < q_capacity q" "q_capacity q \<le> kMaxCapacity" using q by (simp_all add: queue_inv_def)
  then have "qr_ok (snd (queue_restore q ?snap))"
    using restore_mirrors [OF wf used cap] by blast
  with w load_reads [OF inv ready_load [OF inv rdy]] ready_load [OF inv rdy] show ?thesis
    by (auto simp: recover_def rr_ok_def Let_def snapshot_of_def split: prod.split)
qed

end

context state_store
begin

text \<open>Whatever the outcome, nothing is lost: the store stays well formed and every record only
  moved along the state graph; without success the queue is untouched.\<close>

lemma recover_contained:
  assumes inv: "inv s" and q: "queue_inv q"
    and run: "recover store verifier now q s = (res, q', s')"
  shows "inv s' \<and> queue_inv q' \<and> jobs_evolve (sc_jobs (content s)) (sc_jobs (content s'))
    \<and> (\<not> rr_ok res \<longrightarrow> q' = q)"
proof (cases "slr_ok (st_load store s)")
  case False
  with run assms show ?thesis by (auto simp: recover_def)
next
  case True
  let ?snap = "snapshot_of (content s)"
  let ?ms = "rp_mutations (recovery_plan verifier now ?snap)"
  note snap = load_reads [OF inv True]
  have eff: "case write_plan store ?ms (empty_mutation, sc_revision (content s), s) of
      Inl (code, r, s') \<Rightarrow> inv s' \<and> jobs_evolve (sc_jobs (content s)) (sc_jobs (content s'))
    | Inr (chunk', rv', s') \<Rightarrow> inv s' \<and> jobs_evolve (sc_jobs (content s)) (sc_jobs (content s'))"
    using write_plan_effect [OF inv chunk_pure_simps(1) refl, of ?ms]
    by (auto simp: plan_written_def split: sum.splits)
  have "0 < q_capacity q" "q_capacity q \<le> kMaxCapacity" using q by (simp_all add: queue_inv_def)
  then have rest: "queue_inv (fst (queue_restore q ?snap))"
    using queue_restore_ok(1) [of q ?snap] queue_restore_rejected [of q ?snap] q
    by (cases "qr_ok (snd (queue_restore q ?snap))") auto
  show ?thesis
  proof (cases "write_plan store ?ms (empty_mutation, sc_revision (content s), s)")
    case (Inl err)
    with run True snap eff q show ?thesis
      by (auto simp: recover_def Let_def snapshot_of_def split: prod.splits)
  next
    case (Inr t)
    obtain chunk rv s1 where t: "t = (chunk, rv, s1)" by (cases t)
    have "(res, q', s') = (let result = \<lparr>rr_code = RecoveryErrorCode.kNone,
          rr_outcomes = rp_outcomes (recovery_plan verifier now ?snap),
          rr_store_error = StateStoreErrorCode.kNone, rr_queue_error = QueueErrorCode.kNone,
          rr_store_revision = 0\<rparr> in
        case queue_restore q ?snap of (q', restored) \<Rightarrow>
          if \<not> qr_ok restored
            then (result\<lparr>rr_code := kQueueRestoreFailed, rr_queue_error := qr_code restored\<rparr>, q', s1)
          else (result\<lparr>rr_store_revision := rv\<rparr>, q', s1))"
      using run True snap Inr t by (simp add: recover_def Let_def snapshot_of_def)
    then have "s' = s1" "q' = fst (queue_restore q ?snap)"
        "rr_ok res \<longleftrightarrow> qr_ok (snd (queue_restore q ?snap))"
      by (auto simp: rr_ok_def Let_def split: prod.splits if_splits)
    with eff Inr t rest queue_restore_rejected [of q ?snap] show ?thesis by auto
  qed
qed

end

section \<open>A concrete restart\<close>

text \<open>Job 7 was running with a recorded process when the daemon stopped.\<close>

definition demo_running :: StoredJob where
  "demo_running = demo_job\<lparr>sj_state := kRunning, sj_revision := 2,
     sj_execution := blank_execution\<lparr>er_identity := \<lparr>pi_pid = 42, pi_pgid = 42, pi_start_ticks = 987\<rparr>,
       er_start_time := Some 10\<rparr>\<rparr>"

definition demo_store3 :: InMemoryStateStore where
  "demo_store3 = (empty_store demo_config)\<lparr>im_revision := 3, im_jobs := [(7, demo_running)],
     im_leases := [(''GPU-a'', \<lparr>gl_gpu_uuid = ''GPU-a'', gl_job_id = 7\<rparr>)]\<rparr>"

definition demo_empty_queue :: GlobalJobQueue where
  "demo_empty_queue = \<lparr>q_capacity = 2, q_entries = []\<rparr>"

lemmas demo_restart_defs = demo_store3_def demo_running_def demo_job_def empty_store_def
  demo_config_def demo_empty_queue_def

lemma demo_empty_queue_inv: "queue_inv demo_empty_queue"
  by (simp add: demo_empty_queue_def queue_inv_def kMaxCapacity_def)

lemma demo_running_ok: "stored_job_ok 7 demo_running"
  using demo_spec_valid
  by (simp add: stored_job_ok_def demo_running_def demo_job_def job_id_valid_def validate_execution_iff
      execution_ok_def blank_execution_def identity_valid_def is_terminal_def optional_text_ok_def
      demo_spec_def)

lemma demo_store3_inv: "im_inv demo_store3"
  using demo_running_ok
  by (simp add: im_inv_def im_content_def content_wf_def job_table_ok_def lease_table_ok_def
      lease_matrix_ok_def lease_count_def demo_store3_def empty_store_def uuid_valid_def
      uuid_kMaxBytes_def NUL_def omap_wf_def leaseable_def)
    (simp add: demo_running_def)

lemma demo_restart_room:
  "im_ready demo_store3" "im_revision demo_store3 = 3" "im_jobs demo_store3 = [(7, demo_running)]"
  "im_failure demo_store3 = None" "er_start_time (sj_execution demo_running) = Some 10"
  "sj_state demo_running = kRunning"
  by (simp_all add: im_ready_def demo_restart_defs)

lemma demo_restart:
  "rr_ok (fst (recover in_memory_store (\<lambda>_. v) 20 demo_empty_queue demo_store3))"
  by (rule ima.recover_accepted [OF demo_store3_inv _ demo_empty_queue_inv])
    (auto simp: demo_restart_room im_content_def queued_jobs_def split: if_splits)

section \<open>Properties\<close>

text \<open>Property C25. Recovery adopts only verified processes. After a successful recovery every active
  job was active before, has a recorded identity that the verifier confirmed and kept its execution
  record, a starting one being promoted to running; every other active job is lost, holds no GPU,
  and carries an end time and a reason; jobs that were not active are untouched; the queue mirrors
  the queued jobs; and the reported revision is that of the store.\<close>

theorem recover_adopts_verified:
  assumes "im_inv s" and "queue_inv q"
    and "recover in_memory_store verifier now q s = (res, q', s')" and "rr_ok res"
  shows "im_inv s' \<and> queue_inv q' \<and> queue_mirrors q' (im_content s')
    \<and> rr_store_revision res = im_revision s'
    \<and> dom (map_of (im_jobs s')) = dom (map_of (im_jobs s))
    \<and> (\<forall>i r. map_of (im_jobs s) i = Some r \<longrightarrow> (\<exists>r'. map_of (im_jobs s') i = Some r' \<and>
        (if \<not> leaseable (sj_state r) then r' = r
         else if identity_valid (er_identity (sj_execution r))
              \<and> verifier (er_identity (sj_execution r)) = kVerified
           then sj_execution r' = sj_execution r
             \<and> sj_state r' = (if sj_state r = kStarting then kRunning else sj_state r)
         else sj_state r' = kLost \<and> er_end_time (sj_execution r') = Some now
             \<and> er_failure_reason (sj_execution r') \<noteq> None
             \<and> (\<forall>u l. map_of (im_leases s') u = Some l \<longrightarrow> gl_job_id l \<noteq> i))))"
proof -
  note eff = im.recover_effect [OF assms]
  have jobs: "map_of (im_jobs s') i = map_option (recovered_job verifier now) (map_of (im_jobs s) i)"
    for i using eff(6) [of i] by (simp add: im_content_def)
  have wf: "content_wf (im_content s')" using eff(1) by (rule im.inv_wf)
  have "\<exists>r'. map_of (im_jobs s') i = Some r' \<and>
      (if \<not> leaseable (sj_state r) then r' = r
       else if verified verifier r
         then sj_execution r' = sj_execution r
           \<and> sj_state r' = (if sj_state r = kStarting then kRunning else sj_state r)
       else sj_state r' = kLost \<and> er_end_time (sj_execution r') = Some now
           \<and> er_failure_reason (sj_execution r') \<noteq> None
           \<and> (\<forall>u l. map_of (im_leases s') u = Some l \<longrightarrow> gl_job_id l \<noteq> i))"
    if r: "map_of (im_jobs s) i = Some r" for i r
  proof -
    let ?r' = "recovered_job verifier now r"
    have r': "map_of (im_jobs s') i = Some ?r'" using jobs r by simp
    have "\<forall>u l. map_of (im_leases s') u = Some l \<longrightarrow> gl_job_id l \<noteq> i" if "sj_state ?r' = kLost"
      using content_wf_matrix [OF wf, of i ?r'] r' that by (simp add: im_content_def leaseable_def)
    with r' show ?thesis
      by (cases "leaseable (sj_state r)"; cases "verified verifier r"; cases "sj_state r = kStarting")
        (simp_all add: recovered_job_simps lost_record_def promoted_record_def)
  qed
  then show ?thesis
    using eff(1-4) jobs unfolding verified_def
    by (auto simp: im_content_def dom_def)
qed

theorem recover_adopts_verified_witness:
  "\<exists>res q' s' r'. recover in_memory_store (\<lambda>_. kProcessGone) 20 demo_empty_queue demo_store3
      = (res, q', s')
     \<and> map_of (im_jobs s') 7 = Some r' \<and> sj_state r' = kLost
     \<and> (\<forall>u l. map_of (im_leases s') u = Some l \<longrightarrow> gl_job_id l \<noteq> 7)"
proof -
  obtain res q' s' where run: "recover in_memory_store (\<lambda>_. kProcessGone) 20 demo_empty_queue demo_store3
      = (res, q', s')" by (rule prod_cases3)
  with demo_restart [of kProcessGone] have "rr_ok res" by simp
  have "map_of (im_jobs demo_store3) 7 = Some demo_running" by (simp add: demo_restart_room)
  with recover_adopts_verified [OF demo_store3_inv demo_empty_queue_inv run \<open>rr_ok res\<close>]
  have "\<exists>r'. map_of (im_jobs s') 7 = Some r' \<and> sj_state r' = kLost
     \<and> (\<forall>u l. map_of (im_leases s') u = Some l \<longrightarrow> gl_job_id l \<noteq> 7)"
    by (elim conjE allE [where x = 7] allE [where x = demo_running])
      (auto simp: demo_restart_room leaseable_def)
  with run show ?thesis by blast
qed

text \<open>Property C26. Recovery succeeds on a store that can be read and written, whatever the verifier
  answers, when the clock is not behind a recorded start time, the revision counter has room and
  the queued jobs fit into the queue: every chunk of at most \<open>kMaxEntries\<close> entries is accepted.\<close>

theorem recover_succeeds:
  assumes "im_inv s" and "im_ready s" and "queue_inv q"
    and "\<And>i r t. map_of (im_jobs s) i = Some r \<Longrightarrow> er_start_time (sj_execution r) = Some t \<Longrightarrow> t \<le> now"
    and "unat (im_revision s) + length (im_jobs s) < 2 ^ 64 - 1" and "im_revision s \<noteq> 0"
    and "length (queued_jobs (map snd (im_jobs s))) \<le> q_capacity q"
  shows "rr_ok (fst (recover in_memory_store verifier now q s))"
  using ima.recover_accepted [OF assms(1-3), of now] assms(4-7) by (simp add: im_content_def)

theorem recover_succeeds_witness:
  "rr_ok (fst (recover in_memory_store (\<lambda>_. kMismatch) 20 demo_empty_queue demo_store3))"
  by (rule recover_succeeds [OF demo_store3_inv _ demo_empty_queue_inv])
    (auto simp: demo_restart_room queued_jobs_def split: if_splits)

text \<open>A clock that went back stops recovery: if an active job that cannot be verified
  was started later than the current time, no recovery succeeds, because the end time written
  with the loss precedes the start time and the store refuses the record.\<close>

lemma recover_clock_regression:
  assumes "im_inv s" and "queue_inv q" and "map_of (im_jobs s) i = Some r"
    and "leaseable (sj_state r)" and "verifier (er_identity (sj_execution r)) \<noteq> kVerified"
    and "er_start_time (sj_execution r) = Some t" and "now < t"
  shows "\<not> rr_ok (fst (recover in_memory_store verifier now q s))"
proof
  obtain res q' s' where run: "recover in_memory_store verifier now q s = (res, q', s')"
    by (rule prod_cases3)
  assume "rr_ok (fst (recover in_memory_store verifier now q s))"
  with run have ok: "rr_ok res" by simp
  note eff = im.recover_effect [OF assms(1,2) run ok]
  have "\<not> verified verifier r" using assms(5) by (simp add: verified_def)
  with assms(3,4) eff(6) [of i]
  have r': "map_of (sc_jobs (im_content s')) i = Some (lost_record (recovery_decision verifier r) now r)"
    by (simp add: im_content_def recovered_job_simps)
  have "stored_job_ok i (lost_record (recovery_decision verifier r) now r)"
    by (rule content_wf_id(1) [OF im.inv_wf [OF eff(1)] r'])
  with assms(6,7) show False
    by (auto simp: stored_job_ok_def validate_execution_iff execution_ok_def lost_record_def)
qed

lemma recover_clock_regression_witness:
  "\<not> rr_ok (fst (recover in_memory_store (\<lambda>_. kProcessGone) 9 demo_empty_queue demo_store3))"
  by (rule recover_clock_regression [OF demo_store3_inv demo_empty_queue_inv,
        where i = 7 and r = demo_running and t = 10])
    (simp_all add: demo_restart_room leaseable_def)

text \<open>Property C28. Recovery is safe whatever it reports: the store stays well formed, every record
  only moved along the state graph, and an unsuccessful recovery leaves the queue alone.\<close>

theorem recover_safe:
  assumes "im_inv s" and "queue_inv q"
    and "recover in_memory_store verifier now q s = (res, q', s')"
  shows "im_inv s' \<and> queue_inv q' \<and> jobs_evolve (im_jobs s) (im_jobs s') \<and> (\<not> rr_ok res \<longrightarrow> q' = q)"
  using im.recover_contained [OF assms] by (simp add: im_content_def)

theorem recover_safe_witness:
  "\<exists>res q' s'. recover in_memory_store (\<lambda>_. kProcessGone) 9 demo_empty_queue demo_store3 = (res, q', s')
     \<and> im_inv s' \<and> queue_inv q'"
proof -
  obtain res q' s' where run: "recover in_memory_store (\<lambda>_. kProcessGone) 9 demo_empty_queue demo_store3
      = (res, q', s')" by (rule prod_cases3)
  with recover_safe [OF demo_store3_inv demo_empty_queue_inv run] show ?thesis by blast
qed

text \<open>Property C27. Recovery is idempotent: repeating a successful recovery with the same verifier
  plans no write and leaves store and queue exactly as they are.\<close>

theorem recover_idempotent:
  assumes "im_inv s" and "queue_inv q"
    and "recover in_memory_store verifier now q s = (res, q', s')" and "rr_ok res"
    and "im_failure s' = None" and "im_revision s' \<noteq> 0"
    and "length (queued_jobs (map snd (im_jobs s'))) \<le> q_capacity q'"
  shows "rp_mutations (recovery_plan verifier now' (snapshot_of (im_content s'))) = []
    \<and> (\<exists>res'. recover in_memory_store verifier now' q' s' = (res', q', s') \<and> rr_ok res')"
proof -
  note eff = im.recover_effect [OF assms(1-4)]
  have wf: "content_wf (im_content s')" using eff(1) by (rule im.inv_wf)
  have "\<not> plan_changes verifier r" if "r \<in> snd ` set (sc_jobs (im_content s'))" for r
    using that eff(6) [of "sj_id r"] recovered_job_settled
    unfolding content_wf_range [OF wf] by (auto simp: option.map_sel)
  then have none: "rp_mutations (recovery_plan verifier now' (snapshot_of (im_content s'))) = []"
    by (auto simp: plan_mutations snapshot_of_def filter_empty_conv)
  have cap: "0 < q_capacity q'" "q_capacity q' \<le> kMaxCapacity"
    using eff(2) by (simp_all add: queue_inv_def)
  have rest: "qr_ok (snd (queue_restore q' (snapshot_of (im_content s'))))"
      "fst (queue_restore q' (snapshot_of (im_content s'))) = q'"
    using restore_mirrors [OF wf _ _ cap] assms(6,7) eff(2,3)
      queue_mirrors_unique [of "fst (queue_restore q' (snapshot_of (im_content s')))" q' "im_content s'"]
    by (auto simp: im_content_def)
  have "st_load in_memory_store s' = \<lparr>slr_code = StateStoreErrorCode.kNone,
      slr_snapshot = snapshot_of (im_content s')\<rparr>"
    using assms(5) by (simp add: in_memory_store_def im_load_def snapshot_of_def im_content_def)
  then show ?thesis
    using none rest
    by (auto simp: recover_def Let_def slr_ok_def flush_chunk_def entry_count_zero empty_mutation_def
        rr_ok_def split: prod.split)
qed

theorem recover_idempotent_witness:
  "\<exists>q' s' res'. recover in_memory_store (\<lambda>_. kVerified) 30 q' s' = (res', q', s') \<and> rr_ok res'"
proof -
  have plan: "rp_mutations (recovery_plan (\<lambda>_. kVerified) 20 (snapshot_of (im_content demo_store3))) = []"
    by (simp add: plan_mutations snapshot_of_def im_content_def demo_restart_room plan_changes_def
        lost_decision_iff promoted_decision_iff)
      (simp add: verified_def demo_restart_defs identity_valid_def)
  obtain res q' s' where run: "recover in_memory_store (\<lambda>_. kVerified) 20 demo_empty_queue demo_store3
      = (res, q', s')" by (rule prod_cases3)
  with demo_restart [of kVerified] have ok: "rr_ok res" by simp
  have load: "st_load in_memory_store demo_store3 = \<lparr>slr_code = StateStoreErrorCode.kNone,
      slr_snapshot = snapshot_of (im_content demo_store3)\<rparr>"
    by (simp add: in_memory_store_def im_load_def snapshot_of_def im_content_def demo_restart_room)
  have s': "s' = demo_store3" "q' = fst (queue_restore demo_empty_queue (snapshot_of (im_content demo_store3)))"
    using run plan load
    by (auto simp: recover_def Let_def slr_ok_def flush_chunk_def entry_count_zero empty_mutation_def
        split: prod.splits if_splits)
  have "q_capacity q' = 2"
    using s'(2) queue_restore_ok(2) [of demo_empty_queue] queue_restore_rejected [of demo_empty_queue]
    by (cases "qr_ok (snd (queue_restore demo_empty_queue (snapshot_of (im_content demo_store3))))")
      (simp_all add: demo_empty_queue_def kMaxCapacity_def)
  with recover_idempotent [OF demo_store3_inv demo_empty_queue_inv run ok, of 30] s'(1) show ?thesis
    by (auto simp: demo_restart_room queued_jobs_def)
qed

end
