(* ===== verification/Ipc_Codec.thy ===== *)
theory Ipc_Codec
  imports Yori_Prelude
begin

unbundle bit_operations_syntax

text \<open>
  The byte writer and the byte reader of \<^verbatim>\<open>src/src/ipc/ipc_protocol.cpp\<close>. A write is the list of
  appended bytes, \<open>None\<close> where the C++ call reports that the field must not be sent; a reader maps
  the bytes from its offset on to a decoding error or to a value and the bytes that are left. The
  locale \<open>codec\<close> is the contract between the two sides, and every field type interprets it.
\<close>

section \<open>Limits and errors\<close>

definition kMaxPayloadBytes :: nat where
  "kMaxPayloadBytes = 1048576"

definition kMinPayloadBytes :: nat where
  "kMinPayloadBytes = 2"

definition kProtocolVersion :: u8 where
  "kProtocolVersion = 4"

definition kMinProtocolVersion :: u8 where
  "kMinProtocolVersion = 1"

definition kStreamFrameVersion :: u8 where
  "kStreamFrameVersion = 1"

definition kMaxStringBytes :: nat where
  "kMaxStringBytes = 64 * 1024"

definition kMaxItemCount :: nat where
  "kMaxItemCount = 256"

definition kMaxListItems :: nat where
  "kMaxListItems = 1024"

definition kMaxLogTailBytes :: nat where
  "kMaxLogTailBytes = 256 * 1024"

definition kMaxStreamDataBytes :: nat where
  "kMaxStreamDataBytes = 256 * 1024"

definition kMaxBytesFieldBytes :: nat where
  "kMaxBytesFieldBytes = 512 * 1024"

lemmas ipc_limits = kMaxPayloadBytes_def kMinPayloadBytes_def kMaxStringBytes_def kMaxItemCount_def
  kMaxListItems_def kMaxLogTailBytes_def kMaxStreamDataBytes_def kMaxBytesFieldBytes_def

definition ipc_payload_length_valid :: "u32 \<Rightarrow> bool" where
  "ipc_payload_length_valid n \<longleftrightarrow> kMinPayloadBytes \<le> unat n \<and> unat n \<le> kMaxPayloadBytes"

definition ipc_version_supported :: "u8 \<Rightarrow> bool" where
  "ipc_version_supported v \<longleftrightarrow> kMinProtocolVersion \<le> v \<and> v \<le> kProtocolVersion"

datatype IpcDecodeError =
    kNone | kTruncated | kOversize | kBadVersion | kBadKind | kBadString | kTooManyItems
  | kTrailingBytes | kInvalidValue

type_synonym bytes = "u8 list"
type_synonym i32 = "32 word"
type_synonym 'a reader = "bytes \<Rightarrow> IpcDecodeError + ('a \<times> bytes)"

section \<open>Writer\<close>

definition byte_of_char :: "char \<Rightarrow> u8" where
  "byte_of_char c = of_nat (of_char c)"

definition char_of_byte :: "u8 \<Rightarrow> char" where
  "char_of_byte b = char_of (unat b)"

definition w_u8 :: "u8 \<Rightarrow> bytes" where
  "w_u8 v = [v]"

definition w_u32 :: "u32 \<Rightarrow> bytes" where
  "w_u32 v = map (\<lambda>shift. ucast (drop_bit shift v AND 0xff)) [0, 8, 16, 24]"

definition w_u64 :: "u64 \<Rightarrow> bytes" where
  "w_u64 v = map (\<lambda>shift. ucast (drop_bit shift v AND 0xff)) [0, 8, 16, 24, 32, 40, 48, 56]"

definition w_i32 :: "i32 \<Rightarrow> bytes" where
  "w_i32 v = w_u32 v"

definition w_string :: "string \<Rightarrow> bytes option" where
  "w_string s =
     (if length s > kMaxStringBytes \<or> contains_nul s then None
      else Some (w_u32 (of_nat (length s)) @ map byte_of_char s))"

definition w_optional_string :: "string option \<Rightarrow> bytes option" where
  "w_optional_string v =
     (case v of None \<Rightarrow> Some (w_u8 0) | Some s \<Rightarrow> map_option (\<lambda>b. w_u8 1 @ b) (w_string s))"

definition w_bytes :: "bytes \<Rightarrow> bytes option" where
  "w_bytes v =
     (if length v > kMaxBytesFieldBytes then None
      else Some (w_u32 (of_nat (length v)) @ v))"

definition w_bool :: "bool \<Rightarrow> bytes" where
  "w_bool b = w_u8 (if b then 1 else 0)"

text \<open>Consecutive writes: the first refusal makes the whole body fail.\<close>

fun write_all :: "bytes option list \<Rightarrow> bytes option" where
  "write_all [] = Some []"
| "write_all (None # _) = None"
| "write_all (Some b # ws) = map_option (\<lambda>bs. b @ bs) (write_all ws)"

section \<open>Reader\<close>

definition r_return :: "'a \<Rightarrow> 'a reader" where
  "r_return x bs = Inr (x, bs)"

definition r_fail :: "IpcDecodeError \<Rightarrow> 'a reader" where
  "r_fail e bs = Inl e"

definition r_bind :: "'a reader \<Rightarrow> ('a \<Rightarrow> 'b reader) \<Rightarrow> 'b reader" where
  "r_bind p f bs = (case p bs of Inl e \<Rightarrow> Inl e | Inr (x, rest) \<Rightarrow> f x rest)"

definition r_u8 :: "u8 reader" where
  "r_u8 bs = (case bs of [] \<Rightarrow> Inl kTruncated | b # rest \<Rightarrow> Inr (b, rest))"

definition r_u32 :: "u32 reader" where
  "r_u32 bs =
     (if length bs < 4 then Inl kTruncated
      else Inr (fold (\<lambda>shift out. out OR push_bit shift (ucast (bs ! (shift div 8))))
                  [0, 8, 16, 24] 0, drop 4 bs))"

definition r_u64 :: "u64 reader" where
  "r_u64 bs =
     (if length bs < 8 then Inl kTruncated
      else Inr (fold (\<lambda>shift out. out OR push_bit shift (ucast (bs ! (shift div 8))))
                  [0, 8, 16, 24, 32, 40, 48, 56] 0, drop 8 bs))"

definition r_i32 :: "i32 reader" where
  "r_i32 = r_u32"

definition r_string :: "string reader" where
  "r_string = r_bind r_u32 (\<lambda>len bs.
     if unat len > kMaxStringBytes then Inl kOversize
     else if length bs < unat len then Inl kTruncated
     else let out = map char_of_byte (take (unat len) bs) in
          if contains_nul out then Inl kBadString else Inr (out, drop (unat len) bs))"

definition r_optional_string :: "string option reader" where
  "r_optional_string = r_bind r_u8 (\<lambda>present.
     if present > 1 then r_fail kInvalidValue
     else if present = 0 then r_return None
     else r_bind r_string (\<lambda>s. r_return (Some s)))"

definition r_bytes :: "bytes reader" where
  "r_bytes = r_bind r_u32 (\<lambda>len bs.
     if unat len > kMaxBytesFieldBytes then Inl kOversize
     else if length bs < unat len then Inl kTruncated
     else Inr (take (unat len) bs, drop (unat len) bs))"

definition r_count :: "nat \<Rightarrow> nat reader" where
  "r_count cap = r_bind r_u32 (\<lambda>n. if unat n > cap then r_fail kTooManyItems else r_return (unat n))"

definition r_flag :: "bool reader" where
  "r_flag = r_bind r_u8 (\<lambda>v. if v > 1 then r_fail kInvalidValue else r_return (v = 1))"

text \<open>A \<open>for\<close> loop that reads a known number of items.\<close>

fun r_repeat :: "nat \<Rightarrow> 'a reader \<Rightarrow> 'a list reader" where
  "r_repeat 0 p = r_return []"
| "r_repeat (Suc n) p = r_bind p (\<lambda>x. r_bind (r_repeat n p) (\<lambda>xs. r_return (x # xs)))"

text \<open>An optional part announced by a flag.\<close>

definition r_optional :: "'a reader \<Rightarrow> 'a option reader" where
  "r_optional p = r_bind r_flag (\<lambda>present.
     if present then r_bind p (\<lambda>x. r_return (Some x)) else r_return None)"

definition w_optional :: "('a \<Rightarrow> bytes option) \<Rightarrow> 'a option \<Rightarrow> bytes option" where
  "w_optional w v =
     (case v of None \<Rightarrow> Some (w_u8 0) | Some x \<Rightarrow> write_all [Some (w_u8 1), w x])"

text \<open>A list of at most \<open>cap\<close> items behind its count, a part that is sent under a condition only, and
  the check of a value after it was read.\<close>

definition w_list :: "nat \<Rightarrow> ('a \<Rightarrow> bytes option) \<Rightarrow> 'a list \<Rightarrow> bytes option" where
  "w_list cap w xs =
     (if length xs > cap then None else write_all (Some (w_u32 (of_nat (length xs))) # map w xs))"

definition r_list :: "nat \<Rightarrow> 'a reader \<Rightarrow> 'a list reader" where
  "r_list cap p = r_bind (r_count cap) (\<lambda>n. r_repeat n p)"

definition w_when :: "bool \<Rightarrow> bytes option \<Rightarrow> bytes option" where
  "w_when c w = (if c then w else Some [])"

definition r_when :: "bool \<Rightarrow> 'a reader \<Rightarrow> 'a \<Rightarrow> 'a reader" where
  "r_when c p d = (if c then p else r_return d)"

definition r_check :: "bool \<Rightarrow> IpcDecodeError \<Rightarrow> unit reader" where
  "r_check c e = (if c then r_return () else r_fail e)"

text \<open>The end of a body: nothing may be left over.\<close>

definition r_end :: "'a \<Rightarrow> 'a reader" where
  "r_end x bs = (if bs \<noteq> [] then Inl kTrailingBytes else Inr (x, []))"

definition run_reader :: "'a reader \<Rightarrow> bytes \<Rightarrow> IpcDecodeError + 'a" where
  "run_reader p bs = (case p bs of Inl e \<Rightarrow> Inl e | Inr (x, _) \<Rightarrow> Inr x)"

fun IpcDecodeError_to_string :: "IpcDecodeError \<Rightarrow> string" where
  "IpcDecodeError_to_string IpcDecodeError.kNone = ''none''"
| "IpcDecodeError_to_string kTruncated = ''truncated''"
| "IpcDecodeError_to_string kOversize = ''oversize''"
| "IpcDecodeError_to_string kBadVersion = ''bad version''"
| "IpcDecodeError_to_string kBadKind = ''bad kind''"
| "IpcDecodeError_to_string kBadString = ''bad string''"
| "IpcDecodeError_to_string kTooManyItems = ''too many items''"
| "IpcDecodeError_to_string kTrailingBytes = ''trailing bytes''"
| "IpcDecodeError_to_string kInvalidValue = ''invalid value''"

section \<open>The contract of a field\<close>

text \<open>A reader accepts exactly what the writer sends for a value that is in its domain \<open>ok\<close>, and then
  gives that value back and leaves the rest.\<close>

locale codec =
  fixes wr :: "'a \<Rightarrow> bytes option" and rd :: "'a reader" and ok :: "'a \<Rightarrow> bool"
  assumes rd_iff: "rd bs = Inr (x, rest) \<longleftrightarrow> ok x \<and> (\<exists>w. wr x = Some w \<and> bs = w @ rest)"
begin

lemma rd_wr: "ok x \<Longrightarrow> wr x = Some bs \<Longrightarrow> rd (bs @ rest) = Inr (x, rest)"
  by (simp add: rd_iff)

lemma wr_inj: "ok x \<Longrightarrow> ok y \<Longrightarrow> wr x = Some w \<Longrightarrow> wr y = Some w \<Longrightarrow> x = y"
  using rd_wr [of x w "[]"] rd_wr [of y w "[]"] by simp

end

text \<open>A writer that drops fields the reader does not expect: sending a value is sending its wire form.\<close>

locale lossy_codec = codec +
  fixes wire :: "'a \<Rightarrow> 'a" and rng :: "'a \<Rightarrow> bool"
  assumes wr_wire: "wr x = Some w \<Longrightarrow> wr (wire x) = Some w"
    and ok_wire: "rng x \<Longrightarrow> wr x = Some w \<Longrightarrow> ok (wire x)"
begin

lemma rd_wr_wire: "rng x \<Longrightarrow> wr x = Some bs \<Longrightarrow> rd (bs @ rest) = Inr (wire x, rest)"
  using rd_wr [of "wire x" bs] ok_wire [of x bs] wr_wire [of x bs] by simp

end

named_theorems reader_iff \<open>what a reader accepts, in terms of the writer\<close>

lemma write_all_Cons:
  "write_all (w # ws) = Some bs \<longleftrightarrow> (\<exists>b c. w = Some b \<and> write_all ws = Some c \<and> bs = b @ c)"
  by (cases w) auto

lemma write_all_single [simp]: "write_all [w] = w"
  by (cases w) auto

lemma write_all_append:
  "write_all (xs @ ys) = Some bs \<longleftrightarrow>
     (\<exists>b c. write_all xs = Some b \<and> write_all ys = Some c \<and> bs = b @ c)"
  by (induction xs arbitrary: bs) (auto simp: write_all_Cons)

lemma r_return_iff [reader_iff]: "r_return x bs = Inr (y, rest) \<longleftrightarrow> x = y \<and> bs = rest"
  by (auto simp: r_return_def)

lemma r_fail_iff [reader_iff]: "r_fail e bs \<noteq> Inr y"
  by (simp add: r_fail_def)

lemma r_bind_iff [reader_iff]:
  "r_bind p f bs = Inr (y, rest) \<longleftrightarrow> (\<exists>x mid. p bs = Inr (x, mid) \<and> f x mid = Inr (y, rest))"
  by (auto simp: r_bind_def split: sum.splits)

lemma r_end_iff [reader_iff]: "r_end x bs = Inr (y, rest) \<longleftrightarrow> x = y \<and> bs = [] \<and> rest = []"
  by (auto simp: r_end_def)

section \<open>Field types keep the contract\<close>

lemma r_u8_iff [reader_iff]: "r_u8 bs = Inr (x, rest) \<longleftrightarrow> bs = w_u8 x @ rest"
  by (cases bs) (auto simp: r_u8_def w_u8_def)

text \<open>The bit at position \<open>n\<close> of the byte taken at \<open>shift\<close>, and of a byte put back there.\<close>

lemma bit_u8_take:
  "bit (ucast (drop_bit shift (v :: u32) AND 0xff) :: u8) n \<longleftrightarrow> n < 8 \<and> bit v (shift + n)"
  "bit (ucast (drop_bit shift (w :: u64) AND 0xff) :: u8) n \<longleftrightarrow> n < 8 \<and> bit w (shift + n)"
proof -
  have m: "(0xff :: u32) = mask 8" "(0xff :: u64) = mask 8" by (simp_all add: mask_eq_exp_minus_1)
  have "bit (0xff :: u32) n \<longleftrightarrow> n < 8" "bit (0xff :: u64) n \<longleftrightarrow> n < 8"
    unfolding m bit_mask_iff by auto
  then show "bit (ucast (drop_bit shift (v :: u32) AND 0xff) :: u8) n \<longleftrightarrow> n < 8 \<and> bit v (shift + n)"
    "bit (ucast (drop_bit shift (w :: u64) AND 0xff) :: u8) n \<longleftrightarrow> n < 8 \<and> bit w (shift + n)"
    by (auto simp: bit_simps)
qed

lemma bit_u8_put:
  "bit (push_bit shift (ucast (b :: u8)) :: u32) n \<longleftrightarrow> n < 32 \<and> shift \<le> n \<and> n < shift + 8 \<and> bit b (n - shift)"
  "bit (push_bit shift (ucast (b :: u8)) :: u64) n \<longleftrightarrow> n < 64 \<and> shift \<le> n \<and> n < shift + 8 \<and> bit b (n - shift)"
  by (auto simp: bit_simps dest: bit_imp_le_length)

lemma four_bytes: "length bs \<ge> 4 \<Longrightarrow> \<exists>a b c d rest. bs = a # b # c # d # rest"
  by (auto simp: Suc_le_length_iff numeral_eq_Suc)

lemma eight_bytes:
  "length bs \<ge> 8 \<Longrightarrow> \<exists>a b c d e f g h rest. bs = a # b # c # d # e # f # g # h # rest"
  by (auto simp: Suc_le_length_iff numeral_eq_Suc)

lemmas bit_u8_zero = bit_u8_take [where shift = 0, simplified] bit_u8_put [where shift = 0, simplified]
lemmas bit_u8 = bit_u8_zero bit_u8_put bit_drop_bit_eq o_def

lemma u32_of_bytes:
  "fold (\<lambda>shift out. out OR push_bit shift (ucast (w_u32 x ! (shift div 8)))) [0, 8, 16, 24] 0 = x"
proof (rule bit_word_eqI)
  fix n assume "n < LENGTH(32)"
  then show "bit (fold (\<lambda>shift out. out OR push_bit shift (ucast (w_u32 x ! (shift div 8))))
      [0, 8, 16, 24] 0 :: u32) n = bit x n"
    by (cases "n < 8"; cases "n < 16"; cases "n < 24") (auto simp: w_u32_def bit_or_iff bit_u8)
qed

lemma bytes_of_u32:
  "w_u32 (fold (\<lambda>shift out. out OR push_bit shift (ucast ((a # b # c # d # rest) ! (shift div 8))))
     [0, 8, 16, 24] 0) = [a, b, c, d]"
proof -
  define v :: u32 where "v = fold (\<lambda>shift out. out OR push_bit shift
    (ucast ((a # b # c # d # rest) ! (shift div 8)))) [0, 8, 16, 24] 0"
  have "bit v n \<longleftrightarrow> (n < 8 \<and> bit a n) \<or> (8 \<le> n \<and> n < 16 \<and> bit b (n - 8))
      \<or> (16 \<le> n \<and> n < 24 \<and> bit c (n - 16)) \<or> (24 \<le> n \<and> n < 32 \<and> bit d (n - 24))" for n
    by (auto simp: v_def bit_or_iff bit_u8)
  note bv = this
  have "(ucast (v AND 0xff) :: u8) = a" "(ucast (drop_bit 8 v AND 0xff) :: u8) = b"
    "(ucast (drop_bit 16 v AND 0xff) :: u8) = c" "(ucast (drop_bit 24 v AND 0xff) :: u8) = d"
    by (rule bit_word_eqI; simp add: bit_u8 bv)+
  then have "w_u32 v = [a, b, c, d]" by (simp add: w_u32_def)
  then show ?thesis unfolding v_def .
qed

lemma u64_of_bytes:
  "fold (\<lambda>shift out. out OR push_bit shift (ucast (w_u64 x ! (shift div 8))))
     [0, 8, 16, 24, 32, 40, 48, 56] 0 = x"
proof (rule bit_word_eqI)
  fix n assume "n < LENGTH(64)"
  then show "bit (fold (\<lambda>shift out. out OR push_bit shift (ucast (w_u64 x ! (shift div 8))))
      [0, 8, 16, 24, 32, 40, 48, 56] 0 :: u64) n = bit x n"
    by (cases "n < 8"; cases "n < 16"; cases "n < 24"; cases "n < 32"; cases "n < 40"; cases "n < 48";
        cases "n < 56") (auto simp: w_u64_def bit_or_iff bit_u8)
qed

lemma bytes_of_u64:
  "w_u64 (fold (\<lambda>shift out. out OR push_bit shift
     (ucast ((a # b # c # d # e # f # g # h # rest) ! (shift div 8))))
     [0, 8, 16, 24, 32, 40, 48, 56] 0) = [a, b, c, d, e, f, g, h]"
proof -
  define v :: u64 where "v = fold (\<lambda>shift out. out OR push_bit shift
    (ucast ((a # b # c # d # e # f # g # h # rest) ! (shift div 8))))
    [0, 8, 16, 24, 32, 40, 48, 56] 0"
  have "bit v n \<longleftrightarrow> (n < 64 \<and> n < 8 \<and> bit a n) \<or> (n < 64 \<and> 8 \<le> n \<and> n < 16 \<and> bit b (n - 8))
      \<or> (n < 64 \<and> 16 \<le> n \<and> n < 24 \<and> bit c (n - 16)) \<or> (n < 64 \<and> 24 \<le> n \<and> n < 32 \<and> bit d (n - 24))
      \<or> (n < 64 \<and> 32 \<le> n \<and> n < 40 \<and> bit e (n - 32)) \<or> (n < 64 \<and> 40 \<le> n \<and> n < 48 \<and> bit f (n - 40))
      \<or> (n < 64 \<and> 48 \<le> n \<and> n < 56 \<and> bit g (n - 48)) \<or> (n < 64 \<and> 56 \<le> n \<and> n < 64 \<and> bit h (n - 56))" for n
    by (simp add: v_def bit_or_iff bit_u8 disj_assoc)
  note bv = this
  have "(ucast (v AND 0xff) :: u8) = a" "(ucast (drop_bit 8 v AND 0xff) :: u8) = b"
    "(ucast (drop_bit 16 v AND 0xff) :: u8) = c" "(ucast (drop_bit 24 v AND 0xff) :: u8) = d"
    "(ucast (drop_bit 32 v AND 0xff) :: u8) = e" "(ucast (drop_bit 40 v AND 0xff) :: u8) = f"
    "(ucast (drop_bit 48 v AND 0xff) :: u8) = g" "(ucast (drop_bit 56 v AND 0xff) :: u8) = h"
    by (rule bit_word_eqI; simp add: bit_u8 bv)+
  then have "w_u64 v = [a, b, c, d, e, f, g, h]" by (simp add: w_u64_def)
  then show ?thesis unfolding v_def .
qed

lemma length_w_u32 [simp]: "length (w_u32 x) = 4"
  by (simp add: w_u32_def)

lemma length_w_u64 [simp]: "length (w_u64 x) = 8"
  by (simp add: w_u64_def)

lemma r_u32_iff [reader_iff]: "r_u32 bs = Inr (x, rest) \<longleftrightarrow> bs = w_u32 x @ rest"
proof
  assume r: "r_u32 bs = Inr (x, rest)"
  then have "4 \<le> length bs" by (auto simp: r_u32_def split: if_splits)
  from four_bytes [OF this] obtain a b c d t where bs: "bs = a # b # c # d # t" by blast
  with r have "rest = t" and "x = fold (\<lambda>shift out. out OR push_bit shift
      (ucast ((a # b # c # d # t) ! (shift div 8)))) [0, 8, 16, 24] 0"
    unfolding r_u32_def by simp_all
  with bs show "bs = w_u32 x @ rest" by (simp only: bytes_of_u32) simp
next
  assume "bs = w_u32 x @ rest"
  moreover have "fold (\<lambda>shift out. out OR push_bit shift (ucast ((w_u32 x @ rest) ! (shift div 8))))
      [0, 8, 16, 24] 0 = x"
    using u32_of_bytes [of x] by (simp add: nth_append)
  ultimately show "r_u32 bs = Inr (x, rest)" by (simp add: r_u32_def)
qed

lemma r_u64_iff [reader_iff]: "r_u64 bs = Inr (x, rest) \<longleftrightarrow> bs = w_u64 x @ rest"
proof
  assume r: "r_u64 bs = Inr (x, rest)"
  then have "8 \<le> length bs" by (auto simp: r_u64_def split: if_splits)
  from eight_bytes [OF this] obtain a b c d e f g h t where
      bs: "bs = a # b # c # d # e # f # g # h # t" by blast
  with r have "rest = t" and "x = fold (\<lambda>shift out. out OR push_bit shift
      (ucast ((a # b # c # d # e # f # g # h # t) ! (shift div 8)))) [0, 8, 16, 24, 32, 40, 48, 56] 0"
    unfolding r_u64_def by simp_all
  with bs show "bs = w_u64 x @ rest" by (simp only: bytes_of_u64) simp
next
  assume "bs = w_u64 x @ rest"
  moreover have "fold (\<lambda>shift out. out OR push_bit shift (ucast ((w_u64 x @ rest) ! (shift div 8))))
      [0, 8, 16, 24, 32, 40, 48, 56] 0 = x"
    using u64_of_bytes [of x] by (simp add: nth_append)
  ultimately show "r_u64 bs = Inr (x, rest)" by (simp add: r_u64_def)
qed

lemma r_i32_iff [reader_iff]: "r_i32 bs = Inr (x, rest) \<longleftrightarrow> bs = w_i32 x @ rest"
  by (simp add: r_i32_def w_i32_def r_u32_iff)

lemma byte_char [simp]: "char_of_byte (byte_of_char c) = c"
proof -
  have "(of_char c :: nat) < 256" by (metis of_char_of nat_of_char_less_256)
  then show ?thesis by (simp add: char_of_byte_def byte_of_char_def unat_of_nat)
qed

lemma char_byte [simp]: "byte_of_char (char_of_byte b) = b"
proof -
  have "unat b < 256" using unsigned_less [of b] by simp
  then show ?thesis by (simp add: char_of_byte_def byte_of_char_def)
qed

lemma u8_flag: "\<not> (1 :: u8) < v \<longleftrightarrow> v = 0 \<or> v = 1"
  by unat_arith

lemma unat_u32_small: "n \<le> 1048576 \<Longrightarrow> unat (of_nat n :: u32) = n"
  by (simp add: unat_of_nat)

lemma r_flag_iff [reader_iff]: "r_flag bs = Inr (b, rest) \<longleftrightarrow> bs = w_bool b @ rest"
proof (cases bs)
  case Nil
  then show ?thesis by (simp add: r_flag_def r_bind_def r_u8_def w_bool_def w_u8_def)
next
  case (Cons v t)
  show ?thesis
  proof (cases "v = 0 \<or> v = 1")
    case True
    then show ?thesis
      using Cons by (auto simp: r_flag_def r_bind_def r_u8_def r_return_def w_bool_def w_u8_def)
  next
    case False
    then have "1 < v" using u8_flag [of v] by blast
    with False Cons show ?thesis
      by (simp add: r_flag_def r_bind_def r_u8_def r_fail_def w_bool_def w_u8_def)
  qed
qed

lemma r_string_iff [reader_iff]:
  "r_string bs = Inr (s, rest) \<longleftrightarrow> (\<exists>w. w_string s = Some w \<and> bs = w @ rest)"
proof
  assume "r_string bs = Inr (s, rest)"
  then obtain len mid where bs: "bs = w_u32 len @ mid" "unat len \<le> kMaxStringBytes"
      "unat len \<le> length mid" "s = map char_of_byte (take (unat len) mid)" "\<not> contains_nul s"
      "rest = drop (unat len) mid"
    by (auto simp: r_string_def reader_iff Let_def split: if_splits)
  then have "length s = unat len" "map byte_of_char s = take (unat len) mid" by (simp_all add: comp_def)
  with bs have "w_string s = Some (w_u32 len @ take (unat len) mid)" by (simp add: w_string_def)
  with bs show "\<exists>w. w_string s = Some w \<and> bs = w @ rest" by auto
next
  assume "\<exists>w. w_string s = Some w \<and> bs = w @ rest"
  then have s: "length s \<le> kMaxStringBytes" "\<not> contains_nul s"
      "bs = w_u32 (of_nat (length s)) @ map byte_of_char s @ rest"
    by (auto simp: w_string_def split: if_splits)
  moreover from s(1) have "unat (of_nat (length s) :: u32) = length s"
    by (simp add: unat_u32_small ipc_limits)
  moreover from s(3) have "r_u32 bs = Inr (of_nat (length s), map byte_of_char s @ rest)"
    by (simp add: r_u32_iff)
  ultimately show "r_string bs = Inr (s, rest)"
    by (simp add: r_string_def r_bind_def comp_def Let_def)
qed

lemma r_bytes_iff [reader_iff]:
  "r_bytes bs = Inr (v, rest) \<longleftrightarrow> (\<exists>w. w_bytes v = Some w \<and> bs = w @ rest)"
proof
  assume "r_bytes bs = Inr (v, rest)"
  then obtain len mid where "bs = w_u32 len @ mid" "unat len \<le> kMaxBytesFieldBytes"
      "unat len \<le> length mid" "v = take (unat len) mid" "rest = drop (unat len) mid"
    by (auto simp: r_bytes_def reader_iff split: if_splits)
  then show "\<exists>w. w_bytes v = Some w \<and> bs = w @ rest" by (auto simp: w_bytes_def)
next
  assume "\<exists>w. w_bytes v = Some w \<and> bs = w @ rest"
  then have v: "length v \<le> kMaxBytesFieldBytes" "bs = w_u32 (of_nat (length v)) @ v @ rest"
    by (auto simp: w_bytes_def split: if_splits)
  moreover from v(1) have "unat (of_nat (length v) :: u32) = length v"
    by (simp add: unat_u32_small ipc_limits)
  moreover from v(2) have "r_u32 bs = Inr (of_nat (length v), v @ rest)" by (simp add: r_u32_iff)
  ultimately show "r_bytes bs = Inr (v, rest)" by (simp add: r_bytes_def r_bind_def)
qed

lemma r_count_iff [reader_iff]:
  assumes "cap \<le> 1048576"
  shows "r_count cap bs = Inr (n, rest) \<longleftrightarrow> n \<le> cap \<and> bs = w_u32 (of_nat n) @ rest"
proof
  assume "r_count cap bs = Inr (n, rest)"
  then show "n \<le> cap \<and> bs = w_u32 (of_nat n) @ rest"
    by (auto simp: r_count_def reader_iff split: if_splits)
next
  assume n: "n \<le> cap \<and> bs = w_u32 (of_nat n) @ rest"
  then have "r_u32 bs = Inr (of_nat n, rest)" by (simp add: r_u32_iff)
  with n assms show "r_count cap bs = Inr (n, rest)"
    by (simp add: r_count_def r_bind_def r_return_def unat_u32_small)
qed

lemma r_optional_string_eq: "r_optional_string = r_optional r_string"
proof
  fix bs
  show "r_optional_string bs = r_optional r_string bs"
  proof (cases bs)
    case Nil
    then show ?thesis by (simp add: r_optional_string_def r_optional_def r_flag_def r_bind_def r_u8_def)
  next
    case (Cons v t)
    then show ?thesis
      using u8_flag [of v]
      by (auto simp: r_optional_string_def r_optional_def r_flag_def r_bind_def r_u8_def r_fail_def
          r_return_def)
  qed
qed

lemma w_optional_string_eq: "w_optional_string = w_optional w_string"
  by (auto simp: fun_eq_iff w_optional_string_def w_optional_def split: option.split)

lemma r_check_iff [reader_iff]: "r_check c e bs = Inr (u, rest) \<longleftrightarrow> c \<and> bs = rest"
  by (auto simp: r_check_def reader_iff)

lemma r_when_iff [reader_iff]:
  "r_when c p d bs = Inr (x, rest) \<longleftrightarrow> (if c then p bs = Inr (x, rest) else x = d \<and> bs = rest)"
  by (auto simp: r_when_def reader_iff)

lemma w_when_iff: "w_when c w = Some bs \<longleftrightarrow> (if c then w = Some bs else bs = [])"
  by (auto simp: w_when_def)

context codec
begin

lemma rd_repeat:
  "r_repeat n rd bs = Inr (xs, rest) \<longleftrightarrow>
     length xs = n \<and> list_all ok xs \<and> (\<exists>w. write_all (map wr xs) = Some w \<and> bs = w @ rest)"
proof (induction n arbitrary: bs xs)
  case 0
  then show ?case by (auto simp: r_return_iff)
next
  case (Suc n)
  have "r_repeat (Suc n) rd bs = Inr (xs, rest) \<longleftrightarrow>
      (\<exists>x ys w v. xs = x # ys \<and> length ys = n \<and> ok x \<and> list_all ok ys \<and> wr x = Some w
        \<and> write_all (map wr ys) = Some v \<and> bs = w @ v @ rest)"
    by (auto simp: r_bind_iff r_return_iff rd_iff Suc.IH)
  also have "\<dots> \<longleftrightarrow> length xs = Suc n \<and> list_all ok xs
      \<and> (\<exists>w. write_all (map wr xs) = Some w \<and> bs = w @ rest)"
    by (cases xs) (auto simp: write_all_Cons)
  finally show ?case .
qed

lemma rd_list:
  assumes "cap \<le> 1048576"
  shows "r_list cap rd bs = Inr (xs, rest) \<longleftrightarrow>
     list_all ok xs \<and> (\<exists>w. w_list cap wr xs = Some w \<and> bs = w @ rest)"
  by (auto simp: r_list_def w_list_def r_bind_iff r_count_iff [OF assms] rd_repeat write_all_Cons)

lemma rd_optional:
  "r_optional rd bs = Inr (v, rest) \<longleftrightarrow>
     pred_option ok v \<and> (\<exists>w. w_optional wr v = Some w \<and> bs = w @ rest)"
proof -
  have "r_optional rd bs = Inr (v, rest) \<longleftrightarrow> (case v of
      None \<Rightarrow> bs = w_bool False @ rest | Some x \<Rightarrow> \<exists>mid. bs = w_bool True @ mid \<and> rd mid = Inr (x, rest))"
    by (auto simp: r_optional_def r_bind_iff r_flag_iff r_return_iff split: option.splits)
  also have "\<dots> \<longleftrightarrow> pred_option ok v \<and> (\<exists>w. w_optional wr v = Some w \<and> bs = w @ rest)"
    by (cases v) (auto simp: w_optional_def rd_iff w_bool_def)
  finally show ?thesis .
qed

end

abbreviation any_value :: "'a \<Rightarrow> bool" where
  "any_value \<equiv> \<lambda>_. True"

interpretation cu8: codec "\<lambda>x. Some (w_u8 x)" r_u8 any_value
  by unfold_locales (auto simp: reader_iff)

interpretation cu32: codec "\<lambda>x. Some (w_u32 x)" r_u32 any_value
  by unfold_locales (auto simp: reader_iff)

interpretation cu64: codec "\<lambda>x. Some (w_u64 x)" r_u64 any_value
  by unfold_locales (auto simp: reader_iff)

interpretation cflag: codec "\<lambda>x. Some (w_bool x)" r_flag any_value
  by unfold_locales (auto simp: reader_iff)

interpretation cstring: codec w_string r_string any_value
  by unfold_locales (auto simp: reader_iff)

interpretation cbytes: codec w_bytes r_bytes any_value
  by unfold_locales (auto simp: reader_iff)

lemma no_condition [simp]: "list_all any_value xs" "pred_option any_value v"
  by (simp_all add: list_all_iff pred_option_def)

lemma r_optional_string_iff [reader_iff]:
  "r_optional_string bs = Inr (v, rest) \<longleftrightarrow> (\<exists>w. w_optional_string v = Some w \<and> bs = w @ rest)"
  unfolding r_optional_string_eq w_optional_string_eq by (simp add: cstring.rd_optional)

lemma item_cap: "kMaxItemCount \<le> 1048576" and list_cap: "kMaxListItems \<le> 1048576"
  by (simp_all add: ipc_limits)

lemmas string_list_iff [reader_iff] =
  cstring.rd_list [OF item_cap, simplified no_condition simp_thms]

lemmas optional_field_iff [reader_iff] =
  cu32.rd_optional [simplified no_condition simp_thms]
  cu64.rd_optional [simplified no_condition simp_thms]

end
