(* ===== verification/Ipc_Messages.thy ===== *)
theory Ipc_Messages
  imports Ipc_Codec
begin

text \<open>
  The messages of \<^verbatim>\<open>src/include/yori/ipc/ipc_protocol.hpp\<close> and their encoders and decoders of
  \<^verbatim>\<open>src/src/ipc/ipc_protocol.cpp\<close>: requests, responses and the frames of a followed log. A message
  struct is a record; an encoder returns the payload or \<open>None\<close>, a decoder the message or the error.
  The value a failed decoder leaves half filled in its result is not part of the model.
\<close>

section \<open>Requests\<close>

datatype IpcRequestKind =
    kSubmit | kPs | kQueue | kGpu | kCancel | kLogs | kLogsFollow | kTensorboard | kInspect

fun IpcRequestKind_code :: "IpcRequestKind \<Rightarrow> u8" where
  "IpcRequestKind_code IpcRequestKind.kSubmit = 1"
| "IpcRequestKind_code IpcRequestKind.kPs = 2"
| "IpcRequestKind_code IpcRequestKind.kQueue = 3"
| "IpcRequestKind_code IpcRequestKind.kGpu = 4"
| "IpcRequestKind_code IpcRequestKind.kCancel = 5"
| "IpcRequestKind_code IpcRequestKind.kLogs = 6"
| "IpcRequestKind_code IpcRequestKind.kLogsFollow = 7"
| "IpcRequestKind_code IpcRequestKind.kTensorboard = 8"
| "IpcRequestKind_code IpcRequestKind.kInspect = 9"

definition all_request_kinds :: "IpcRequestKind list" where
  "all_request_kinds = [IpcRequestKind.kSubmit, IpcRequestKind.kPs, IpcRequestKind.kQueue,
     IpcRequestKind.kGpu, IpcRequestKind.kCancel, IpcRequestKind.kLogs, IpcRequestKind.kLogsFollow,
     IpcRequestKind.kTensorboard, IpcRequestKind.kInspect]"

text \<open>The enumerator with a given value, for a value the decoder has range checked.\<close>

definition IpcRequestKind_of :: "u8 \<Rightarrow> IpcRequestKind" where
  "IpcRequestKind_of c = all_request_kinds ! (unat c - 1)"

fun IpcRequestKind_to_string :: "IpcRequestKind \<Rightarrow> string" where
  "IpcRequestKind_to_string IpcRequestKind.kSubmit = ''submit''"
| "IpcRequestKind_to_string IpcRequestKind.kPs = ''ps''"
| "IpcRequestKind_to_string IpcRequestKind.kQueue = ''queue''"
| "IpcRequestKind_to_string IpcRequestKind.kGpu = ''gpu''"
| "IpcRequestKind_to_string IpcRequestKind.kCancel = ''cancel''"
| "IpcRequestKind_to_string IpcRequestKind.kLogs = ''logs''"
| "IpcRequestKind_to_string IpcRequestKind.kLogsFollow = ''logs-follow''"
| "IpcRequestKind_to_string IpcRequestKind.kTensorboard = ''tensorboard''"
| "IpcRequestKind_to_string IpcRequestKind.kInspect = ''inspect''"

datatype IpcWaitReason =
    kNone | kNoFreeGpu | kAffinityGpuAllocated | kAffinityGpuExternal | kAffinityGpuState

fun IpcWaitReason_code :: "IpcWaitReason \<Rightarrow> u8" where
  "IpcWaitReason_code IpcWaitReason.kNone = 0"
| "IpcWaitReason_code IpcWaitReason.kNoFreeGpu = 1"
| "IpcWaitReason_code IpcWaitReason.kAffinityGpuAllocated = 2"
| "IpcWaitReason_code IpcWaitReason.kAffinityGpuExternal = 3"
| "IpcWaitReason_code IpcWaitReason.kAffinityGpuState = 4"

fun IpcWaitReason_to_string :: "IpcWaitReason \<Rightarrow> string" where
  "IpcWaitReason_to_string IpcWaitReason.kNone = ''NONE''"
| "IpcWaitReason_to_string IpcWaitReason.kNoFreeGpu = ''NO_FREE_GPU''"
| "IpcWaitReason_to_string IpcWaitReason.kAffinityGpuAllocated = ''AFFINITY_GPU_ALLOCATED''"
| "IpcWaitReason_to_string IpcWaitReason.kAffinityGpuExternal = ''AFFINITY_GPU_EXTERNAL''"
| "IpcWaitReason_to_string IpcWaitReason.kAffinityGpuState = ''AFFINITY_GPU_STATE''"

record IpcEnvMetadata =
  iem_source :: u8
  iem_python_version :: "string option"

record IpcSubmitRequest =
  isr_argv :: "string list"
  isr_cwd :: string
  isr_env :: "(string, string) omap"
  isr_gpu_request :: u32
  isr_launch_profile :: "string option"
  isr_tensorboard_logdir :: "string option"
  isr_executable :: "string option"
  isr_env_metadata :: "IpcEnvMetadata option"
  isr_gpu_spec :: "string option"
  isr_gpu_preferred_spec :: "string option"

definition IpcSubmitRequest_init :: IpcSubmitRequest where
  "IpcSubmitRequest_init =
     \<lparr>isr_argv = [], isr_cwd = '''', isr_env = [], isr_gpu_request = 1, isr_launch_profile = None,
      isr_tensorboard_logdir = None, isr_executable = None, isr_env_metadata = None,
      isr_gpu_spec = None, isr_gpu_preferred_spec = None\<rparr>"

record IpcCancelRequest =
  icr_job_id :: u64

record IpcLogsRequest =
  ilr_job_id :: u64
  ilr_max_bytes :: u32

record IpcLogsFollowRequest =
  ifr_job_id :: u64
  ifr_since_stdout :: "u64 option"
  ifr_since_stderr :: "u64 option"

record IpcTensorboardRequest =
  itr_job_id :: u64

record IpcInspectRequest =
  iir_job_id :: u64

record IpcRequest =
  irq_kind :: IpcRequestKind
  irq_version :: u8
  irq_submit :: IpcSubmitRequest
  irq_cancel :: IpcCancelRequest
  irq_logs :: IpcLogsRequest
  irq_logs_follow :: IpcLogsFollowRequest
  irq_tensorboard :: IpcTensorboardRequest
  irq_inspect :: IpcInspectRequest

definition IpcRequest_init :: IpcRequest where
  "IpcRequest_init =
     \<lparr>irq_kind = IpcRequestKind.kSubmit, irq_version = kProtocolVersion,
      irq_submit = IpcSubmitRequest_init, irq_cancel = \<lparr>icr_job_id = 0\<rparr>,
      irq_logs = \<lparr>ilr_job_id = 0, ilr_max_bytes = 0\<rparr>,
      irq_logs_follow = \<lparr>ifr_job_id = 0, ifr_since_stdout = None, ifr_since_stderr = None\<rparr>,
      irq_tensorboard = \<lparr>itr_job_id = 0\<rparr>, irq_inspect = \<lparr>iir_job_id = 0\<rparr>\<rparr>"

section \<open>Responses\<close>

datatype IpcError =
    kNone | kProtocol | kUnsupported | kDenied | kInvalidSpec | kQueueRejected | kStoreFailed
  | kNotFound | kInvalidState | kNotAvailable | kLimit | kInternal

definition all_ipc_errors :: "IpcError list" where
  "all_ipc_errors = [IpcError.kNone, IpcError.kProtocol, IpcError.kUnsupported, IpcError.kDenied,
     IpcError.kInvalidSpec, IpcError.kQueueRejected, IpcError.kStoreFailed, IpcError.kNotFound,
     IpcError.kInvalidState, IpcError.kNotAvailable, IpcError.kLimit, IpcError.kInternal]"

fun IpcError_code :: "IpcError \<Rightarrow> u8" where
  "IpcError_code IpcError.kNone = 0"
| "IpcError_code IpcError.kProtocol = 1"
| "IpcError_code IpcError.kUnsupported = 2"
| "IpcError_code IpcError.kDenied = 3"
| "IpcError_code IpcError.kInvalidSpec = 4"
| "IpcError_code IpcError.kQueueRejected = 5"
| "IpcError_code IpcError.kStoreFailed = 6"
| "IpcError_code IpcError.kNotFound = 7"
| "IpcError_code IpcError.kInvalidState = 8"
| "IpcError_code IpcError.kNotAvailable = 9"
| "IpcError_code IpcError.kLimit = 10"
| "IpcError_code IpcError.kInternal = 11"

definition IpcError_of :: "u8 \<Rightarrow> IpcError" where
  "IpcError_of c = all_ipc_errors ! unat c"

fun IpcError_to_string :: "IpcError \<Rightarrow> string" where
  "IpcError_to_string IpcError.kNone = ''none''"
| "IpcError_to_string IpcError.kProtocol = ''protocol''"
| "IpcError_to_string IpcError.kUnsupported = ''unsupported''"
| "IpcError_to_string IpcError.kDenied = ''denied''"
| "IpcError_to_string IpcError.kInvalidSpec = ''invalid spec''"
| "IpcError_to_string IpcError.kQueueRejected = ''queue rejected''"
| "IpcError_to_string IpcError.kStoreFailed = ''store failed''"
| "IpcError_to_string IpcError.kNotFound = ''not found''"
| "IpcError_to_string IpcError.kInvalidState = ''invalid state''"
| "IpcError_to_string IpcError.kNotAvailable = ''not available''"
| "IpcError_to_string IpcError.kLimit = ''limit''"
| "IpcError_to_string IpcError.kInternal = ''internal''"

record IpcExitStatus =
  ies_exited_normally :: bool
  ies_code :: i32

record IpcJobSummary =
  ijs_job_id :: u64
  ijs_state :: u8
  ijs_owner_uid :: u32
  ijs_revision :: u64
  ijs_masked :: bool
  ijs_argv :: "string list"
  ijs_cwd :: string
  ijs_tensorboard_logdir :: "string option"
  ijs_exit :: "IpcExitStatus option"
  ijs_wait_reason :: u8
  ijs_wait_detail :: "string option"

record IpcQueueEntry =
  iqe_job_id :: u64
  iqe_owner_uid :: u32
  iqe_submit_time_unix_ns :: u64
  iqe_state :: u8
  iqe_wait_reason :: u8
  iqe_wait_detail :: "string option"

record IpcGpuDevice =
  igd_uuid :: string
  igd_index :: u32
  igd_observed_state :: u8
  igd_logical_state :: u8
  igd_utilization_percent :: "u32 option"
  igd_memory_used_bytes :: "u64 option"
  igd_memory_total_bytes :: "u64 option"
  igd_leased_by_job :: "u64 option"

record IpcLogsPayload =
  ilp_stdout_truncated :: bool
  ilp_stdout_tail :: bytes
  ilp_stderr_truncated :: bool
  ilp_stderr_tail :: bytes

record IpcLogsFollowPayload =
  ifp_job_state :: u8
  ifp_stdout_offset :: u64
  ifp_stderr_offset :: u64

record IpcTensorboardPayload =
  itp_logdir :: "string option"
  itp_cwd :: string

record IpcEnvEntry =
  iee_name :: string
  iee_masked :: bool
  iee_value :: string

record IpcInspectPayload =
  iip_job_id :: u64
  iip_state :: u8
  iip_owner_uid :: u32
  iip_revision :: u64
  iip_cwd :: string
  iip_executable :: "string option"
  iip_argv :: "string list"
  iip_env_metadata :: "IpcEnvMetadata option"
  iip_env :: "IpcEnvEntry list"
  iip_gpu_uuid :: "string option"
  iip_gpu_index :: "u32 option"
  iip_gpu_placement_mode :: u8
  iip_gpu_placement_device :: "string option"
  iip_gpu_placement_devices :: "string list"
  iip_submit_time_unix_ns :: u64
  iip_exit :: "IpcExitStatus option"
  iip_log_path :: "string option"

definition IpcInspectPayload_init :: IpcInspectPayload where
  "IpcInspectPayload_init =
     \<lparr>iip_job_id = 0, iip_state = 0, iip_owner_uid = 0, iip_revision = 0, iip_cwd = '''',
      iip_executable = None, iip_argv = [], iip_env_metadata = None, iip_env = [],
      iip_gpu_uuid = None, iip_gpu_index = None, iip_gpu_placement_mode = 0,
      iip_gpu_placement_device = None, iip_gpu_placement_devices = [],
      iip_submit_time_unix_ns = 0, iip_exit = None, iip_log_path = None\<rparr>"

record IpcResponse =
  irs_kind :: IpcRequestKind
  irs_version :: u8
  irs_error :: IpcError
  irs_detail :: string
  irs_job_id :: u64
  irs_jobs :: "IpcJobSummary list"
  irs_queue :: "IpcQueueEntry list"
  irs_gpu_revision :: u64
  irs_devices :: "IpcGpuDevice list"
  irs_state :: u8
  irs_logs :: IpcLogsPayload
  irs_logs_follow :: IpcLogsFollowPayload
  irs_tensorboard :: IpcTensorboardPayload
  irs_inspect :: IpcInspectPayload

definition IpcResponse_init :: IpcResponse where
  "IpcResponse_init =
     \<lparr>irs_kind = IpcRequestKind.kSubmit, irs_version = kProtocolVersion,
      irs_error = IpcError.kNone, irs_detail = '''', irs_job_id = 0, irs_jobs = [], irs_queue = [],
      irs_gpu_revision = 0, irs_devices = [], irs_state = 0,
      irs_logs = \<lparr>ilp_stdout_truncated = False, ilp_stdout_tail = [],
                  ilp_stderr_truncated = False, ilp_stderr_tail = []\<rparr>,
      irs_logs_follow = \<lparr>ifp_job_state = 0, ifp_stdout_offset = 0, ifp_stderr_offset = 0\<rparr>,
      irs_tensorboard = \<lparr>itp_logdir = None, itp_cwd = ''''\<rparr>,
      irs_inspect = IpcInspectPayload_init\<rparr>"

section \<open>Frames of a followed log\<close>

datatype IpcStreamFrameKind = kLogData | kLogGap | kLogBackpressure | kLogEof

fun IpcStreamFrameKind_code :: "IpcStreamFrameKind \<Rightarrow> u8" where
  "IpcStreamFrameKind_code kLogData = 1"
| "IpcStreamFrameKind_code kLogGap = 2"
| "IpcStreamFrameKind_code kLogBackpressure = 3"
| "IpcStreamFrameKind_code kLogEof = 4"

definition IpcStreamFrameKind_of :: "u8 \<Rightarrow> IpcStreamFrameKind" where
  "IpcStreamFrameKind_of c = [kLogData, kLogGap, kLogBackpressure, kLogEof] ! (unat c - 1)"

fun IpcStreamFrameKind_to_string :: "IpcStreamFrameKind \<Rightarrow> string" where
  "IpcStreamFrameKind_to_string kLogData = ''log-data''"
| "IpcStreamFrameKind_to_string kLogGap = ''log-gap''"
| "IpcStreamFrameKind_to_string kLogBackpressure = ''log-backpressure''"
| "IpcStreamFrameKind_to_string kLogEof = ''log-eof''"

record IpcStreamFrame =
  isf_kind :: IpcStreamFrameKind
  isf_stream :: u8
  isf_begin_offset :: u64
  isf_end_offset :: u64
  isf_data :: bytes
  isf_job_state :: u8
  isf_exit :: "IpcExitStatus option"

definition IpcStreamFrame_init :: IpcStreamFrame where
  "IpcStreamFrame_init =
     \<lparr>isf_kind = kLogData, isf_stream = 0, isf_begin_offset = 0, isf_end_offset = 0, isf_data = [],
      isf_job_state = 0, isf_exit = None\<rparr>"

section \<open>Shared parts of the bodies\<close>

definition kUnderlyingJobStateMax :: u8 where
  "kUnderlyingJobStateMax = 7"

definition kUnderlyingGpuObservedStateMax :: u8 where
  "kUnderlyingGpuObservedStateMax = 2"

definition kUnderlyingGpuLogicalStateMax :: u8 where
  "kUnderlyingGpuLogicalStateMax = 3"

definition kUnderlyingWaitReasonMax :: u8 where
  "kUnderlyingWaitReasonMax = 4"

definition kUnderlyingGpuPlacementModeMax :: u8 where
  "kUnderlyingGpuPlacementModeMax = 2"

definition kUnderlyingStreamMax :: u8 where
  "kUnderlyingStreamMax = 1"

definition w_env_metadata :: "IpcEnvMetadata \<Rightarrow> bytes option" where
  "w_env_metadata m =
     (if iem_source m > 2 then None
      else write_all [Some (w_u8 (iem_source m)), w_optional_string (iem_python_version m)])"

definition r_env_metadata :: "IpcEnvMetadata reader" where
  "r_env_metadata =
     r_bind r_u8 (\<lambda>source.
     r_bind (r_check (source \<le> 2) kInvalidValue) (\<lambda>_.
     r_bind r_optional_string (\<lambda>python_version.
     r_return \<lparr>iem_source = source, iem_python_version = python_version\<rparr>)))"

definition w_exit_status :: "IpcExitStatus \<Rightarrow> bytes option" where
  "w_exit_status e = Some (w_bool (ies_exited_normally e) @ w_i32 (ies_code e))"

definition r_exit_status :: "IpcExitStatus reader" where
  "r_exit_status =
     r_bind r_flag (\<lambda>normal. r_bind r_i32 (\<lambda>code.
     r_return \<lparr>ies_exited_normally = normal, ies_code = code\<rparr>))"

section \<open>Request bodies\<close>

definition w_env_pair :: "string \<times> string \<Rightarrow> bytes option" where
  "w_env_pair p = write_all [w_string (fst p), w_string (snd p)]"

definition r_env_pair :: "(string \<times> string) reader" where
  "r_env_pair = r_bind r_string (\<lambda>name. r_bind r_string (\<lambda>v. r_return (name, v)))"

definition encode_submit :: "u8 \<Rightarrow> IpcSubmitRequest \<Rightarrow> bytes option" where
  "encode_submit version submit =
     (if version < 2 \<and> (isr_executable submit \<noteq> None \<or> isr_env_metadata submit \<noteq> None) then None
      else if version < 3 \<and> isr_gpu_spec submit \<noteq> None then None
      else if version < 4 \<and> isr_gpu_preferred_spec submit \<noteq> None then None
      else write_all
        [w_list kMaxItemCount w_string (isr_argv submit),
         w_string (isr_cwd submit),
         w_list kMaxItemCount w_env_pair (isr_env submit),
         Some (w_u32 (isr_gpu_request submit)),
         w_optional_string (isr_launch_profile submit),
         w_optional_string (isr_tensorboard_logdir submit),
         w_when (version \<ge> 2) (write_all
           [w_optional_string (isr_executable submit),
            w_optional w_env_metadata (isr_env_metadata submit)]),
         w_when (version \<ge> 3) (w_optional_string (isr_gpu_spec submit)),
         w_when (version \<ge> 4) (w_optional_string (isr_gpu_preferred_spec submit))])"

definition decode_submit :: "u8 \<Rightarrow> IpcSubmitRequest reader" where
  "decode_submit version =
     r_bind (r_list kMaxItemCount r_string) (\<lambda>argv.
     r_bind r_string (\<lambda>cwd.
     r_bind (r_list kMaxItemCount r_env_pair) (\<lambda>env.
     r_bind r_u32 (\<lambda>gpu_request.
     r_bind r_optional_string (\<lambda>launch_profile.
     r_bind r_optional_string (\<lambda>tensorboard_logdir.
     r_bind (r_when (version \<ge> 2) r_optional_string None) (\<lambda>executable.
     r_bind (r_when (version \<ge> 2) (r_optional r_env_metadata) None) (\<lambda>env_metadata.
     r_bind (r_when (version \<ge> 3) r_optional_string None) (\<lambda>gpu_spec.
     r_bind (r_when (version \<ge> 4) r_optional_string None) (\<lambda>gpu_preferred_spec.
     r_return
       \<lparr>isr_argv = argv, isr_cwd = cwd, isr_env = foldl emplace_env [] env,
        isr_gpu_request = gpu_request, isr_launch_profile = launch_profile,
        isr_tensorboard_logdir = tensorboard_logdir, isr_executable = executable,
        isr_env_metadata = env_metadata, isr_gpu_spec = gpu_spec,
        isr_gpu_preferred_spec = gpu_preferred_spec\<rparr>))))))))))"

definition encode_logs_follow :: "IpcLogsFollowRequest \<Rightarrow> bytes option" where
  "encode_logs_follow follow = write_all
     [Some (w_u64 (ifr_job_id follow)),
      w_optional (\<lambda>x. Some (w_u64 x)) (ifr_since_stdout follow),
      w_optional (\<lambda>x. Some (w_u64 x)) (ifr_since_stderr follow)]"

definition decode_logs_follow :: "IpcLogsFollowRequest reader" where
  "decode_logs_follow =
     r_bind r_u64 (\<lambda>job_id.
     r_bind (r_optional r_u64) (\<lambda>since_stdout.
     r_bind (r_optional r_u64) (\<lambda>since_stderr.
     r_return \<lparr>ifr_job_id = job_id, ifr_since_stdout = since_stdout,
       ifr_since_stderr = since_stderr\<rparr>)))"

definition encode_request_body :: "u8 \<Rightarrow> IpcRequest \<Rightarrow> bytes option" where
  "encode_request_body version request =
     (case irq_kind request of
        IpcRequestKind.kSubmit \<Rightarrow> encode_submit version (irq_submit request)
      | IpcRequestKind.kPs \<Rightarrow> Some []
      | IpcRequestKind.kQueue \<Rightarrow> Some []
      | IpcRequestKind.kGpu \<Rightarrow> Some []
      | IpcRequestKind.kCancel \<Rightarrow> Some (w_u64 (icr_job_id (irq_cancel request)))
      | IpcRequestKind.kLogs \<Rightarrow>
          Some (w_u64 (ilr_job_id (irq_logs request)) @ w_u32 (ilr_max_bytes (irq_logs request)))
      | IpcRequestKind.kLogsFollow \<Rightarrow> encode_logs_follow (irq_logs_follow request)
      | IpcRequestKind.kTensorboard \<Rightarrow> Some (w_u64 (itr_job_id (irq_tensorboard request)))
      | IpcRequestKind.kInspect \<Rightarrow> Some (w_u64 (iir_job_id (irq_inspect request))))"

text \<open>The two header bytes of requests and responses.\<close>

definition r_header :: "(u8 \<times> IpcRequestKind) reader" where
  "r_header =
     r_bind r_u8 (\<lambda>version. r_bind r_u8 (\<lambda>kind.
     r_bind (r_check (ipc_version_supported version) kBadVersion) (\<lambda>_.
     r_bind (r_check (IpcRequestKind_code IpcRequestKind.kSubmit \<le> kind
                      \<and> kind \<le> IpcRequestKind_code IpcRequestKind.kInspect) kBadKind) (\<lambda>_.
     r_bind (r_check (\<not> (kind = IpcRequestKind_code IpcRequestKind.kInspect \<and> version < 2)) kBadKind) (\<lambda>_.
     r_return (version, IpcRequestKind_of kind))))))"

definition decode_request_fields :: "IpcRequest \<Rightarrow> IpcRequest reader" where
  "decode_request_fields out =
     (case irq_kind out of
        IpcRequestKind.kSubmit \<Rightarrow>
          r_bind (decode_submit (irq_version out)) (\<lambda>submit. r_return (out\<lparr>irq_submit := submit\<rparr>))
      | IpcRequestKind.kPs \<Rightarrow> r_return out
      | IpcRequestKind.kQueue \<Rightarrow> r_return out
      | IpcRequestKind.kGpu \<Rightarrow> r_return out
      | IpcRequestKind.kCancel \<Rightarrow>
          r_bind r_u64 (\<lambda>job_id. r_return (out\<lparr>irq_cancel := \<lparr>icr_job_id = job_id\<rparr>\<rparr>))
      | IpcRequestKind.kLogs \<Rightarrow>
          r_bind r_u64 (\<lambda>job_id. r_bind r_u32 (\<lambda>max_bytes.
          r_return (out\<lparr>irq_logs := \<lparr>ilr_job_id = job_id, ilr_max_bytes = max_bytes\<rparr>\<rparr>)))
      | IpcRequestKind.kLogsFollow \<Rightarrow>
          r_bind decode_logs_follow (\<lambda>follow. r_return (out\<lparr>irq_logs_follow := follow\<rparr>))
      | IpcRequestKind.kTensorboard \<Rightarrow>
          r_bind r_u64 (\<lambda>job_id. r_return (out\<lparr>irq_tensorboard := \<lparr>itr_job_id = job_id\<rparr>\<rparr>))
      | IpcRequestKind.kInspect \<Rightarrow>
          r_bind r_u64 (\<lambda>job_id. r_return (out\<lparr>irq_inspect := \<lparr>iir_job_id = job_id\<rparr>\<rparr>)))"

definition decode_request_body :: "IpcRequest reader" where
  "decode_request_body =
     r_bind r_header (\<lambda>header.
     r_bind (decode_request_fields
       (IpcRequest_init\<lparr>irq_version := fst header, irq_kind := snd header\<rparr>)) r_end)"

section \<open>Response bodies\<close>

text \<open>The argument list, directory and log directory that a masked summary does not show.\<close>

definition w_visible :: "string list \<times> string \<times> string option \<Rightarrow> bytes option" where
  "w_visible v = write_all
     [w_list kMaxItemCount w_string (fst v), w_string (fst (snd v)), w_optional_string (snd (snd v))]"

definition r_visible :: "(string list \<times> string \<times> string option) reader" where
  "r_visible =
     r_bind (r_list kMaxItemCount r_string) (\<lambda>argv. r_bind r_string (\<lambda>cwd.
     r_bind r_optional_string (\<lambda>tensorboard_logdir. r_return (argv, cwd, tensorboard_logdir))))"

text \<open>The wait reason and its detail, from version 3 on.\<close>

definition w_wait :: "u8 \<times> string option \<Rightarrow> bytes option" where
  "w_wait v =
     (if fst v > kUnderlyingWaitReasonMax then None
      else write_all [Some (w_u8 (fst v)), w_optional_string (snd v)])"

definition r_wait :: "(u8 \<times> string option) reader" where
  "r_wait =
     r_bind r_u8 (\<lambda>reason. r_bind (r_check (reason \<le> kUnderlyingWaitReasonMax) kInvalidValue) (\<lambda>_.
     r_bind r_optional_string (\<lambda>detail. r_return (reason, detail))))"

definition encode_summary :: "u8 \<Rightarrow> IpcJobSummary \<Rightarrow> bytes option" where
  "encode_summary version summary =
     (if length (ijs_argv summary) > kMaxItemCount then None
      else write_all
        [Some (w_u64 (ijs_job_id summary)), Some (w_u8 (ijs_state summary)),
         Some (w_u32 (ijs_owner_uid summary)), Some (w_u64 (ijs_revision summary)),
         Some (w_bool (ijs_masked summary)),
         w_when (\<not> ijs_masked summary)
           (w_visible (ijs_argv summary, ijs_cwd summary, ijs_tensorboard_logdir summary)),
         w_optional w_exit_status (ijs_exit summary),
         w_when (version \<ge> 3) (w_wait (ijs_wait_reason summary, ijs_wait_detail summary))])"

definition decode_summary :: "u8 \<Rightarrow> IpcJobSummary reader" where
  "decode_summary version =
     r_bind r_u64 (\<lambda>job_id. r_bind r_u8 (\<lambda>state. r_bind r_u32 (\<lambda>owner_uid. r_bind r_u64 (\<lambda>revision.
     r_bind (r_check (state \<le> kUnderlyingJobStateMax) kInvalidValue) (\<lambda>_.
     r_bind r_flag (\<lambda>masked.
     r_bind (r_when (\<not> masked) r_visible ([], '''', None)) (\<lambda>visible.
     r_bind (r_optional r_exit_status) (\<lambda>exit_status.
     r_bind (r_when (version \<ge> 3) r_wait (0, None)) (\<lambda>wait.
     r_return
       \<lparr>ijs_job_id = job_id, ijs_state = state, ijs_owner_uid = owner_uid, ijs_revision = revision,
        ijs_masked = masked, ijs_argv = fst visible, ijs_cwd = fst (snd visible),
        ijs_tensorboard_logdir = snd (snd visible), ijs_exit = exit_status,
        ijs_wait_reason = fst wait, ijs_wait_detail = snd wait\<rparr>)))))))))"

definition encode_queue_entry :: "u8 \<Rightarrow> IpcQueueEntry \<Rightarrow> bytes option" where
  "encode_queue_entry version entry = write_all
     [Some (w_u64 (iqe_job_id entry)), Some (w_u32 (iqe_owner_uid entry)),
      Some (w_u64 (iqe_submit_time_unix_ns entry)), Some (w_u8 (iqe_state entry)),
      w_when (version \<ge> 3) (w_wait (iqe_wait_reason entry, iqe_wait_detail entry))]"

definition decode_queue_entry :: "u8 \<Rightarrow> IpcQueueEntry reader" where
  "decode_queue_entry version =
     r_bind r_u64 (\<lambda>job_id. r_bind r_u32 (\<lambda>owner_uid. r_bind r_u64 (\<lambda>submit_time.
     r_bind r_u8 (\<lambda>state.
     r_bind (r_check (state \<le> kUnderlyingJobStateMax) kInvalidValue) (\<lambda>_.
     r_bind (r_when (version \<ge> 3) r_wait (0, None)) (\<lambda>wait.
     r_return
       \<lparr>iqe_job_id = job_id, iqe_owner_uid = owner_uid, iqe_submit_time_unix_ns = submit_time,
        iqe_state = state, iqe_wait_reason = fst wait, iqe_wait_detail = snd wait\<rparr>))))))"

text \<open>Used and total memory are sent together or not at all.\<close>

definition memory_pair :: "u64 option \<Rightarrow> u64 option \<Rightarrow> (u64 \<times> u64) option" where
  "memory_pair used whole =
     (case (used, whole) of (Some u, Some t) \<Rightarrow> Some (u, t) | _ \<Rightarrow> None)"

definition w_memory :: "u64 \<times> u64 \<Rightarrow> bytes option" where
  "w_memory m = Some (w_u64 (fst m) @ w_u64 (snd m))"

definition r_memory :: "(u64 \<times> u64) reader" where
  "r_memory =
     r_bind r_u64 (\<lambda>used. r_bind r_u64 (\<lambda>total.
     r_bind (r_check (\<not> total < used) kInvalidValue) (\<lambda>_. r_return (used, total))))"

definition r_utilization :: "u32 reader" where
  "r_utilization =
     r_bind r_u32 (\<lambda>utilization.
     r_bind (r_check (utilization \<le> 100) kInvalidValue) (\<lambda>_. r_return utilization))"

definition encode_device :: "IpcGpuDevice \<Rightarrow> bytes option" where
  "encode_device device = write_all
     [w_string (igd_uuid device), Some (w_u32 (igd_index device)),
      Some (w_u8 (igd_observed_state device)), Some (w_u8 (igd_logical_state device)),
      w_optional (\<lambda>x. Some (w_u32 x)) (igd_utilization_percent device),
      w_optional w_memory
        (memory_pair (igd_memory_used_bytes device) (igd_memory_total_bytes device)),
      w_optional (\<lambda>x. Some (w_u64 x)) (igd_leased_by_job device)]"

definition decode_device :: "IpcGpuDevice reader" where
  "decode_device =
     r_bind r_string (\<lambda>uuid. r_bind r_u32 (\<lambda>index. r_bind r_u8 (\<lambda>observed_state.
     r_bind r_u8 (\<lambda>logical_state.
     r_bind (r_check (observed_state \<le> kUnderlyingGpuObservedStateMax
                      \<and> logical_state \<le> kUnderlyingGpuLogicalStateMax) kInvalidValue) (\<lambda>_.
     r_bind (r_optional r_utilization) (\<lambda>utilization.
     r_bind (r_optional r_memory) (\<lambda>memory.
     r_bind (r_optional r_u64) (\<lambda>leased_by_job.
     r_return
       \<lparr>igd_uuid = uuid, igd_index = index, igd_observed_state = observed_state,
        igd_logical_state = logical_state, igd_utilization_percent = utilization,
        igd_memory_used_bytes = map_option fst memory,
        igd_memory_total_bytes = map_option snd memory,
        igd_leased_by_job = leased_by_job\<rparr>))))))))"

definition encode_logs_payload :: "IpcLogsPayload \<Rightarrow> bytes option" where
  "encode_logs_payload logs = write_all
     [Some (w_bool (ilp_stdout_truncated logs)), w_bytes (ilp_stdout_tail logs),
      Some (w_bool (ilp_stderr_truncated logs)), w_bytes (ilp_stderr_tail logs)]"

definition decode_logs_payload :: "IpcLogsPayload reader" where
  "decode_logs_payload =
     r_bind r_flag (\<lambda>stdout_truncated. r_bind r_bytes (\<lambda>stdout_tail.
     r_bind r_flag (\<lambda>stderr_truncated. r_bind r_bytes (\<lambda>stderr_tail.
     r_return
       \<lparr>ilp_stdout_truncated = stdout_truncated, ilp_stdout_tail = stdout_tail,
        ilp_stderr_truncated = stderr_truncated, ilp_stderr_tail = stderr_tail\<rparr>))))"

definition encode_follow_payload :: "IpcLogsFollowPayload \<Rightarrow> bytes option" where
  "encode_follow_payload follow = write_all
     [Some (w_u8 (ifp_job_state follow)), Some (w_u64 (ifp_stdout_offset follow)),
      Some (w_u64 (ifp_stderr_offset follow))]"

definition decode_follow_payload :: "IpcLogsFollowPayload reader" where
  "decode_follow_payload =
     r_bind r_u8 (\<lambda>job_state. r_bind r_u64 (\<lambda>stdout_offset. r_bind r_u64 (\<lambda>stderr_offset.
     r_bind (r_check (job_state \<le> kUnderlyingJobStateMax) kInvalidValue) (\<lambda>_.
     r_return \<lparr>ifp_job_state = job_state, ifp_stdout_offset = stdout_offset,
       ifp_stderr_offset = stderr_offset\<rparr>))))"

definition encode_tensorboard_payload :: "IpcTensorboardPayload \<Rightarrow> bytes option" where
  "encode_tensorboard_payload tb = write_all [w_optional_string (itp_logdir tb), w_string (itp_cwd tb)]"

definition decode_tensorboard_payload :: "IpcTensorboardPayload reader" where
  "decode_tensorboard_payload =
     r_bind r_optional_string (\<lambda>logdir. r_bind r_string (\<lambda>cwd.
     r_return \<lparr>itp_logdir = logdir, itp_cwd = cwd\<rparr>))"

definition w_env_entry :: "IpcEnvEntry \<Rightarrow> bytes option" where
  "w_env_entry e = write_all
     [w_string (iee_name e), Some (w_bool (iee_masked e)), w_string (iee_value e)]"

definition r_env_entry :: "IpcEnvEntry reader" where
  "r_env_entry =
     r_bind r_string (\<lambda>name. r_bind r_flag (\<lambda>masked. r_bind r_string (\<lambda>v.
     r_return \<lparr>iee_name = name, iee_masked = masked, iee_value = v\<rparr>)))"

definition w_placement :: "u8 \<times> string option \<Rightarrow> bytes option" where
  "w_placement v =
     (if fst v > kUnderlyingGpuPlacementModeMax then None
      else write_all [Some (w_u8 (fst v)), w_optional_string (snd v)])"

definition r_placement :: "(u8 \<times> string option) reader" where
  "r_placement =
     r_bind r_u8 (\<lambda>mode.
     r_bind (r_check (mode \<le> kUnderlyingGpuPlacementModeMax) kInvalidValue) (\<lambda>_.
     r_bind r_optional_string (\<lambda>device. r_return (mode, device))))"

text \<open>The device list of version 4 is counted by one byte, after a check against
  \<open>kMaxItemCount\<close>: the cast to \<open>std::uint8_t\<close> wraps around.\<close>

definition w_placement_devices :: "string list \<Rightarrow> bytes option" where
  "w_placement_devices devices =
     (if length devices > kMaxItemCount then None
      else write_all (Some (w_u8 (of_nat (length devices))) # map w_string devices))"

definition r_placement_devices :: "string list reader" where
  "r_placement_devices = r_bind r_u8 (\<lambda>device_count. r_repeat (unat device_count) r_string)"

definition encode_inspect :: "u8 \<Rightarrow> IpcInspectPayload \<Rightarrow> bytes option" where
  "encode_inspect version inspect =
     (if version < 2 then None
      else write_all
        [Some (w_u64 (iip_job_id inspect)), Some (w_u8 (iip_state inspect)),
         Some (w_u32 (iip_owner_uid inspect)), Some (w_u64 (iip_revision inspect)),
         w_string (iip_cwd inspect), w_optional_string (iip_executable inspect),
         w_list kMaxItemCount w_string (iip_argv inspect),
         w_optional w_env_metadata (iip_env_metadata inspect),
         w_list kMaxListItems w_env_entry (iip_env inspect),
         w_optional w_string (iip_gpu_uuid inspect),
         w_optional (\<lambda>x. Some (w_u32 x)) (iip_gpu_index inspect),
         Some (w_u64 (iip_submit_time_unix_ns inspect)),
         w_optional w_exit_status (iip_exit inspect),
         w_optional_string (iip_log_path inspect),
         w_when (version \<ge> 3)
           (w_placement (iip_gpu_placement_mode inspect, iip_gpu_placement_device inspect)),
         w_when (version \<ge> 4) (w_placement_devices (iip_gpu_placement_devices inspect))])"

definition decode_inspect :: "u8 \<Rightarrow> IpcInspectPayload reader" where
  "decode_inspect version =
     r_bind r_u64 (\<lambda>job_id. r_bind r_u8 (\<lambda>state. r_bind r_u32 (\<lambda>owner_uid. r_bind r_u64 (\<lambda>revision.
     r_bind (r_check (state \<le> kUnderlyingJobStateMax) kInvalidValue) (\<lambda>_.
     r_bind r_string (\<lambda>cwd. r_bind r_optional_string (\<lambda>executable.
     r_bind (r_list kMaxItemCount r_string) (\<lambda>argv.
     r_bind (r_optional r_env_metadata) (\<lambda>env_metadata.
     r_bind (r_list kMaxListItems r_env_entry) (\<lambda>env.
     r_bind (r_optional r_string) (\<lambda>gpu_uuid. r_bind (r_optional r_u32) (\<lambda>gpu_index.
     r_bind r_u64 (\<lambda>submit_time. r_bind (r_optional r_exit_status) (\<lambda>exit_status.
     r_bind r_optional_string (\<lambda>log_path.
     r_bind (r_when (version \<ge> 3) r_placement (0, None)) (\<lambda>placement.
     r_bind (r_when (version \<ge> 4) r_placement_devices []) (\<lambda>devices.
     r_return
       \<lparr>iip_job_id = job_id, iip_state = state, iip_owner_uid = owner_uid, iip_revision = revision,
        iip_cwd = cwd, iip_executable = executable, iip_argv = argv,
        iip_env_metadata = env_metadata, iip_env = env, iip_gpu_uuid = gpu_uuid,
        iip_gpu_index = gpu_index, iip_gpu_placement_mode = fst placement,
        iip_gpu_placement_device = snd placement, iip_gpu_placement_devices = devices,
        iip_submit_time_unix_ns = submit_time, iip_exit = exit_status,
        iip_log_path = log_path\<rparr>)))))))))))))))))"

definition encode_response_fields :: "u8 \<Rightarrow> IpcResponse \<Rightarrow> bytes option" where
  "encode_response_fields version response =
     (case irs_kind response of
        IpcRequestKind.kSubmit \<Rightarrow> Some (w_u64 (irs_job_id response))
      | IpcRequestKind.kPs \<Rightarrow> w_list kMaxListItems (encode_summary version) (irs_jobs response)
      | IpcRequestKind.kQueue \<Rightarrow> w_list kMaxListItems (encode_queue_entry version) (irs_queue response)
      | IpcRequestKind.kGpu \<Rightarrow> write_all [Some (w_u64 (irs_gpu_revision response)),
          w_list kMaxListItems encode_device (irs_devices response)]
      | IpcRequestKind.kCancel \<Rightarrow> Some (w_u8 (irs_state response))
      | IpcRequestKind.kLogs \<Rightarrow> encode_logs_payload (irs_logs response)
      | IpcRequestKind.kLogsFollow \<Rightarrow> encode_follow_payload (irs_logs_follow response)
      | IpcRequestKind.kTensorboard \<Rightarrow> encode_tensorboard_payload (irs_tensorboard response)
      | IpcRequestKind.kInspect \<Rightarrow> encode_inspect version (irs_inspect response))"

definition encode_response_body :: "u8 \<Rightarrow> IpcResponse \<Rightarrow> bytes option" where
  "encode_response_body version response = write_all
     [Some (w_u8 (IpcError_code (irs_error response))), w_string (irs_detail response),
      encode_response_fields version response]"

definition decode_response_fields :: "IpcResponse \<Rightarrow> IpcResponse reader" where
  "decode_response_fields out =
     (let version = irs_version out in
      case irs_kind out of
        IpcRequestKind.kSubmit \<Rightarrow> r_bind r_u64 (\<lambda>x. r_return (out\<lparr>irs_job_id := x\<rparr>))
      | IpcRequestKind.kPs \<Rightarrow>
          r_bind (r_list kMaxListItems (decode_summary version)) (\<lambda>x. r_return (out\<lparr>irs_jobs := x\<rparr>))
      | IpcRequestKind.kQueue \<Rightarrow>
          r_bind (r_list kMaxListItems (decode_queue_entry version)) (\<lambda>x. r_return (out\<lparr>irs_queue := x\<rparr>))
      | IpcRequestKind.kGpu \<Rightarrow>
          r_bind r_u64 (\<lambda>revision. r_bind (r_list kMaxListItems decode_device) (\<lambda>x.
          r_return (out\<lparr>irs_gpu_revision := revision, irs_devices := x\<rparr>)))
      | IpcRequestKind.kCancel \<Rightarrow>
          r_bind r_u8 (\<lambda>x. r_bind (r_check (x \<le> kUnderlyingJobStateMax) kInvalidValue) (\<lambda>_.
          r_return (out\<lparr>irs_state := x\<rparr>)))
      | IpcRequestKind.kLogs \<Rightarrow> r_bind decode_logs_payload (\<lambda>x. r_return (out\<lparr>irs_logs := x\<rparr>))
      | IpcRequestKind.kLogsFollow \<Rightarrow>
          r_bind decode_follow_payload (\<lambda>x. r_return (out\<lparr>irs_logs_follow := x\<rparr>))
      | IpcRequestKind.kTensorboard \<Rightarrow>
          r_bind decode_tensorboard_payload (\<lambda>x. r_return (out\<lparr>irs_tensorboard := x\<rparr>))
      | IpcRequestKind.kInspect \<Rightarrow>
          r_bind (decode_inspect version) (\<lambda>x. r_return (out\<lparr>irs_inspect := x\<rparr>)))"

definition decode_response_body :: "IpcResponse reader" where
  "decode_response_body =
     r_bind r_header (\<lambda>header.
     r_bind r_u8 (\<lambda>error_code.
     r_bind (r_check (error_code \<le> IpcError_code IpcError.kInternal) kInvalidValue) (\<lambda>_.
     r_bind r_string (\<lambda>detail.
     r_bind (decode_response_fields
       (IpcResponse_init\<lparr>irs_version := fst header, irs_kind := snd header,
          irs_error := IpcError_of error_code, irs_detail := detail\<rparr>)) r_end))))"

section \<open>Bodies of the stream frames\<close>

definition encode_stream_frame_body :: "IpcStreamFrame \<Rightarrow> bytes option" where
  "encode_stream_frame_body frame =
     (case isf_kind frame of
        kLogData \<Rightarrow>
          if isf_stream frame > kUnderlyingStreamMax \<or> length (isf_data frame) > kMaxStreamDataBytes
             \<or> isf_end_offset frame < isf_begin_offset frame then None
          else write_all [Some (w_u8 (isf_stream frame)), Some (w_u64 (isf_begin_offset frame)),
                 Some (w_u64 (isf_end_offset frame)), w_bytes (isf_data frame)]
      | kLogGap \<Rightarrow>
          if isf_stream frame > kUnderlyingStreamMax \<or> isf_end_offset frame < isf_begin_offset frame
          then None
          else write_all [Some (w_u8 (isf_stream frame)), Some (w_u64 (isf_begin_offset frame)),
                 Some (w_u64 (isf_end_offset frame))]
      | kLogBackpressure \<Rightarrow>
          if isf_stream frame > kUnderlyingStreamMax then None
          else write_all [Some (w_u8 (isf_stream frame)), Some (w_u64 (isf_begin_offset frame))]
      | kLogEof \<Rightarrow>
          if isf_job_state frame > kUnderlyingJobStateMax then None
          else write_all [Some (w_u8 (isf_job_state frame)), w_optional w_exit_status (isf_exit frame)])"

text \<open>Stream and offsets, checked after all three are read.\<close>

definition r_range :: "(u8 \<times> u64 \<times> u64) reader" where
  "r_range =
     r_bind r_u8 (\<lambda>stream. r_bind r_u64 (\<lambda>begin_offset. r_bind r_u64 (\<lambda>end_offset.
     r_bind (r_check (\<not> (stream > kUnderlyingStreamMax \<or> end_offset < begin_offset)) kInvalidValue) (\<lambda>_.
     r_return (stream, begin_offset, end_offset)))))"

definition decode_stream_frame_fields :: "IpcStreamFrame \<Rightarrow> IpcStreamFrame reader" where
  "decode_stream_frame_fields out =
     (case isf_kind out of
        kLogData \<Rightarrow>
          r_bind r_range (\<lambda>range. r_bind r_bytes (\<lambda>data.
          r_bind (r_check (length data \<le> kMaxStreamDataBytes) kOversize) (\<lambda>_.
          r_return (out\<lparr>isf_stream := fst range, isf_begin_offset := fst (snd range),
            isf_end_offset := snd (snd range), isf_data := data\<rparr>))))
      | kLogGap \<Rightarrow>
          r_bind r_range (\<lambda>range.
          r_return (out\<lparr>isf_stream := fst range, isf_begin_offset := fst (snd range),
            isf_end_offset := snd (snd range)\<rparr>))
      | kLogBackpressure \<Rightarrow>
          r_bind r_u8 (\<lambda>stream. r_bind r_u64 (\<lambda>begin_offset.
          r_bind (r_check (stream \<le> kUnderlyingStreamMax) kInvalidValue) (\<lambda>_.
          r_return (out\<lparr>isf_stream := stream, isf_begin_offset := begin_offset\<rparr>))))
      | kLogEof \<Rightarrow>
          r_bind r_u8 (\<lambda>job_state.
          r_bind (r_check (job_state \<le> kUnderlyingJobStateMax) kInvalidValue) (\<lambda>_.
          r_bind (r_optional r_exit_status) (\<lambda>exit_status.
          r_return (out\<lparr>isf_job_state := job_state, isf_exit := exit_status\<rparr>)))))"

definition decode_stream_frame_body :: "IpcStreamFrame reader" where
  "decode_stream_frame_body =
     r_bind r_u8 (\<lambda>version. r_bind r_u8 (\<lambda>kind.
     r_bind (r_check (version = kStreamFrameVersion) kBadVersion) (\<lambda>_.
     r_bind (r_check (IpcStreamFrameKind_code kLogData \<le> kind
                      \<and> kind \<le> IpcStreamFrameKind_code kLogEof) kBadKind) (\<lambda>_.
     r_bind (decode_stream_frame_fields (IpcStreamFrame_init\<lparr>isf_kind := IpcStreamFrameKind_of kind\<rparr>))
       r_end))))"

section \<open>Payloads and frames\<close>

text \<open>The payload is built apart and appended to \<open>out\<close> at the end; \<open>None\<close> leaves \<open>out\<close> unchanged.\<close>

definition encode_payload :: "u8 \<Rightarrow> u8 \<Rightarrow> bytes option \<Rightarrow> bytes option" where
  "encode_payload version kind body =
     (case write_all [Some (w_u8 version), Some (w_u8 kind), body] of
        None \<Rightarrow> None
      | Some payload \<Rightarrow> if length payload > kMaxPayloadBytes then None else Some payload)"

definition encode_request_payload :: "IpcRequest \<Rightarrow> bytes \<Rightarrow> bytes option" where
  "encode_request_payload request out =
     (if \<not> ipc_version_supported (irq_version request) then None
      else map_option (\<lambda>payload. out @ payload)
        (encode_payload (irq_version request) (IpcRequestKind_code (irq_kind request))
           (encode_request_body (irq_version request) request)))"

definition encode_response_payload :: "IpcResponse \<Rightarrow> bytes \<Rightarrow> bytes option" where
  "encode_response_payload response out =
     (if \<not> ipc_version_supported (irs_version response) then None
      else map_option (\<lambda>payload. out @ payload)
        (encode_payload (irs_version response) (IpcRequestKind_code (irs_kind response))
           (encode_response_body (irs_version response) response)))"

definition encode_stream_frame_payload :: "IpcStreamFrame \<Rightarrow> bytes \<Rightarrow> bytes option" where
  "encode_stream_frame_payload frame out =
     map_option (\<lambda>payload. out @ payload)
       (encode_payload kStreamFrameVersion (IpcStreamFrameKind_code (isf_kind frame))
          (encode_stream_frame_body frame))"

definition append_framed :: "bytes option \<Rightarrow> bytes \<Rightarrow> bytes option" where
  "append_framed payload out =
     map_option (\<lambda>p. out @ w_u32 (of_nat (length p)) @ p) payload"

definition append_request_frame :: "IpcRequest \<Rightarrow> bytes \<Rightarrow> bytes option" where
  "append_request_frame request out = append_framed (encode_request_payload request []) out"

definition append_response_frame :: "IpcResponse \<Rightarrow> bytes \<Rightarrow> bytes option" where
  "append_response_frame response out = append_framed (encode_response_payload response []) out"

definition append_stream_frame :: "IpcStreamFrame \<Rightarrow> bytes \<Rightarrow> bytes option" where
  "append_stream_frame frame out = append_framed (encode_stream_frame_payload frame []) out"

definition decode_payload :: "'a reader \<Rightarrow> bytes \<Rightarrow> IpcDecodeError + 'a" where
  "decode_payload body data =
     (if length data > kMaxPayloadBytes then Inl kOversize else run_reader body data)"

definition decode_request_payload :: "bytes \<Rightarrow> IpcDecodeError + IpcRequest" where
  "decode_request_payload data = decode_payload decode_request_body data"

definition decode_response_payload :: "bytes \<Rightarrow> IpcDecodeError + IpcResponse" where
  "decode_response_payload data = decode_payload decode_response_body data"

definition decode_stream_frame_payload :: "bytes \<Rightarrow> IpcDecodeError + IpcStreamFrame" where
  "decode_stream_frame_payload data = decode_payload decode_stream_frame_body data"

end
