(* ===== verification/Ipc_Laws.thy ===== *)
theory Ipc_Laws
  imports Ipc_Messages
begin

text \<open>
  Every part of a message keeps the contract of \<^verbatim>\<open>Ipc_Codec\<close>: its reader accepts exactly what its
  writer sends for a value in the domain of that part.
\<close>

lemmas write_iff = write_all_Cons w_when_iff option.sel option.inject

lemma fixed_width_append [simp]:
  "w_u8 x @ a = w_u8 y @ b \<longleftrightarrow> x = y \<and> a = b"
  "w_u32 i @ a = w_u32 j @ b \<longleftrightarrow> i = j \<and> a = b"
  "w_u64 k @ a = w_u64 l @ b \<longleftrightarrow> k = l \<and> a = b"
  "w_i32 m @ a = w_i32 n @ b \<longleftrightarrow> m = n \<and> a = b"
  "w_bool p @ a = w_bool q @ b \<longleftrightarrow> p = q \<and> a = b"
  using r_u8_iff [of "w_u8 x @ a" y b] r_u8_iff [of "w_u8 x @ a" x a]
    r_u32_iff [of "w_u32 i @ a" j b] r_u32_iff [of "w_u32 i @ a" i a]
    r_u64_iff [of "w_u64 k @ a" l b] r_u64_iff [of "w_u64 k @ a" k a]
    r_i32_iff [of "w_i32 m @ a" n b] r_i32_iff [of "w_i32 m @ a" m a]
    r_flag_iff [of "w_bool p @ a" q b] r_flag_iff [of "w_bool p @ a" p a]
  by auto

interpretation cmeta: codec w_env_metadata r_env_metadata any_value
proof
  fix bs x rest
  show "r_env_metadata bs = Inr (x, rest) \<longleftrightarrow>
      True \<and> (\<exists>w. w_env_metadata x = Some w \<and> bs = w @ rest)"
    by (cases x) (auto simp: r_env_metadata_def w_env_metadata_def reader_iff write_iff)
qed

interpretation cexit: codec w_exit_status r_exit_status any_value
proof
  fix bs x rest
  show "r_exit_status bs = Inr (x, rest) \<longleftrightarrow>
      True \<and> (\<exists>w. w_exit_status x = Some w \<and> bs = w @ rest)"
    by (cases x) (auto simp: r_exit_status_def w_exit_status_def reader_iff write_iff)
qed

interpretation cpair: codec w_env_pair r_env_pair any_value
proof
  fix bs x rest
  show "r_env_pair bs = Inr (x, rest) \<longleftrightarrow>
      True \<and> (\<exists>w. w_env_pair x = Some w \<and> bs = w @ rest)"
    by (cases x) (auto simp: r_env_pair_def w_env_pair_def reader_iff write_iff)
qed

interpretation cvisible: codec w_visible r_visible any_value
proof
  fix bs x rest
  show "r_visible bs = Inr (x, rest) \<longleftrightarrow>
      True \<and> (\<exists>w. w_visible x = Some w \<and> bs = w @ rest)"
    by (cases x) (auto simp: r_visible_def w_visible_def reader_iff write_iff)
qed

interpretation cwait: codec w_wait r_wait any_value
proof
  fix bs x rest
  show "r_wait bs = Inr (x, rest) \<longleftrightarrow>
      True \<and> (\<exists>w. w_wait x = Some w \<and> bs = w @ rest)"
    by (cases x) (auto simp: r_wait_def w_wait_def reader_iff write_iff)
qed

lemmas part_iff [reader_iff] =
  cexit.rd_optional [simplified no_condition simp_thms]
  cmeta.rd_optional [simplified no_condition simp_thms]
  cstring.rd_optional [simplified no_condition simp_thms]
  cpair.rd_list [OF item_cap, simplified no_condition simp_thms]
  cvisible.rd_iff [simplified simp_thms] cwait.rd_iff [simplified simp_thms]

context lossy_codec
begin

lemma w_list_wire: "w_list cap wr xs = Some w \<Longrightarrow> w_list cap wr (map wire xs) = Some w"
proof -
  have "write_all (map wr xs) = Some w \<Longrightarrow> write_all (map (wr \<circ> wire) xs) = Some w" for w
    by (induction xs arbitrary: w) (auto simp: write_all_Cons intro: wr_wire)
  then show "w_list cap wr xs = Some w \<Longrightarrow> w_list cap wr (map wire xs) = Some w"
    by (auto simp: w_list_def write_all_Cons split: if_splits)
qed

lemma list_all_ok_wire:
  "w_list cap wr xs = Some w \<Longrightarrow> list_all rng xs \<Longrightarrow> list_all ok (map wire xs)"
proof -
  have "write_all (map wr xs) = Some w \<Longrightarrow> list_all rng xs \<Longrightarrow> list_all ok (map wire xs)" for w
    by (induction xs arbitrary: w) (auto simp: write_all_Cons intro: ok_wire)
  then show "w_list cap wr xs = Some w \<Longrightarrow> list_all rng xs \<Longrightarrow> list_all ok (map wire xs)"
    by (auto simp: w_list_def write_all_Cons split: if_splits)
qed

end

section \<open>Items of a response\<close>

text \<open>What a summary keeps on the wire, and the summaries a decoder can return.\<close>

definition summary_wire :: "u8 \<Rightarrow> IpcJobSummary \<Rightarrow> IpcJobSummary" where
  "summary_wire version s =
     (let s' = (if ijs_masked s then s\<lparr>ijs_argv := [], ijs_cwd := '''', ijs_tensorboard_logdir := None\<rparr>
                else s)
      in if version \<ge> 3 then s' else s'\<lparr>ijs_wait_reason := 0, ijs_wait_detail := None\<rparr>)"

definition summary_ok :: "u8 \<Rightarrow> IpcJobSummary \<Rightarrow> bool" where
  "summary_ok version s \<longleftrightarrow> ijs_state s \<le> kUnderlyingJobStateMax \<and> summary_wire version s = s"

lemma visible_count: "w_visible v = Some w \<Longrightarrow> \<not> kMaxItemCount < length (fst v)"
  by (auto simp: w_visible_def w_list_def write_all_Cons split: if_splits)

interpretation csummary: codec "encode_summary v" "decode_summary v" "summary_ok v"
proof
  fix bs rest and x :: IpcJobSummary
  show "decode_summary v bs = Inr (x, rest) \<longleftrightarrow>
      summary_ok v x \<and> (\<exists>w. encode_summary v x = Some w \<and> bs = w @ rest)"
    by (cases x)
      (auto simp: decode_summary_def encode_summary_def reader_iff write_iff summary_ok_def
        summary_wire_def Let_def split: if_splits dest: visible_count)
qed

interpretation csummary: lossy_codec "encode_summary v" "decode_summary v" "summary_ok v"
  "summary_wire v" "\<lambda>s. ijs_state s \<le> kUnderlyingJobStateMax"
  by unfold_locales
    (auto simp: encode_summary_def summary_wire_def summary_ok_def Let_def write_iff split: if_splits)

definition queue_entry_wire :: "u8 \<Rightarrow> IpcQueueEntry \<Rightarrow> IpcQueueEntry" where
  "queue_entry_wire version e =
     (if version \<ge> 3 then e else e\<lparr>iqe_wait_reason := 0, iqe_wait_detail := None\<rparr>)"

definition queue_entry_ok :: "u8 \<Rightarrow> IpcQueueEntry \<Rightarrow> bool" where
  "queue_entry_ok version e \<longleftrightarrow>
     iqe_state e \<le> kUnderlyingJobStateMax \<and> queue_entry_wire version e = e"

interpretation centry: codec "encode_queue_entry v" "decode_queue_entry v" "queue_entry_ok v"
proof
  fix bs rest and x :: IpcQueueEntry
  show "decode_queue_entry v bs = Inr (x, rest) \<longleftrightarrow>
      queue_entry_ok v x \<and> (\<exists>w. encode_queue_entry v x = Some w \<and> bs = w @ rest)"
    by (cases x)
      (auto simp: decode_queue_entry_def encode_queue_entry_def reader_iff write_iff
        queue_entry_ok_def queue_entry_wire_def split: if_splits)
qed

interpretation centry: lossy_codec "encode_queue_entry v" "decode_queue_entry v" "queue_entry_ok v"
  "queue_entry_wire v" "\<lambda>e. iqe_state e \<le> kUnderlyingJobStateMax"
  by unfold_locales
    (auto simp: encode_queue_entry_def queue_entry_wire_def queue_entry_ok_def write_iff split: if_splits)

definition device_wire :: "IpcGpuDevice \<Rightarrow> IpcGpuDevice" where
  "device_wire d =
     (let m = memory_pair (igd_memory_used_bytes d) (igd_memory_total_bytes d)
      in d\<lparr>igd_memory_used_bytes := map_option fst m, igd_memory_total_bytes := map_option snd m\<rparr>)"

definition device_range :: "IpcGpuDevice \<Rightarrow> bool" where
  "device_range d \<longleftrightarrow>
     igd_observed_state d \<le> kUnderlyingGpuObservedStateMax \<and>
     igd_logical_state d \<le> kUnderlyingGpuLogicalStateMax \<and>
     pred_option (\<lambda>u. u \<le> 100) (igd_utilization_percent d) \<and>
     pred_option (\<lambda>m. fst m \<le> snd m)
       (memory_pair (igd_memory_used_bytes d) (igd_memory_total_bytes d))"

definition device_ok :: "IpcGpuDevice \<Rightarrow> bool" where
  "device_ok d \<longleftrightarrow> device_range d \<and> device_wire d = d"

interpretation cutil: codec "\<lambda>x. Some (w_u32 x)" r_utilization "\<lambda>u. u \<le> 100"
  by unfold_locales (auto simp: r_utilization_def reader_iff)

interpretation cmemory: codec w_memory r_memory "\<lambda>m. fst m \<le> snd m"
  by unfold_locales (auto simp: r_memory_def w_memory_def reader_iff)

lemma memory_pair_split [simp]: "memory_pair (map_option fst m) (map_option snd m) = m"
  by (cases m) (auto simp: memory_pair_def)

lemma some_pair:
  "(\<exists>b. m = Some (a, b)) \<and> (\<exists>a. m = Some (a, c)) \<longleftrightarrow> m = Some (a, c)"
  "(\<exists>b. m = Some (a, b)) \<and> (\<exists>a. m = Some (a, c)) \<and> R \<longleftrightarrow> m = Some (a, c) \<and> R"
  by auto

interpretation cdevice: codec encode_device decode_device device_ok
proof
  fix bs rest and x :: IpcGpuDevice
  show "decode_device bs = Inr (x, rest) \<longleftrightarrow>
      device_ok x \<and> (\<exists>w. encode_device x = Some w \<and> bs = w @ rest)"
  proof (cases x)
    case (fields uuid index obs logical util used whole lease)
    show ?thesis unfolding fields
      by (cases used; cases whole)
        (auto simp: decode_device_def encode_device_def reader_iff write_iff device_ok_def
          device_range_def device_wire_def Let_def cutil.rd_optional cmemory.rd_optional
          memory_pair_def some_pair)
  qed
qed

interpretation cdevice: lossy_codec encode_device decode_device device_ok device_wire device_range
  by unfold_locales
    (auto simp: encode_device_def device_wire_def device_ok_def device_range_def Let_def write_iff)

interpretation clogs: codec encode_logs_payload decode_logs_payload any_value
proof
  fix bs rest and x :: IpcLogsPayload
  show "decode_logs_payload bs = Inr (x, rest) \<longleftrightarrow>
      True \<and> (\<exists>w. encode_logs_payload x = Some w \<and> bs = w @ rest)"
    by (cases x) (auto simp: decode_logs_payload_def encode_logs_payload_def reader_iff write_iff)
qed

interpretation cfollow: codec encode_follow_payload decode_follow_payload
  "\<lambda>f. ifp_job_state f \<le> kUnderlyingJobStateMax"
proof
  fix bs rest and x :: IpcLogsFollowPayload
  show "decode_follow_payload bs = Inr (x, rest) \<longleftrightarrow>
      ifp_job_state x \<le> kUnderlyingJobStateMax \<and> (\<exists>w. encode_follow_payload x = Some w \<and> bs = w @ rest)"
    by (cases x) (auto simp: decode_follow_payload_def encode_follow_payload_def reader_iff write_iff)
qed

interpretation ctensorboard: codec encode_tensorboard_payload decode_tensorboard_payload any_value
proof
  fix bs rest and x :: IpcTensorboardPayload
  show "decode_tensorboard_payload bs = Inr (x, rest) \<longleftrightarrow>
      True \<and> (\<exists>w. encode_tensorboard_payload x = Some w \<and> bs = w @ rest)"
    by (cases x)
      (auto simp: decode_tensorboard_payload_def encode_tensorboard_payload_def reader_iff write_iff)
qed

section \<open>The inspection of a job\<close>

interpretation centry_env: codec w_env_entry r_env_entry any_value
proof
  fix bs rest and x :: IpcEnvEntry
  show "r_env_entry bs = Inr (x, rest) \<longleftrightarrow>
      True \<and> (\<exists>w. w_env_entry x = Some w \<and> bs = w @ rest)"
    by (cases x) (auto simp: r_env_entry_def w_env_entry_def reader_iff write_iff)
qed

interpretation cplacement: codec w_placement r_placement any_value
proof
  fix bs x rest
  show "r_placement bs = Inr (x, rest) \<longleftrightarrow>
      True \<and> (\<exists>w. w_placement x = Some w \<and> bs = w @ rest)"
    by (cases x) (auto simp: r_placement_def w_placement_def reader_iff write_iff)
qed

lemma u8_count: "unat (n :: u8) = k \<longleftrightarrow> k < 256 \<and> n = of_nat k"
proof -
  have "unat n < 256" using unsigned_less [of n] by simp
  then show ?thesis by (auto simp: unat_of_nat)
qed

interpretation cdevices: codec w_placement_devices r_placement_devices "\<lambda>ds. length ds < 256"
proof
  fix bs rest and x :: "string list"
  show "r_placement_devices bs = Inr (x, rest) \<longleftrightarrow>
      length x < 256 \<and> (\<exists>w. w_placement_devices x = Some w \<and> bs = w @ rest)"
    by (auto simp: r_placement_devices_def w_placement_devices_def reader_iff write_iff
        cstring.rd_repeat eq_commute [of "length x"] u8_count ipc_limits)
qed

definition inspect_wire :: "u8 \<Rightarrow> IpcInspectPayload \<Rightarrow> IpcInspectPayload" where
  "inspect_wire version p =
     (let p' = (if version \<ge> 3 then p
                else p\<lparr>iip_gpu_placement_mode := 0, iip_gpu_placement_device := None\<rparr>)
      in if version \<ge> 4 then p' else p'\<lparr>iip_gpu_placement_devices := []\<rparr>)"

definition inspect_range :: "u8 \<Rightarrow> IpcInspectPayload \<Rightarrow> bool" where
  "inspect_range version p \<longleftrightarrow>
     iip_state p \<le> kUnderlyingJobStateMax \<and>
     (version \<ge> 4 \<longrightarrow> length (iip_gpu_placement_devices p) < 256)"

definition inspect_ok :: "u8 \<Rightarrow> IpcInspectPayload \<Rightarrow> bool" where
  "inspect_ok version p \<longleftrightarrow> version \<ge> 2 \<and> inspect_range version p \<and> inspect_wire version p = p"

lemmas inspect_iff =
  cplacement.rd_iff [simplified simp_thms] cdevices.rd_iff
  centry_env.rd_list [OF list_cap, simplified no_condition simp_thms]

lemma inspect_codec:
  "version \<ge> 2 \<Longrightarrow> decode_inspect version bs = Inr (x, rest) \<longleftrightarrow>
     inspect_ok version x \<and> (\<exists>w. encode_inspect version x = Some w \<and> bs = w @ rest)"
  by (cases x)
    (auto simp: decode_inspect_def encode_inspect_def reader_iff write_iff inspect_iff
      inspect_ok_def inspect_range_def inspect_wire_def Let_def split: if_splits)

section \<open>Headers\<close>

lemma request_kind_code_inj: "IpcRequestKind_code k = IpcRequestKind_code l \<Longrightarrow> k = l"
  by (cases k; cases l) simp_all

lemma request_kind_of_code: "IpcRequestKind_of (IpcRequestKind_code k) = k"
  by (cases k) (simp_all add: IpcRequestKind_of_def all_request_kinds_def)

lemma request_kind_code_range:
  "(1 :: u8) \<le> c \<and> c \<le> 9 \<longleftrightarrow> (\<exists>k. c = IpcRequestKind_code k)"
proof
  assume "1 \<le> c \<and> c \<le> 9"
  then have "unat c \<in> {1, 2, 3, 4, 5, 6, 7, 8, 9}" by (simp, unat_arith)
  then have "c \<in> {1, 2, 3, 4, 5, 6, 7, 8, 9}" by (simp add: u8_count)
  then show "\<exists>k. c = IpcRequestKind_code k"
    by (auto intro: IpcRequestKind_code.simps [symmetric])
next
  assume "\<exists>k. c = IpcRequestKind_code k"
  then obtain k where "c = IpcRequestKind_code k" ..
  then show "1 \<le> c \<and> c \<le> 9" by (cases k) simp_all
qed

lemma request_kind_code_nine: "IpcRequestKind_code k = 9 \<longleftrightarrow> k = IpcRequestKind.kInspect"
  by (cases k) simp_all

definition header_ok :: "u8 \<Rightarrow> IpcRequestKind \<Rightarrow> bool" where
  "header_ok version kind \<longleftrightarrow>
     ipc_version_supported version \<and> \<not> (kind = IpcRequestKind.kInspect \<and> version < 2)"

lemma r_header_iff [reader_iff]:
  "r_header bs = Inr (h, rest) \<longleftrightarrow> header_ok (fst h) (snd h) \<and>
     bs = w_u8 (fst h) @ w_u8 (IpcRequestKind_code (snd h)) @ rest"
proof -
  have "r_header bs = Inr (h, rest) \<longleftrightarrow>
      (\<exists>k. ((1 :: u8) \<le> k \<and> k \<le> 9) \<and> ipc_version_supported (fst h) \<and> \<not> (k = 9 \<and> fst h < 2)
        \<and> snd h = IpcRequestKind_of k \<and> bs = w_u8 (fst h) @ w_u8 k @ rest)"
    by (cases h) (auto simp: r_header_def reader_iff)
  also have "\<dots> \<longleftrightarrow> header_ok (fst h) (snd h) \<and>
      bs = w_u8 (fst h) @ w_u8 (IpcRequestKind_code (snd h)) @ rest"
    unfolding request_kind_code_range
    by (auto simp: request_kind_of_code header_ok_def request_kind_code_nine)
  finally show ?thesis .
qed

lemma ipc_error_of_code: "IpcError_of (IpcError_code e) = e"
  by (cases e) (simp_all add: IpcError_of_def all_ipc_errors_def)

lemma ipc_error_code_range: "(c :: u8) \<le> 11 \<longleftrightarrow> (\<exists>e. c = IpcError_code e)"
proof
  assume "c \<le> 11"
  then have "unat c \<in> {0, 1, 2, 3, 4, 5, 6, 7, 8, 9, 10, 11}" by (simp, unat_arith)
  then have "c \<in> {0, 1, 2, 3, 4, 5, 6, 7, 8, 9, 10, 11}" by (simp add: u8_count)
  then show "\<exists>e. c = IpcError_code e" by (auto intro: IpcError_code.simps [symmetric])
next
  assume "\<exists>e. c = IpcError_code e"
  then obtain e where "c = IpcError_code e" ..
  then show "c \<le> 11" by (cases e) simp_all
qed

section \<open>Whole responses\<close>

definition response_wire :: "IpcResponse \<Rightarrow> IpcResponse" where
  "response_wire r =
     (let out = IpcResponse_init\<lparr>irs_kind := irs_kind r, irs_version := irs_version r,
                  irs_error := irs_error r, irs_detail := irs_detail r\<rparr>
      in case irs_kind r of
        IpcRequestKind.kSubmit \<Rightarrow> out\<lparr>irs_job_id := irs_job_id r\<rparr>
      | IpcRequestKind.kPs \<Rightarrow> out\<lparr>irs_jobs := map (summary_wire (irs_version r)) (irs_jobs r)\<rparr>
      | IpcRequestKind.kQueue \<Rightarrow> out\<lparr>irs_queue := map (queue_entry_wire (irs_version r)) (irs_queue r)\<rparr>
      | IpcRequestKind.kGpu \<Rightarrow>
          out\<lparr>irs_gpu_revision := irs_gpu_revision r, irs_devices := map device_wire (irs_devices r)\<rparr>
      | IpcRequestKind.kCancel \<Rightarrow> out\<lparr>irs_state := irs_state r\<rparr>
      | IpcRequestKind.kLogs \<Rightarrow> out\<lparr>irs_logs := irs_logs r\<rparr>
      | IpcRequestKind.kLogsFollow \<Rightarrow> out\<lparr>irs_logs_follow := irs_logs_follow r\<rparr>
      | IpcRequestKind.kTensorboard \<Rightarrow> out\<lparr>irs_tensorboard := irs_tensorboard r\<rparr>
      | IpcRequestKind.kInspect \<Rightarrow>
          out\<lparr>irs_inspect := inspect_wire (irs_version r) (irs_inspect r)\<rparr>)"

definition response_range :: "IpcResponse \<Rightarrow> bool" where
  "response_range r \<longleftrightarrow> (case irs_kind r of
        IpcRequestKind.kPs \<Rightarrow> list_all (\<lambda>s. ijs_state s \<le> kUnderlyingJobStateMax) (irs_jobs r)
      | IpcRequestKind.kQueue \<Rightarrow> list_all (\<lambda>e. iqe_state e \<le> kUnderlyingJobStateMax) (irs_queue r)
      | IpcRequestKind.kGpu \<Rightarrow> list_all device_range (irs_devices r)
      | IpcRequestKind.kCancel \<Rightarrow> irs_state r \<le> kUnderlyingJobStateMax
      | IpcRequestKind.kLogsFollow \<Rightarrow> ifp_job_state (irs_logs_follow r) \<le> kUnderlyingJobStateMax
      | IpcRequestKind.kInspect \<Rightarrow> inspect_range (irs_version r) (irs_inspect r)
      | _ \<Rightarrow> True)"

definition response_ok :: "IpcResponse \<Rightarrow> bool" where
  "response_ok r \<longleftrightarrow>
     header_ok (irs_version r) (irs_kind r) \<and> response_range r \<and> response_wire r = r"

lemmas item_iff =
  csummary.rd_list [OF list_cap] centry.rd_list [OF list_cap] cdevice.rd_list [OF list_cap]
  clogs.rd_iff [simplified simp_thms] cfollow.rd_iff ctensorboard.rd_iff [simplified simp_thms]

lemma list_all_wire:
  "(\<And>x. ok x \<longleftrightarrow> P x \<and> f x = x) \<Longrightarrow> list_all ok xs \<longleftrightarrow> list_all P xs \<and> map f xs = xs"
  by (induction xs) auto

lemmas items_ok =
  list_all_wire [OF summary_ok_def] list_all_wire [OF queue_entry_ok_def]
  list_all_wire [OF device_ok_def]

definition response_base :: "IpcResponse \<Rightarrow> IpcResponse" where
  "response_base r = IpcResponse_init\<lparr>irs_version := irs_version r, irs_kind := irs_kind r,
     irs_error := irs_error r, irs_detail := irs_detail r\<rparr>"

lemma response_fields_codec:
  assumes "header_ok (irs_version r) (irs_kind r)"
  shows "decode_response_fields (response_base r) bs = Inr (r, rest) \<longleftrightarrow>
    response_range r \<and> response_wire r = r \<and>
    (\<exists>w. encode_response_fields (irs_version r) r = Some w \<and> bs = w @ rest)"
proof -
  have v2: "irs_kind r = IpcRequestKind.kInspect \<Longrightarrow> irs_version r \<ge> 2"
    using assms by (auto simp: header_ok_def)
  then show ?thesis
    by (cases r; cases "irs_kind r")
      (auto simp: decode_response_fields_def encode_response_fields_def response_base_def
        response_range_def response_wire_def IpcResponse_init_def reader_iff write_iff item_iff
        inspect_codec items_ok inspect_ok_def)
qed

lemma decode_response_fields_base:
  assumes "decode_response_fields out bs = Inr (r, rest)"
  shows "irs_version r = irs_version out \<and> irs_kind r = irs_kind out \<and> irs_error r = irs_error out
    \<and> irs_detail r = irs_detail out"
  using assms by (cases "irs_kind out") (auto simp: decode_response_fields_def Let_def reader_iff)

definition response_bytes :: "IpcResponse \<Rightarrow> bytes option" where
  "response_bytes r = write_all [Some (w_u8 (irs_version r)), Some (w_u8 (IpcRequestKind_code (irs_kind r))),
     encode_response_body (irs_version r) r]"

lemma response_body_codec:
  "decode_response_body bs = Inr (r, rest) \<longleftrightarrow> response_ok r \<and> rest = [] \<and> response_bytes r = Some bs"
proof -
  have "decode_response_body bs = Inr (r, rest) \<longleftrightarrow>
      (\<exists>mid. r_header bs = Inr ((irs_version r, irs_kind r), w_u8 (IpcError_code (irs_error r)) @ mid)
        \<and> (\<exists>mid'. r_string mid = Inr (irs_detail r, mid')
          \<and> decode_response_fields (response_base r) mid' = Inr (r, rest))) \<and> rest = []"
    (is "?l \<longleftrightarrow> ?r")
  proof
    assume ?l
    then obtain h ec mid detail mid' where h: "r_header bs = Inr (h, w_u8 ec @ mid)" "ec \<le> 11"
        "r_string mid = Inr (detail, mid')"
        "decode_response_fields (IpcResponse_init\<lparr>irs_version := fst h, irs_kind := snd h,
          irs_error := IpcError_of ec, irs_detail := detail\<rparr>) mid' = Inr (r, [])" "rest = []"
      by (auto simp: decode_response_body_def r_bind_iff r_check_iff r_u8_iff r_end_iff)
    from h(2) obtain e where e: "ec = IpcError_code e" unfolding ipc_error_code_range by blast
    from decode_response_fields_base [OF h(4)] have "h = (irs_version r, irs_kind r)"
      "irs_error r = e" "irs_detail r = detail" by (auto simp: e ipc_error_of_code)
    with h e show ?r by (auto simp: response_base_def ipc_error_of_code)
  next
    assume ?r
    moreover have "IpcError_code (irs_error r) \<le> 11" unfolding ipc_error_code_range by blast
    ultimately show ?l
      by (auto simp: decode_response_body_def r_bind_iff r_check_iff r_u8_iff r_end_iff
          response_base_def ipc_error_of_code)
  qed
  then show ?thesis
    by (auto simp: r_header_iff r_string_iff response_fields_codec response_ok_def
        response_bytes_def encode_response_body_def write_iff)
qed

lemma encode_response_iff:
  "encode_response_payload r [] = Some bs \<longleftrightarrow>
     ipc_version_supported (irs_version r) \<and> response_bytes r = Some bs \<and> length bs \<le> kMaxPayloadBytes"
  by (auto simp: encode_response_payload_def encode_payload_def response_bytes_def
      split: option.splits if_splits)

lemma inspect_wire_laws:
  "encode_inspect v p = Some w \<Longrightarrow> encode_inspect v (inspect_wire v p) = Some w"
  "encode_inspect v p = Some w \<Longrightarrow> inspect_range v p \<Longrightarrow> inspect_ok v (inspect_wire v p)"
  by (auto simp: encode_inspect_def inspect_wire_def inspect_ok_def inspect_range_def Let_def write_iff
      split: if_splits)

lemmas items_wire =
  csummary.w_list_wire centry.w_list_wire cdevice.w_list_wire inspect_wire_laws(1)

lemmas items_wire_ok =
  csummary.list_all_ok_wire centry.list_all_ok_wire cdevice.list_all_ok_wire inspect_wire_laws(2)

lemma response_wire_sel [simp]:
  "irs_version (response_wire r) = irs_version r" "irs_kind (response_wire r) = irs_kind r"
  "irs_error (response_wire r) = irs_error r" "irs_detail (response_wire r) = irs_detail r"
  by (simp_all add: response_wire_def Let_def split: IpcRequestKind.split)

lemma response_wire_bytes:
  "response_bytes r = Some bs \<Longrightarrow> response_bytes (response_wire r) = Some bs"
proof -
  have "encode_response_fields v r = Some w \<Longrightarrow> v = irs_version r
      \<Longrightarrow> encode_response_fields v (response_wire r) = Some w" for v w
    by (cases "irs_kind r")
      (auto simp: encode_response_fields_def response_wire_def write_iff intro: items_wire)
  then show "response_bytes r = Some bs \<Longrightarrow> response_bytes (response_wire r) = Some bs"
    by (auto simp: response_bytes_def encode_response_body_def write_iff)
qed

lemma response_wire_ok:
  assumes "response_bytes r = Some bs" "header_ok (irs_version r) (irs_kind r)" "response_range r"
  shows "response_ok (response_wire r)"
proof -
  from assms(1) obtain w where w: "encode_response_fields (irs_version r) r = Some w"
    by (auto simp: response_bytes_def encode_response_body_def write_iff)
  have "response_range (response_wire r) \<and> response_wire (response_wire r) = response_wire r"
    using w assms(3)
    by (cases "irs_kind r")
      (auto simp: encode_response_fields_def response_range_def response_wire_def write_iff
        inspect_ok_def dest!: items_wire_ok [unfolded items_ok])
  then show ?thesis using assms(2) by (simp add: response_ok_def)
qed

section \<open>Stream frames\<close>

definition stream_frame_wire :: "IpcStreamFrame \<Rightarrow> IpcStreamFrame" where
  "stream_frame_wire f =
     (let out = IpcStreamFrame_init\<lparr>isf_kind := isf_kind f\<rparr> in
      case isf_kind f of
        kLogData \<Rightarrow> out\<lparr>isf_stream := isf_stream f, isf_begin_offset := isf_begin_offset f,
          isf_end_offset := isf_end_offset f, isf_data := isf_data f\<rparr>
      | kLogGap \<Rightarrow> out\<lparr>isf_stream := isf_stream f, isf_begin_offset := isf_begin_offset f,
          isf_end_offset := isf_end_offset f\<rparr>
      | kLogBackpressure \<Rightarrow> out\<lparr>isf_stream := isf_stream f, isf_begin_offset := isf_begin_offset f\<rparr>
      | kLogEof \<Rightarrow> out\<lparr>isf_job_state := isf_job_state f, isf_exit := isf_exit f\<rparr>)"

interpretation crange: codec "\<lambda>x. Some (w_u8 (fst x) @ w_u64 (fst (snd x)) @ w_u64 (snd (snd x)))"
  r_range "\<lambda>x. fst x \<le> kUnderlyingStreamMax \<and> fst (snd x) \<le> snd (snd x)"
  by unfold_locales (auto simp: r_range_def reader_iff)

lemma stream_fields_codec:
  "decode_stream_frame_fields (IpcStreamFrame_init\<lparr>isf_kind := isf_kind f\<rparr>) bs = Inr (f, rest) \<longleftrightarrow>
     stream_frame_wire f = f \<and> (\<exists>w. encode_stream_frame_body f = Some w \<and> bs = w @ rest)"
  by (cases f; cases "isf_kind f")
    (auto simp: decode_stream_frame_fields_def encode_stream_frame_body_def stream_frame_wire_def
      IpcStreamFrame_init_def reader_iff write_iff crange.rd_iff split: if_splits)

lemma decode_stream_fields_kind:
  "decode_stream_frame_fields out bs = Inr (f, rest) \<Longrightarrow> isf_kind f = isf_kind out"
  by (cases "isf_kind out") (auto simp: decode_stream_frame_fields_def reader_iff)

lemma stream_kind_of_code: "IpcStreamFrameKind_of (IpcStreamFrameKind_code k) = k"
  by (cases k) (simp_all add: IpcStreamFrameKind_of_def)

lemma stream_kind_code_range: "(1 :: u8) \<le> c \<and> c \<le> 4 \<longleftrightarrow> (\<exists>k. c = IpcStreamFrameKind_code k)"
proof
  assume "1 \<le> c \<and> c \<le> 4"
  then have "unat c \<in> {1, 2, 3, 4}" by (simp, unat_arith)
  then have "c \<in> {1, 2, 3, 4}" by (simp add: u8_count)
  then show "\<exists>k. c = IpcStreamFrameKind_code k"
    by (auto intro: IpcStreamFrameKind_code.simps [symmetric])
next
  assume "\<exists>k. c = IpcStreamFrameKind_code k"
  then obtain k where "c = IpcStreamFrameKind_code k" ..
  then show "1 \<le> c \<and> c \<le> 4" by (cases k) simp_all
qed

definition stream_frame_bytes :: "IpcStreamFrame \<Rightarrow> bytes option" where
  "stream_frame_bytes f = write_all [Some (w_u8 kStreamFrameVersion),
     Some (w_u8 (IpcStreamFrameKind_code (isf_kind f))), encode_stream_frame_body f]"

lemma stream_body_codec:
  "decode_stream_frame_body bs = Inr (f, rest) \<longleftrightarrow>
     stream_frame_wire f = f \<and> rest = [] \<and> stream_frame_bytes f = Some bs"
proof -
  have "decode_stream_frame_body bs = Inr (f, rest) \<longleftrightarrow>
      (\<exists>k mid. ((1 :: u8) \<le> k \<and> k \<le> 4) \<and> bs = w_u8 kStreamFrameVersion @ w_u8 k @ mid \<and> rest = []
        \<and> decode_stream_frame_fields (IpcStreamFrame_init\<lparr>isf_kind := IpcStreamFrameKind_of k\<rparr>) mid
          = Inr (f, rest))"
    by (auto simp: decode_stream_frame_body_def reader_iff)
  also have "\<dots> \<longleftrightarrow> (\<exists>mid. bs = w_u8 kStreamFrameVersion @ w_u8 (IpcStreamFrameKind_code (isf_kind f)) @ mid
      \<and> rest = [] \<and> decode_stream_frame_fields (IpcStreamFrame_init\<lparr>isf_kind := isf_kind f\<rparr>) mid
          = Inr (f, rest))"
    unfolding stream_kind_code_range
    by (auto simp: stream_kind_of_code) (frule decode_stream_fields_kind, simp)+
  also have "\<dots> \<longleftrightarrow> stream_frame_wire f = f \<and> rest = [] \<and> stream_frame_bytes f = Some bs"
    by (auto simp: stream_fields_codec stream_frame_bytes_def write_iff)
  finally show ?thesis .
qed

lemma stream_frame_wire_laws:
  "stream_frame_wire (stream_frame_wire f) = stream_frame_wire f"
  "stream_frame_bytes (stream_frame_wire f) = stream_frame_bytes f"
  by (cases "isf_kind f";
      simp add: stream_frame_wire_def stream_frame_bytes_def encode_stream_frame_body_def
        IpcStreamFrame_init_def)+

lemma encode_stream_frame_iff:
  "encode_stream_frame_payload f [] = Some bs \<longleftrightarrow>
     stream_frame_bytes f = Some bs \<and> length bs \<le> kMaxPayloadBytes"
  by (auto simp: encode_stream_frame_payload_def encode_payload_def stream_frame_bytes_def
      split: option.splits if_splits)

lemma decode_payload_iff:
  "decode_payload p bs = Inr x \<longleftrightarrow> length bs \<le> kMaxPayloadBytes \<and> (\<exists>rest. p bs = Inr (x, rest))"
  by (auto simp: decode_payload_def run_reader_def split: sum.splits)

section \<open>Requests\<close>

definition submit_sent :: "u8 \<Rightarrow> IpcSubmitRequest \<Rightarrow> (string \<times> string) list \<Rightarrow> bytes option" where
  "submit_sent version s env = encode_submit version (s\<lparr>isr_env := env\<rparr>)"

lemma r_when_optional:
  assumes "\<And>bs v rest. r bs = Inr (v, rest) \<longleftrightarrow> (\<exists>w. f v = Some w \<and> bs = w @ rest)"
  shows "r_when c r d bs = Inr (v, rest) \<longleftrightarrow>
    (\<not> c \<longrightarrow> v = d) \<and> (\<exists>w. w_when c (f v) = Some w \<and> bs = w @ rest)"
  using assms by (auto simp: r_when_iff w_when_iff)

lemma write_all_when: "w_when c (write_all [a, b]) = Some w \<longleftrightarrow> write_all [w_when c a, w_when c b] = Some w"
  by (auto simp: w_when_def write_all_Cons)

lemma encode_submit_iff:
  "encode_submit version s = Some w \<longleftrightarrow>
     (\<not> 2 \<le> version \<longrightarrow> isr_executable s = None) \<and> (\<not> 2 \<le> version \<longrightarrow> isr_env_metadata s = None) \<and>
     (\<not> 3 \<le> version \<longrightarrow> isr_gpu_spec s = None) \<and> (\<not> 4 \<le> version \<longrightarrow> isr_gpu_preferred_spec s = None) \<and>
     write_all
        [w_list kMaxItemCount w_string (isr_argv s), w_string (isr_cwd s),
         w_list kMaxItemCount w_env_pair (isr_env s), Some (w_u32 (isr_gpu_request s)),
         w_optional_string (isr_launch_profile s), w_optional_string (isr_tensorboard_logdir s),
         w_when (2 \<le> version) (w_optional_string (isr_executable s)),
         w_when (2 \<le> version) (w_optional w_env_metadata (isr_env_metadata s)),
         w_when (3 \<le> version) (w_optional_string (isr_gpu_spec s)),
         w_when (4 \<le> version) (w_optional_string (isr_gpu_preferred_spec s))] = Some w"
  by (auto simp: encode_submit_def write_all_Cons write_all_when not_le)

lemma submit_codec:
  "decode_submit version bs = Inr (s, rest) \<longleftrightarrow>
     (\<exists>env w. isr_env s = foldl emplace_env [] env \<and> submit_sent version s env = Some w \<and> bs = w @ rest)"
  by (cases s,
      auto simp: decode_submit_def submit_sent_def encode_submit_iff r_bind_iff r_return_iff r_u32_iff
      r_string_iff string_list_iff r_optional_string_iff part_iff r_when_optional [OF r_optional_string_iff]
      r_when_optional [OF part_iff(2)] write_all_Cons) blast+

text \<open>What a request keeps on the wire.\<close>

definition request_wire :: "IpcRequest \<Rightarrow> IpcRequest" where
  "request_wire r =
     (let out = IpcRequest_init\<lparr>irq_version := irq_version r, irq_kind := irq_kind r\<rparr>
      in case irq_kind r of
        IpcRequestKind.kSubmit \<Rightarrow> out\<lparr>irq_submit := irq_submit r\<rparr>
      | IpcRequestKind.kPs \<Rightarrow> out
      | IpcRequestKind.kQueue \<Rightarrow> out
      | IpcRequestKind.kGpu \<Rightarrow> out
      | IpcRequestKind.kCancel \<Rightarrow> out\<lparr>irq_cancel := irq_cancel r\<rparr>
      | IpcRequestKind.kLogs \<Rightarrow> out\<lparr>irq_logs := irq_logs r\<rparr>
      | IpcRequestKind.kLogsFollow \<Rightarrow> out\<lparr>irq_logs_follow := irq_logs_follow r\<rparr>
      | IpcRequestKind.kTensorboard \<Rightarrow> out\<lparr>irq_tensorboard := irq_tensorboard r\<rparr>
      | IpcRequestKind.kInspect \<Rightarrow> out\<lparr>irq_inspect := irq_inspect r\<rparr>)"

interpretation cfollow_request: codec encode_logs_follow decode_logs_follow any_value
proof
  fix bs rest and x :: IpcLogsFollowRequest
  show "decode_logs_follow bs = Inr (x, rest) \<longleftrightarrow>
      True \<and> (\<exists>w. encode_logs_follow x = Some w \<and> bs = w @ rest)"
    by (cases x) (auto simp: decode_logs_follow_def encode_logs_follow_def reader_iff write_iff)
qed

text \<open>The bytes of a request whose environment was sent as the list \<open>env\<close>.\<close>

definition request_bytes :: "IpcRequest \<Rightarrow> (string \<times> string) list \<Rightarrow> bytes option" where
  "request_bytes r env = write_all
     [Some (w_u8 (irq_version r)), Some (w_u8 (IpcRequestKind_code (irq_kind r))),
      encode_request_body (irq_version r) (r\<lparr>irq_submit := (irq_submit r)\<lparr>isr_env := env\<rparr>\<rparr>)]"

lemma request_fields_codec:
  "decode_request_fields (IpcRequest_init\<lparr>irq_version := irq_version r, irq_kind := irq_kind r\<rparr>) bs
      = Inr (r, rest) \<longleftrightarrow>
    request_wire r = r \<and>
    (\<exists>env w. isr_env (irq_submit r) = foldl emplace_env [] env
      \<and> encode_request_body (irq_version r) (r\<lparr>irq_submit := (irq_submit r)\<lparr>isr_env := env\<rparr>\<rparr>) = Some w
      \<and> bs = w @ rest)"
proof (cases "irq_kind r = IpcRequestKind.kSubmit")
  case True
  then show ?thesis
    by (cases r)
      (auto simp: decode_request_fields_def encode_request_body_def request_wire_def
        IpcRequest_init_def r_bind_iff r_return_iff submit_codec submit_sent_def)
next
  case False
  have env: "request_wire r = r \<Longrightarrow> isr_env (irq_submit r) = foldl emplace_env [] []"
    using False
    by (cases r; cases "irq_kind r")
      (auto simp: request_wire_def IpcRequest_init_def IpcSubmitRequest_init_def)
  have body: "encode_request_body (irq_version r) (r\<lparr>irq_submit := x\<rparr>)
      = encode_request_body (irq_version r) r" for x
    using False by (cases "irq_kind r") (auto simp: encode_request_body_def)
  have "decode_request_fields (IpcRequest_init\<lparr>irq_version := irq_version r, irq_kind := irq_kind r\<rparr>) bs
      = Inr (r, rest) \<longleftrightarrow>
      request_wire r = r \<and> (\<exists>w. encode_request_body (irq_version r) r = Some w \<and> bs = w @ rest)"
    using False
    by (cases r; cases "irq_kind r"; cases "irq_cancel r"; cases "irq_logs r"; cases "irq_tensorboard r";
        cases "irq_inspect r")
      (auto simp: decode_request_fields_def encode_request_body_def request_wire_def
        IpcRequest_init_def reader_iff cfollow_request.rd_iff)
  then show ?thesis unfolding body using env by blast
qed

lemma decode_request_fields_base:
  "decode_request_fields out bs = Inr (r, rest)
     \<Longrightarrow> irq_version r = irq_version out \<and> irq_kind r = irq_kind out"
  by (cases "irq_kind out") (auto simp: decode_request_fields_def reader_iff)

lemma request_body_codec:
  "decode_request_body bs = Inr (r, rest) \<longleftrightarrow>
     header_ok (irq_version r) (irq_kind r) \<and> request_wire r = r \<and> rest = [] \<and>
     (\<exists>env. isr_env (irq_submit r) = foldl emplace_env [] env \<and> request_bytes r env = Some bs)"
proof -
  have "decode_request_body bs = Inr (r, rest) \<longleftrightarrow>
      (\<exists>mid. r_header bs = Inr ((irq_version r, irq_kind r), mid) \<and> rest = []
        \<and> decode_request_fields (IpcRequest_init\<lparr>irq_version := irq_version r, irq_kind := irq_kind r\<rparr>) mid
          = Inr (r, rest))"
    by (auto simp: decode_request_body_def r_bind_iff r_end_iff)
      (frule decode_request_fields_base, auto)+
  also have "\<dots> \<longleftrightarrow> header_ok (irq_version r) (irq_kind r) \<and> request_wire r = r \<and> rest = [] \<and>
     (\<exists>env. isr_env (irq_submit r) = foldl emplace_env [] env \<and> request_bytes r env = Some bs)"
    unfolding request_fields_codec r_header_iff request_bytes_def write_all_Cons by auto
  finally show ?thesis .
qed

end
