(* ===== verification/Ipc_Props.thy ===== *)
theory Ipc_Props
  imports Ipc_Laws
begin

text \<open>
  The properties of the protocol: encoding and decoding are inverse to each other on every message
  kind and version, a frame announces the length of its payload, and the places where the encoder
  accepts more than the decoder.
\<close>

lemma payload_nonempty:
  "write_all [Some (w_u8 v), Some (w_u8 k), body] = Some bs \<Longrightarrow> 2 \<le> length bs"
  by (auto simp: write_all_Cons w_u8_def)

lemma frame_prefix:
  assumes "2 \<le> length p" "length p \<le> kMaxPayloadBytes"
  shows "r_u32 (w_u32 (of_nat (length p)) @ p) = Inr (of_nat (length p), p)"
    and "unat (of_nat (length p) :: u32) = length p"
    and "ipc_payload_length_valid (of_nat (length p))"
  using assms by (auto simp: r_u32_iff unat_u32_small ipc_payload_length_valid_def ipc_limits)

section \<open>Responses\<close>

text \<open>Property C30. A response payload is accepted exactly if it is the encoding of the response that is
  returned, and that response is in the range of its kind and version: every field the version
  does not carry has its default value, every state byte and percentage is in range.\<close>

theorem response_exact:
  "decode_response_payload bs = Inr r \<longleftrightarrow> response_ok r \<and> encode_response_payload r [] = Some bs"
  by (auto simp: decode_response_payload_def decode_payload_iff response_body_codec encode_response_iff
      response_ok_def header_ok_def)

lemma response_bytes_header:
  "response_bytes r = Some bs \<Longrightarrow> ipc_version_supported (irs_version r)
     \<Longrightarrow> header_ok (irs_version r) (irs_kind r)"
  by (auto simp: header_ok_def response_bytes_def encode_response_body_def encode_response_fields_def
      encode_inspect_def write_all_Cons)

text \<open>A response in range survives framing and decoding.\<close>

lemma response_frame_decodes:
  assumes "append_response_frame r out = Some framed" "response_range r"
  shows "\<exists>payload. framed = out @ w_u32 (of_nat (length payload)) @ payload \<and>
    r_u32 (w_u32 (of_nat (length payload)) @ payload) = Inr (of_nat (length payload), payload) \<and>
    ipc_payload_length_valid (of_nat (length payload)) \<and>
    unat (of_nat (length payload) :: u32) = length payload \<and>
    decode_response_payload payload = Inr (response_wire r)"
proof -
  from assms obtain p where p: "encode_response_payload r [] = Some p"
      "framed = out @ w_u32 (of_nat (length p)) @ p"
    by (auto simp: append_response_frame_def append_framed_def)
  then have b: "ipc_version_supported (irs_version r)" "response_bytes r = Some p"
      "length p \<le> kMaxPayloadBytes"
    by (auto simp: encode_response_iff)
  then have "header_ok (irs_version r) (irs_kind r)" by (blast intro: response_bytes_header)
  with b assms(2) have "response_ok (response_wire r)" "response_bytes (response_wire r) = Some p"
    by (auto intro: response_wire_ok response_wire_bytes)
  with b have "decode_response_payload p = Inr (response_wire r)"
    by (auto simp: decode_response_payload_def decode_payload_iff response_body_codec)
  moreover from b(2) have "2 \<le> length p"
    unfolding response_bytes_def by (rule payload_nonempty)
  ultimately show ?thesis using p(2) b(3) frame_prefix by auto
qed


definition demo_response :: IpcResponse where
  "demo_response = IpcResponse_init\<lparr>irs_kind := IpcRequestKind.kCancel, irs_detail := ''ok'',
     irs_state := 6, irs_job_id := 3\<rparr>"

lemma demo_response_frame:
  "append_response_frame demo_response [] = Some [10, 0, 0, 0, 4, 5, 0, 2, 0, 0, 0, 111, 107, 6]"
  "response_range demo_response"
  "response_wire demo_response = IpcResponse_init\<lparr>irs_kind := IpcRequestKind.kCancel,
     irs_detail := ''ok'', irs_state := 6\<rparr>"
  by (simp_all add: demo_response_def append_response_frame_def append_framed_def
      encode_response_payload_def encode_payload_def encode_response_body_def
      encode_response_fields_def IpcResponse_init_def ipc_version_supported_def kMinProtocolVersion_def
      kProtocolVersion_def w_string_def contains_nul_def NUL_def ipc_limits w_u8_def w_u32_def
      byte_of_char_def response_range_def response_wire_def kUnderlyingJobStateMax_def)


text \<open>Bytes after a complete response are reported as such.\<close>

lemma response_body_trailing:
  assumes "response_ok r" "response_bytes r = Some bs" "ext \<noteq> []"
  shows "decode_response_body (bs @ ext) = Inl kTrailingBytes"
proof -
  from assms(1) have h: "header_ok (irs_version r) (irs_kind r)" by (simp add: response_ok_def)
  from assms(2) obtain d w where w: "w_string (irs_detail r) = Some d"
      "encode_response_fields (irs_version r) r = Some w"
      "bs = w_u8 (irs_version r) @ w_u8 (IpcRequestKind_code (irs_kind r)) @
        w_u8 (IpcError_code (irs_error r)) @ d @ w"
    by (auto simp: response_bytes_def encode_response_body_def write_all_Cons)
  have 1: "r_header (bs @ ext) = Inr ((irs_version r, irs_kind r),
      w_u8 (IpcError_code (irs_error r)) @ d @ w @ ext)"
    using h w(3) by (simp add: r_header_iff)
  have 2: "r_u8 (w_u8 (IpcError_code (irs_error r)) @ d @ w @ ext)
      = Inr (IpcError_code (irs_error r), d @ w @ ext)"
    by (simp add: r_u8_iff)
  have 3: "r_check (IpcError_code (irs_error r) \<le> 11) kInvalidValue
      (d @ w @ ext) = Inr ((), d @ w @ ext)"
    using ipc_error_code_range [of "IpcError_code (irs_error r)"] by (auto simp: r_check_iff)
  have 4: "r_string (d @ w @ ext) = Inr (irs_detail r, w @ ext)"
    using w(1) by (simp add: r_string_iff)
  have 5: "decode_response_fields (response_base r) (w @ ext) = Inr (r, ext)"
    using response_fields_codec [OF h, of "w @ ext" ext] assms(1) w(2) by (simp add: response_ok_def)
  show ?thesis
    using 5 assms(3)
    by (simp add: decode_response_body_def r_bind_def 1 2 3 4 ipc_error_of_code r_end_def
        response_base_def)
qed

lemma string_bytes_nonempty: "w_string s = Some w \<Longrightarrow> w \<noteq> []"
  by (auto simp: w_string_def w_u32_def split: if_splits)

lemma placement_devices_wrap:
  assumes "w_placement_devices ds = Some w" "length ds = 256"
  shows "\<exists>ext. w = w_u8 0 @ ext \<and> ext \<noteq> []"
proof -
  obtain d ds' where "ds = d # ds'" using assms(2) by (cases ds) auto
  with assms show ?thesis
    by (auto simp: w_placement_devices_def write_all_Cons dest: string_bytes_nonempty split: if_splits)
qed

lemma encode_inspect_wrap:
  assumes "encode_inspect 4 p = Some w" "length (iip_gpu_placement_devices p) = 256"
  shows "\<exists>w0 ext. encode_inspect 4 (p\<lparr>iip_gpu_placement_devices := []\<rparr>) = Some w0 \<and> w = w0 @ ext \<and> ext \<noteq> []"
proof -
  have "w_placement_devices [] = Some (w_u8 0)" by (simp add: w_placement_devices_def)
  with assms show ?thesis
    by (auto simp: encode_inspect_def write_iff dest!: placement_devices_wrap)
qed

text \<open>Property C34. An INSPECT response of version 4 with 256 placement devices passes the encoder, whose
  one-byte count wraps around to zero, and the client rejects every such payload.\<close>

theorem inspect_device_count_wraps:
  assumes "encode_response_payload r [] = Some bs" "irs_kind r = IpcRequestKind.kInspect"
    and "irs_version r = 4" "iip_state (irs_inspect r) \<le> kUnderlyingJobStateMax"
    and "length (iip_gpu_placement_devices (irs_inspect r)) = 256"
  shows "decode_response_payload bs = Inl kTrailingBytes"
proof -
  let ?q = "response_wire r\<lparr>irs_inspect := (irs_inspect r)\<lparr>iip_gpu_placement_devices := []\<rparr>\<rparr>"
  from assms(1) have len: "length bs \<le> kMaxPayloadBytes" and "response_bytes r = Some bs"
    by (auto simp: encode_response_iff)
  then obtain d w where w: "w_string (irs_detail r) = Some d" "encode_inspect 4 (irs_inspect r) = Some w"
      "bs = w_u8 4 @ w_u8 9 @ w_u8 (IpcError_code (irs_error r)) @ d @ w"
    using assms(2,3)
    by (auto simp: response_bytes_def encode_response_body_def encode_response_fields_def write_all_Cons)
  from encode_inspect_wrap [OF w(2) assms(5)] obtain w0 ext where
      e: "encode_inspect 4 ((irs_inspect r)\<lparr>iip_gpu_placement_devices := []\<rparr>) = Some w0"
      "w = w0 @ ext" "ext \<noteq> []" by blast
  have ok: "response_ok ?q"
    using assms(2,3,4)
    by (auto simp: response_ok_def response_range_def response_wire_def header_ok_def
        ipc_version_supported_def kMinProtocolVersion_def kProtocolVersion_def inspect_range_def
        inspect_wire_def)
  have bytes: "response_bytes ?q = Some (w_u8 4 @ w_u8 9 @ w_u8 (IpcError_code (irs_error r)) @ d @ w0)"
    using assms(2,3) w(1) e(1)
    by (simp add: response_bytes_def encode_response_body_def encode_response_fields_def)
  from response_body_trailing [OF ok bytes e(3)] w(3) e(2)
  have "decode_response_body bs = Inl kTrailingBytes" by simp
  with len show ?thesis
    by (simp add: decode_response_payload_def decode_payload_def run_reader_def)
qed

definition demo_inspect :: IpcResponse where
  "demo_inspect = IpcResponse_init\<lparr>irs_kind := IpcRequestKind.kInspect,
     irs_inspect := IpcInspectPayload_init\<lparr>iip_gpu_placement_mode := 1,
       iip_gpu_placement_devices := replicate 256 []\<rparr>\<rparr>"

lemma empty_strings: "write_all (replicate n (w_string [])) = Some (concat (replicate n [0, 0, 0, 0]))"
  by (induction n) (simp_all add: w_string_def contains_nul_def w_u32_def)

lemma demo_inspect_bytes: "\<exists>bs. encode_response_payload demo_inspect [] = Some bs"
  by (simp add: demo_inspect_def encode_response_payload_def encode_payload_def encode_response_body_def
      encode_response_fields_def encode_inspect_def IpcResponse_init_def IpcInspectPayload_init_def
      ipc_version_supported_def kMinProtocolVersion_def kProtocolVersion_def w_string_def
      contains_nul_def ipc_limits w_when_def w_list_def w_optional_def w_optional_string_def
      w_placement_def kUnderlyingGpuPlacementModeMax_def w_placement_devices_def
      empty_strings [unfolded w_string_def contains_nul_def, simplified] w_u8_def length_concat
      sum_list_replicate)

theorem inspect_device_count_wraps_witness:
  "\<exists>bs. encode_response_payload demo_inspect [] = Some bs \<and>
     decode_response_payload bs = Inl kTrailingBytes"
proof -
  obtain bs where bs: "encode_response_payload demo_inspect [] = Some bs" using demo_inspect_bytes ..
  then have "decode_response_payload bs = Inl kTrailingBytes"
    by (rule inspect_device_count_wraps)
      (simp_all add: demo_inspect_def IpcResponse_init_def IpcInspectPayload_init_def kProtocolVersion_def)
  with bs show ?thesis by blast
qed

section \<open>Requests\<close>

lemma encode_request_iff:
  "encode_request_payload r [] = Some bs \<longleftrightarrow>
     ipc_version_supported (irq_version r) \<and> request_bytes r (isr_env (irq_submit r)) = Some bs \<and>
     length bs \<le> kMaxPayloadBytes"
  by (auto simp: encode_request_payload_def encode_payload_def request_bytes_def
      split: option.splits if_splits)

lemma request_wire_laws:
  "request_wire (request_wire r) = request_wire r"
  "irq_version (request_wire r) = irq_version r" "irq_kind (request_wire r) = irq_kind r"
  "irq_kind r = IpcRequestKind.kSubmit \<Longrightarrow> irq_submit (request_wire r) = irq_submit r"
  "irq_kind r \<noteq> IpcRequestKind.kSubmit \<Longrightarrow> isr_env (irq_submit (request_wire r)) = []"
  "encode_request_body v (request_wire r) = encode_request_body v r"
  by (cases "irq_kind r";
      simp add: request_wire_def IpcRequest_init_def IpcSubmitRequest_init_def encode_request_body_def)+

lemma request_wire_bytes:
  "request_bytes r (isr_env (irq_submit r)) = Some bs \<Longrightarrow>
     request_bytes (request_wire r) (isr_env (irq_submit (request_wire r))) = Some bs"
  by (simp add: request_bytes_def request_wire_laws)

lemma request_decodes:
  assumes "encode_request_payload r [] = Some bs" "omap_wf (isr_env (irq_submit r))"
    and "\<not> (irq_kind r = IpcRequestKind.kInspect \<and> irq_version r < 2)"
  shows "decode_request_payload bs = Inr (request_wire r)"
proof -
  from assms(1) have b: "ipc_version_supported (irq_version r)" "length bs \<le> kMaxPayloadBytes"
      "request_bytes r (isr_env (irq_submit r)) = Some bs"
    by (auto simp: encode_request_iff)
  have "omap_wf (isr_env (irq_submit (request_wire r)))"
    using assms(2) by (cases "irq_kind r = IpcRequestKind.kSubmit") (simp_all add: request_wire_laws)
  then have env: "isr_env (irq_submit (request_wire r))
      = foldl emplace_env [] (isr_env (irq_submit (request_wire r)))"
    using fold_emplace_sorted [of "[]"] by simp
  have h: "header_ok (irq_version r) (irq_kind r)" using b(1) assms(3) by (simp add: header_ok_def)
  from request_wire_bytes [OF b(3)] env h have "decode_request_body bs = Inr (request_wire r, [])"
    unfolding request_body_codec request_wire_laws by blast
  with b(2) show ?thesis by (auto simp: decode_request_payload_def decode_payload_iff)
qed


definition demo_request :: IpcRequest where
  "demo_request = IpcRequest_init\<lparr>irq_version := 2,
     irq_submit := IpcSubmitRequest_init\<lparr>isr_argv := [''a''], isr_cwd := ''/'',
       isr_env := [(''E'', ''1'')], isr_executable := Some ''x''\<rparr>, irq_cancel := \<lparr>icr_job_id = 9\<rparr>\<rparr>"

lemmas request_encoding = append_request_frame_def append_framed_def
  encode_request_payload_def encode_payload_def encode_request_body_def encode_submit_def
  IpcRequest_init_def IpcSubmitRequest_init_def ipc_version_supported_def kMinProtocolVersion_def
  kProtocolVersion_def w_string_def contains_nul_def NUL_def ipc_limits w_u8_def w_u32_def
  w_list_def w_env_pair_def w_when_def w_optional_def w_optional_string_def byte_of_char_def

lemma demo_request_frame:
  "append_request_frame demo_request [] = Some
     [43, 0, 0, 0, 2, 1, 1, 0, 0, 0, 1, 0, 0, 0, 97, 1, 0, 0, 0, 47, 1, 0, 0, 0, 1, 0, 0, 0, 69,
      1, 0, 0, 0, 49, 1, 0, 0, 0, 0, 0, 1, 1, 0, 0, 0, 120, 0]"
  "omap_wf (isr_env (irq_submit demo_request))"
  "\<not> (irq_kind demo_request = IpcRequestKind.kInspect \<and> irq_version demo_request < 2)"
  by (simp_all add: demo_request_def request_encoding omap_wf_def)


text \<open>Sizes of an accepted environment: the map never takes more bytes than the list it came from.\<close>

lemma write_all_length:
  "write_all (map f xs) = Some w \<Longrightarrow> length w = (\<Sum>x\<in>#mset xs. length (the (f x)))"
  by (induction xs arbitrary: w) (auto simp: write_all_Cons)

lemma write_all_total: "(\<exists>w. write_all (map f xs) = Some w) \<longleftrightarrow> (\<forall>x \<in> set xs. f x \<noteq> None)"
  by (induction xs) (auto simp: write_all_Cons)

lemma w_list_shrinks:
  assumes "w_list cap f xs = Some w" "mset ys \<subseteq># mset xs"
  shows "\<exists>v. w_list cap f ys = Some v \<and> length v \<le> length w"
proof -
  from assms(1) obtain b where b: "length xs \<le> cap" "write_all (map f xs) = Some b"
      "w = w_u32 (of_nat (length xs)) @ b"
    by (auto simp: w_list_def write_all_Cons split: if_splits)
  have sub: "set ys \<subseteq> set xs" using set_mset_mono [OF assms(2)] by simp
  then obtain c where c: "write_all (map f ys) = Some c"
    using write_all_total [of f xs] write_all_total [of f ys] b(2) by auto
  obtain r where "mset xs = mset ys + r" using assms(2) by (metis mset_subset_eq_exists_conv)
  then have "length c \<le> length b" using write_all_length [OF b(2)] write_all_length [OF c] by simp
  moreover have "length ys \<le> cap" using b(1) size_mset_mono [OF assms(2)] by simp
  ultimately show ?thesis using b(3) c by (auto simp: w_list_def write_all_Cons)
qed

lemma encode_submit_shrinks:
  assumes "encode_submit v (s\<lparr>isr_env := env\<rparr>) = Some w" "mset m \<subseteq># mset env"
  shows "\<exists>w'. encode_submit v (s\<lparr>isr_env := m\<rparr>) = Some w' \<and> length w' \<le> length w"
proof -
  from assms(1) obtain e where e: "w_list kMaxItemCount w_env_pair env = Some e"
    by (auto simp: encode_submit_iff write_all_Cons)
  from w_list_shrinks [OF this assms(2)] obtain e' where
    "w_list kMaxItemCount w_env_pair m = Some e'" "length e' \<le> length e" by blast
  with assms(1) e show ?thesis
    by (auto simp: encode_submit_iff write_all_Cons)
qed

lemma request_bytes_shrink:
  assumes "request_bytes r env = Some bs" "mset m \<subseteq># mset env"
  shows "\<exists>bs'. request_bytes r m = Some bs' \<and> length bs' \<le> length bs"
proof (cases "irq_kind r = IpcRequestKind.kSubmit")
  case True
  with assms show ?thesis
    by (auto simp: request_bytes_def encode_request_body_def write_all_Cons
        dest!: encode_submit_shrinks [OF _ assms(2)])
next
  case False
  then have "request_bytes r m = request_bytes r env"
    by (cases "irq_kind r") (auto simp: request_bytes_def encode_request_body_def)
  with assms(1) show ?thesis by auto
qed

definition text_field_ok :: "string \<Rightarrow> bool" where
  "text_field_ok s \<longleftrightarrow> length s \<le> kMaxStringBytes \<and> \<not> contains_nul s"

lemma w_string_ok: "w_string s = Some w \<Longrightarrow> text_field_ok s"
  by (auto simp: w_string_def text_field_ok_def split: if_splits)

lemma w_strings_ok: "write_all (map w_string xs) = Some w \<Longrightarrow> list_all text_field_ok xs"
  by (induction xs arbitrary: w) (auto simp: write_all_Cons dest: w_string_ok)

definition submit_bounds :: "u8 \<Rightarrow> IpcSubmitRequest \<Rightarrow> bool" where
  "submit_bounds version s \<longleftrightarrow>
     length (isr_argv s) \<le> kMaxItemCount \<and> list_all text_field_ok (isr_argv s) \<and>
     text_field_ok (isr_cwd s) \<and> length (isr_env s) \<le> kMaxItemCount \<and>
     (version < 2 \<longrightarrow> isr_executable s = None \<and> isr_env_metadata s = None) \<and>
     (version < 3 \<longrightarrow> isr_gpu_spec s = None) \<and> (version < 4 \<longrightarrow> isr_gpu_preferred_spec s = None) \<and>
     pred_option (\<lambda>m. iem_source m \<le> 2) (isr_env_metadata s)"

lemma encode_submit_bounds: "encode_submit v s = Some w \<Longrightarrow> submit_bounds v s"
  by (cases "isr_env_metadata s")
    (auto simp: encode_submit_iff write_all_Cons w_list_def submit_bounds_def w_when_def not_le
      w_optional_def w_env_metadata_def dest: w_string_ok w_strings_ok split: if_splits)

text \<open>Property C32. Whatever bytes arrive, a request that is accepted is within the protocol limits of
  its version, its environment is a sorted map without duplicate names, and it survives another
  round: it can be encoded, to no more bytes than were received, and decodes to itself.\<close>

theorem request_accepted:
  assumes "decode_request_payload bs = Inr r"
  shows "header_ok (irq_version r) (irq_kind r) \<and> request_wire r = r \<and>
    omap_wf (isr_env (irq_submit r)) \<and>
    (irq_kind r = IpcRequestKind.kSubmit \<longrightarrow> submit_bounds (irq_version r) (irq_submit r)) \<and>
    (\<exists>bs'. encode_request_payload r [] = Some bs' \<and> length bs' \<le> length bs
      \<and> decode_request_payload bs' = Inr r)"
proof -
  from assms obtain env where r: "header_ok (irq_version r) (irq_kind r)" "request_wire r = r"
      "isr_env (irq_submit r) = foldl emplace_env [] env" "request_bytes r env = Some bs"
      "length bs \<le> kMaxPayloadBytes"
    by (auto simp: decode_request_payload_def decode_payload_iff request_body_codec)
  have wf: "omap_wf (isr_env (irq_submit r))"
    using fold_emplace(1) [of "[]" env] r(3) by simp
  have "mset (isr_env (irq_submit r)) \<subseteq># mset env" using fold_emplace(2) [of "[]" env] r(3) by simp
  from request_bytes_shrink [OF r(4) this] obtain bs' where
      b: "request_bytes r (isr_env (irq_submit r)) = Some bs'" "length bs' \<le> length bs" by blast
  with r have e: "encode_request_payload r [] = Some bs'"
    by (auto simp: encode_request_iff header_ok_def)
  from r(1) have v: "\<not> (irq_kind r = IpcRequestKind.kInspect \<and> irq_version r < 2)"
    by (simp add: header_ok_def)
  have "irq_kind r = IpcRequestKind.kSubmit \<longrightarrow> submit_bounds (irq_version r) (irq_submit r)"
    using b(1)
    by (auto simp: request_bytes_def encode_request_body_def write_all_Cons dest: encode_submit_bounds)
  with request_decodes [OF e wf v] r(1,2) e b(2) wf show ?thesis by auto
qed

text \<open>A submission of version 1 that sends the name \<open>B\<close> twice and the names out of order.\<close>

definition demo_env_bytes :: bytes where
  "demo_env_bytes = [1, 1, 0, 0, 0, 0, 0, 0, 0, 0, 3, 0, 0, 0,
     1, 0, 0, 0, 66, 1, 0, 0, 0, 49, 1, 0, 0, 0, 65, 0, 0, 0, 0, 1, 0, 0, 0, 66, 0, 0, 0, 0,
     1, 0, 0, 0, 0, 0]"

definition demo_env_request :: IpcRequest where
  "demo_env_request = IpcRequest_init\<lparr>irq_version := 1,
     irq_submit := IpcSubmitRequest_init\<lparr>isr_env := [(''A'', []), (''B'', ''1'')]\<rparr>\<rparr>"

lemma demo_env_decodes: "decode_request_payload demo_env_bytes = Inr demo_env_request"
proof -
  let ?env = "[(''B'', ''1''), (''A'', []), (''B'', [])]"
  have env: "isr_env (irq_submit demo_env_request) = foldl emplace_env [] ?env"
    by (simp add: demo_env_request_def emplace_env_def omap_contains_def)
  have bytes: "request_bytes demo_env_request ?env = Some demo_env_bytes"
    by (simp add: demo_env_request_def demo_env_bytes_def request_bytes_def request_encoding
        word_le_nat_alt)
  have "header_ok (irq_version demo_env_request) (irq_kind demo_env_request)"
    "request_wire demo_env_request = demo_env_request"
    by (simp_all add: demo_env_request_def IpcRequest_init_def header_ok_def request_wire_def
        ipc_version_supported_def kMinProtocolVersion_def kProtocolVersion_def)
  with env bytes have "decode_request_body demo_env_bytes = Inr (demo_env_request, [])"
    unfolding request_body_codec by blast
  then show ?thesis
    by (simp add: decode_request_payload_def decode_payload_iff demo_env_bytes_def ipc_limits)
qed

theorem request_accepted_witness:
  "\<exists>r. decode_request_payload demo_env_bytes = Inr r \<and> header_ok (irq_version r) (irq_kind r) \<and>
    request_wire r = r \<and> omap_wf (isr_env (irq_submit r)) \<and>
    (irq_kind r = IpcRequestKind.kSubmit \<longrightarrow> submit_bounds (irq_version r) (irq_submit r)) \<and>
    (\<exists>bs'. encode_request_payload r [] = Some bs' \<and> length bs' \<le> length demo_env_bytes
      \<and> decode_request_payload bs' = Inr r)"
  using request_accepted [OF demo_env_decodes] demo_env_decodes by blast

text \<open>The encoder accepts an INSPECT request of version 1, which no daemon accepts.\<close>

lemma inspect_v1_rejected:
  assumes "encode_request_payload r [] = Some bs" "irq_kind r = IpcRequestKind.kInspect"
    and "irq_version r = 1"
  shows "decode_request_payload bs = Inl kBadKind"
proof -
  from assms obtain w where bs: "bs = w_u8 1 @ w_u8 9 @ w" "length bs \<le> kMaxPayloadBytes"
    by (auto simp: encode_request_iff request_bytes_def write_all_Cons)
  have "r_header bs = Inl kBadKind"
    using bs(1)
    by (simp add: r_header_def r_bind_def r_u8_def w_u8_def r_check_def r_return_def r_fail_def
        ipc_version_supported_def kMinProtocolVersion_def kProtocolVersion_def word_le_nat_alt
        word_less_nat_alt)
  with bs(2) show ?thesis
    by (simp add: decode_request_payload_def decode_payload_def run_reader_def
        decode_request_body_def r_bind_def)
qed

lemma inspect_v1_rejected_witness:
  "\<exists>bs. encode_request_payload (IpcRequest_init\<lparr>irq_kind := IpcRequestKind.kInspect, irq_version := 1\<rparr>) []
      = Some bs \<and> decode_request_payload bs = Inl kBadKind"
proof -
  let ?r = "IpcRequest_init\<lparr>irq_kind := IpcRequestKind.kInspect, irq_version := 1\<rparr>"
  have "encode_request_payload ?r [] = Some ([1, 9] @ w_u64 0)"
    by (simp add: request_encoding word_le_nat_alt)
  with inspect_v1_rejected [OF this] show ?thesis by simp
qed

section \<open>Stream frames\<close>

text \<open>Property C33. A stream payload is accepted exactly if it is the encoding of the frame that is
  returned, and that frame carries nothing but the fields of its kind; conversely every frame the
  daemon can encode is decoded to its wire form.\<close>

theorem stream_frame_exact:
  "(decode_stream_frame_payload bs = Inr f \<longleftrightarrow>
     stream_frame_wire f = f \<and> encode_stream_frame_payload f [] = Some bs) \<and>
   (\<forall>g. encode_stream_frame_payload g [] = Some bs \<longrightarrow>
     decode_stream_frame_payload bs = Inr (stream_frame_wire g))"
proof -
  have iff: "decode_stream_frame_payload bs = Inr f \<longleftrightarrow>
      stream_frame_wire f = f \<and> encode_stream_frame_payload f [] = Some bs" for f
    by (auto simp: decode_stream_frame_payload_def decode_payload_iff stream_body_codec
        encode_stream_frame_iff)
  show ?thesis unfolding iff by (auto simp: stream_frame_wire_laws encode_stream_frame_iff)
qed

definition demo_frame :: IpcStreamFrame where
  "demo_frame = IpcStreamFrame_init\<lparr>isf_kind := kLogGap, isf_stream := 1, isf_begin_offset := 2,
     isf_end_offset := 259, isf_job_state := 3\<rparr>"

lemma demo_frame_bytes:
  "encode_stream_frame_payload demo_frame [] =
     Some [1, 2, 1, 2, 0, 0, 0, 0, 0, 0, 0, 3, 1, 0, 0, 0, 0, 0, 0]"
  by (simp add: demo_frame_def encode_stream_frame_payload_def encode_payload_def
      encode_stream_frame_body_def IpcStreamFrame_init_def kStreamFrameVersion_def
      kUnderlyingStreamMax_def w_u8_def w_u64_def ipc_limits)

theorem stream_frame_exact_witness:
  "decode_stream_frame_payload [1, 2, 1, 2, 0, 0, 0, 0, 0, 0, 0, 3, 1, 0, 0, 0, 0, 0, 0] =
     Inr (stream_frame_wire demo_frame)"
  using stream_frame_exact demo_frame_bytes by blast

end
