(* ===== verification/Launch.thy ===== *)
theory Launch
  imports Job_Model Process_Identity
begin

text \<open>
  The launch side of a job: \<^verbatim>\<open>src/include/yori/launch/launch_adapter.hpp\<close>,
  \<^verbatim>\<open>src/src/launch/launch_adapter.cpp\<close>, \<^verbatim>\<open>src/include/yori/launch/environment_capture.hpp\<close> and
  \<^verbatim>\<open>src/src/launch/environment_capture.cpp\<close>. The validations of profile, identity and launch plan, the
  merge of the environment layers in \<open>prepare\<close>, and on the side of the client the capture of the
  environment and the search for the executable. The password database, the group database and
  \<open>access(2)\<close> are parameters; the child process of \<open>probe_python_version\<close> is left out, its parser is
  modelled.
\<close>

section \<open>Assignment, profile and identity\<close>

record GpuAssignment =
  ga_uuid :: GpuUuid
  ga_physical_index :: u32
  ga_logical_index :: u32

definition ga_valid :: "GpuAssignment \<Rightarrow> bool" where
  "ga_valid a \<longleftrightarrow> uuid_valid (ga_uuid a)"

datatype GpuMappingMode = kCudaVisibleDevices | kPhysicalArgument

fun GpuMappingMode_to_string :: "GpuMappingMode \<Rightarrow> string" where
  "GpuMappingMode_to_string kCudaVisibleDevices = ''cuda_visible_devices''"
| "GpuMappingMode_to_string kPhysicalArgument = ''physical_argument''"

definition kMaxPhysicalArgumentBytes :: nat where
  "kMaxPhysicalArgumentBytes = 64"

record LaunchProfile =
  pf_mode :: GpuMappingMode
  pf_physical_argument :: string

datatype LaunchProfileErrorCode =
    kNone | kPhysicalArgumentMissing | kPhysicalArgumentUnexpected | kInvalidPhysicalArgument
  | kPhysicalArgumentTooLong

definition validate_profile :: "LaunchProfile \<Rightarrow> LaunchProfileErrorCode" where
  "validate_profile profile =
     (let argument = pf_physical_argument profile in
      case pf_mode profile of
        kCudaVisibleDevices \<Rightarrow>
          if argument \<noteq> [] then kPhysicalArgumentUnexpected else LaunchProfileErrorCode.kNone
      | kPhysicalArgument \<Rightarrow>
          if argument = [] then kPhysicalArgumentMissing
          else if hd argument \<noteq> CHR ''-'' \<or> contains_nul argument \<or> CHR '' '' \<in> set argument
                  \<or> length argument > kMaxPhysicalArgumentBytes
            then kInvalidPhysicalArgument
          else LaunchProfileErrorCode.kNone)"

fun LaunchProfileErrorCode_to_string :: "LaunchProfileErrorCode \<Rightarrow> string" where
  "LaunchProfileErrorCode_to_string LaunchProfileErrorCode.kNone = ''none''"
| "LaunchProfileErrorCode_to_string kPhysicalArgumentMissing =
     ''physical_argument mode requires a physical argument name''"
| "LaunchProfileErrorCode_to_string kPhysicalArgumentUnexpected =
     ''physical_argument is not used in cuda_visible_devices mode''"
| "LaunchProfileErrorCode_to_string kInvalidPhysicalArgument = ''invalid physical argument''"
| "LaunchProfileErrorCode_to_string kPhysicalArgumentTooLong = ''physical argument too long''"

definition kMaxUsernameBytes :: nat where
  "kMaxUsernameBytes = 64"

definition kMaxPathBytes :: nat where
  "kMaxPathBytes = 4096"

definition kMaxSupplementaryGroups :: nat where
  "kMaxSupplementaryGroups = 64"

record IdentityInfo =
  ii_uid :: u32
  ii_gid :: u32
  ii_username :: string
  ii_home :: string
  ii_shell :: string
  ii_supplementary_groups :: "u32 list"

datatype IdentityErrorCode =
    kNone | kRootIdentityNotAllowed | kInvalidUid | kInvalidGid | kInvalidUsername
  | kUsernameTooLong | kInvalidHome | kHomeTooLong | kInvalidShell | kShellTooLong
  | kTooManySupplementaryGroups

definition validate_identity :: "IdentityInfo \<Rightarrow> IdentityErrorCode" where
  "validate_identity identity =
     (if ii_uid identity = 0 then kRootIdentityNotAllowed
      else if ii_gid identity = 0 then kInvalidGid
      else if ii_username identity = [] \<or> contains_nul (ii_username identity)
        then IdentityErrorCode.kInvalidUsername
      else if length (ii_username identity) > kMaxUsernameBytes then kUsernameTooLong
      else if ii_home identity \<noteq> []
              \<and> (contains_nul (ii_home identity) \<or> length (ii_home identity) > kMaxPathBytes)
        then kInvalidHome
      else if ii_shell identity \<noteq> []
              \<and> (contains_nul (ii_shell identity) \<or> length (ii_shell identity) > kMaxPathBytes)
        then kInvalidShell
      else if length (ii_supplementary_groups identity) > kMaxSupplementaryGroups
        then kTooManySupplementaryGroups
      else IdentityErrorCode.kNone)"

fun IdentityErrorCode_to_string :: "IdentityErrorCode \<Rightarrow> string" where
  "IdentityErrorCode_to_string IdentityErrorCode.kNone = ''none''"
| "IdentityErrorCode_to_string kRootIdentityNotAllowed = ''root identity is not allowed''"
| "IdentityErrorCode_to_string kInvalidUid = ''invalid uid''"
| "IdentityErrorCode_to_string kInvalidGid = ''invalid gid''"
| "IdentityErrorCode_to_string IdentityErrorCode.kInvalidUsername = ''invalid username''"
| "IdentityErrorCode_to_string kUsernameTooLong = ''username too long''"
| "IdentityErrorCode_to_string kInvalidHome = ''invalid home''"
| "IdentityErrorCode_to_string kHomeTooLong = ''home too long''"
| "IdentityErrorCode_to_string kInvalidShell = ''invalid shell''"
| "IdentityErrorCode_to_string kShellTooLong = ''shell too long''"
| "IdentityErrorCode_to_string kTooManySupplementaryGroups = ''too many supplementary groups''"

datatype IdentityResolveErrorCode = kNone | kNotFound | kBackendUnavailable

record IdentityResolveResult =
  irr_code :: IdentityResolveErrorCode
  irr_identity :: IdentityInfo
  irr_message :: string

definition blank_identity_info :: IdentityInfo where
  "blank_identity_info = \<lparr>ii_uid = 0, ii_gid = 0, ii_username = '''', ii_home = '''', ii_shell = '''',
     ii_supplementary_groups = []\<rparr>"

text \<open>The entry \<open>getpwuid_r\<close> fills in, with \<open>None\<close> for a null pointer, beside its return code; and the
  group list, \<open>None\<close> where \<open>getgrouplist\<close> returns \<open>-1\<close>.\<close>

record passwd_entry =
  pw_gid :: u32
  pw_name :: "string option"
  pw_dir :: "string option"
  pw_shell :: "string option"

type_synonym passwd_db = "u32 \<Rightarrow> int \<times> passwd_entry option"
type_synonym group_db = "string \<Rightarrow> u32 \<Rightarrow> u32 list option"

definition ENOENT :: int where
  "ENOENT = 2"

definition resolve_failed :: "IdentityResolveErrorCode \<Rightarrow> string \<Rightarrow> IdentityResolveResult" where
  "resolve_failed c message =
     \<lparr>irr_code = c, irr_identity = blank_identity_info, irr_message = message\<rparr>"

definition resolve_identity :: "passwd_db \<Rightarrow> group_db \<Rightarrow> u32 \<Rightarrow> IdentityResolveResult" where
  "resolve_identity getpwuid_r getgrouplist uid =
     (if uid = 0 then resolve_failed IdentityResolveErrorCode.kNotFound ''uid 0 is not a valid job owner''
      else case getpwuid_r uid of (rc, entry) \<Rightarrow>
        if rc = ENOENT \<or> entry = None
          then resolve_failed IdentityResolveErrorCode.kNotFound ''passwd entry not found for uid''
        else if rc \<noteq> 0 then resolve_failed kBackendUnavailable ''getpwuid_r failed''
        else
          let pwd = the entry; text = (\<lambda>f. case f pwd of None \<Rightarrow> '''' | Some t \<Rightarrow> t) in
          case getgrouplist (text pw_name) (pw_gid pwd) of
            None \<Rightarrow> resolve_failed kBackendUnavailable
                      ''user belongs to more groups than the supported limit''
          | Some groups \<Rightarrow>
              let identity = \<lparr>ii_uid = uid, ii_gid = pw_gid pwd, ii_username = text pw_name,
                              ii_home = text pw_dir, ii_shell = text pw_shell,
                              ii_supplementary_groups = groups\<rparr>;
                  check = validate_identity identity in
              if check \<noteq> IdentityErrorCode.kNone
                then resolve_failed kBackendUnavailable (IdentityErrorCode_to_string check)
              else \<lparr>irr_code = IdentityResolveErrorCode.kNone, irr_identity = identity,
                    irr_message = ''''\<rparr>)"

section \<open>Launch plan\<close>

type_synonym EnvironmentEntry = "string \<times> string"

record LaunchPlan =
  lp_argv :: "string list"
  lp_env :: "EnvironmentEntry list"
  lp_cwd :: string
  lp_executable :: string
  lp_uid :: u32
  lp_gid :: u32
  lp_username :: string
  lp_supplementary_groups :: "u32 list"

definition blank_plan :: LaunchPlan where
  "blank_plan = \<lparr>lp_argv = [], lp_env = [], lp_cwd = '''', lp_executable = '''', lp_uid = 0, lp_gid = 0,
     lp_username = '''', lp_supplementary_groups = []\<rparr>"

datatype LaunchPlanErrorCode =
    kNone | kEmptyArguments | kTooManyArguments | kInvalidArgument | kArgumentTooLong
  | kArgumentsTooLarge | kInvalidWorkingDirectory | kWorkingDirectoryTooLong
  | kTooManyEnvironmentVariables | kInvalidEnvironmentName | kEnvironmentNameTooLong
  | kEnvironmentValueTooLong | kEnvironmentTooLarge | kInvalidExecutable | kInvalidIdentity
  | kInvalidUsername | kInvalidJobId

fun LaunchPlanErrorCode_to_string :: "LaunchPlanErrorCode \<Rightarrow> string" where
  "LaunchPlanErrorCode_to_string LaunchPlanErrorCode.kNone = ''none''"
| "LaunchPlanErrorCode_to_string LaunchPlanErrorCode.kEmptyArguments = ''empty arguments''"
| "LaunchPlanErrorCode_to_string LaunchPlanErrorCode.kTooManyArguments = ''too many arguments''"
| "LaunchPlanErrorCode_to_string LaunchPlanErrorCode.kInvalidArgument = ''invalid argument''"
| "LaunchPlanErrorCode_to_string LaunchPlanErrorCode.kArgumentTooLong = ''argument too long''"
| "LaunchPlanErrorCode_to_string LaunchPlanErrorCode.kArgumentsTooLarge = ''arguments too large''"
| "LaunchPlanErrorCode_to_string LaunchPlanErrorCode.kInvalidWorkingDirectory =
     ''invalid working directory''"
| "LaunchPlanErrorCode_to_string LaunchPlanErrorCode.kWorkingDirectoryTooLong =
     ''working directory too long''"
| "LaunchPlanErrorCode_to_string LaunchPlanErrorCode.kTooManyEnvironmentVariables =
     ''too many environment variables''"
| "LaunchPlanErrorCode_to_string LaunchPlanErrorCode.kInvalidEnvironmentName =
     ''invalid environment name''"
| "LaunchPlanErrorCode_to_string LaunchPlanErrorCode.kEnvironmentNameTooLong =
     ''environment name too long''"
| "LaunchPlanErrorCode_to_string LaunchPlanErrorCode.kEnvironmentValueTooLong =
     ''environment value too long''"
| "LaunchPlanErrorCode_to_string LaunchPlanErrorCode.kEnvironmentTooLarge =
     ''environment too large''"
| "LaunchPlanErrorCode_to_string LaunchPlanErrorCode.kInvalidExecutable = ''invalid executable''"
| "LaunchPlanErrorCode_to_string LaunchPlanErrorCode.kInvalidIdentity = ''invalid identity''"
| "LaunchPlanErrorCode_to_string LaunchPlanErrorCode.kInvalidUsername = ''invalid username''"
| "LaunchPlanErrorCode_to_string LaunchPlanErrorCode.kInvalidJobId = ''invalid job id''"

record LaunchPlanValidationResult =
  lpv_code :: LaunchPlanErrorCode
  lpv_item_index :: "nat option"
  lpv_item_name :: "string option"

definition lpv_ok :: "LaunchPlanValidationResult \<Rightarrow> bool" where
  "lpv_ok r \<longleftrightarrow> lpv_code r = LaunchPlanErrorCode.kNone"

definition lpv ::
  "LaunchPlanErrorCode \<Rightarrow> nat option \<Rightarrow> string option \<Rightarrow> LaunchPlanValidationResult" where
  "lpv c i n = \<lparr>lpv_code = c, lpv_item_index = i, lpv_item_name = n\<rparr>"

definition is_name_char :: "char \<Rightarrow> bool" where
  "is_name_char c \<longleftrightarrow> (CHR ''A'' \<le> c \<and> c \<le> CHR ''Z'') \<or> (CHR ''a'' \<le> c \<and> c \<le> CHR ''z'')
     \<or> (CHR ''0'' \<le> c \<and> c \<le> CHR ''9'') \<or> c = CHR ''_''"

definition plan_environment_name_valid :: "string \<Rightarrow> bool" where
  "plan_environment_name_valid name \<longleftrightarrow>
     (if name = [] \<or> length name > kMaxEnvironmentNameBytes \<or> contains_nul name then False
      else if hd name = CHR ''='' \<or> CHR ''='' \<in> set name then False
      else list_all is_name_char name)"

definition plan_add_within_limit :: "nat \<Rightarrow> nat \<Rightarrow> nat \<Rightarrow> nat option" where
  "plan_add_within_limit bytes tot limit =
     (if bytes > limit \<or> tot > limit - bytes then None else Some (tot + bytes))"

fun check_plan_arguments :: "string list \<Rightarrow> nat \<Rightarrow> nat \<Rightarrow> LaunchPlanValidationResult option" where
  "check_plan_arguments [] i argument_bytes = None"
| "check_plan_arguments (argument # rest) i argument_bytes =
     (if argument = [] \<or> contains_nul argument
        then Some (lpv LaunchPlanErrorCode.kInvalidArgument (Some i) None)
      else if length argument > kMaxSingleArgumentBytes
        then Some (lpv LaunchPlanErrorCode.kArgumentTooLong (Some i) None)
      else case plan_add_within_limit (length argument) argument_bytes kMaxArgumentBytes of
             None \<Rightarrow> Some (lpv LaunchPlanErrorCode.kArgumentsTooLarge (Some i) None)
           | Some tot \<Rightarrow> check_plan_arguments rest (Suc i) tot)"

fun check_plan_environment ::
  "EnvironmentEntry list \<Rightarrow> nat \<Rightarrow> nat \<Rightarrow> LaunchPlanValidationResult option" where
  "check_plan_environment [] i environment_bytes = None"
| "check_plan_environment ((name, value) # rest) i environment_bytes =
     (if \<not> plan_environment_name_valid name
        then Some (lpv LaunchPlanErrorCode.kInvalidEnvironmentName (Some i) (Some name))
      else if length value > kMaxEnvironmentValueBytes \<or> contains_nul value
        then Some (lpv LaunchPlanErrorCode.kEnvironmentValueTooLong (Some i) (Some name))
      else case plan_add_within_limit (length name + length value) environment_bytes
                  kMaxEnvironmentBytes of
             None \<Rightarrow> Some (lpv LaunchPlanErrorCode.kEnvironmentTooLarge (Some i) (Some name))
           | Some tot \<Rightarrow> check_plan_environment rest (Suc i) tot)"

definition validate_plan :: "LaunchPlan \<Rightarrow> LaunchPlanValidationResult" where
  "validate_plan plan =
     (if lp_argv plan = [] then lpv LaunchPlanErrorCode.kEmptyArguments None None
      else if length (lp_argv plan) > kMaxArgumentCount
        then lpv LaunchPlanErrorCode.kTooManyArguments None None
      else case check_plan_arguments (lp_argv plan) 0 0 of
        Some e \<Rightarrow> e
      | None \<Rightarrow>
          if length (lp_cwd plan) > kMaxWorkingDirectoryBytes \<or> contains_nul (lp_cwd plan)
            then lpv LaunchPlanErrorCode.kInvalidWorkingDirectory None None
          else if lp_cwd plan \<noteq> [] \<and> hd (lp_cwd plan) \<noteq> CHR ''/''
            then lpv LaunchPlanErrorCode.kInvalidWorkingDirectory None None
          else if lp_executable plan \<noteq> []
                  \<and> (hd (lp_executable plan) \<noteq> CHR ''/'' \<or> contains_nul (lp_executable plan)
                      \<or> length (lp_executable plan) > kMaxExecutableBytes)
            then lpv LaunchPlanErrorCode.kInvalidExecutable None None
          else if length (lp_env plan) > kMaxEnvironmentVariables
            then lpv LaunchPlanErrorCode.kTooManyEnvironmentVariables None None
          else (case check_plan_environment (lp_env plan) 0 0 of
            Some e \<Rightarrow> e
          | None \<Rightarrow>
              if lp_uid plan = 0 \<or> lp_gid plan = 0
                then lpv LaunchPlanErrorCode.kInvalidIdentity None None
              else if lp_username plan = [] \<or> contains_nul (lp_username plan)
                      \<or> length (lp_username plan) > kMaxUsernameBytes
                then lpv LaunchPlanErrorCode.kInvalidUsername None None
              else if length (lp_supplementary_groups plan) > kMaxSupplementaryGroups
                then lpv LaunchPlanErrorCode.kInvalidIdentity None None
              else lpv LaunchPlanErrorCode.kNone None None))"

section \<open>Environment policy and \<open>prepare\<close>\<close>

record EnvironmentPolicy =
  ep_exact_keys :: "string list"
  ep_prefix_keys :: "string list"

definition policy_defaults :: EnvironmentPolicy where
  "policy_defaults =
     \<lparr>ep_exact_keys = [''LANG'', ''PATH'', ''TERM'', ''TZ''], ep_prefix_keys = [''LC_'']\<rparr>"

text \<open>\<open>name.rfind(prefix, 0) == 0\<close>.\<close>

definition has_prefix :: "string \<Rightarrow> string \<Rightarrow> bool" where
  "has_prefix pre name \<longleftrightarrow> take (length pre) name = pre"

definition policy_accepts :: "EnvironmentPolicy \<Rightarrow> string \<Rightarrow> bool" where
  "policy_accepts p name \<longleftrightarrow>
     list_ex (\<lambda>key. name = key) (ep_exact_keys p)
     \<or> list_ex (\<lambda>pre. has_prefix pre name) (ep_prefix_keys p)"

definition kReserved :: "string list" where
  "kReserved = [''CUDA_DEVICE_ORDER'', ''CUDA_VISIBLE_DEVICES'', ''HOME'', ''LD_PRELOAD'', ''LOGNAME'',
     ''SHELL'', ''USER'']"

definition is_reserved_environment_key :: "string \<Rightarrow> bool" where
  "is_reserved_environment_key name \<longleftrightarrow> name \<in> set kReserved \<or> has_prefix ''YORI_'' name"

datatype LaunchPrepareErrorCode =
    kNone | kInvalidSpec | kInvalidProfile | kInvalidIdentity | kInvalidGpuAssignment
  | kReservedEnvironmentKey

record LaunchPlanResult =
  lpr_code :: LaunchPrepareErrorCode
  lpr_plan :: LaunchPlan
  lpr_reserved_key :: "string option"
  lpr_message :: string

record DefaultLaunchAdapter =
  la_policy :: EnvironmentPolicy
  la_daemon_environment :: "EnvironmentEntry list"

definition DefaultLaunchAdapter_init :: DefaultLaunchAdapter where
  "DefaultLaunchAdapter_init = \<lparr>la_policy = policy_defaults, la_daemon_environment = []\<rparr>"

definition set_daemon_environment ::
  "EnvironmentEntry list \<Rightarrow> DefaultLaunchAdapter \<Rightarrow> DefaultLaunchAdapter" where
  "set_daemon_environment environment a = a\<lparr>la_daemon_environment := environment\<rparr>"

definition set_environment_policy ::
  "EnvironmentPolicy \<Rightarrow> DefaultLaunchAdapter \<Rightarrow> DefaultLaunchAdapter" where
  "set_environment_policy policy a = a\<lparr>la_policy := policy\<rparr>"

definition prepare_failed ::
  "LaunchPrepareErrorCode \<Rightarrow> string option \<Rightarrow> string \<Rightarrow> LaunchPlanResult" where
  "prepare_failed c reserved message =
     \<lparr>lpr_code = c, lpr_plan = blank_plan, lpr_reserved_key = reserved, lpr_message = message\<rparr>"

text \<open>The four layers; a later write replaces an earlier one.\<close>

definition put_all :: "EnvironmentEntry list \<Rightarrow> (string, string) omap \<Rightarrow> (string, string) omap" where
  "put_all entries env = foldl (\<lambda>m e. omap_put (fst e) (snd e) m) env entries"

definition merge_environment ::
  "DefaultLaunchAdapter \<Rightarrow> JobId \<Rightarrow> JobSpec \<Rightarrow> GpuAssignment \<Rightarrow> LaunchProfile \<Rightarrow> IdentityInfo
    \<Rightarrow> (string, string) omap" where
  "merge_environment a job_id spec assignment profile identity =
     (let env = put_all [(''HOME'', ii_home identity), (''USER'', ii_username identity),
                         (''LOGNAME'', ii_username identity), (''SHELL'', ii_shell identity)] [];
          env = put_all (filter (\<lambda>e. policy_accepts (la_policy a) (fst e)) (la_daemon_environment a)) env;
          env = put_all (js_env spec) env;
          env = omap_put ''YORI_JOB_ID'' (std_to_string (unat job_id)) env;
          env = omap_put ''YORI_GPU_UUID'' (ga_uuid assignment) env
      in case pf_mode profile of
           kCudaVisibleDevices \<Rightarrow>
             omap_put ''CUDA_DEVICE_ORDER'' ''PCI_BUS_ID''
               (omap_put ''CUDA_VISIBLE_DEVICES'' (std_to_string (unat (ga_physical_index assignment))) env)
         | kPhysicalArgument \<Rightarrow> env)"

definition mapped_arguments :: "JobSpec \<Rightarrow> GpuAssignment \<Rightarrow> LaunchProfile \<Rightarrow> string list" where
  "mapped_arguments spec assignment profile =
     (case pf_mode profile of
        kCudaVisibleDevices \<Rightarrow> js_argv spec
      | kPhysicalArgument \<Rightarrow>
          js_argv spec @ [pf_physical_argument profile, std_to_string (unat (ga_physical_index assignment))])"

definition prepared_plan ::
  "DefaultLaunchAdapter \<Rightarrow> JobId \<Rightarrow> JobSpec \<Rightarrow> GpuAssignment \<Rightarrow> LaunchProfile \<Rightarrow> IdentityInfo
    \<Rightarrow> LaunchPlan" where
  "prepared_plan a job_id spec assignment profile identity =
     \<lparr>lp_argv = mapped_arguments spec assignment profile,
      lp_env = merge_environment a job_id spec assignment profile identity,
      lp_cwd = js_cwd spec,
      lp_executable = (case js_executable spec of None \<Rightarrow> '''' | Some e \<Rightarrow> e),
      lp_uid = ii_uid identity, lp_gid = ii_gid identity, lp_username = ii_username identity,
      lp_supplementary_groups = ii_supplementary_groups identity\<rparr>"

definition prepare ::
  "DefaultLaunchAdapter \<Rightarrow> JobId \<Rightarrow> JobSpec \<Rightarrow> GpuAssignment \<Rightarrow> LaunchProfile \<Rightarrow> IdentityInfo
    \<Rightarrow> LaunchPlanResult" where
  "prepare a job_id spec assignment profile identity =
     (if \<not> job_id_valid job_id
        then prepare_failed LaunchPrepareErrorCode.kInvalidSpec None ''invalid job id''
      else if \<not> jsv_ok (job_validate spec)
        then prepare_failed LaunchPrepareErrorCode.kInvalidSpec None
               (JobSpecErrorCode_to_string (jsv_code (job_validate spec)))
      else if validate_profile profile \<noteq> LaunchProfileErrorCode.kNone
        then prepare_failed kInvalidProfile None
               (LaunchProfileErrorCode_to_string (validate_profile profile))
      else if validate_identity identity \<noteq> IdentityErrorCode.kNone
        then prepare_failed LaunchPrepareErrorCode.kInvalidIdentity None
               (IdentityErrorCode_to_string (validate_identity identity))
      else if \<not> ga_valid assignment
        then prepare_failed kInvalidGpuAssignment None ''invalid gpu assignment uuid''
      else case find (\<lambda>e. is_reserved_environment_key (fst e)) (js_env spec) of
        Some e \<Rightarrow> prepare_failed kReservedEnvironmentKey (Some (fst e))
                    ''job environment may not override reserved key''
      | None \<Rightarrow>
          let plan = prepared_plan a job_id spec assignment profile identity;
              check = validate_plan plan in
          if \<not> lpv_ok check
            then prepare_failed LaunchPrepareErrorCode.kInvalidSpec None
                   (LaunchPlanErrorCode_to_string (lpv_code check))
          else \<lparr>lpr_code = LaunchPrepareErrorCode.kNone, lpr_plan = plan, lpr_reserved_key = None,
                lpr_message = ''''\<rparr>)"

section \<open>Capture of the client's environment\<close>

record EnvironmentCapturePolicy =
  cp_extra_keys :: "string list"
  cp_inherit_all :: bool

definition capture_defaults :: EnvironmentCapturePolicy where
  "capture_defaults = \<lparr>cp_extra_keys = [], cp_inherit_all = False\<rparr>"

definition kDefaultKeys :: "string list" where
  "kDefaultKeys = [''CONDA_DEFAULT_ENV'', ''CONDA_PREFIX'', ''CUDA_HOME'', ''CUDA_PATH'', ''HTTP_PROXY'',
     ''HTTPS_PROXY'', ''LD_LIBRARY_PATH'', ''MKL_NUM_THREADS'', ''NO_PROXY'', ''OMP_NUM_THREADS'',
     ''PATH'', ''PYTHONPATH'', ''VIRTUAL_ENV'', ''http_proxy'', ''https_proxy'']"

definition captures :: "EnvironmentCapturePolicy \<Rightarrow> string \<Rightarrow> bool" where
  "captures p name \<longleftrightarrow>
     (if is_reserved_environment_key name then False
      else if cp_inherit_all p then True
      else if name = ''no_proxy'' then True
      else if name \<in> set kDefaultKeys then True
      else name \<in> set (cp_extra_keys p))"

datatype EnvironmentCaptureErrorCode =
  kNone | kInvalidName | kTooManyVariables | kValueTooLong | kTooLarge

fun EnvironmentCaptureErrorCode_to_string :: "EnvironmentCaptureErrorCode \<Rightarrow> string" where
  "EnvironmentCaptureErrorCode_to_string EnvironmentCaptureErrorCode.kNone = ''none''"
| "EnvironmentCaptureErrorCode_to_string EnvironmentCaptureErrorCode.kInvalidName =
     ''invalid environment name in source''"
| "EnvironmentCaptureErrorCode_to_string kTooManyVariables =
     ''captured environment exceeds the variable count limit''"
| "EnvironmentCaptureErrorCode_to_string kValueTooLong =
     ''captured environment value exceeds the single value limit''"
| "EnvironmentCaptureErrorCode_to_string kTooLarge =
     ''captured environment exceeds the total size limit''"

record EnvironmentCaptureResult =
  ecr_code :: EnvironmentCaptureErrorCode
  ecr_offending_name :: string
  ecr_env :: "(string, string) omap"

definition capture_name_valid :: "string \<Rightarrow> bool" where
  "capture_name_valid name \<longleftrightarrow>
     (if name = [] \<or> length name > kMaxEnvironmentNameBytes \<or> contains_nul name \<or> CHR ''='' \<in> set name
      then False else list_all is_name_char name)"

definition capture_failed :: "EnvironmentCaptureErrorCode \<Rightarrow> string \<Rightarrow> EnvironmentCaptureResult" where
  "capture_failed c name = \<lparr>ecr_code = c, ecr_offending_name = name, ecr_env = []\<rparr>"

fun capture_loop ::
  "EnvironmentCapturePolicy \<Rightarrow> EnvironmentEntry list \<Rightarrow> nat \<Rightarrow> (string, string) omap
    \<Rightarrow> EnvironmentCaptureResult" where
  "capture_loop policy [] total_bytes env =
     \<lparr>ecr_code = EnvironmentCaptureErrorCode.kNone, ecr_offending_name = '''', ecr_env = env\<rparr>"
| "capture_loop policy ((name, value) # rest) total_bytes env =
     (if \<not> captures policy name then capture_loop policy rest total_bytes env
      else if \<not> capture_name_valid name then capture_loop policy rest total_bytes env
      else if length env \<ge> kMaxEnvironmentVariables then capture_failed kTooManyVariables name
      else if length value > kMaxEnvironmentValueBytes then capture_failed kValueTooLong name
      else
        let entry_bytes = length name + length value in
        if entry_bytes > kMaxEnvironmentBytes \<or> total_bytes > kMaxEnvironmentBytes - entry_bytes
          then capture_failed kTooLarge name
        else capture_loop policy rest (total_bytes + entry_bytes)
               (if omap_contains name env then env else omap_put name value env))"

definition capture_environment ::
  "EnvironmentEntry list \<Rightarrow> EnvironmentCapturePolicy \<Rightarrow> EnvironmentCaptureResult" where
  "capture_environment source policy = capture_loop policy source 0 []"

section \<open>Search for the executable\<close>

datatype ExecutableResolveErrorCode =
  kNone | kEmptyName | kInvalidName | kRelativeWithoutCwd | kNotFound | kNotExecutable

fun ExecutableResolveErrorCode_to_string :: "ExecutableResolveErrorCode \<Rightarrow> string" where
  "ExecutableResolveErrorCode_to_string ExecutableResolveErrorCode.kNone = ''none''"
| "ExecutableResolveErrorCode_to_string kEmptyName = ''empty command name''"
| "ExecutableResolveErrorCode_to_string ExecutableResolveErrorCode.kInvalidName =
     ''invalid command name''"
| "ExecutableResolveErrorCode_to_string kRelativeWithoutCwd =
     ''relative command requires a working directory''"
| "ExecutableResolveErrorCode_to_string ExecutableResolveErrorCode.kNotFound =
     ''executable not found''"
| "ExecutableResolveErrorCode_to_string kNotExecutable = ''target is not executable''"

record ExecutableResolveResult =
  erx_code :: ExecutableResolveErrorCode
  erx_executable :: string
  erx_message :: string

text \<open>\<open>access(path, X_OK)\<close>: \<open>0\<close> on success, otherwise the value of \<open>errno\<close>.\<close>

type_synonym access_x = "string \<Rightarrow> int"

definition EACCES :: int where
  "EACCES = 13"

definition probe_candidate :: "access_x \<Rightarrow> string \<Rightarrow> ExecutableResolveErrorCode" where
  "probe_candidate access_of candidate =
     (if access_of candidate = 0 then ExecutableResolveErrorCode.kNone
      else if access_of candidate = EACCES then kNotExecutable
      else ExecutableResolveErrorCode.kNotFound)"

definition join_segment :: "string \<Rightarrow> string \<Rightarrow> string" where
  "join_segment dir name = (if last dir \<noteq> CHR ''/'' then dir @ ''/'' else dir) @ name"

text \<open>The search along \<open>PATH\<close>, on the suffix that starts at \<open>begin\<close>.\<close>

function search_path :: "access_x \<Rightarrow> string \<Rightarrow> string \<Rightarrow> string option" where
  "search_path access_of argv0 path =
     (let segment = takeWhile (\<lambda>c. c \<noteq> CHR '':'') path; candidate = join_segment segment argv0 in
      if segment \<noteq> [] \<and> probe_candidate access_of candidate = ExecutableResolveErrorCode.kNone
        then Some candidate
      else case dropWhile (\<lambda>c. c \<noteq> CHR '':'') path of
             [] \<Rightarrow> None
           | _ # rest \<Rightarrow> search_path access_of argv0 rest)"
  by pat_completeness auto
termination
proof (relation "measure (\<lambda>(_, _, p). length p)", goal_cases)
  case (2 access_of argv0 path segment candidate c rest)
  then have "length (c # rest) \<le> length path" by (metis length_dropWhile_le)
  then show ?case by simp
qed simp

declare search_path.simps [simp del]

definition resolved :: "access_x \<Rightarrow> string \<Rightarrow> ExecutableResolveResult" where
  "resolved access_of path =
     (let probed = probe_candidate access_of path in
      \<lparr>erx_code = probed,
       erx_executable = (if probed = ExecutableResolveErrorCode.kNone then path else ''''),
       erx_message = (if probed = ExecutableResolveErrorCode.kNone then ''''
                      else ExecutableResolveErrorCode_to_string probed)\<rparr>)"

definition resolve_executable ::
  "access_x \<Rightarrow> string \<Rightarrow> string \<Rightarrow> (string, string) omap \<Rightarrow> ExecutableResolveResult" where
  "resolve_executable access_of argv0 cwd captured_env =
     (if argv0 = []
        then \<lparr>erx_code = kEmptyName, erx_executable = '''', erx_message = ''argv[0] is empty''\<rparr>
      else if contains_nul argv0 \<or> length argv0 > kMaxExecutableBytes
        then \<lparr>erx_code = ExecutableResolveErrorCode.kInvalidName, erx_executable = '''',
              erx_message = ''argv[0] is invalid''\<rparr>
      else if CHR ''/'' \<in> set argv0 then
        (if hd argv0 = CHR ''/'' then resolved access_of argv0
         else if cwd = [] \<or> hd cwd \<noteq> CHR ''/''
           then \<lparr>erx_code = kRelativeWithoutCwd, erx_executable = '''',
                 erx_message = ''cwd must be absolute''\<rparr>
         else resolved access_of (join_segment cwd argv0))
      else
        let path = (case map_of captured_env ''PATH'' of
                      None \<Rightarrow> ''/usr/bin:/bin''
                    | Some p \<Rightarrow> if p = [] then ''/usr/bin:/bin'' else p) in
        case search_path access_of argv0 path of
          Some candidate \<Rightarrow> \<lparr>erx_code = ExecutableResolveErrorCode.kNone,
            erx_executable = candidate, erx_message = ''''\<rparr>
        | None \<Rightarrow> \<lparr>erx_code = ExecutableResolveErrorCode.kNotFound, erx_executable = '''',
            erx_message = ''command not found in captured PATH''\<rparr>)"

definition detect_environment_source :: "(string, string) omap \<Rightarrow> EnvSource" where
  "detect_environment_source captured_env =
     (if omap_contains ''CONDA_PREFIX'' captured_env then kConda
      else if omap_contains ''VIRTUAL_ENV'' captured_env then kVenv
      else EnvSource.kNone)"

section \<open>Version of the interpreter\<close>

text \<open>\<open>std::string::find\<close>: the text after the first occurrence.\<close>

fun find_after :: "string \<Rightarrow> string \<Rightarrow> string option" where
  "find_after pre [] = (if pre = [] then Some [] else None)"
| "find_after pre (c # text) =
     (if has_prefix pre (c # text) then Some (drop (length pre) (c # text)) else find_after pre text)"

definition parse_python_version :: "string \<Rightarrow> string option" where
  "parse_python_version output =
     (case find_after ''Python '' output of
        None \<Rightarrow> None
      | Some rest \<Rightarrow>
          let version = takeWhile (\<lambda>c. is_digit c \<or> c = CHR ''.'') rest in
          if version = [] \<or> length (filter is_digit version) < 2 then None else Some version)"

definition basename_contains_python :: "string \<Rightarrow> bool" where
  "basename_contains_python executable \<longleftrightarrow>
     find_after ''python'' (rev (takeWhile (\<lambda>c. c \<noteq> CHR ''/'') (rev executable))) \<noteq> None"

end
