(* ===== verification/Launch_Props.thy ===== *)
theory Launch_Props
  imports Launch
begin

text \<open>
  What a launch plan contains: the environment of a prepared plan in closed form, the validation of
  a plan without its loops, and the captured environment of a client, which the validations of
  the daemon accept.
\<close>

section \<open>Numbers\<close>

lemma decimal_value_snoc: "decimal_value (ds @ [c]) = 10 * decimal_value ds + digit_value c"
  by (simp add: decimal_value_def)

lemma of_char_digit: "d < 10 \<Longrightarrow> (of_char (char_of (48 + d) :: char) :: nat) = 48 + d"
  by simp

lemma std_to_string_value: "digits_ok (std_to_string n) \<and> decimal_value (std_to_string n) = n"
proof (induction n rule: std_to_string.induct)
  case (1 n)
  show ?case
  proof (cases "n < 10")
    case True
    then show ?thesis
      by (subst (1 2) std_to_string.simps)
        (simp add: digits_ok_def is_digit_def decimal_value_def digit_value_def)
  next
    case False
    with 1 have "digits_ok (std_to_string (n div 10))"
      and "decimal_value (std_to_string (n div 10)) = n div 10" by simp_all
    moreover have "std_to_string n = std_to_string (n div 10) @ [char_of (48 + n mod 10)]"
      using False by (subst std_to_string.simps) simp
    ultimately show ?thesis
      using of_char_digit [of "n mod 10"]
      by (auto simp: digits_ok_def is_digit_def decimal_value_snoc digit_value_def)
  qed
qed

lemma std_to_string_length: "n < 10 ^ k \<Longrightarrow> 0 < k \<Longrightarrow> length (std_to_string n) \<le> k"
proof (induction k arbitrary: n)
  case (Suc k)
  show ?case
  proof (cases "n < 10")
    case True
    then show ?thesis by (subst std_to_string.simps) simp
  next
    case False
    with Suc.prems have "n div 10 < 10 ^ k" "0 < k" by (auto intro: Suc_leI gr0I)
    with Suc.IH [of "n div 10"] False show ?thesis by (subst std_to_string.simps) simp
  qed
qed simp

section \<open>The merged environment\<close>

lemma put_all_lookup: "map_of (put_all es m) k = (case map_of (rev es) k of Some v \<Rightarrow> Some v | None \<Rightarrow> map_of m k)"
proof (induction es rule: rev_induct)
  case (snoc e es)
  then show ?case by (cases e) (simp add: put_all_def omap_simps)
qed (simp add: put_all_def)

lemma put_all_wf: "omap_wf m \<Longrightarrow> omap_wf (put_all es m)"
  by (induction es rule: rev_induct) (auto simp: put_all_def)

lemma map_of_rev_wf: "omap_wf m \<Longrightarrow> map_of (rev m) = map_of m"
  using omap_wf_distinct [of m] by (simp add: map_of_inject_set rev_map [symmetric])

lemma map_of_filter_key:
  "map_of (filter (\<lambda>e. P (fst e)) es) k = (if P k then map_of es k else None)"
  by (induction es) auto

text \<open>The value of a name in a launched process, as the layers are documented: the facts of the
  scheduler, the identity, the captured environment, the accepted part of the daemon's.\<close>

definition launch_value ::
  "DefaultLaunchAdapter \<Rightarrow> JobId \<Rightarrow> JobSpec \<Rightarrow> GpuAssignment \<Rightarrow> LaunchProfile \<Rightarrow> IdentityInfo
    \<Rightarrow> string \<Rightarrow> string option" where
  "launch_value a job_id spec assignment profile identity k =
     (if k = ''YORI_JOB_ID'' then Some (std_to_string (unat job_id))
      else if k = ''YORI_GPU_UUID'' then Some (ga_uuid assignment)
      else if k = ''CUDA_VISIBLE_DEVICES'' \<and> pf_mode profile = kCudaVisibleDevices
        then Some (std_to_string (unat (ga_physical_index assignment)))
      else if k = ''CUDA_DEVICE_ORDER'' \<and> pf_mode profile = kCudaVisibleDevices then Some ''PCI_BUS_ID''
      else if k = ''HOME'' then Some (ii_home identity)
      else if k = ''USER'' \<or> k = ''LOGNAME'' then Some (ii_username identity)
      else if k = ''SHELL'' then Some (ii_shell identity)
      else case map_of (js_env spec) k of
        Some v \<Rightarrow> Some v
      | None \<Rightarrow> if policy_accepts (la_policy a) k then map_of (rev (la_daemon_environment a)) k else None)"

lemma policy_defaults_reserved: "policy_accepts policy_defaults k \<Longrightarrow> \<not> is_reserved_environment_key k"
  by (cases k)
    (auto simp: policy_accepts_def policy_defaults_def is_reserved_environment_key_def kReserved_def
      has_prefix_def)

lemma reserved_names:
  "is_reserved_environment_key ''HOME''" "is_reserved_environment_key ''USER''"
  "is_reserved_environment_key ''LOGNAME''" "is_reserved_environment_key ''SHELL''"
  "is_reserved_environment_key ''CUDA_VISIBLE_DEVICES''"
  "is_reserved_environment_key ''CUDA_DEVICE_ORDER''"
  by (simp_all add: is_reserved_environment_key_def kReserved_def)

lemma merge_environment_wf: "omap_wf (merge_environment a i spec asg pf ident)"
  by (auto simp: merge_environment_def Let_def put_all_wf split: GpuMappingMode.split
      intro!: omap_wf_put put_all_wf)

lemma merge_environment_lookup:
  assumes "omap_wf (js_env spec)" "list_all (\<lambda>e. \<not> is_reserved_environment_key (fst e)) (js_env spec)"
    and "\<And>k. policy_accepts (la_policy a) k \<Longrightarrow> \<not> is_reserved_environment_key k"
  shows "map_of (merge_environment a i spec asg pf ident) k = launch_value a i spec asg pf ident k"
proof -
  have user: "is_reserved_environment_key k \<Longrightarrow> map_of (js_env spec) k = None" for k
    using assms(2) by (auto simp: list_all_iff map_of_eq_None_iff)
  have daemon: "is_reserved_environment_key k \<Longrightarrow> \<not> policy_accepts (la_policy a) k" for k
    using assms(3) by blast
  show ?thesis
    using reserved_names user daemon
    by (cases "pf_mode pf")
      (auto simp: merge_environment_def launch_value_def Let_def omap_simps put_all_lookup rev_filter
        map_of_filter_key map_of_rev_wf [OF assms(1)] split: option.splits)
qed

text \<open>When \<open>prepare\<close> succeeds.\<close>

lemma find_None_all: "find P xs = None \<longleftrightarrow> list_all (\<lambda>x. \<not> P x) xs"
  by (auto simp: find_None_iff list_all_iff)

lemma prepare_ok_iff:
  "lpr_code (prepare a i spec asg pf ident) = LaunchPrepareErrorCode.kNone \<longleftrightarrow>
     job_id_valid i \<and> spec_ok spec \<and> validate_profile pf = LaunchProfileErrorCode.kNone \<and>
     validate_identity ident = IdentityErrorCode.kNone \<and> uuid_valid (ga_uuid asg) \<and>
     list_all (\<lambda>e. \<not> is_reserved_environment_key (fst e)) (js_env spec) \<and>
     lpv_ok (validate_plan (prepared_plan a i spec asg pf ident))"
  by (auto simp: prepare_def prepare_failed_def job_validate_iff ga_valid_def find_None_all [symmetric]
      Let_def split: option.splits)

lemma prepare_ok_plan:
  "lpr_code (prepare a i spec asg pf ident) = LaunchPrepareErrorCode.kNone \<Longrightarrow>
     lpr_plan (prepare a i spec asg pf ident) = prepared_plan a i spec asg pf ident"
  by (auto simp: prepare_def prepare_failed_def Let_def split: option.splits if_splits)

section \<open>Plans without the loops\<close>

definition plan_ok :: "LaunchPlan \<Rightarrow> bool" where
  "plan_ok p \<longleftrightarrow>
     lp_argv p \<noteq> [] \<and> length (lp_argv p) \<le> kMaxArgumentCount \<and>
     (\<forall>a \<in> set (lp_argv p). a \<noteq> [] \<and> \<not> contains_nul a \<and> length a \<le> kMaxSingleArgumentBytes) \<and>
     sum_list (map length (lp_argv p)) \<le> kMaxArgumentBytes \<and>
     (lp_cwd p \<noteq> [] \<longrightarrow> absolute_path_ok kMaxWorkingDirectoryBytes (lp_cwd p)) \<and>
     (lp_executable p \<noteq> [] \<longrightarrow> absolute_path_ok kMaxExecutableBytes (lp_executable p)) \<and>
     length (lp_env p) \<le> kMaxEnvironmentVariables \<and>
     (\<forall>(n, v) \<in> set (lp_env p). n \<noteq> [] \<and> length n \<le> kMaxEnvironmentNameBytes \<and>
        list_all is_name_char n \<and> length v \<le> kMaxEnvironmentValueBytes \<and> \<not> contains_nul v) \<and>
     sum_list (map (\<lambda>(n, v). length n + length v) (lp_env p)) \<le> kMaxEnvironmentBytes \<and>
     lp_uid p \<noteq> 0 \<and> lp_gid p \<noteq> 0 \<and> lp_username p \<noteq> [] \<and> \<not> contains_nul (lp_username p) \<and>
     length (lp_username p) \<le> kMaxUsernameBytes \<and>
     length (lp_supplementary_groups p) \<le> kMaxSupplementaryGroups"

lemma lpv_ok_lpv [simp]: "lpv_ok (lpv c i n) \<longleftrightarrow> c = LaunchPlanErrorCode.kNone"
  by (simp add: lpv_ok_def lpv_def)

lemma plan_add_within_limit_iff:
  "plan_add_within_limit b tot limit = (if tot + b \<le> limit then Some (tot + b) else None)"
  by (auto simp: plan_add_within_limit_def)

lemma name_char_plain: "list_all is_name_char n \<Longrightarrow> \<not> contains_nul n \<and> CHR ''='' \<notin> set n"
  by (auto simp: list_all_iff is_name_char_def contains_nul_def NUL_def)

lemma plan_name_iff:
  "plan_environment_name_valid n \<longleftrightarrow>
     n \<noteq> [] \<and> length n \<le> kMaxEnvironmentNameBytes \<and> list_all is_name_char n"
  using name_char_plain [of n] by (cases n) (auto simp: plan_environment_name_valid_def)

lemma check_plan_arguments_None:
  "check_plan_arguments args i tot = None \<longleftrightarrow>
     (\<forall>a \<in> set args. a \<noteq> [] \<and> \<not> contains_nul a \<and> length a \<le> kMaxSingleArgumentBytes) \<and>
     (args \<noteq> [] \<longrightarrow> tot + sum_list (map length args) \<le> kMaxArgumentBytes)"
proof (induction args arbitrary: i tot)
  case (Cons a args)
  then show ?case by (cases args) (auto simp: plan_add_within_limit_iff add.assoc)
qed simp

lemma check_plan_environment_None:
  "check_plan_environment es i tot = None \<longleftrightarrow>
     (\<forall>(n, v) \<in> set es. plan_environment_name_valid n \<and>
        length v \<le> kMaxEnvironmentValueBytes \<and> \<not> contains_nul v) \<and>
     (es \<noteq> [] \<longrightarrow> tot + sum_list (map (\<lambda>(n, v). length n + length v) es) \<le> kMaxEnvironmentBytes)"
proof (induction es arbitrary: i tot)
  case (Cons e es)
  then show ?case by (cases e; cases es) (auto simp: plan_add_within_limit_iff add.assoc)
qed simp

lemma check_plan_not_ok:
  "check_plan_arguments args i tot = Some e \<Longrightarrow> \<not> lpv_ok e"
  "check_plan_environment es i tot = Some e \<Longrightarrow> \<not> lpv_ok e"
proof -
  show "check_plan_arguments args i tot = Some e \<Longrightarrow> \<not> lpv_ok e"
    by (induction args arbitrary: i tot) (auto split: if_splits option.splits)
  show "check_plan_environment es i tot = Some e \<Longrightarrow> \<not> lpv_ok e"
    by (induction es i tot rule: check_plan_environment.induct) (auto split: if_splits option.splits)
qed

lemma validate_plan_iff: "lpv_ok (validate_plan p) \<longleftrightarrow> plan_ok p"
proof -
  have envs: "check_plan_environment (lp_env p) 0 0 = None \<longleftrightarrow>
     (\<forall>(n, v) \<in> set (lp_env p). n \<noteq> [] \<and> length n \<le> kMaxEnvironmentNameBytes \<and>
        list_all is_name_char n \<and> length v \<le> kMaxEnvironmentValueBytes \<and> \<not> contains_nul v) \<and>
     sum_list (map (\<lambda>(n, v). length n + length v) (lp_env p)) \<le> kMaxEnvironmentBytes"
    by (auto simp: check_plan_environment_None plan_name_iff)
  have args: "check_plan_arguments (lp_argv p) 0 0 = None \<longleftrightarrow>
     (\<forall>a \<in> set (lp_argv p). a \<noteq> [] \<and> \<not> contains_nul a \<and> length a \<le> kMaxSingleArgumentBytes) \<and>
     sum_list (map length (lp_argv p)) \<le> kMaxArgumentBytes"
    by (auto simp: check_plan_arguments_None)
  have cwd: "\<not> (length d > n \<or> contains_nul d) \<and> \<not> (d \<noteq> [] \<and> hd d \<noteq> CHR ''/'')
      \<longleftrightarrow> (d \<noteq> [] \<longrightarrow> absolute_path_ok n d)" for d n
    by (cases d) (auto simp: absolute_path_ok_def contains_nul_def)
  have exe: "\<not> (d \<noteq> [] \<and> (hd d \<noteq> CHR ''/'' \<or> contains_nul d \<or> length d > n))
      \<longleftrightarrow> (d \<noteq> [] \<longrightarrow> absolute_path_ok n d)" for d n
    by (auto simp: absolute_path_ok_def)
  have "lpv_ok (validate_plan p) \<longleftrightarrow>
      lp_argv p \<noteq> [] \<and> \<not> length (lp_argv p) > kMaxArgumentCount \<and>
      check_plan_arguments (lp_argv p) 0 0 = None \<and>
      (\<not> (length (lp_cwd p) > kMaxWorkingDirectoryBytes \<or> contains_nul (lp_cwd p)) \<and>
       \<not> (lp_cwd p \<noteq> [] \<and> hd (lp_cwd p) \<noteq> CHR ''/'')) \<and>
      \<not> (lp_executable p \<noteq> [] \<and> (hd (lp_executable p) \<noteq> CHR ''/'' \<or> contains_nul (lp_executable p)
         \<or> length (lp_executable p) > kMaxExecutableBytes)) \<and>
      \<not> length (lp_env p) > kMaxEnvironmentVariables \<and>
      check_plan_environment (lp_env p) 0 0 = None \<and>
      \<not> (lp_uid p = 0 \<or> lp_gid p = 0) \<and>
      \<not> (lp_username p = [] \<or> contains_nul (lp_username p) \<or> length (lp_username p) > kMaxUsernameBytes) \<and>
      \<not> length (lp_supplementary_groups p) > kMaxSupplementaryGroups"
  proof (cases "check_plan_arguments (lp_argv p) 0 0")
    case None
    then show ?thesis
      using check_plan_not_ok(2) [of "lp_env p" 0 0]
      by (cases "check_plan_environment (lp_env p) 0 0") (simp_all add: validate_plan_def)
  next
    case (Some e)
    then show ?thesis using check_plan_not_ok(1) [OF Some] by (simp add: validate_plan_def)
  qed
  then show ?thesis
    unfolding cwd exe args envs plan_ok_def by (simp only: not_less de_Morgan_disj conj_assoc)
qed

section \<open>Properties\<close>


definition demo_identity :: IdentityInfo where
  "demo_identity = \<lparr>ii_uid = 1000, ii_gid = 1000, ii_username = ''u'', ii_home = ''/home/u'',
     ii_shell = ''/bin/sh'', ii_supplementary_groups = [1000]\<rparr>"

definition demo_assignment :: GpuAssignment where
  "demo_assignment = \<lparr>ga_uuid = ''GPU-0'', ga_physical_index = 3, ga_logical_index = 0\<rparr>"

definition demo_profile :: LaunchProfile where
  "demo_profile = \<lparr>pf_mode = kPhysicalArgument, pf_physical_argument = ''--gpu''\<rparr>"

definition demo_adapter :: DefaultLaunchAdapter where
  "demo_adapter = set_daemon_environment [(''HOME'', ''/root''), (''PATH'', ''/bin'')] DefaultLaunchAdapter_init"

lemma demo_numbers: "std_to_string 3 = ''3''" "std_to_string 7 = ''7''"
  by code_simp+

lemma demo_plan:
  "prepared_plan demo_adapter 7 demo_spec demo_assignment demo_profile demo_identity =
     \<lparr>lp_argv = [''python'', ''train.py'', ''--gpu'', ''3''],
      lp_env = [(''A'', ''1''), (''HOME'', ''/home/u''), (''LOGNAME'', ''u''), (''PATH'', ''/bin''),
        (''SHELL'', ''/bin/sh''), (''USER'', ''u''), (''YORI_GPU_UUID'', ''GPU-0''), (''YORI_JOB_ID'', ''7'')],
      lp_cwd = ''/home/u'', lp_executable = ''/bin/py'', lp_uid = 1000, lp_gid = 1000,
      lp_username = ''u'', lp_supplementary_groups = [1000]\<rparr>"
  by (simp add: prepared_plan_def demo_adapter_def demo_spec_def demo_assignment_def demo_profile_def
      demo_identity_def mapped_arguments_def merge_environment_def put_all_def policy_accepts_def
      policy_defaults_def DefaultLaunchAdapter_init_def set_daemon_environment_def has_prefix_def
      demo_numbers)

lemma demo_prepare:
  "lpr_code (prepare demo_adapter 7 demo_spec demo_assignment demo_profile demo_identity)
     = LaunchPrepareErrorCode.kNone"
proof -
  have "plan_ok (prepared_plan demo_adapter 7 demo_spec demo_assignment demo_profile demo_identity)"
    unfolding demo_plan
    by (simp add: plan_ok_def job_limits contains_nul_def NUL_def absolute_path_ok_def is_name_char_def
        kMaxUsernameBytes_def kMaxSupplementaryGroups_def)
  then show ?thesis
    unfolding prepare_ok_iff validate_plan_iff
    by (simp add: demo_spec_ok job_id_valid_def validate_profile_def demo_profile_def
        validate_identity_def demo_identity_def demo_assignment_def uuid_valid_def uuid_kMaxBytes_def
        NUL_def contains_nul_def kMaxPhysicalArgumentBytes_def kMaxUsernameBytes_def kMaxPathBytes_def
        kMaxSupplementaryGroups_def is_reserved_environment_key_def kReserved_def has_prefix_def)
      (simp add: demo_spec_def)
qed


section \<open>Captured environments\<close>

definition capture_ok :: "(string, string) omap \<Rightarrow> nat \<Rightarrow> bool" where
  "capture_ok env total_bytes \<longleftrightarrow>
     omap_wf env \<and> length env \<le> kMaxEnvironmentVariables \<and>
     (\<forall>(n, v) \<in> set env. capture_name_valid n \<and> \<not> is_reserved_environment_key n \<and>
        length v \<le> kMaxEnvironmentValueBytes) \<and>
     sum_list (map (\<lambda>(n, v). length n + length v) env) \<le> total_bytes \<and>
     total_bytes \<le> kMaxEnvironmentBytes"

lemma sum_list_omap_put:
  "\<not> omap_contains n env \<Longrightarrow> sum_list (map f (omap_put n v env)) = f (n, v) + (sum_list (map f env) :: nat)"
  by (induction env) (auto simp: omap_contains_def split: if_splits)

lemma capture_step:
  assumes "capture_ok env tot" "captures p n" "capture_name_valid n"
    and "length env < kMaxEnvironmentVariables" "length v \<le> kMaxEnvironmentValueBytes"
    and "tot + (length n + length v) \<le> kMaxEnvironmentBytes"
  shows "capture_ok (if omap_contains n env then env else omap_put n v env) (tot + (length n + length v))"
proof (cases "omap_contains n env")
  case True
  with assms(1,6) show ?thesis by (auto simp: capture_ok_def)
next
  case False
  then have "map_of env n = None" by (simp add: omap_contains_def)
  with assms False show ?thesis
    using set_omap_put [of n v env]
    by (auto simp: capture_ok_def sum_list_omap_put length_omap_put_new captures_def split: if_splits)
qed

lemma capture_loop_ok:
  "capture_ok env tot \<Longrightarrow> ecr_code (capture_loop p source tot env) = EnvironmentCaptureErrorCode.kNone \<Longrightarrow>
     (\<exists>tot'. capture_ok (ecr_env (capture_loop p source tot env)) tot') \<and>
     (\<forall>k. map_of (ecr_env (capture_loop p source tot env)) k = (case map_of env k of
        Some v \<Rightarrow> Some v
      | None \<Rightarrow> if captures p k \<and> capture_name_valid k then map_of source k else None))"
proof (induction p source tot env rule: capture_loop.induct)
  case (2 policy name v rest tot env)
  show ?case
  proof (cases "captures policy name \<and> capture_name_valid name")
    case False
    with 2 show ?thesis by (auto split: option.splits)
  next
    case True
    let ?env = "if omap_contains name env then env else omap_put name v env"
    from True "2.prems"(2) have b: "length env < kMaxEnvironmentVariables"
        "length v \<le> kMaxEnvironmentValueBytes" "tot + (length name + length v) \<le> kMaxEnvironmentBytes"
      by (auto simp: capture_failed_def Let_def split: if_splits)
    with True have eq: "capture_loop policy ((name, v) # rest) tot env
        = capture_loop policy rest (tot + (length name + length v)) ?env"
      by (auto simp: Let_def)
    have ok: "capture_ok ?env (tot + (length name + length v))"
      using capture_step [OF "2.prems"(1)] True b by blast
    have ih: "(\<exists>tot'. capture_ok (ecr_env (capture_loop policy rest (tot + (length name + length v)) ?env)) tot') \<and>
     (\<forall>k. map_of (ecr_env (capture_loop policy rest (tot + (length name + length v)) ?env)) k = (case map_of ?env k of
        Some v \<Rightarrow> Some v
      | None \<Rightarrow> if captures policy k \<and> capture_name_valid k then map_of rest k else None))"
      by (rule "2.IH"(3)) (use True b ok "2.prems"(2) eq in auto)
    then show ?thesis
      unfolding eq using True by (auto simp: omap_contains_def omap_simps split: option.splits)
  qed
qed (auto split: option.splits)



section \<open>Where the components disagree\<close>

text \<open>A job that \<open>validate\<close> admits to the queue but no launch accepts: an empty argument after the
  first one.\<close>

lemma empty_argument_never_launches:
  assumes "spec_ok spec" "[] \<in> set (js_argv spec)"
  shows "jsv_ok (job_validate spec)"
    and "lpr_code (prepare a i spec asg pf ident) \<noteq> LaunchPrepareErrorCode.kNone"
proof -
  show "jsv_ok (job_validate spec)" using assms(1) by (simp add: job_validate_iff)
  have "\<not> plan_ok (prepared_plan a i spec asg pf ident)"
    using assms(2)
    by (cases "pf_mode pf") (auto simp: plan_ok_def prepared_plan_def mapped_arguments_def)
  then show "lpr_code (prepare a i spec asg pf ident) \<noteq> LaunchPrepareErrorCode.kNone"
    by (simp add: prepare_ok_iff validate_plan_iff)
qed

text \<open>\<open>getpwuid_r\<close> stores a null pointer when it fails, so the branch for a failing database is never
  taken and every failure is reported as an unknown user.\<close>

lemma resolve_failure_not_found:
  assumes "fst (getpwuid_r uid) \<noteq> 0 \<Longrightarrow> snd (getpwuid_r uid) = None" "fst (getpwuid_r uid) \<noteq> 0"
  shows "irr_code (resolve_identity getpwuid_r getgrouplist uid) = IdentityResolveErrorCode.kNotFound"
  using assms by (auto simp: resolve_identity_def resolve_failed_def split: prod.splits)

text \<open>A relative segment of \<open>PATH\<close> gives a relative executable, which the validation of the job
  rejects.\<close>

lemma relative_path_segment:
  assumes "access_of ''bin/x'' = 0"
  shows "erx_executable (resolve_executable access_of ''x'' ''/'' [(''PATH'', ''bin'')]) = ''bin/x''"
    and "\<not> absolute_path_ok kMaxExecutableBytes ''bin/x''"
  using assms
  by (simp_all add: resolve_executable_def search_path.simps probe_candidate_def join_segment_def
      contains_nul_def NUL_def job_limits absolute_path_ok_def)

end
