(* ===== verification/Process_Supervisor.thy ===== *)
theory Process_Supervisor
  imports Launch
begin

text \<open>
  The supervisor of one process: \<^verbatim>\<open>src/include/yori/process/process_supervisor.hpp\<close> and the class
  \<open>ProcessSupervisor\<close> of \<^verbatim>\<open>src/src/process/process_supervisor.cpp\<close>. The operating system is a
  parameter: every operation takes the answers of the system calls it makes and returns its result,
  the new state and the signals it sent. The path of the child between \<open>fork\<close> and \<open>execve\<close> is the
  list of its system calls and the way it ends. Descriptors are not modelled; times are in
  nanoseconds, the grace period in milliseconds.
\<close>

section \<open>Results\<close>

definition kMinGracePeriod :: int where
  "kMinGracePeriod = 100"

definition kMaxGracePeriod :: int where
  "kMaxGracePeriod = 600000"

definition kDefaultGracePeriod :: int where
  "kDefaultGracePeriod = 10000"

record CancelPolicy =
  cpo_grace_period :: int

definition policy_valid :: "CancelPolicy \<Rightarrow> bool" where
  "policy_valid p \<longleftrightarrow> kMinGracePeriod \<le> cpo_grace_period p \<and> cpo_grace_period p \<le> kMaxGracePeriod"

datatype SpawnErrorCode =
    kNone | kAlreadyRunning | kInvalidPlan | kPipeFailed | kDevNullFailed | kForkFailed
  | kProcessGroupFailed | kChdirFailed | kIdentitySwitchFailed | kExecFailed
  | kExecConfirmationTimeout | kIdentityReadFailed

fun SpawnErrorCode_to_string :: "SpawnErrorCode \<Rightarrow> string" where
  "SpawnErrorCode_to_string SpawnErrorCode.kNone = ''none''"
| "SpawnErrorCode_to_string SpawnErrorCode.kAlreadyRunning =
     ''supervisor already manages a running process''"
| "SpawnErrorCode_to_string kInvalidPlan = ''invalid launch plan''"
| "SpawnErrorCode_to_string kPipeFailed = ''pipe creation failed''"
| "SpawnErrorCode_to_string kDevNullFailed = ''opening /dev/null failed''"
| "SpawnErrorCode_to_string kForkFailed = ''fork failed''"
| "SpawnErrorCode_to_string kProcessGroupFailed = ''setting up the process group failed''"
| "SpawnErrorCode_to_string kChdirFailed = ''changing into the working directory failed''"
| "SpawnErrorCode_to_string kIdentitySwitchFailed =
     ''switching to the job owner identity failed''"
| "SpawnErrorCode_to_string kExecFailed = ''exec failed''"
| "SpawnErrorCode_to_string kExecConfirmationTimeout = ''exec confirmation timed out''"
| "SpawnErrorCode_to_string kIdentityReadFailed = ''reading the process identity failed''"

datatype AdoptErrorCode = kNone | kAlreadyRunning | kInvalidIdentity | kIdentityVerifyFailed

fun AdoptErrorCode_to_string :: "AdoptErrorCode \<Rightarrow> string" where
  "AdoptErrorCode_to_string AdoptErrorCode.kNone = ''none''"
| "AdoptErrorCode_to_string AdoptErrorCode.kAlreadyRunning =
     ''supervisor already manages a running process''"
| "AdoptErrorCode_to_string AdoptErrorCode.kInvalidIdentity = ''invalid process identity''"
| "AdoptErrorCode_to_string kIdentityVerifyFailed = ''process identity verification failed''"

datatype AbandonCode = kAbandoned | kNotRunning

datatype CancelOutcome =
  kTerminating | kAlreadyTerminating | kNotRunning | kAlreadyExited | kSignalFailed

fun CancelOutcome_to_string :: "CancelOutcome \<Rightarrow> string" where
  "CancelOutcome_to_string CancelOutcome.kTerminating = ''terminating''"
| "CancelOutcome_to_string kAlreadyTerminating = ''already terminating''"
| "CancelOutcome_to_string CancelOutcome.kNotRunning = ''no running process''"
| "CancelOutcome_to_string CancelOutcome.kAlreadyExited = ''already exited''"
| "CancelOutcome_to_string CancelOutcome.kSignalFailed = ''signal delivery failed''"

datatype EscalationOutcome =
  kKilled | kGraceNotExpired | kNotTerminating | kAlreadyExited | kSignalFailed

fun EscalationOutcome_to_string :: "EscalationOutcome \<Rightarrow> string" where
  "EscalationOutcome_to_string kKilled = ''killed''"
| "EscalationOutcome_to_string kGraceNotExpired = ''grace period not expired''"
| "EscalationOutcome_to_string kNotTerminating = ''not terminating''"
| "EscalationOutcome_to_string EscalationOutcome.kAlreadyExited = ''already exited''"
| "EscalationOutcome_to_string EscalationOutcome.kSignalFailed = ''signal delivery failed''"

datatype ExitPollOutcome = kStillRunning | kExited | kNotSpawned | kWaitFailed

fun ExitPollOutcome_to_string :: "ExitPollOutcome \<Rightarrow> string" where
  "ExitPollOutcome_to_string kStillRunning = ''still running''"
| "ExitPollOutcome_to_string ExitPollOutcome.kExited = ''exited''"
| "ExitPollOutcome_to_string kNotSpawned = ''not spawned''"
| "ExitPollOutcome_to_string kWaitFailed = ''waitpid failed''"

datatype Phase = kIdle | kRunning | kTerminating | kExited

fun Phase_to_string :: "Phase \<Rightarrow> string" where
  "Phase_to_string kIdle = ''idle''"
| "Phase_to_string Phase.kRunning = ''running''"
| "Phase_to_string Phase.kTerminating = ''terminating''"
| "Phase_to_string Phase.kExited = ''exited''"

record SpawnResult =
  spr_code :: SpawnErrorCode
  spr_identity :: ProcessIdentity
  spr_error_number :: int
  spr_message :: string

record AdoptResult =
  adr_code :: AdoptErrorCode
  adr_message :: string

record CancelResult =
  cr_outcome :: CancelOutcome
  cr_error_number :: int

record EscalationResult =
  er_outcome :: EscalationOutcome
  er_error_number :: int

record ExitPollResult =
  epr_outcome :: ExitPollOutcome
  epr_status :: ExitStatus
  epr_error_number :: int

record ProcessSupervisor =
  ps_policy :: CancelPolicy
  ps_phase :: Phase
  ps_identity :: ProcessIdentity
  ps_exit_status :: ExitStatus
  ps_grace_deadline :: int

definition ProcessSupervisor_init :: "CancelPolicy \<Rightarrow> ProcessSupervisor" where
  "ProcessSupervisor_init policy =
     \<lparr>ps_policy = policy, ps_phase = kIdle, ps_identity = blank_identity,
      ps_exit_status = unknown_exit, ps_grace_deadline = 0\<rparr>"

section \<open>The child between fork and exec\<close>

datatype ChildStage = kProcessGroup | kDemotion | kChdir | kExec

fun ChildStage_code :: "ChildStage \<Rightarrow> u8" where
  "ChildStage_code kProcessGroup = 1"
| "ChildStage_code kDemotion = 2"
| "ChildStage_code kChdir = 3"
| "ChildStage_code kExec = 4"

text \<open>The system calls whose result the child looks at. An answer is \<open>0\<close> or the value of \<open>errno\<close>; one
  run asks each question once, so the answers are a function.\<close>

datatype child_call =
    DupReport | SetPgid | OpenNull | DupStdin | DupStdout | DupStderr
  | SetGroups "u32 list" | SetGid u32 | SetUid u32 | Chdir string | Access string | Execve string

datatype child_end = Exit126 | Report ChildStage int | Executed string

type_synonym child_run = "child_call list \<times> child_end"
type_synonym child_sys = "child_call \<Rightarrow> int"

definition call_or_report :: "child_sys \<Rightarrow> ChildStage \<Rightarrow> child_call \<Rightarrow> child_run \<Rightarrow> child_run" where
  "call_or_report sys stage c next =
     (if sys c = 0 then (c # fst next, snd next) else ([c], Report stage (sys c)))"

definition join_path :: "string \<Rightarrow> string \<Rightarrow> nat \<Rightarrow> string option" where
  "join_path directory name out_size =
     (if directory = [] \<or> name = [] \<or> length directory + 1 + length name + 1 > out_size then None
      else Some ((if last directory \<noteq> CHR ''/'' then directory @ ''/'' else directory) @ name))"

definition ENOTDIR :: int where "ENOTDIR = 20"
definition ENAMETOOLONG :: int where "ENAMETOOLONG = 36"
definition ELOOP :: int where "ELOOP = 40"
definition ESRCH :: int where "ESRCH = 3"

function child_search :: "child_sys \<Rightarrow> string \<Rightarrow> string \<Rightarrow> child_run" where
  "child_search sys name path =
     (if path = [] then ([], Report kExec ENOENT)
      else
        let next = (case dropWhile (\<lambda>c. c \<noteq> CHR '':'') path of
                      [] \<Rightarrow> ([], Report kExec ENOENT)
                    | _ # rest \<Rightarrow> child_search sys name rest) in
        case join_path (takeWhile (\<lambda>c. c \<noteq> CHR '':'') path) name 4096 of
          None \<Rightarrow> next
        | Some candidate \<Rightarrow>
            if sys (Access candidate) \<noteq> 0 then (Access candidate # fst next, snd next)
            else if sys (Execve candidate) = 0
              then ([Access candidate, Execve candidate], Executed candidate)
            else if sys (Execve candidate) \<notin> {EACCES, ENOENT, ENOTDIR, ELOOP, ENAMETOOLONG}
              then ([Access candidate, Execve candidate], Report kExec ENOENT)
            else (Access candidate # Execve candidate # fst next, snd next))"
  by pat_completeness auto
termination
proof (relation "measure (\<lambda>(_, _, p). length p)", goal_cases)
  case (2 sys name path c rest)
  then have "length (c # rest) \<le> length path" by (metis length_dropWhile_le)
  then show ?case by simp
qed simp

declare child_search.simps [simp del]

definition exec_directly :: "child_sys \<Rightarrow> string \<Rightarrow> child_run" where
  "exec_directly sys path =
     ([Execve path],
      if sys (Execve path) = 0 then Executed path else Report kExec (sys (Execve path)))"

text \<open>The environment block is the list of \<open>name=value\<close> strings built before the fork.\<close>

definition environment_strings :: "LaunchPlan \<Rightarrow> string list" where
  "environment_strings plan = map (\<lambda>e. fst e @ ''='' @ snd e) (lp_env plan)"

definition child_exec :: "child_sys \<Rightarrow> LaunchPlan \<Rightarrow> child_run" where
  "child_exec sys plan =
     (if lp_executable plan \<noteq> [] then exec_directly sys (lp_executable plan)
      else if CHR ''/'' \<in> set (hd (lp_argv plan)) then exec_directly sys (hd (lp_argv plan))
      else child_search sys (hd (lp_argv plan))
        (case find (has_prefix ''PATH='') (environment_strings plan) of
           None \<Rightarrow> ''/bin:/usr/bin'' | Some entry \<Rightarrow> drop 5 entry))"

definition demote :: "child_sys \<Rightarrow> u32 \<Rightarrow> u32 \<Rightarrow> LaunchPlan \<Rightarrow> child_run \<Rightarrow> child_run" where
  "demote sys euid egid plan next =
     (if euid \<noteq> lp_uid plan \<or> egid \<noteq> lp_gid plan then
        (let groups = (if lp_supplementary_groups plan = [] then [lp_gid plan]
                       else lp_supplementary_groups plan) in
         call_or_report sys kDemotion (SetGroups groups)
           (call_or_report sys kDemotion (SetGid (lp_gid plan))
             (call_or_report sys kDemotion (SetUid (lp_uid plan)) next)))
      else next)"

definition run_child :: "child_sys \<Rightarrow> u32 \<Rightarrow> u32 \<Rightarrow> LaunchPlan \<Rightarrow> child_run" where
  "run_child sys euid egid plan =
     (if sys DupReport \<noteq> 0 then ([DupReport], Exit126)
      else
        let run =
          call_or_report sys kProcessGroup SetPgid
            (call_or_report sys kExec OpenNull
              (call_or_report sys kExec DupStdin
                (call_or_report sys kExec DupStdout
                  (call_or_report sys kExec DupStderr
                    (demote sys euid egid plan
                      (if lp_cwd plan \<noteq> [] then
                         call_or_report sys kChdir (Chdir (lp_cwd plan)) (child_exec sys plan)
                       else child_exec sys plan))))))
        in (DupReport # fst run, snd run))"

section \<open>The parent\<close>

text \<open>What the parent learns from the report pipe: nothing before the timeout, a failing \<open>poll\<close>, or
  the bytes up to the end of file.\<close>

datatype exec_report = TimedOut | PollFailed int | Bytes "u8 list"

definition child_report :: "child_end \<Rightarrow> exec_report" where
  "child_report e =
     (case e of
        Exit126 \<Rightarrow> Bytes []
      | Report stage error_number \<Rightarrow> Bytes [ChildStage_code stage, of_int error_number]
      | Executed _ \<Rightarrow> Bytes [])"

definition map_child_stage :: "u8 \<Rightarrow> SpawnErrorCode" where
  "map_child_stage stage =
     (if stage = ChildStage_code kProcessGroup then kProcessGroupFailed
      else if stage = ChildStage_code kDemotion then kIdentitySwitchFailed
      else if stage = ChildStage_code kChdir then kChdirFailed
      else kExecFailed)"

definition wait_for_exec_confirmation :: "exec_report \<Rightarrow> (SpawnErrorCode \<times> int \<times> string) option" where
  "wait_for_exec_confirmation report =
     (case report of
        TimedOut \<Rightarrow>
          Some (kExecConfirmationTimeout, 0, ''child did not confirm exec within the timeout'')
      | PollFailed e \<Rightarrow> Some (kExecConfirmationTimeout, e, ''poll on the exec report pipe failed'')
      | Bytes [] \<Rightarrow> None
      | Bytes [stage] \<Rightarrow> Some (map_child_stage stage, 0, ''child failed before or during exec'')
      | Bytes (stage # e # _) \<Rightarrow>
          Some (map_child_stage stage, int (unat e), ''child failed before or during exec''))"

text \<open>The answers of the calls of \<open>spawn\<close>: \<open>0\<close> or \<open>errno\<close> for \<open>pipe2\<close> and \<open>setpgid\<close>, the child or the
  error for \<open>fork\<close>, the group for \<open>getpgid\<close>, and \<open>errno\<close> after the failed child was reaped.\<close>

record spawn_os =
  so_pipe :: int
  so_fork :: "int + int"
  so_setpgid :: int
  so_report :: exec_report
  so_getpgid :: "int option"
  so_errno :: int
  so_read_proc_stat :: proc_stat

text \<open>A signal: target and number, as passed to \<open>kill\<close>.\<close>

type_synonym sent = "int \<times> int"

definition SIGKILL :: int where "SIGKILL = 9"
definition SIGTERM :: int where "SIGTERM = 15"

definition spawn_failed :: "SpawnErrorCode \<Rightarrow> int \<Rightarrow> string \<Rightarrow> SpawnResult" where
  "spawn_failed c e message =
     \<lparr>spr_code = c, spr_identity = blank_identity, spr_error_number = e, spr_message = message\<rparr>"

definition spawn_forked ::
  "spawn_os \<Rightarrow> int \<Rightarrow> ProcessSupervisor \<Rightarrow> SpawnResult \<times> ProcessSupervisor \<times> sent list" where
  "spawn_forked os child s =
     (if so_setpgid os \<noteq> 0 \<and> so_setpgid os \<noteq> EACCES \<and> so_setpgid os \<noteq> ESRCH then
        (spawn_failed kProcessGroupFailed (so_errno os)
           (SpawnErrorCode_to_string kProcessGroupFailed), s, [(child, SIGKILL)])
      else case wait_for_exec_confirmation (so_report os) of
        Some (c, e, message) \<Rightarrow> (spawn_failed c e message, s, [(child, SIGKILL)])
      | None \<Rightarrow>
          (case (so_getpgid os, read_process_start_ticks (so_read_proc_stat os) child) of
             (Some pgid, Some ticks) \<Rightarrow>
               let identity = \<lparr>pi_pid = child, pi_pgid = pgid, pi_start_ticks = ticks\<rparr> in
               (\<lparr>spr_code = SpawnErrorCode.kNone, spr_identity = identity, spr_error_number = 0,
                 spr_message = ''''\<rparr>,
                s\<lparr>ps_identity := identity, ps_exit_status := unknown_exit, ps_phase := Phase.kRunning\<rparr>,
                [])
           | _ \<Rightarrow>
               (spawn_failed kIdentityReadFailed (so_errno os)
                  (SpawnErrorCode_to_string kIdentityReadFailed), s, [(child, SIGKILL)])))"

definition spawn ::
  "spawn_os \<Rightarrow> LaunchPlan \<Rightarrow> ProcessSupervisor \<Rightarrow> SpawnResult \<times> ProcessSupervisor \<times> sent list" where
  "spawn os plan s =
     (if ps_phase s = Phase.kRunning \<or> ps_phase s = Phase.kTerminating then
        (spawn_failed SpawnErrorCode.kAlreadyRunning 0
           (SpawnErrorCode_to_string SpawnErrorCode.kAlreadyRunning), s, [])
      else if \<not> lpv_ok (validate_plan plan) then
        (spawn_failed kInvalidPlan 0 (LaunchPlanErrorCode_to_string (lpv_code (validate_plan plan))), s, [])
      else if \<not> policy_valid (ps_policy s) then
        (spawn_failed kInvalidPlan 0 ''invalid cancel policy'', s, [])
      else if so_pipe os \<noteq> 0 then
        (spawn_failed kPipeFailed (so_pipe os) (SpawnErrorCode_to_string kPipeFailed), s, [])
      else case so_fork os of
        Inl e \<Rightarrow> (spawn_failed kForkFailed e (SpawnErrorCode_to_string kForkFailed), s, [])
      | Inr child \<Rightarrow> spawn_forked os child s)"

definition adopt ::
  "proc_stat \<Rightarrow> ProcessIdentity \<Rightarrow> ProcessSupervisor \<Rightarrow> AdoptResult \<times> ProcessSupervisor" where
  "adopt read_proc_stat identity s =
     (let failed = (\<lambda>c. (\<lparr>adr_code = c, adr_message = AdoptErrorCode_to_string c\<rparr>, s)) in
      if ps_phase s = Phase.kRunning \<or> ps_phase s = Phase.kTerminating
        then failed AdoptErrorCode.kAlreadyRunning
      else if \<not> identity_valid identity then failed AdoptErrorCode.kInvalidIdentity
      else if \<not> verify_process_identity read_proc_stat identity then failed kIdentityVerifyFailed
      else
        (\<lparr>adr_code = AdoptErrorCode.kNone, adr_message = ''''\<rparr>,
         s\<lparr>ps_identity := identity, ps_exit_status := unknown_exit, ps_phase := Phase.kRunning\<rparr>))"

definition abandon :: "ProcessSupervisor \<Rightarrow> AbandonCode \<times> ProcessSupervisor" where
  "abandon s =
     (if ps_phase s = kIdle \<or> ps_phase s = Phase.kExited then (AbandonCode.kNotRunning, s)
      else (kAbandoned,
            s\<lparr>ps_identity := blank_identity, ps_exit_status := unknown_exit, ps_phase := kIdle\<rparr>))"

text \<open>\<open>static_cast<pid_t>\<close>: 32 bits, signed.\<close>

definition pid_t_cast :: "int \<Rightarrow> int" where
  "pid_t_cast i = sint (of_int i :: 32 word)"

text \<open>\<open>kill(-pgid, sig) < 0 && kill(pgid, sig) < 0\<close>: the error of the second call and the signals
  that were attempted.\<close>

type_synonym kill_sys = "int \<Rightarrow> int \<Rightarrow> int"

definition kill_group :: "kill_sys \<Rightarrow> int \<Rightarrow> int \<Rightarrow> int \<times> sent list" where
  "kill_group kill_of pgid sig =
     (if kill_of (- pgid) sig = 0 then (0, [(- pgid, sig)])
      else (kill_of pgid sig, [(- pgid, sig), (pgid, sig)]))"

definition request_cancel ::
  "kill_sys \<Rightarrow> int \<Rightarrow> ProcessSupervisor \<Rightarrow> CancelResult \<times> ProcessSupervisor \<times> sent list" where
  "request_cancel kill_of now s =
     (case ps_phase s of
        kIdle \<Rightarrow> (\<lparr>cr_outcome = CancelOutcome.kNotRunning, cr_error_number = 0\<rparr>, s, [])
      | Phase.kTerminating \<Rightarrow> (\<lparr>cr_outcome = kAlreadyTerminating, cr_error_number = 0\<rparr>, s, [])
      | Phase.kExited \<Rightarrow> (\<lparr>cr_outcome = CancelOutcome.kAlreadyExited, cr_error_number = 0\<rparr>, s, [])
      | Phase.kRunning \<Rightarrow>
          (case kill_group kill_of (pid_t_cast (pi_pgid (ps_identity s))) SIGTERM of
             (e, signals) \<Rightarrow>
               if e \<noteq> 0 then
                 (\<lparr>cr_outcome = CancelOutcome.kSignalFailed, cr_error_number = e\<rparr>, s, signals)
               else
                 (\<lparr>cr_outcome = CancelOutcome.kTerminating, cr_error_number = 0\<rparr>,
                  s\<lparr>ps_grace_deadline := now + 1000000 * cpo_grace_period (ps_policy s),
                    ps_phase := Phase.kTerminating\<rparr>, signals)))"

definition grace_expired :: "int \<Rightarrow> ProcessSupervisor \<Rightarrow> bool" where
  "grace_expired now s \<longleftrightarrow> ps_phase s = Phase.kTerminating \<and> now \<ge> ps_grace_deadline s"

definition escalate ::
  "kill_sys \<Rightarrow> int \<Rightarrow> ProcessSupervisor \<Rightarrow> EscalationResult \<times> ProcessSupervisor \<times> sent list" where
  "escalate kill_of now s =
     (case ps_phase s of
        kIdle \<Rightarrow> (\<lparr>er_outcome = kNotTerminating, er_error_number = 0\<rparr>, s, [])
      | Phase.kRunning \<Rightarrow> (\<lparr>er_outcome = kNotTerminating, er_error_number = 0\<rparr>, s, [])
      | Phase.kExited \<Rightarrow>
          (\<lparr>er_outcome = EscalationOutcome.kAlreadyExited, er_error_number = 0\<rparr>, s, [])
      | Phase.kTerminating \<Rightarrow>
          if \<not> grace_expired now s then
            (\<lparr>er_outcome = kGraceNotExpired, er_error_number = 0\<rparr>, s, [])
          else
            (case kill_group kill_of (pid_t_cast (pi_pgid (ps_identity s))) SIGKILL of
               (e, signals) \<Rightarrow>
                 if e = 0 then (\<lparr>er_outcome = kKilled, er_error_number = 0\<rparr>, s, signals)
                 else if e = ESRCH then
                   (\<lparr>er_outcome = EscalationOutcome.kAlreadyExited, er_error_number = 0\<rparr>, s, signals)
                 else
                   (\<lparr>er_outcome = EscalationOutcome.kSignalFailed, er_error_number = e\<rparr>, s, signals)))"

text \<open>\<open>waitpid(pid, WNOHANG)\<close>: nothing to report, an error, or the raw status.\<close>

datatype wait_answer = StillRunning | WaitError int | Reaped nat

definition poll_exit ::
  "(int \<Rightarrow> wait_answer) \<Rightarrow> ProcessSupervisor \<Rightarrow> ExitPollResult \<times> ProcessSupervisor" where
  "poll_exit waitpid s =
     (case ps_phase s of
        kIdle \<Rightarrow> (\<lparr>epr_outcome = kNotSpawned, epr_status = unknown_exit, epr_error_number = 0\<rparr>, s)
      | Phase.kExited \<Rightarrow>
          (\<lparr>epr_outcome = ExitPollOutcome.kExited, epr_status = ps_exit_status s, epr_error_number = 0\<rparr>, s)
      | _ \<Rightarrow>
          (case waitpid (pid_t_cast (pi_pid (ps_identity s))) of
             StillRunning \<Rightarrow>
               (\<lparr>epr_outcome = kStillRunning, epr_status = unknown_exit, epr_error_number = 0\<rparr>, s)
           | WaitError e \<Rightarrow>
               (\<lparr>epr_outcome = kWaitFailed, epr_status = unknown_exit, epr_error_number = e\<rparr>,
                s\<lparr>ps_exit_status := unknown_exit, ps_phase := Phase.kExited\<rparr>)
           | Reaped raw \<Rightarrow>
               let s' = s\<lparr>ps_exit_status := status_from_wait raw, ps_phase := Phase.kExited\<rparr> in
               (\<lparr>epr_outcome = ExitPollOutcome.kExited, epr_status = ps_exit_status s',
                 epr_error_number = 0\<rparr>, s')))"

definition consume_exit :: "ProcessSupervisor \<Rightarrow> ExitStatus" where
  "consume_exit s = (if ps_phase s \<noteq> Phase.kExited then unknown_exit else ps_exit_status s)"

text \<open>The destructor.\<close>

definition destroy :: "ProcessSupervisor \<Rightarrow> ProcessSupervisor \<times> sent list" where
  "destroy s =
     (if ps_phase s = Phase.kRunning \<or> ps_phase s = Phase.kTerminating then
        (s\<lparr>ps_phase := Phase.kExited\<rparr>,
         [(- pid_t_cast (pi_pgid (ps_identity s)), SIGKILL), (pid_t_cast (pi_pid (ps_identity s)), SIGKILL)])
      else (s, []))"

end
