(* ===== verification/Process_Props.thy ===== *)
theory Process_Props
  imports Process_Supervisor Launch_Props
begin

text \<open>
  What holds of the supervised process: it runs the job's program only after it has left the
  identity of the daemon, and it is killed only after it was asked to stop and the grace period is
  over.
\<close>

section \<open>The child\<close>

text \<open>The calls before the program is executed.\<close>

definition setup_calls :: "u32 \<Rightarrow> u32 \<Rightarrow> LaunchPlan \<Rightarrow> child_call list" where
  "setup_calls euid egid plan =
     [DupReport, SetPgid, OpenNull, DupStdin, DupStdout, DupStderr] @
     (if euid = lp_uid plan \<and> egid = lp_gid plan then []
      else [SetGroups (if lp_supplementary_groups plan = [] then [lp_gid plan]
                       else lp_supplementary_groups plan),
            SetGid (lp_gid plan), SetUid (lp_uid plan)]) @
     (if lp_cwd plan = [] then [] else [Chdir (lp_cwd plan)])"

definition is_execve :: "child_call \<Rightarrow> bool" where
  "is_execve c \<longleftrightarrow> (\<exists>p. c = Execve p)"

text \<open>A run either makes all of its first calls \<open>cs\<close> with success and goes on as \<open>inner\<close>, or it ends
  without any attempt to execute a program.\<close>

definition setup_run :: "child_sys \<Rightarrow> child_run \<Rightarrow> child_call list \<Rightarrow> child_run \<Rightarrow> bool" where
  "setup_run sys run cs inner \<longleftrightarrow>
     (run = (cs @ fst inner, snd inner) \<and> list_all (\<lambda>c. sys c = 0) cs) \<or>
     (list_all (\<lambda>c. \<not> is_execve c) (fst run) \<and> (\<nexists>p. snd run = Executed p))"

lemma setup_run_refl: "setup_run sys inner [] inner"
  by (simp add: setup_run_def)

lemma setup_run_call:
  "setup_run sys k cs inner \<Longrightarrow> \<not> is_execve c \<Longrightarrow>
     setup_run sys (call_or_report sys st c k) (c # cs) inner"
  by (auto simp: setup_run_def call_or_report_def)

lemma setup_run_demote:
  "setup_run sys k cs inner \<Longrightarrow>
     setup_run sys (demote sys euid egid plan k)
       ((if euid = lp_uid plan \<and> egid = lp_gid plan then []
         else [SetGroups (if lp_supplementary_groups plan = [] then [lp_gid plan]
                          else lp_supplementary_groups plan),
               SetGid (lp_gid plan), SetUid (lp_uid plan)]) @ cs) inner"
  by (auto simp: demote_def Let_def is_execve_def intro!: setup_run_call)

lemma run_child_setup:
  "setup_run sys (run_child sys euid egid plan) (setup_calls euid egid plan) (child_exec sys plan)"
proof (cases "sys DupReport = 0")
  case False
  then show ?thesis by (simp add: setup_run_def run_child_def is_execve_def)
next
  case True
  then have run: "run_child sys euid egid plan = call_or_report sys kExec DupReport
      (call_or_report sys kProcessGroup SetPgid (call_or_report sys kExec OpenNull
        (call_or_report sys kExec DupStdin (call_or_report sys kExec DupStdout
          (call_or_report sys kExec DupStderr (demote sys euid egid plan
            (if lp_cwd plan \<noteq> [] then call_or_report sys kChdir (Chdir (lp_cwd plan)) (child_exec sys plan)
             else child_exec sys plan)))))))"
    by (simp add: run_child_def Let_def call_or_report_def)
  have "setup_run sys (if lp_cwd plan \<noteq> [] then call_or_report sys kChdir (Chdir (lp_cwd plan)) (child_exec sys plan)
      else child_exec sys plan) (if lp_cwd plan = [] then [] else [Chdir (lp_cwd plan)]) (child_exec sys plan)"
    by (auto simp: is_execve_def intro: setup_run_refl setup_run_call)
  from setup_run_demote [OF this] show ?thesis
    unfolding run setup_calls_def append_Cons append_Nil
    by (intro setup_run_call) (simp_all add: is_execve_def)
qed

text \<open>One segment of the search: the rest of the search and the call or calls before it.\<close>

definition search_rest :: "child_sys \<Rightarrow> string \<Rightarrow> string \<Rightarrow> child_run" where
  "search_rest sys name path = (case dropWhile (\<lambda>c. c \<noteq> CHR '':'') path of
     [] \<Rightarrow> ([], Report kExec ENOENT) | _ # rest \<Rightarrow> child_search sys name rest)"

lemma child_search_step:
  "child_search sys name path = ([], Report kExec ENOENT) \<or>
   path \<noteq> [] \<and> (\<exists>pre. list_all (\<lambda>c. \<exists>q. c = Access q \<or> c = Execve q) pre \<and>
     child_search sys name path = (pre @ fst (search_rest sys name path), snd (search_rest sys name path))) \<or>
   (\<exists>cand. child_search sys name path = ([Access cand, Execve cand], Executed cand) \<and> sys (Execve cand) = 0) \<or>
   (\<exists>cand. child_search sys name path = ([Access cand, Execve cand], Report kExec ENOENT))"
proof (cases "path = []")
  case False
  have split: "child_search sys name path =
      (case join_path (takeWhile (\<lambda>c. c \<noteq> CHR '':'') path) name 4096 of
          None \<Rightarrow> search_rest sys name path
        | Some cand \<Rightarrow>
            if sys (Access cand) \<noteq> 0
              then (Access cand # fst (search_rest sys name path), snd (search_rest sys name path))
            else if sys (Execve cand) = 0 then ([Access cand, Execve cand], Executed cand)
            else if sys (Execve cand) \<notin> {EACCES, ENOENT, ENOTDIR, ELOOP, ENAMETOOLONG}
              then ([Access cand, Execve cand], Report kExec ENOENT)
            else (Access cand # Execve cand # fst (search_rest sys name path), snd (search_rest sys name path)))"
    using False by (subst child_search.simps) (simp only: search_rest_def Let_def if_False)
  show ?thesis
  proof (cases "join_path (takeWhile (\<lambda>c. c \<noteq> CHR '':'') path) name 4096")
    case None
    with split False show ?thesis by (intro disjI2 disjI1 conjI exI [of _ "[]"]) simp_all
  next
    case (Some cand)
    consider "sys (Access cand) \<noteq> 0" | "sys (Access cand) = 0" "sys (Execve cand) = 0"
      | "sys (Access cand) = 0" "sys (Execve cand) \<noteq> 0"
          "sys (Execve cand) \<notin> {EACCES, ENOENT, ENOTDIR, ELOOP, ENAMETOOLONG}"
      | "sys (Access cand) = 0" "sys (Execve cand) \<noteq> 0"
          "sys (Execve cand) \<in> {EACCES, ENOENT, ENOTDIR, ELOOP, ENAMETOOLONG}" by blast
    then show ?thesis
    proof cases
      case 1
      with split Some False show ?thesis by (intro disjI2 disjI1 conjI exI [of _ "[Access cand]"]) simp_all
    next
      case 2
      with split Some show ?thesis by simp
    next
      case 3
      with split Some show ?thesis by simp
    next
      case 4
      have "child_search sys name path =
          (Access cand # Execve cand # fst (search_rest sys name path), snd (search_rest sys name path))"
        using split Some 4 by (simp only: option.case if_False if_True not_False_eq_True simp_thms)
      with False show ?thesis
        by (intro disjI2 disjI1 conjI exI [of _ "[Access cand, Execve cand]"]) simp_all
    qed
  qed
qed (simp add: child_search.simps)

lemma child_search_ends:
  "snd (child_search sys name path) \<noteq> Exit126 \<and> (\<forall>p. snd (child_search sys name path) = Executed p \<longrightarrow>
     (\<exists>pre. fst (child_search sys name path) = pre @ [Execve p] \<and> sys (Execve p) = 0))"
  (is "?P path")
proof (induction "length path" arbitrary: path rule: less_induct)
  case less
  have rest: "snd (search_rest sys name path) \<noteq> Exit126 \<and> (\<forall>p. snd (search_rest sys name path) = Executed p \<longrightarrow>
     (\<exists>pre. fst (search_rest sys name path) = pre @ [Execve p] \<and> sys (Execve p) = 0))"
  proof (cases "dropWhile (\<lambda>c. c \<noteq> CHR '':'') path")
    case Nil
    show ?thesis unfolding search_rest_def Nil by simp
  next
    case (Cons c more)
    then have "length (c # more) \<le> length path" by (metis length_dropWhile_le)
    then have "?P more" by (intro less) simp
    then show ?thesis unfolding search_rest_def Cons by simp
  qed
  from child_search_step [of sys name path] rest show ?case
    by (elim disjE exE conjE) (simp_all, metis append.assoc)
qed

lemma child_exec_executed:
  assumes "snd (child_exec sys plan) = Executed p"
  shows "\<exists>pre. fst (child_exec sys plan) = pre @ [Execve p] \<and> sys (Execve p) = 0"
    and "lp_executable plan \<noteq> [] \<Longrightarrow> p = lp_executable plan"
  using assms child_search_ends
  by (auto simp: child_exec_def exec_directly_def split: if_splits)

lemma call_or_report_end: "snd k \<noteq> Exit126 \<Longrightarrow> snd (call_or_report sys st c k) \<noteq> Exit126"
  by (simp add: call_or_report_def)

lemma run_child_end: "sys DupReport = 0 \<Longrightarrow> snd (run_child sys euid egid plan) \<noteq> Exit126"
proof -
  assume "sys DupReport = 0"
  moreover have "snd (child_exec sys plan) \<noteq> Exit126"
    by (simp add: child_exec_def exec_directly_def child_search_ends)
  then have "snd (if lp_cwd plan \<noteq> [] then call_or_report sys kChdir (Chdir (lp_cwd plan)) (child_exec sys plan)
      else child_exec sys plan) \<noteq> Exit126" by (simp add: call_or_report_end)
  then have "snd (demote sys euid egid plan (if lp_cwd plan \<noteq> [] then
      call_or_report sys kChdir (Chdir (lp_cwd plan)) (child_exec sys plan) else child_exec sys plan)) \<noteq> Exit126"
    by (simp add: demote_def Let_def call_or_report_end)
  ultimately show ?thesis unfolding run_child_def Let_def by (simp add: call_or_report_end)
qed

section \<open>The parent\<close>

lemma spawn_ok_cases:
  assumes "spawn os plan s = (r, s', signals)" "spr_code r = SpawnErrorCode.kNone"
  shows "ps_phase s \<in> {kIdle, Phase.kExited} \<and> plan_ok plan \<and> policy_valid (ps_policy s) \<and>
    (\<exists>child pgid ticks. so_fork os = Inr child \<and> wait_for_exec_confirmation (so_report os) = None \<and>
      so_getpgid os = Some pgid \<and> read_process_start_ticks (so_read_proc_stat os) child = Some ticks \<and>
      spr_identity r = \<lparr>pi_pid = child, pi_pgid = pgid, pi_start_ticks = ticks\<rparr>) \<and>
    s' = s\<lparr>ps_identity := spr_identity r, ps_exit_status := unknown_exit, ps_phase := Phase.kRunning\<rparr> \<and>
    signals = []"
proof -
  have "wait_for_exec_confirmation rep = Some (c, e, m) \<Longrightarrow> c \<noteq> SpawnErrorCode.kNone" for rep c e m
    by (auto simp: wait_for_exec_confirmation_def map_child_stage_def
        split: exec_report.splits list.splits if_splits)
  with assms show ?thesis
    by (cases "ps_phase s")
      (auto simp: spawn_def spawn_forked_def spawn_failed_def validate_plan_iff Let_def
        split: if_splits option.splits sum.splits)
qed

lemma confirmation_iff: "wait_for_exec_confirmation (child_report e) = None \<longleftrightarrow> e = Exit126 \<or> (\<exists>p. e = Executed p)"
  by (cases e) (auto simp: wait_for_exec_confirmation_def child_report_def)


section \<open>Signals\<close>

datatype sup_op = BySpawn | ByCancel | ByEscalation

text \<open>The runs of a supervisor: its state, the signals it has sent so far with their time and
  operation, and the clock, which never goes back.\<close>

inductive sup_run :: "CancelPolicy \<Rightarrow> ProcessSupervisor \<Rightarrow> (int \<times> sup_op \<times> sent) list \<Rightarrow> int \<Rightarrow> bool"
  for policy :: CancelPolicy where
  start: "sup_run policy (ProcessSupervisor_init policy) [] now"
| spawned: "sup_run policy s log t \<Longrightarrow> t \<le> now \<Longrightarrow> spawn os plan s = (r, s', signals) \<Longrightarrow>
    sup_run policy s' (log @ map (\<lambda>x. (now, BySpawn, x)) signals) now"
| adopted: "sup_run policy s log t \<Longrightarrow> t \<le> now \<Longrightarrow> adopt rd i s = (ra, s') \<Longrightarrow> sup_run policy s' log now"
| abandoned: "sup_run policy s log t \<Longrightarrow> t \<le> now \<Longrightarrow> abandon s = (rb, s') \<Longrightarrow> sup_run policy s' log now"
| cancelled: "sup_run policy s log t \<Longrightarrow> t \<le> now \<Longrightarrow> request_cancel kill_of now s = (rc, s', signals) \<Longrightarrow>
    sup_run policy s' (log @ map (\<lambda>x. (now, ByCancel, x)) signals) now"
| escalated: "sup_run policy s log t \<Longrightarrow> t \<le> now \<Longrightarrow> escalate kill_of now s = (re, s', signals) \<Longrightarrow>
    sup_run policy s' (log @ map (\<lambda>x. (now, ByEscalation, x)) signals) now"
| polled: "sup_run policy s log t \<Longrightarrow> t \<le> now \<Longrightarrow> poll_exit waitpid s = (rp, s') \<Longrightarrow> sup_run policy s' log now"

lemma kill_group_targets: "kill_group k g sig = (e, signals) \<Longrightarrow> (tg, n) \<in> set signals \<Longrightarrow> \<bar>tg\<bar> = \<bar>g\<bar> \<and> n = sig"
  by (auto simp: kill_group_def split: if_splits)

lemma kill_group_nonempty: "kill_group k g sig = (e, signals) \<Longrightarrow> (- g, sig) \<in> set signals"
  by (auto simp: kill_group_def split: if_splits)

lemma spawn_frame:
  assumes "spawn os plan s = (r, s', signals)"
  shows "s' = s \<or> ps_phase s' = Phase.kRunning \<and> ps_policy s' = ps_policy s"
proof -
  have "fst (snd (spawn_forked os child s)) = s \<or> ps_phase (fst (snd (spawn_forked os child s))) = Phase.kRunning
      \<and> ps_policy (fst (snd (spawn_forked os child s))) = ps_policy s" for child
    by (simp add: spawn_forked_def Let_def split: option.split prod.split)
  with assms show ?thesis
    by (cases "so_fork os") (auto simp: spawn_def split: if_splits, (metis fst_conv snd_conv)+)
qed

text \<open>A terminating supervisor remembers when its group was asked to stop.\<close>

definition term_sent :: "(int \<times> sup_op \<times> sent) list \<Rightarrow> int \<Rightarrow> int \<Rightarrow> bool" where
  "term_sent log t g \<longleftrightarrow> (t, ByCancel, (- g, SIGTERM)) \<in> set log"

definition kill_due :: "CancelPolicy \<Rightarrow> (int \<times> sup_op \<times> sent) list \<Rightarrow> int \<times> sup_op \<times> sent \<Rightarrow> bool" where
  "kill_due policy log e \<longleftrightarrow> (case e of (t, by_op, tg, sig) \<Rightarrow> by_op = ByEscalation \<longrightarrow>
     sig = SIGKILL \<and> (\<exists>t0 g. term_sent log t0 g \<and> \<bar>tg\<bar> = \<bar>g\<bar> \<and> t0 + 1000000 * cpo_grace_period policy \<le> t))"

definition deadline_ok :: "CancelPolicy \<Rightarrow> ProcessSupervisor \<Rightarrow> (int \<times> sup_op \<times> sent) list \<Rightarrow> bool" where
  "deadline_ok policy s log \<longleftrightarrow> (ps_phase s = Phase.kTerminating \<longrightarrow>
     (\<exists>t. term_sent log t (pid_t_cast (pi_pgid (ps_identity s))) \<and>
        ps_grace_deadline s = t + 1000000 * cpo_grace_period policy))"

definition sup_inv :: "CancelPolicy \<Rightarrow> ProcessSupervisor \<Rightarrow> (int \<times> sup_op \<times> sent) list \<Rightarrow> int \<Rightarrow> bool" where
  "sup_inv policy s log now \<longleftrightarrow>
     ps_policy s = policy \<and> (\<forall>e \<in> set log. fst e \<le> now) \<and> deadline_ok policy s log \<and>
     (\<forall>e \<in> set log. kill_due policy log e)"

lemma term_sent_append: "term_sent log t g \<Longrightarrow> term_sent (log @ new) t g"
  by (simp add: term_sent_def)

lemma kill_due_append: "kill_due policy log e \<Longrightarrow> kill_due policy (log @ new) e"
  by (auto simp: kill_due_def split: prod.splits) (blast intro: term_sent_append)

lemma sup_inv_step:
  assumes "sup_inv policy s log t" "t \<le> now" "ps_policy s' = ps_policy s"
    and "\<forall>e \<in> set new. fst e = now" "deadline_ok policy s' (log @ new)"
    and "\<forall>e \<in> set new. kill_due policy (log @ new) e"
  shows "sup_inv policy s' (log @ new) now"
  using assms by (auto simp: sup_inv_def intro: kill_due_append)

lemma sup_inv_quiet:
  assumes "sup_inv policy s log t" "t \<le> now" "ps_policy s' = ps_policy s"
    and "s' = s \<or> ps_phase s' \<noteq> Phase.kTerminating"
  shows "sup_inv policy s' log now"
  using sup_inv_step [OF assms(1,2,3), of "[]"] assms by (auto simp: sup_inv_def deadline_ok_def)

lemma cancel_effect:
  assumes "request_cancel kill_of now s = (r, s', signals)"
  shows "s' = s \<or> s' = s\<lparr>ps_grace_deadline := now + 1000000 * cpo_grace_period (ps_policy s),
      ps_phase := Phase.kTerminating\<rparr> \<and> (- pid_t_cast (pi_pgid (ps_identity s)), SIGTERM) \<in> set signals"
  using assms kill_group_nonempty [of kill_of "pid_t_cast (pi_pgid (ps_identity s))" SIGTERM]
  by (cases "ps_phase s") (auto simp: request_cancel_def split: prod.splits if_splits)

lemma escalate_effect:
  assumes "escalate kill_of now s = (r, s', signals)"
  shows "s' = s \<and> (signals = [] \<or> ps_phase s = Phase.kTerminating \<and> ps_grace_deadline s \<le> now \<and>
    (\<forall>x \<in> set signals. \<bar>fst x\<bar> = \<bar>pid_t_cast (pi_pgid (ps_identity s))\<bar> \<and> snd x = SIGKILL))"
  using assms kill_group_targets [of kill_of "pid_t_cast (pi_pgid (ps_identity s))" SIGKILL]
  by (cases "ps_phase s") (auto simp: escalate_def grace_expired_def split: prod.splits if_splits)

lemma cancel_inv:
  assumes "sup_inv policy s log t" "t \<le> now" "request_cancel kill_of now s = (r, s', signals)"
  shows "sup_inv policy s' (log @ map (\<lambda>x. (now, ByCancel, x)) signals) now"
proof (rule sup_inv_step [OF assms(1,2)])
  show "ps_policy s' = ps_policy s" using cancel_effect [OF assms(3)] by auto
  show "deadline_ok policy s' (log @ map (\<lambda>x. (now, ByCancel, x)) signals)"
    using cancel_effect [OF assms(3)]
  proof
    assume "s' = s"
    then show ?thesis using assms(1) by (auto simp: sup_inv_def deadline_ok_def intro: term_sent_append)
  next
    assume e: "s' = s\<lparr>ps_grace_deadline := now + 1000000 * cpo_grace_period (ps_policy s),
      ps_phase := Phase.kTerminating\<rparr> \<and> (- pid_t_cast (pi_pgid (ps_identity s)), SIGTERM) \<in> set signals"
    then have "term_sent (log @ map (\<lambda>x. (now, ByCancel, x)) signals) now (pid_t_cast (pi_pgid (ps_identity s)))"
      by (auto simp: term_sent_def)
    then show ?thesis using e assms(1) by (auto simp: deadline_ok_def sup_inv_def)
  qed
qed (auto simp: kill_due_def)

lemma escalate_inv:
  assumes "sup_inv policy s log t" "t \<le> now" "escalate kill_of now s = (r, s', signals)"
  shows "sup_inv policy s' (log @ map (\<lambda>x. (now, ByEscalation, x)) signals) now"
proof (rule sup_inv_step [OF assms(1,2)])
  note e = escalate_effect [OF assms(3)]
  show "ps_policy s' = ps_policy s" using e by simp
  show "deadline_ok policy s' (log @ map (\<lambda>x. (now, ByEscalation, x)) signals)"
    using e assms(1) by (auto simp: sup_inv_def deadline_ok_def intro: term_sent_append)
  have "kill_due policy (log @ map (\<lambda>x. (now, ByEscalation, x)) signals) (now, ByEscalation, x)"
    if "x \<in> set signals" for x
  proof -
    from e that have k: "ps_phase s = Phase.kTerminating" "ps_grace_deadline s \<le> now"
        "\<bar>fst x\<bar> = \<bar>pid_t_cast (pi_pgid (ps_identity s))\<bar> \<and> snd x = SIGKILL" by auto
    from k(1,2) assms(1) obtain t0 where "term_sent log t0 (pid_t_cast (pi_pgid (ps_identity s)))"
        "t0 + 1000000 * cpo_grace_period policy \<le> now"
      by (auto simp: sup_inv_def deadline_ok_def)
    with k(3) show ?thesis
      by (cases x) (auto simp: kill_due_def dest: term_sent_append)
  qed
  then show "\<forall>e \<in> set (map (\<lambda>x. (now, ByEscalation, x)) signals).
      kill_due policy (log @ map (\<lambda>x. (now, ByEscalation, x)) signals) e" by simp
qed simp

lemma spawn_inv:
  assumes "sup_inv policy s log t" "t \<le> now" "spawn os plan s = (r, s', signals)"
  shows "sup_inv policy s' (log @ map (\<lambda>x. (now, BySpawn, x)) signals) now"
proof (rule sup_inv_step [OF assms(1,2)])
  show "ps_policy s' = ps_policy s" using spawn_frame [OF assms(3)] by auto
  show "deadline_ok policy s' (log @ map (\<lambda>x. (now, BySpawn, x)) signals)"
    using spawn_frame [OF assms(3)] assms(1)
    by (auto simp: sup_inv_def deadline_ok_def intro: term_sent_append)
qed (auto simp: kill_due_def)

lemma sup_run_inv: "sup_run policy s log now \<Longrightarrow> sup_inv policy s log now"
proof (induction rule: sup_run.induct)
  case (start now)
  then show ?case by (simp add: sup_inv_def deadline_ok_def ProcessSupervisor_init_def)
next
  case (spawned s log t now os plan r s' signals)
  then show ?case by (blast intro: spawn_inv)
next
  case (adopted s log t now rd i ra s')
  then have "s' = s \<or> ps_phase s' = Phase.kRunning \<and> ps_policy s' = ps_policy s"
    by (auto simp: adopt_def Let_def split: if_splits)
  then show ?case using adopted(2) sup_inv_quiet [OF adopted.IH, of now s'] by fastforce
next
  case (abandoned s log t now rb s')
  then have "s' = s \<or> ps_phase s' = kIdle \<and> ps_policy s' = ps_policy s"
    by (auto simp: abandon_def split: if_splits)
  then show ?case using abandoned(2) sup_inv_quiet [OF abandoned.IH, of now s'] by fastforce
next
  case (cancelled s log t now kill_of rc s' signals)
  then show ?case by (blast intro: cancel_inv)
next
  case (escalated s log t now kill_of re s' signals)
  then show ?case by (blast intro: escalate_inv)
next
  case (polled s log t now waitpid rp s')
  then have "s' = s \<or> ps_phase s' = Phase.kExited \<and> ps_policy s' = ps_policy s"
    by (auto simp: poll_exit_def Let_def split: Phase.splits wait_answer.splits)
  then show ?case using polled(2) sup_inv_quiet [OF polled.IH, of now s'] by fastforce
qed


section \<open>A concrete run\<close>

definition demo_stat :: proc_stat where
  "demo_stat p = Some (''42 (a'' @ CHR '')'' # join_tokens demo_stat_tokens)"

definition demo_plan_record :: LaunchPlan where
  "demo_plan_record = prepared_plan demo_adapter 7 demo_spec demo_assignment demo_profile demo_identity"

definition demo_os :: spawn_os where
  "demo_os = \<lparr>so_pipe = 0, so_fork = Inr 42, so_setpgid = 0,
     so_report = child_report (snd (run_child (\<lambda>_. 0) 0 0 demo_plan_record)),
     so_getpgid = Some 42, so_errno = 0, so_read_proc_stat = demo_stat\<rparr>"

definition demo_supervisor :: ProcessSupervisor where
  "demo_supervisor = ProcessSupervisor_init \<lparr>cpo_grace_period = kDefaultGracePeriod\<rparr>"

lemma demo_ticks: "read_process_start_ticks demo_stat p = Some 987"
proof -
  have "\<forall>t \<in> set demo_stat_tokens. token_ok t"
    by (auto simp: demo_stat_tokens_def token_ok_def is_blank_def NUL_def)
  then have "stat_token_after_comm (''42 (a'' @ CHR '')'' # join_tokens demo_stat_tokens) 20
      = Some (demo_stat_tokens ! 19 @ join_tokens (drop 20 demo_stat_tokens))"
    using stat_token_found [of demo_stat_tokens "''42 (a''" 20]
    by (simp add: demo_stat_tokens_def NUL_def)
  moreover have "demo_stat_tokens ! 19 = ''987''" by (simp add: demo_stat_tokens_def nth_append)
  moreover have d: "digits_ok ''987''" and v: "decimal_value ''987'' = 987"
    by (simp_all add: digits_ok_def is_digit_def decimal_value_def digit_value_def)
  have "strtoull (''987'' @ join_tokens (drop 20 demo_stat_tokens)) = Some (987, False)"
    unfolding strtoull_def strto_subject_digits [OF d] v by simp
  ultimately show ?thesis by (simp add: read_process_start_ticks_def demo_stat_def)
qed

lemma demo_run: "snd (run_child (\<lambda>_. 0) 0 0 demo_plan_record) = Executed ''/bin/py''"
  by (simp add: run_child_def demote_def call_or_report_def child_exec_def exec_directly_def
      demo_plan_record_def demo_plan)

lemma demo_plan_ok: "plan_ok demo_plan_record"
  using demo_prepare by (simp add: demo_plan_record_def prepare_ok_iff validate_plan_iff)

lemma demo_spawn:
  "spawn demo_os demo_plan_record demo_supervisor =
     (\<lparr>spr_code = SpawnErrorCode.kNone, spr_identity = \<lparr>pi_pid = 42, pi_pgid = 42, pi_start_ticks = 987\<rparr>,
       spr_error_number = 0, spr_message = []\<rparr>,
      demo_supervisor\<lparr>ps_identity := \<lparr>pi_pid = 42, pi_pgid = 42, pi_start_ticks = 987\<rparr>,
        ps_exit_status := unknown_exit, ps_phase := Phase.kRunning\<rparr>, [])"
proof -
  have "lpv_ok (validate_plan demo_plan_record)" using demo_plan_ok by (simp add: validate_plan_iff)
  then show ?thesis
    by (simp add: spawn_def demo_supervisor_def ProcessSupervisor_init_def policy_valid_def
        kMinGracePeriod_def kMaxGracePeriod_def kDefaultGracePeriod_def demo_os_def spawn_forked_def
        demo_run child_report_def wait_for_exec_confirmation_def demo_ticks Let_def)
qed



text \<open>A child that cannot set up its report pipe ends without a report, which the parent takes for the
  confirmation of the exec.\<close>

lemma lost_report_confirms:
  assumes "sys DupReport \<noteq> 0"
  shows "snd (run_child sys euid egid plan) = Exit126"
    and "wait_for_exec_confirmation (child_report (snd (run_child sys euid egid plan))) = None"
  using assms by (simp_all add: run_child_def child_report_def wait_for_exec_confirmation_def)

end
