(* ===== verification/Log_Sink_Props.thy ===== *)
theory Log_Sink_Props
  imports Log_Sink
begin

text \<open>
  What \<open>append\<close> promises of every byte it is given: it is accepted, in order, or counted as dropped.
  \<open>log_back_end io content\<close> is what the sink relies on, with \<open>content\<close> the bytes written so far: a
  successful write appends its bytes, a failed one appends a prefix of them, the other operations
  write nothing, and a file opened after the old one was moved away is empty.
\<close>

section \<open>The back end\<close>

definition log_back_end :: "'f LogIo \<Rightarrow> ('f \<Rightarrow> string) \<Rightarrow> bool" where
  "log_back_end io content \<longleftrightarrow>
     (\<forall>fd data f. case io_write_all io fd data f of
        (None, f1) \<Rightarrow> content f1 = content f @ data
      | (Some e, f1) \<Rightarrow> \<exists>n. content f1 = content f @ take n data)
   \<and> (\<forall>path f. content (snd (io_open_append io path f)) = content f)
   \<and> (\<forall>fd f. content (snd (io_close_fd io fd f)) = content f)
   \<and> (\<forall>from to f. content (snd (io_rotate io from to f)) = content f)
   \<and> (\<forall>path f. content (snd (io_remove_file io path f)) = content f)
   \<and> (\<forall>fd u g f. content (snd (io_apply_ownership io fd u g f)) = content f)
   \<and> (\<forall>path f f1 fd f2 u g.
        (io_remove_file io path f = (None, f1)
         \<or> (\<exists>to. to \<noteq> path \<and> io_rotate io path to f = (None, f1)))
        \<longrightarrow> io_open_append io path f1 = (Inr fd, f2)
        \<longrightarrow> io_file_size io fd (snd (io_apply_ownership io fd u g f2)) = 0)"

lemma back_end_write:
  assumes "log_back_end io content" "io_write_all io fd data f = (r, f1)"
  shows "r = None \<Longrightarrow> content f1 = content f @ data"
    and "\<exists>n. content f1 = content f @ take n data"
proof -
  from assms(1) have *: "case io_write_all io fd data f of
        (None, f1) \<Rightarrow> content f1 = content f @ data
      | (Some e, f1) \<Rightarrow> \<exists>n. content f1 = content f @ take n data"
    unfolding log_back_end_def by (elim conjE) (erule allE)+
  then show "r = None \<Longrightarrow> content f1 = content f @ data" using assms(2) by simp
  from * assms(2) show "\<exists>n. content f1 = content f @ take n data"
    by (cases r) (auto intro: exI[of _ "length data"])
qed

lemma back_end_quiet:
  assumes "log_back_end io content"
  shows "content (snd (io_open_append io path f)) = content f"
    and "content (snd (io_close_fd io fd f)) = content f"
    and "content (snd (io_rotate io from to f)) = content f"
    and "content (snd (io_remove_file io path f)) = content f"
    and "content (snd (io_apply_ownership io fd u g f)) = content f"
  using assms unfolding log_back_end_def by simp_all

lemma back_end_fresh:
  assumes "log_back_end io content"
    and "io_remove_file io path f = (None, f1)
         \<or> (\<exists>to. to \<noteq> path \<and> io_rotate io path to f = (None, f1))"
    and "io_open_append io path f1 = (Inr fd, f2)"
  shows "io_file_size io fd (snd (io_apply_ownership io fd u g f2)) = 0"
  using assms unfolding log_back_end_def by blast

section \<open>Progress of a sink\<close>

text \<open>\<open>sink_progress kind n s t\<close>: from \<open>s\<close> to \<open>t\<close> the stream accepted \<open>n\<close> bytes and nothing else was
  counted.\<close>

definition other_stream :: "LogStreamKind \<Rightarrow> LogStreamKind" where
  "other_stream kind = (if kind = kStdout then kStderr else kStdout)"

definition sink_progress :: "LogStreamKind \<Rightarrow> nat \<Rightarrow> LogSink \<Rightarrow> LogSink \<Rightarrow> bool" where
  "sink_progress kind n s t \<longleftrightarrow>
     logical_offset kind t = logical_offset kind s + of_nat n
   \<and> lst_pending_drop (sink_stream kind t) = lst_pending_drop (sink_stream kind s)
   \<and> sink_stream (other_stream kind) t = sink_stream (other_stream kind) s
   \<and> ls_config t = ls_config s \<and> ls_opened t = ls_opened s
   \<and> lss_bytes_accepted (ls_statistics t) = lss_bytes_accepted (ls_statistics s)
   \<and> lss_bytes_dropped (ls_statistics t) = lss_bytes_dropped (ls_statistics s)"

lemma sink_stream_put [simp]:
  "sink_stream kind (put_stream kind st s) = st"
  "sink_stream (other_stream kind) (put_stream kind st s) = sink_stream (other_stream kind) s"
  "ls_config (put_stream kind st s) = ls_config s"
  "ls_options (put_stream kind st s) = ls_options s"
  "ls_opened (put_stream kind st s) = ls_opened s"
  "ls_statistics (put_stream kind st s) = ls_statistics s"
  by (auto simp: sink_stream_def put_stream_def other_stream_def)

lemma sink_stream_fields [simp]:
  "sink_stream kind (s\<lparr>ls_statistics := x\<rparr>) = sink_stream kind s"
  "sink_stream kind (s\<lparr>ls_ownership_downgraded := b\<rparr>) = sink_stream kind s"
  "sink_stream kind (s\<lparr>ls_opened := b\<rparr>) = sink_stream kind s"
  by (auto simp: sink_stream_def)

lemma current_path_frame [simp]:
  "current_path (put_stream kind st s) k = current_path s k"
  "current_path (s\<lparr>ls_ownership_downgraded := b\<rparr>) k = current_path s k"
  by (auto simp: current_path_def)

lemma sink_progress_refl: "sink_progress kind 0 s s"
  by (simp add: sink_progress_def)

lemma sink_progress_trans:
  "sink_progress kind m s t \<Longrightarrow> sink_progress kind n t u \<Longrightarrow> sink_progress kind (m + n) s u"
  by (simp add: sink_progress_def)

lemma history_path_other: "history_path s kind i \<noteq> current_path s kind"
  by (simp add: history_path_def)

lemma shift_history_quiet:
  "log_back_end io content \<Longrightarrow> content (shift_history io s kind i f) = content f"
proof (induction io s kind i f rule: shift_history.induct)
  case (1 io s kind index f)
  then show ?case
    by (subst shift_history.simps) (simp add: back_end_quiet)
qed

lemma open_stream_effect:
  assumes be: "log_back_end io content"
    and op: "open_stream io kind error s f = (code, error', s', f')"
  shows "content f' = content f"
    and "sink_progress kind 0 (put_stream kind ((sink_stream kind s')\<lparr>lst_offset := off\<rparr>) s')
           (put_stream kind ((sink_stream kind s)\<lparr>lst_offset := off\<rparr>) s)"
    and "code \<noteq> LogSinkErrorCode.kNone \<Longrightarrow> sink_progress kind 0 s s'"
proof -
  note q = back_end_quiet[OF be]
  obtain r f1 where o1: "io_open_append io (current_path s kind) f = (r, f1)" by fastforce
  have c1: "content f1 = content f" using q(1)[of "current_path s kind" f] o1 by simp
  let ?own = "\<lambda>fd. io_apply_ownership io fd (lso_owner_uid (ls_options s)) (lso_owner_gid (ls_options s)) f1"
  have c2: "content (snd (?own fd)) = content f" for fd using q(5) c1 by simp
  have c2': "?own fd = (a, b) \<Longrightarrow> content b = content f" for fd a b using c2[of fd] by simp
  show "content f' = content f"
    using op o1 c1 c2' q(2)
    by (auto simp: open_stream_def apply_ownership_for_new_file_def Let_def
        split: sum.splits option.splits prod.splits if_splits)
  show "sink_progress kind 0 (put_stream kind ((sink_stream kind s')\<lparr>lst_offset := off\<rparr>) s')
           (put_stream kind ((sink_stream kind s)\<lparr>lst_offset := off\<rparr>) s)"
    using op o1
    by (auto simp: open_stream_def apply_ownership_for_new_file_def Let_def sink_progress_def
        logical_offset_def split: sum.splits option.splits prod.splits if_splits)
  show "sink_progress kind 0 s s'" if "code \<noteq> LogSinkErrorCode.kNone"
    using op o1 that
    by (auto simp: open_stream_def apply_ownership_for_new_file_def Let_def sink_progress_def
        logical_offset_def split: sum.splits option.splits prod.splits if_splits)
qed

lemma rotate_stream_effect:
  assumes be: "log_back_end io content"
    and rot: "rotate_stream io kind s f = (e, s', f')"
  shows "content f' = content f" and "sink_progress kind 0 s s'"
    and "e = None \<Longrightarrow> lst_file_bytes (sink_stream kind s') = 0"
proof -
  note q = back_end_quiet[OF be]
  obtain s1 f1 where cl: "close_for_rotation io kind s f = (s1, f1)" by fastforce
  obtain m f2 where mv: "move_current io kind s1 f1 = (m, f2)" by fastforce
  obtain code er s2 f3 where op: "open_stream io kind [] s1 f2 = (code, er, s2, f3)"
    by (cases "open_stream io kind [] s1 f2")
  have s1: "sink_progress kind 0 s s1" and c1: "content f1 = content f"
    using cl q(2) by (auto simp: close_for_rotation_def Let_def sink_progress_def
        logical_offset_def split: if_splits)
  have c2: "content f2 = content f1"
    using mv q(3,4) shift_history_quiet[OF be]
    by (auto simp: move_current_def split: if_splits) (metis snd_conv)+
  note o = open_stream_effect[OF be op]
  have p2: "sink_progress kind 0 s (put_stream kind
       ((sink_stream kind s2)\<lparr>lst_offset := lst_offset (sink_stream kind s)\<rparr>) s2)"
    using s1 o(2)[of "lst_offset (sink_stream kind s)"]
    by (auto simp: sink_progress_def logical_offset_def)
  show "content f' = content f"
    using rot cl mv op c1 c2 o(1)
    by (auto simp: rotate_stream_def Let_def split: option.splits if_splits)
  show "sink_progress kind 0 s s'"
    using rot cl mv op s1 p2 o(3) sink_progress_trans[of kind 0 s s1 0 s2]
    by (auto simp: rotate_stream_def Let_def sink_progress_def logical_offset_def
        split: option.splits if_splits)
  show "lst_file_bytes (sink_stream kind s') = 0" if "e = None"
  proof -
    have m: "m = None" and code: "code = LogSinkErrorCode.kNone"
      using rot cl mv op that
      by (auto simp: rotate_stream_def Let_def split: option.splits if_splits)
    have "lst_file_bytes (sink_stream kind s') = lst_file_bytes (sink_stream kind s2)"
      using rot cl mv op that
      by (auto simp: rotate_stream_def Let_def split: option.splits if_splits)
    moreover have "io_remove_file io (current_path s1 kind) f1 = (None, f2)
         \<or> (\<exists>to f0. to \<noteq> current_path s1 kind \<and> io_rotate io (current_path s1 kind) to f0 = (None, f2))"
      using mv m history_path_other[of s1 kind 1] by (auto simp: move_current_def split: if_splits)
    then have "io_open_append io (current_path s1 kind) f2 = (Inr fd, f4)
        \<Longrightarrow> io_file_size io fd (snd (io_apply_ownership io fd u g f4)) = 0" for fd f4 u g
      using back_end_fresh[OF be] by blast
    then have "io_open_append io (current_path s1 kind) f2 = (Inr fd, f4)
        \<Longrightarrow> io_apply_ownership io fd u g f4 = (a, b) \<Longrightarrow> io_file_size io fd b = 0" for fd f4 u g a b
      by (metis snd_conv)
    then have "lst_file_bytes (sink_stream kind s2) = 0"
      using op code
      by (auto simp: open_stream_def apply_ownership_for_new_file_def Let_def
        split: sum.splits option.splits prod.splits if_splits)
    ultimately show ?thesis by simp
  qed
qed

lemma write_chunk_effect:
  assumes be: "log_back_end io content" and wr: "write_chunk io kind n data s f = (e, s', f')"
    and n: "n \<le> length data"
  shows "e = None \<Longrightarrow> sink_progress kind n s s' \<and> content f' = content f @ take n data"
    and "e \<noteq> None \<Longrightarrow> sink_progress kind 0 s s' \<and> (\<exists>k. content f' = content f @ take k data)"
proof -
  obtain r f1 where w: "io_write_all io (lst_fd (sink_stream kind s)) (take n data) f = (r, f1)"
    by fastforce
  note b = back_end_write[OF be w]
  show "e = None \<Longrightarrow> sink_progress kind n s s' \<and> content f' = content f @ take n data"
    using wr w b(1) by (auto simp: write_chunk_def Let_def sink_progress_def logical_offset_def
        split: option.splits)
  show "e \<noteq> None \<Longrightarrow> sink_progress kind 0 s s' \<and> (\<exists>k. content f' = content f @ take k data)"
    using wr w b(2) by (auto simp: write_chunk_def Let_def sink_progress_def logical_offset_def
        count_write_failure_def split: option.splits)
qed

section \<open>The loop\<close>

definition loop_done ::
  "('f \<Rightarrow> string) \<Rightarrow> LogStreamKind \<Rightarrow> string \<Rightarrow> LogWriteResult \<Rightarrow> LogSink \<Rightarrow> 'f
     \<Rightarrow> string \<times> LogWriteResult \<times> LogSink \<times> 'f \<Rightarrow> bool" where
  "loop_done content kind data result s f out \<longleftrightarrow>
     (case out of (rest, result', s', f') \<Rightarrow>
        \<exists>acc k. data = acc @ rest \<and> sink_progress kind (length acc) s s'
          \<and> lwr_bytes_accepted result' = lwr_bytes_accepted result + length acc
          \<and> lwr_dropped_bytes result' = lwr_dropped_bytes result
          \<and> (rest = [] \<longrightarrow> lwr_code result' = lwr_code result)
          \<and> (rest \<noteq> [] \<longrightarrow> lwr_code result' = kWriteFailed \<or> lwr_code result' = kRotateFailed)
          \<and> (lwr_code result' = kRotateFailed \<longrightarrow> k = 0)
          \<and> content f' = content f @ acc @ take k rest)"

lemma loop_done_later:
  assumes "loop_done content kind (drop n data) result1 s1 f1 out"
    and "sink_progress kind n s s1" "content f1 = content f @ take n data" "n \<le> length data"
    and "lwr_bytes_accepted result1 = lwr_bytes_accepted result + n"
    and "lwr_dropped_bytes result1 = lwr_dropped_bytes result" "lwr_code result1 = lwr_code result"
  shows "loop_done content kind data result s f out"
proof -
  obtain rest result' s' f' where out: "out = (rest, result', s', f')" by (cases out)
  from assms(1) obtain acc k where a: "drop n data = acc @ rest"
      "sink_progress kind (length acc) s1 s'"
      "lwr_bytes_accepted result' = lwr_bytes_accepted result1 + length acc"
      "lwr_dropped_bytes result' = lwr_dropped_bytes result1"
      "rest = [] \<longrightarrow> lwr_code result' = lwr_code result1"
      "rest \<noteq> [] \<longrightarrow> lwr_code result' = kWriteFailed \<or> lwr_code result' = kRotateFailed"
      "lwr_code result' = kRotateFailed \<longrightarrow> k = 0"
      "content f' = content f1 @ acc @ take k rest"
    unfolding loop_done_def out by auto
  let ?acc = "take n data @ acc"
  have "data = ?acc @ rest" using a(1) by (metis append.assoc append_take_drop_id)
  moreover have "length ?acc = n + length acc" using assms(4) by simp
  ultimately show ?thesis
    unfolding loop_done_def out prod.case
    using a assms sink_progress_trans[OF assms(2) a(2)]
    by (intro exI[of _ ?acc] exI[of _ k]) simp
qed

lemma append_loop_write:
  assumes "data \<noteq> []" "\<not> lsc_max_file_bytes (ls_config s) \<le> lst_file_bytes (sink_stream kind s)"
    and "n = min (unat (lsc_max_file_bytes (ls_config s) - lst_file_bytes (sink_stream kind s)))
               (length data)"
    and "write_chunk io kind n data s f = (e, s1, f1)"
  shows "append_loop io kind data result s f =
    (if e = None
     then append_loop io kind (drop n data)
            (result\<lparr>lwr_bytes_accepted := lwr_bytes_accepted result + n\<rparr>) s1 f1
     else Some (data, result\<lparr>lwr_code := kWriteFailed, lwr_message := the e\<rparr>, s1, f1))"
  by (subst append_loop.simps)
    (simp only: assms(1,2,4) assms(3)[symmetric] Let_def prod.case if_False)

lemma append_loop_rotate:
  assumes "data \<noteq> []" "lsc_max_file_bytes (ls_config s) \<le> lst_file_bytes (sink_stream kind s)"
    and "rotate_stream io kind s f = (e, s1, f1)"
  shows "append_loop io kind data result s f =
    (if e = None then append_loop io kind data (result\<lparr>lwr_rotated := True\<rparr>) s1 f1
     else Some (data, result\<lparr>lwr_code := kRotateFailed, lwr_message := the e\<rparr>, s1, f1))"
  by (subst append_loop.simps) (simp only: assms prod.case if_False if_True)

lemma append_loop_returns:
  assumes be: "log_back_end io content"
  shows "lsc_max_file_bytes (ls_config s) > 0 \<Longrightarrow> lwr_code result = LogSinkErrorCode.kNone \<Longrightarrow>
    \<exists>out. append_loop io kind data result s f = Some out
        \<and> loop_done content kind data result s f out"
proof (induction "length data" arbitrary: data result s f rule: less_induct)
  case less
  have turn: "\<exists>out. append_loop io kind data r t g = Some out \<and> loop_done content kind data r t g out"
    if data: "data \<noteq> []" and room: "lst_file_bytes (sink_stream kind t) < lsc_max_file_bytes (ls_config t)"
      and ok: "lwr_code r = LogSinkErrorCode.kNone" for r t g
  proof -
    let ?n = "min (unat (lsc_max_file_bytes (ls_config t) - lst_file_bytes (sink_stream kind t)))
       (length data)"
    obtain e t1 g1 where w: "write_chunk io kind ?n data t g = (e, t1, g1)"
      by (cases "write_chunk io kind ?n data t g")
    have n: "0 < ?n" using data room by (simp add: unat_gt_0)
    have step: "append_loop io kind data r t g =
        (if e = None then append_loop io kind (drop ?n data)
            (r\<lparr>lwr_bytes_accepted := lwr_bytes_accepted r + ?n\<rparr>) t1 g1
         else Some (data, r\<lparr>lwr_code := kWriteFailed, lwr_message := the e\<rparr>, t1, g1))"
      using append_loop_write[OF data _ refl w] room by (simp only: not_le)
    show ?thesis
    proof (cases "e = None")
      case True
      have eff: "sink_progress kind ?n t t1" "content g1 = content g @ take ?n data"
        using write_chunk_effect(1)[OF be w _ True] by auto
      have "lsc_max_file_bytes (ls_config t1) > 0"
        using eff(1) room by (auto simp: sink_progress_def dest: le_less_trans[OF word_zero_le])
      moreover have "length (drop ?n data) < length data" using n data by simp
      ultimately obtain out where out: "append_loop io kind (drop ?n data)
            (r\<lparr>lwr_bytes_accepted := lwr_bytes_accepted r + ?n\<rparr>) t1 g1 = Some out"
          "loop_done content kind (drop ?n data) (r\<lparr>lwr_bytes_accepted := lwr_bytes_accepted r + ?n\<rparr>)
             t1 g1 out"
        using less.hyps[of "drop ?n data" t1 "r\<lparr>lwr_bytes_accepted := lwr_bytes_accepted r + ?n\<rparr>" g1] ok
        by auto
      have "loop_done content kind data r t g out"
        by (rule loop_done_later[OF out(2) eff]) simp_all
      then show ?thesis using step True out(1) by simp
    next
      case False
      then obtain k where "sink_progress kind 0 t t1" "content g1 = content g @ take k data"
        using write_chunk_effect(2)[OF be w] by auto
      then have "loop_done content kind data r t g
          (data, r\<lparr>lwr_code := kWriteFailed, lwr_message := the e\<rparr>, t1, g1)"
        using data unfolding loop_done_def prod.case by (intro exI[of _ "[]"] exI[of _ k]) simp
      then show ?thesis using step False by simp
    qed
  qed
  show ?case
  proof (cases "data = []")
    case True
    then have "append_loop io kind data result s f = Some (data, result, s, f)"
      by (subst append_loop.simps) simp
    moreover have "loop_done content kind data result s f (data, result, s, f)"
      using True by (auto simp: loop_done_def sink_progress_refl)
    ultimately show ?thesis by blast
  next
    case data: False
    show ?thesis
    proof (cases "lst_file_bytes (sink_stream kind s) < lsc_max_file_bytes (ls_config s)")
      case True
      then show ?thesis using turn data less.prems(2) by blast
    next
      case full: False
      obtain e s1 f1 where r: "rotate_stream io kind s f = (e, s1, f1)"
        by (cases "rotate_stream io kind s f")
      note eff = rotate_stream_effect[OF be r]
      have step: "append_loop io kind data result s f =
          (if e = None then append_loop io kind data (result\<lparr>lwr_rotated := True\<rparr>) s1 f1
           else Some (data, result\<lparr>lwr_code := kRotateFailed, lwr_message := the e\<rparr>, s1, f1))"
        using append_loop_rotate[OF data _ r] full by (simp only: not_less)
      show ?thesis
      proof (cases "e = None")
        case True
        have "lst_file_bytes (sink_stream kind s1) < lsc_max_file_bytes (ls_config s1)"
          using eff(2) eff(3)[OF True] less.prems(1) by (simp add: sink_progress_def)
        then obtain out where out: "append_loop io kind data (result\<lparr>lwr_rotated := True\<rparr>) s1 f1 = Some out"
            "loop_done content kind data (result\<lparr>lwr_rotated := True\<rparr>) s1 f1 out"
          using turn[OF data, of s1 "result\<lparr>lwr_rotated := True\<rparr>" f1] less.prems(2) by auto
        have "loop_done content kind data result s f out"
          by (rule loop_done_later[of _ _ 0 _ "result\<lparr>lwr_rotated := True\<rparr>" s1 f1])
            (use out(2) eff(1,2) in auto)
        then show ?thesis using step True out(1) by simp
      next
        case False
        have "loop_done content kind data result s f
            (data, result\<lparr>lwr_code := kRotateFailed, lwr_message := the e\<rparr>, s1, f1)"
          using data eff(1,2) unfolding loop_done_def prod.case
          by (intro exI[of _ "[]"] exI[of _ 0]) simp
        then show ?thesis using step False by simp
      qed
    qed
  qed
qed

section \<open>The accounting of an append\<close>

lemma write_marker_effect:
  assumes be: "log_back_end io content" and wr: "write_marker io kind s f = (s', f')"
  shows "logical_offset kind s' = logical_offset kind s"
    and "sink_stream (other_stream kind) s' = sink_stream (other_stream kind) s"
    and "ls_config s' = ls_config s"
    and "lss_bytes_accepted (ls_statistics s') = lss_bytes_accepted (ls_statistics s)"
    and "lss_bytes_dropped (ls_statistics s') = lss_bytes_dropped (ls_statistics s)"
    and "\<exists>m. content f' = content f @ take m (drop_marker_text (lst_pending_drop (sink_stream kind s)))
           \<and> (lst_pending_drop (sink_stream kind s) = 0 \<longrightarrow> m = 0)
           \<and> (lst_pending_drop (sink_stream kind s') = 0 \<and> lst_pending_drop (sink_stream kind s) \<noteq> 0
                \<longrightarrow> m = length (drop_marker_text (lst_pending_drop (sink_stream kind s))))
           \<and> (lst_pending_drop (sink_stream kind s') = 0
              \<or> lst_pending_drop (sink_stream kind s') = lst_pending_drop (sink_stream kind s))"
proof -
  let ?st = "sink_stream kind s" and ?marker = "drop_marker_text (lst_pending_drop (sink_stream kind s))"
  obtain r f1 where w: "io_write_all io (lst_fd ?st) ?marker f = (r, f1)" by fastforce
  note b = back_end_write[OF be w]
  show "logical_offset kind s' = logical_offset kind s"
    and "sink_stream (other_stream kind) s' = sink_stream (other_stream kind) s"
    and "ls_config s' = ls_config s"
    and "lss_bytes_accepted (ls_statistics s') = lss_bytes_accepted (ls_statistics s)"
    and "lss_bytes_dropped (ls_statistics s') = lss_bytes_dropped (ls_statistics s)"
    using wr w by (auto simp: write_marker_def Let_def count_write_failure_def logical_offset_def
        split: if_splits option.splits)
  show "\<exists>m. content f' = content f @ take m ?marker \<and> (lst_pending_drop ?st = 0 \<longrightarrow> m = 0)
      \<and> (lst_pending_drop (sink_stream kind s') = 0 \<and> lst_pending_drop ?st \<noteq> 0 \<longrightarrow> m = length ?marker)
      \<and> (lst_pending_drop (sink_stream kind s') = 0
         \<or> lst_pending_drop (sink_stream kind s') = lst_pending_drop ?st)"
  proof (cases "lst_pending_drop ?st > 0")
    case False
    then show ?thesis using wr by (auto simp: write_marker_def Let_def)
  next
    case True
    show ?thesis
    proof (cases r)
      case None
      then have "s' = put_stream kind (?st\<lparr>lst_file_bytes := lst_file_bytes ?st + of_nat (length ?marker),
          lst_pending_drop := 0\<rparr>) s" "f' = f1"
        using wr w True by (simp_all add: write_marker_def Let_def)
      then show ?thesis using b(1)[OF None] True by (intro exI[of _ "length ?marker"]) auto
    next
      case (Some e)
      then have s': "s' = count_write_failure s" "f' = f1"
        using wr w True by (simp_all add: write_marker_def Let_def)
      obtain m where "content f1 = content f @ take m ?marker" using b(2) by blast
      then show ?thesis using True s' by (intro exI[of _ m]) (auto simp: count_write_failure_def)
    qed
  qed
qed

lemma finish_append_eq:
  assumes "finish_append kind (rest, result, s, f) = (r, t, g)"
  shows "lwr_code r = lwr_code result" "lwr_bytes_accepted r = lwr_bytes_accepted result" "g = f"
    and "lwr_dropped_bytes r = (if rest = [] then lwr_dropped_bytes result else of_nat (length rest))"
    and "logical_offset kind t = logical_offset kind s"
    and "lst_pending_drop (sink_stream kind t) = lst_pending_drop (sink_stream kind s) + of_nat (length rest)"
    and "sink_stream (other_stream kind) t = sink_stream (other_stream kind) s"
    and "lss_bytes_accepted (ls_statistics t) =
           lss_bytes_accepted (ls_statistics s) + of_nat (lwr_bytes_accepted result)"
    and "lss_bytes_dropped (ls_statistics t) = lss_bytes_dropped (ls_statistics s) + of_nat (length rest)"
  using assms by (auto simp: finish_append_def Let_def logical_offset_def split: if_splits)

text \<open>The loop and the bookkeeping after it.\<close>

lemma append_rest:
  assumes back_end: "log_back_end io content" and limit: "0 < lsc_max_file_bytes (ls_config s)"
  shows "\<exists>res r t g k. append_loop io kind data LogWriteResult_init s f = Some res
    \<and> finish_append kind res = (r, t, g) \<and> lwr_bytes_accepted r \<le> length data
    \<and> lwr_dropped_bytes r = of_nat (length data - lwr_bytes_accepted r)
    \<and> (lwr_code r = LogSinkErrorCode.kNone \<longleftrightarrow> lwr_bytes_accepted r = length data)
    \<and> logical_offset kind t = logical_offset kind s + of_nat (lwr_bytes_accepted r)
    \<and> lst_pending_drop (sink_stream kind t) = lst_pending_drop (sink_stream kind s) + lwr_dropped_bytes r
    \<and> lss_bytes_accepted (ls_statistics t) =
        lss_bytes_accepted (ls_statistics s) + of_nat (lwr_bytes_accepted r)
    \<and> lss_bytes_dropped (ls_statistics t) = lss_bytes_dropped (ls_statistics s) + lwr_dropped_bytes r
    \<and> sink_stream (other_stream kind) t = sink_stream (other_stream kind) s
    \<and> content g = content f @ take (lwr_bytes_accepted r) data @ take k (drop (lwr_bytes_accepted r) data)
    \<and> (lwr_code r \<noteq> kWriteFailed \<longrightarrow> k = 0)"
proof -
  obtain rest result s2 f2 where loop: "append_loop io kind data LogWriteResult_init s f =
        Some (rest, result, s2, f2)"
      and ended: "loop_done content kind data LogWriteResult_init s f (rest, result, s2, f2)"
    using append_loop_returns[OF back_end, of s LogWriteResult_init kind data f] limit
    by (auto simp: LogWriteResult_init_def)
  obtain r t g where fin: "finish_append kind (rest, result, s2, f2) = (r, t, g)"
    by (cases "finish_append kind (rest, result, s2, f2)")
  obtain acc k where a: "data = acc @ rest" "sink_progress kind (length acc) s s2"
      "lwr_bytes_accepted result = length acc" "lwr_dropped_bytes result = 0"
      "rest = [] \<longrightarrow> lwr_code result = LogSinkErrorCode.kNone"
      "rest \<noteq> [] \<longrightarrow> lwr_code result = kWriteFailed \<or> lwr_code result = kRotateFailed"
      "lwr_code result = kRotateFailed \<longrightarrow> k = 0" "content f2 = content f @ acc @ take k rest"
    using ended unfolding loop_done_def by (auto simp: LogWriteResult_init_def)
  note e = finish_append_eq[OF fin] and p = a(2)[unfolded sink_progress_def]
  have dropped: "lwr_dropped_bytes r = of_nat (length rest)" using e(4) a(4) by simp
  have accepted: "lwr_bytes_accepted r = length acc" using e(2) a(3) by simp
  have "lwr_code r = LogSinkErrorCode.kNone \<longleftrightarrow> rest = []" unfolding e(1) using a(5,6) by auto
  moreover have "lwr_code r \<noteq> kWriteFailed \<longrightarrow> (if rest = [] then 0 else k) = 0"
    unfolding e(1) using a(6,7) by auto
  ultimately show ?thesis
    using loop fin dropped accepted e a(1,3,8) p
    by (intro exI[of _ "(rest, result, s2, f2)"] exI[of _ r] exI[of _ t] exI[of _ g]
        exI[of _ "if rest = [] then 0 else k"]) simp
qed

text \<open>Property C39. On an open stream of a sink whose back end appends what it is told to write,
  \<open>append\<close> always returns, and every byte it was given is accounted for: a prefix of the data is
  accepted and the rest is reported as dropped, counted in the statistics and added to the marker that
  is still owed; the result is \<open>kNone\<close> exactly when nothing was dropped. The logical offset advances
  by the accepted bytes only, the other stream is untouched, and what reaches the files is the marker
  for earlier losses (in full, if it is no longer owed), then the accepted bytes in order, then at most
  a prefix of the bytes whose write failed.\<close>

theorem log_append_accounts:
  assumes back_end: "log_back_end io content" and opened: "is_open kind s"
    and limit: "lsc_max_file_bytes (ls_config s) > 0"
  shows "\<exists>r s' f' owed m k. sink_append io kind data s f = Some (r, s', f')
    \<and> lwr_bytes_accepted r \<le> length data
    \<and> lwr_dropped_bytes r = of_nat (length data - lwr_bytes_accepted r)
    \<and> (lwr_code r = LogSinkErrorCode.kNone \<longleftrightarrow> lwr_bytes_accepted r = length data)
    \<and> logical_offset kind s' = logical_offset kind s + of_nat (lwr_bytes_accepted r)
    \<and> lst_pending_drop (sink_stream kind s') = owed + lwr_dropped_bytes r
    \<and> (owed = 0 \<or> owed = lst_pending_drop (sink_stream kind s))
    \<and> lss_bytes_accepted (ls_statistics s') =
        lss_bytes_accepted (ls_statistics s) + of_nat (lwr_bytes_accepted r)
    \<and> lss_bytes_dropped (ls_statistics s') = lss_bytes_dropped (ls_statistics s) + lwr_dropped_bytes r
    \<and> sink_stream (other_stream kind) s' = sink_stream (other_stream kind) s
    \<and> content f' = content f @ take m (drop_marker_text (lst_pending_drop (sink_stream kind s)))
        @ take (lwr_bytes_accepted r) data @ take k (drop (lwr_bytes_accepted r) data)
    \<and> (lst_pending_drop (sink_stream kind s) = 0 \<longrightarrow> m = 0)
    \<and> (owed = 0 \<and> lst_pending_drop (sink_stream kind s) \<noteq> 0 \<longrightarrow>
         m = length (drop_marker_text (lst_pending_drop (sink_stream kind s))))
    \<and> (lwr_code r \<noteq> kWriteFailed \<longrightarrow> k = 0)"
proof -
  obtain s1 f1 where mk: "write_marker io kind s f = (s1, f1)" by fastforce
  note marker = write_marker_effect[OF back_end mk]
  have "0 < lsc_max_file_bytes (ls_config s1)" using limit marker(3) by simp
  from append_rest[OF back_end this, of kind data f1] obtain res r t g k where
    rest: "append_loop io kind data LogWriteResult_init s1 f1 = Some res" "finish_append kind res = (r, t, g)"
      "lwr_bytes_accepted r \<le> length data" "lwr_dropped_bytes r = of_nat (length data - lwr_bytes_accepted r)"
      "lwr_code r = LogSinkErrorCode.kNone \<longleftrightarrow> lwr_bytes_accepted r = length data"
      "logical_offset kind t = logical_offset kind s1 + of_nat (lwr_bytes_accepted r)"
      "lst_pending_drop (sink_stream kind t) = lst_pending_drop (sink_stream kind s1) + lwr_dropped_bytes r"
      "lss_bytes_accepted (ls_statistics t) = lss_bytes_accepted (ls_statistics s1) + of_nat (lwr_bytes_accepted r)"
      "lss_bytes_dropped (ls_statistics t) = lss_bytes_dropped (ls_statistics s1) + lwr_dropped_bytes r"
      "sink_stream (other_stream kind) t = sink_stream (other_stream kind) s1"
      "content g = content f1 @ take (lwr_bytes_accepted r) data @ take k (drop (lwr_bytes_accepted r) data)"
      "lwr_code r \<noteq> kWriteFailed \<longrightarrow> k = 0" by blast
  have "sink_append io kind data s f = Some (r, t, g)"
    using opened mk rest(1,2) by (simp add: sink_append_def is_open_def)
  moreover obtain m where
    "content f1 = content f @ take m (drop_marker_text (lst_pending_drop (sink_stream kind s)))"
      "lst_pending_drop (sink_stream kind s) = 0 \<longrightarrow> m = 0"
      "lst_pending_drop (sink_stream kind s1) = 0 \<and> lst_pending_drop (sink_stream kind s) \<noteq> 0 \<longrightarrow>
         m = length (drop_marker_text (lst_pending_drop (sink_stream kind s)))"
      "lst_pending_drop (sink_stream kind s1) = 0
       \<or> lst_pending_drop (sink_stream kind s1) = lst_pending_drop (sink_stream kind s)"
    using marker(6) by blast
  ultimately show ?thesis
    using rest marker(1,2,4,5)
    by (intro exI[of _ r] exI[of _ t] exI[of _ g] exI[of _ "lst_pending_drop (sink_stream kind s1)"]
        exI[of _ m] exI[of _ k]) simp
qed

definition demo_io :: "string LogIo" where
  "demo_io = \<lparr>io_open_append = (\<lambda>path f. (Inr 3, f)), io_write_all = (\<lambda>fd data f. (None, f @ data)),
     io_close_fd = (\<lambda>fd f. (None, f)), io_rotate = (\<lambda>from to f. (None, f)),
     io_remove_file = (\<lambda>path f. (None, f)), io_file_size = (\<lambda>fd f. 0),
     io_apply_ownership = (\<lambda>fd u g f. (None, f))\<rparr>"

definition demo_sink :: LogSink where
  "demo_sink = LogSink_init\<lparr>ls_opened := True,
     ls_stdout := \<lparr>lst_fd = 3, lst_open = True, lst_file_bytes = 268435456, lst_offset = 268435456,
       lst_pending_drop = 2\<rparr>\<rparr>"

lemma demo_back_end: "log_back_end demo_io id"
  by (simp add: log_back_end_def demo_io_def)

theorem log_append_accounts_witness:
  "\<exists>r s' f'. sink_append demo_io kStdout ''abc'' demo_sink [] = Some (r, s', f')
    \<and> lwr_bytes_accepted r \<le> 3
    \<and> logical_offset kStdout s' = 268435456 + of_nat (lwr_bytes_accepted r)"
proof -
  have "is_open kStdout demo_sink" "lsc_max_file_bytes (ls_config demo_sink) > 0"
    "logical_offset kStdout demo_sink = 268435456"
    by (simp_all add: is_open_def demo_sink_def LogSink_init_def LogSinkConfig_init_def
        kDefaultFileBytes_def sink_stream_def logical_offset_def)
  then show ?thesis
    using log_append_accounts[OF demo_back_end, of kStdout demo_sink "''abc''" "[]"] by auto
qed

text \<open>A rotation that fails leaves the stream closed: the sink stays open, but from then on \<open>append\<close>
  reports \<open>kNotOpen\<close> with no byte dropped, and no marker is owed for what is lost.\<close>

lemma rotation_failure_silent:
  assumes "rotate_stream io kind s f = (Some e, s', f')" "lst_fd (sink_stream kind s) \<ge> 0"
  shows "\<exists>r. sink_append io kind data s' f' = Some (r, s', f') \<and> lwr_code r = kNotOpen
           \<and> lwr_bytes_accepted r = 0 \<and> lwr_dropped_bytes r = 0"
proof -
  obtain s1 f1 where cl: "close_for_rotation io kind s f = (s1, f1)" by fastforce
  have s1: "\<not> lst_open (sink_stream kind s1)"
    using cl assms(2) by (auto simp: close_for_rotation_def Let_def)
  have "\<not> lst_open (sink_stream kind s')"
    using assms(1) cl s1
    by (auto simp: rotate_stream_def Let_def open_stream_def apply_ownership_for_new_file_def
        split: prod.splits option.splits sum.splits if_splits)
  then show ?thesis by (simp add: sink_append_def LogWriteResult_init_def)
qed

end
