(* ===== verification/Log_Streamer.thy ===== *)
theory Log_Streamer
  imports Log_Sink Ipc_Messages
begin

text \<open>
  The distribution of log chunks to follow sessions: \<^verbatim>\<open>src/src/runtime/log_streamer.hpp\<close> and
  \<^verbatim>\<open>src/src/runtime/log_streamer.cpp\<close>. The topic of the executor library is a parameter, a record of
  the operations the code calls on a state of its own. Job entries are shared between the registry and
  the sessions that follow them, so they live in a store of entries and the registry and the session
  tokens hold indices into it. The change listener is the count of its calls.
\<close>

section \<open>Types\<close>

datatype LogChunkKind = kData | kEof

record LogChunk =
  lc_kind :: LogChunkKind
  lc_stream :: LogStreamKind
  lc_begin_offset :: u64
  lc_end_offset :: u64
  lc_data :: bytes
  lc_job_state :: u8
  lc_exit :: "IpcExitStatus option"

record LogStreamerConfig =
  lcf_max_sessions_per_job :: u32
  lcf_max_total_sessions :: u32
  lcf_backlog_bytes_per_stream :: nat
  lcf_subscription_capacity :: nat

definition kMaxSessionsPerJobLimit :: u32 where "kMaxSessionsPerJobLimit = 1024"
definition kMaxTotalSessionsLimit :: u32 where "kMaxTotalSessionsLimit = 4096"
definition kMinBacklogBytes :: nat where "kMinBacklogBytes = 65536"
definition kMaxBacklogBytes :: nat where "kMaxBacklogBytes = 67108864"
definition kDefaultBacklogBytes :: nat where "kDefaultBacklogBytes = 8388608"
definition kMinSubscriptionCapacity :: nat where "kMinSubscriptionCapacity = 4"

definition LogStreamerConfig_init :: LogStreamerConfig where
  "LogStreamerConfig_init =
     \<lparr>lcf_max_sessions_per_job = 8, lcf_max_total_sessions = 64,
      lcf_backlog_bytes_per_stream = kDefaultBacklogBytes, lcf_subscription_capacity = 64\<rparr>"

definition log_streamer_config_error :: "LogStreamerConfig \<Rightarrow> string option" where
  "log_streamer_config_error c =
     (if lcf_max_sessions_per_job c = 0 \<or> lcf_max_sessions_per_job c > kMaxSessionsPerJobLimit
        then Some ''max_sessions_per_job must be in [1, 1024]''
      else if lcf_max_total_sessions c = 0 \<or> lcf_max_total_sessions c > kMaxTotalSessionsLimit
        then Some ''max_total_sessions must be in [1, 4096]''
      else if lcf_backlog_bytes_per_stream c < kMinBacklogBytes
              \<or> lcf_backlog_bytes_per_stream c > kMaxBacklogBytes
        then Some ''backlog_bytes_per_stream must be in [64 KiB, 64 MiB]''
      else if lcf_subscription_capacity c < kMinSubscriptionCapacity
        then Some ''subscription_capacity must be at least 4''
      else None)"

datatype LogRegisterCode = kRegistered | kAlreadyRegistered | kInvalidJob
datatype LogUnregisterCode = kUnregistered | kNotFound
datatype LogPublishCode = kPublished | kNotRegistered | kJobFinished | kInvalidOffset
datatype LogFinishCode = kFinished | kNotFound | kAlreadyFinished
datatype LogSubscribeCode = kSubscribed | kJobUnknown | kSessionLimitJob | kSessionLimitTotal

record LogReplayPlan =
  lrp_start_offset :: u64
  lrp_gap_bytes :: u64
  lrp_chunks :: "LogChunk list"

record StreamState =
  sst_backlog :: "LogChunk list"
  sst_backlog_bytes :: nat
  sst_offset :: u64
  sst_seen :: bool

definition StreamState_init :: StreamState where
  "StreamState_init = \<lparr>sst_backlog = [], sst_backlog_bytes = 0, sst_offset = 0, sst_seen = False\<rparr>"

text \<open>The topic: \<open>publish\<close> returns how many subscribers rejected the chunk, \<open>subscribe\<close> takes the
  capacity and the name.\<close>

record ('t, 'u) Topic =
  tp_new :: "string \<Rightarrow> 't"
  tp_publish :: "LogChunk \<Rightarrow> 't \<Rightarrow> nat \<times> 't"
  tp_close :: "'t \<Rightarrow> 't"
  tp_subscribe :: "nat \<Rightarrow> string \<Rightarrow> 't \<Rightarrow> 'u \<times> 't"

record 't JobEntry =
  je_job :: JobId
  je_topic :: 't
  je_sessions :: u32
  je_finished :: bool
  je_job_state :: u8
  je_exit :: "IpcExitStatus option"
  je_stdout :: StreamState
  je_stderr :: StreamState

definition JobEntry_init :: "('t, 'u) Topic \<Rightarrow> JobId \<Rightarrow> 't JobEntry" where
  "JobEntry_init topic i =
     \<lparr>je_job = i, je_topic = tp_new topic (''yori-logs-'' @ std_to_string (unat i)), je_sessions = 0,
      je_finished = False, je_job_state = 0, je_exit = None, je_stdout = StreamState_init,
      je_stderr = StreamState_init\<rparr>"

record 'u LogFollowToken =
  lft_job :: nat
  lft_subscription :: 'u
  lft_stdout_plan :: LogReplayPlan
  lft_stderr_plan :: LogReplayPlan

record 'u LogSubscribeResult =
  lsu_code :: LogSubscribeCode
  lsu_message :: string
  lsu_session :: "'u LogFollowToken option"
  lsu_finished :: bool
  lsu_job_state :: u8
  lsu_exit :: "IpcExitStatus option"

record 't LogStreamer =
  lsr_config :: LogStreamerConfig
  lsr_entries :: "'t JobEntry list"
  lsr_jobs :: "(u64, nat) omap"
  lsr_total_sessions :: u32
  lsr_listener :: bool
  lsr_notified :: nat
  lsr_published_chunks :: u64
  lsr_rejected_publishes :: u64
  lsr_backlog_trims :: u64

definition LogStreamer_init :: "LogStreamerConfig \<Rightarrow> 't LogStreamer" where
  "LogStreamer_init config =
     \<lparr>lsr_config = config, lsr_entries = [], lsr_jobs = [], lsr_total_sessions = 0,
      lsr_listener = False, lsr_notified = 0, lsr_published_chunks = 0, lsr_rejected_publishes = 0,
      lsr_backlog_trims = 0\<rparr>"

record LogStreamerStatistics =
  lstat_published_chunks :: u64
  lstat_rejected_publishes :: u64
  lstat_backlog_trims :: u64
  lstat_active_sessions :: u64
  lstat_registered_jobs :: u64

section \<open>The replay window\<close>

fun trim_backlog :: "LogChunk list \<Rightarrow> nat \<Rightarrow> nat \<Rightarrow> u64 \<Rightarrow> LogChunk list \<times> nat \<times> u64" where
  "trim_backlog backlog backlog_bytes budget trims =
     (case backlog of
        [] \<Rightarrow> (backlog, backlog_bytes, trims)
      | c # rest \<Rightarrow>
          if length backlog > 1 \<and> backlog_bytes > budget
          then trim_backlog rest (backlog_bytes - length (lc_data c)) budget (trims + 1)
          else (backlog, backlog_bytes, trims))"

declare trim_backlog.simps [simp del]

definition entry_stream :: "LogStreamKind \<Rightarrow> 't JobEntry \<Rightarrow> StreamState" where
  "entry_stream kind e = (if kind = kStdout then je_stdout e else je_stderr e)"

definition put_entry_stream :: "LogStreamKind \<Rightarrow> StreamState \<Rightarrow> 't JobEntry \<Rightarrow> 't JobEntry" where
  "put_entry_stream kind st e =
     (if kind = kStdout then e\<lparr>je_stdout := st\<rparr> else e\<lparr>je_stderr := st\<rparr>)"

text \<open>The part of \<open>publish_locked\<close> that keeps the window, for a data chunk: \<open>None\<close> when the offset
  does not continue the stream.\<close>

definition record_chunk :: "nat \<Rightarrow> LogChunk \<Rightarrow> StreamState \<Rightarrow> u64 \<Rightarrow> (StreamState \<times> u64) option" where
  "record_chunk budget chunk st trims =
     (if sst_seen st \<and> lc_begin_offset chunk \<noteq> sst_offset st then None
      else case trim_backlog (sst_backlog st @ [chunk]) (sst_backlog_bytes st + length (lc_data chunk))
                  budget trims of
        (backlog, backlog_bytes, trims') \<Rightarrow>
          Some (st\<lparr>sst_seen := True, sst_offset := lc_end_offset chunk, sst_backlog := backlog,
                  sst_backlog_bytes := backlog_bytes\<rparr>, trims'))"

definition publish_locked ::
  "('t, 'u) Topic \<Rightarrow> nat \<Rightarrow> LogChunk \<Rightarrow> 't LogStreamer \<Rightarrow> LogPublishCode \<times> 't LogStreamer" where
  "publish_locked topic index chunk s =
     (let e = lsr_entries s ! index;
          recorded = (if lc_kind chunk = kData
                      then record_chunk (lcf_backlog_bytes_per_stream (lsr_config s)) chunk
                             (entry_stream (lc_stream chunk) e) (lsr_backlog_trims s)
                      else Some (entry_stream (lc_stream chunk) e, lsr_backlog_trims s)) in
      case recorded of
        None \<Rightarrow> (kInvalidOffset, s)
      | Some (st, trims) \<Rightarrow>
          (case tp_publish topic chunk (je_topic e) of
             (rejected, t) \<Rightarrow>
               (kPublished,
                s\<lparr>lsr_entries := (lsr_entries s)[index :=
                     (put_entry_stream (lc_stream chunk) st e)\<lparr>je_topic := t\<rparr>],
                  lsr_backlog_trims := trims,
                  lsr_rejected_publishes := lsr_rejected_publishes s + of_nat rejected,
                  lsr_published_chunks := lsr_published_chunks s + 1\<rparr>)))"

definition plan_locked :: "StreamState \<Rightarrow> u64 option \<Rightarrow> LogReplayPlan" where
  "plan_locked st since =
     (let here = \<lparr>lrp_start_offset = sst_offset st, lrp_gap_bytes = 0, lrp_chunks = []\<rparr> in
      case since of
        None \<Rightarrow> here
      | Some since \<Rightarrow>
          if since \<ge> sst_offset st then here
          else (case dropWhile (\<lambda>c. lc_end_offset c \<le> since) (sst_backlog st) of
                  [] \<Rightarrow> here\<lparr>lrp_gap_bytes := sst_offset st - since\<rparr>
                | c # rest \<Rightarrow>
                    if lc_begin_offset c > since
                    then \<lparr>lrp_start_offset = lc_begin_offset c,
                          lrp_gap_bytes = lc_begin_offset c - since, lrp_chunks = c # rest\<rparr>
                    else \<lparr>lrp_start_offset = since, lrp_gap_bytes = 0, lrp_chunks = c # rest\<rparr>))"

section \<open>The operations\<close>

definition notify :: "'t LogStreamer \<Rightarrow> 't LogStreamer" where
  "notify s = (if lsr_listener s then s\<lparr>lsr_notified := lsr_notified s + 1\<rparr> else s)"

definition register_job ::
  "('t, 'u) Topic \<Rightarrow> JobId \<Rightarrow> 't LogStreamer \<Rightarrow> LogRegisterCode \<times> string \<times> 't LogStreamer" where
  "register_job topic i s =
     (if \<not> job_id_valid i then (kInvalidJob, ''invalid job id'', s)
      else if omap_contains i (lsr_jobs s)
        then (kAlreadyRegistered, ''job already registered'', s)
      else (kRegistered, [],
            s\<lparr>lsr_jobs := omap_put i (length (lsr_entries s)) (lsr_jobs s),
              lsr_entries := lsr_entries s @ [JobEntry_init topic i]\<rparr>))"

definition unregister_job ::
  "('t, 'u) Topic \<Rightarrow> JobId \<Rightarrow> 't LogStreamer \<Rightarrow> LogUnregisterCode \<times> 't LogStreamer" where
  "unregister_job topic i s =
     (case map_of (lsr_jobs s) i of
        None \<Rightarrow> (LogUnregisterCode.kNotFound, s)
      | Some index \<Rightarrow>
          (let e = lsr_entries s ! index in
           (kUnregistered,
            notify (s\<lparr>lsr_entries := (lsr_entries s)[index := e\<lparr>je_topic := tp_close topic (je_topic e)\<rparr>],
                      lsr_jobs := omap_erase i (lsr_jobs s)\<rparr>))))"

definition publish_registered ::
  "('t, 'u) Topic \<Rightarrow> JobId \<Rightarrow> LogChunk \<Rightarrow> 't LogStreamer \<Rightarrow> LogPublishCode \<times> 't LogStreamer" where
  "publish_registered topic i chunk s =
     (case map_of (lsr_jobs s) i of
        None \<Rightarrow> (kNotRegistered, s)
      | Some index \<Rightarrow>
          if je_finished (lsr_entries s ! index) then (kJobFinished, s)
          else (case publish_locked topic index chunk s of (code, s1) \<Rightarrow> (code, notify s1)))"

definition data_chunk :: "LogStreamKind \<Rightarrow> bytes \<Rightarrow> u64 \<Rightarrow> u64 \<Rightarrow> LogChunk" where
  "data_chunk kind data begin_offset end_offset =
     \<lparr>lc_kind = kData, lc_stream = kind, lc_begin_offset = begin_offset, lc_end_offset = end_offset,
      lc_data = data, lc_job_state = 0, lc_exit = None\<rparr>"

definition publish_chunk ::
  "('t, 'u) Topic \<Rightarrow> JobId \<Rightarrow> LogStreamKind \<Rightarrow> bytes \<Rightarrow> u64 \<Rightarrow> u64 \<Rightarrow> 't LogStreamer
     \<Rightarrow> LogPublishCode \<times> 't LogStreamer" where
  "publish_chunk topic i kind data begin_offset end_offset s =
     (if data = [] \<or> end_offset < begin_offset \<or> begin_offset + of_nat (length data) \<noteq> end_offset
        then (kInvalidOffset, s)
      else publish_registered topic i (data_chunk kind data begin_offset end_offset) s)"

definition publish_drop_marker ::
  "('t, 'u) Topic \<Rightarrow> JobId \<Rightarrow> LogStreamKind \<Rightarrow> u64 \<Rightarrow> u64 \<Rightarrow> 't LogStreamer
     \<Rightarrow> LogPublishCode \<times> 't LogStreamer" where
  "publish_drop_marker topic i kind offset dropped_bytes s =
     publish_registered topic i
       (data_chunk kind (map of_char (drop_marker_text dropped_bytes)) offset offset) s"

definition finish_job ::
  "('t, 'u) Topic \<Rightarrow> JobId \<Rightarrow> u8 \<Rightarrow> IpcExitStatus option \<Rightarrow> 't LogStreamer
     \<Rightarrow> LogFinishCode \<times> 't LogStreamer" where
  "finish_job topic i job_state exit s =
     (case map_of (lsr_jobs s) i of
        None \<Rightarrow> (LogFinishCode.kNotFound, s)
      | Some index \<Rightarrow>
          (let e = lsr_entries s ! index in
           if je_finished e then (kAlreadyFinished, s)
           else
             (case tp_publish topic
                     \<lparr>lc_kind = kEof, lc_stream = kStdout, lc_begin_offset = 0, lc_end_offset = 0,
                      lc_data = [], lc_job_state = job_state, lc_exit = exit\<rparr> (je_topic e) of
                (rejected, t) \<Rightarrow>
                  (LogFinishCode.kFinished,
                   notify (s\<lparr>lsr_entries := (lsr_entries s)[index :=
                        e\<lparr>je_finished := True, je_job_state := job_state, je_exit := exit,
                          je_topic := tp_close topic t\<rparr>],
                     lsr_rejected_publishes := lsr_rejected_publishes s + of_nat rejected\<rparr>)))))"

definition set_change_listener :: "bool \<Rightarrow> 't LogStreamer \<Rightarrow> 't LogStreamer" where
  "set_change_listener listener s = s\<lparr>lsr_listener := listener\<rparr>"

definition subscribe_failed :: "LogSubscribeCode \<Rightarrow> string \<Rightarrow> 'u LogSubscribeResult" where
  "subscribe_failed code message =
     \<lparr>lsu_code = code, lsu_message = message, lsu_session = None, lsu_finished = False,
      lsu_job_state = 0, lsu_exit = None\<rparr>"

definition subscribe ::
  "('t, 'u) Topic \<Rightarrow> JobId \<Rightarrow> u64 option \<Rightarrow> u64 option \<Rightarrow> 't LogStreamer
     \<Rightarrow> 'u LogSubscribeResult \<times> 't LogStreamer" where
  "subscribe topic i since_stdout since_stderr s =
     (case map_of (lsr_jobs s) i of
        None \<Rightarrow> (subscribe_failed kJobUnknown ''job has no log source'', s)
      | Some index \<Rightarrow>
          (let e = lsr_entries s ! index in
           if je_sessions e \<ge> lcf_max_sessions_per_job (lsr_config s)
             then (subscribe_failed kSessionLimitJob ''per-job follow session limit reached'', s)
           else if lsr_total_sessions s \<ge> lcf_max_total_sessions (lsr_config s)
             then (subscribe_failed kSessionLimitTotal ''global follow session limit reached'', s)
           else
             (case tp_subscribe topic (lcf_subscription_capacity (lsr_config s))
                     (''yori-follow-'' @ std_to_string (unat i)) (je_topic e) of
                (subscription, t) \<Rightarrow>
                  (\<lparr>lsu_code = kSubscribed, lsu_message = [],
                    lsu_session = Some \<lparr>lft_job = index, lft_subscription = subscription,
                      lft_stdout_plan = plan_locked (je_stdout e) since_stdout,
                      lft_stderr_plan = plan_locked (je_stderr e) since_stderr\<rparr>,
                    lsu_finished = je_finished e, lsu_job_state = je_job_state e, lsu_exit = je_exit e\<rparr>,
                   s\<lparr>lsr_entries := (lsr_entries s)[index :=
                        e\<lparr>je_topic := t, je_sessions := je_sessions e + 1\<rparr>],
                     lsr_total_sessions := lsr_total_sessions s + 1\<rparr>))))"

text \<open>The destructor of a session's token.\<close>

definition drop_token :: "'u LogFollowToken \<Rightarrow> 't LogStreamer \<Rightarrow> 't LogStreamer" where
  "drop_token token s =
     (let e = lsr_entries s ! lft_job token in
      s\<lparr>lsr_entries := (lsr_entries s)[lft_job token := e\<lparr>je_sessions := je_sessions e - 1\<rparr>],
        lsr_total_sessions := lsr_total_sessions s - 1\<rparr>)"

definition replay :: "LogStreamKind \<Rightarrow> 'u LogFollowToken \<Rightarrow> LogReplayPlan" where
  "replay kind token = (if kind = kStdout then lft_stdout_plan token else lft_stderr_plan token)"

definition streamer_statistics :: "'t LogStreamer \<Rightarrow> LogStreamerStatistics" where
  "streamer_statistics s =
     \<lparr>lstat_published_chunks = lsr_published_chunks s,
      lstat_rejected_publishes = lsr_rejected_publishes s,
      lstat_backlog_trims = lsr_backlog_trims s,
      lstat_active_sessions = ucast (lsr_total_sessions s),
      lstat_registered_jobs = of_nat (length (lsr_jobs s))\<rparr>"

end
