(* ===== verification/Log_Streamer_Props.thy ===== *)
theory Log_Streamer_Props
  imports Log_Streamer
begin

text \<open>
  The streamer against an abstract log that forgets nothing. The abstract state of one stream is the
  offset of its first byte and all bytes published since; the concrete state keeps a bounded window of
  chunks. \<open>streamer_run\<close> runs the operations of the streamer in any order beside the abstract logs, and
  the replay plan of a subscription is compared with them.
\<close>

section \<open>The abstract log\<close>

type_synonym abs_log = "(nat \<times> bytes) option"

definition abs_append :: "u64 \<Rightarrow> bytes \<Rightarrow> abs_log \<Rightarrow> abs_log" where
  "abs_append begin_offset data l =
     (case l of None \<Rightarrow> Some (unat begin_offset, data) | Some (base, bs) \<Rightarrow> Some (base, bs @ data))"

definition payload :: "LogChunk \<Rightarrow> bytes" where
  "payload c = (if lc_begin_offset c = lc_end_offset c then [] else lc_data c)"

fun chain :: "nat \<Rightarrow> LogChunk list \<Rightarrow> nat \<Rightarrow> bool" where
  "chain a [] b \<longleftrightarrow> a = b"
| "chain a (c # cs) b \<longleftrightarrow>
     unat (lc_begin_offset c) = a \<and> unat (lc_end_offset c) = a + length (payload c)
   \<and> chain (a + length (payload c)) cs b"

definition window_ok :: "nat \<Rightarrow> LogChunk list \<Rightarrow> nat \<Rightarrow> bool" where
  "window_ok budget cs n \<longleftrightarrow>
     n = sum_list (map (\<lambda>c. length (lc_data c)) cs) \<and> (n \<le> budget \<or> length cs \<le> 1)"

definition stream_refines :: "nat \<Rightarrow> abs_log \<Rightarrow> StreamState \<Rightarrow> bool" where
  "stream_refines budget l st \<longleftrightarrow>
     window_ok budget (sst_backlog st) (sst_backlog_bytes st)
   \<and> (case l of
        None \<Rightarrow> \<not> sst_seen st \<and> sst_backlog st = [] \<and> sst_offset st = 0
      | Some (base, bs) \<Rightarrow>
          sst_seen st \<and> sst_backlog st \<noteq> []
        \<and> (\<exists>old. bs = old @ concat (map payload (sst_backlog st))
                \<and> chain (base + length old) (sst_backlog st) (unat (sst_offset st))))"

lemma chain_append: "chain a (cs @ ds) b \<longleftrightarrow> (\<exists>m. chain a cs m \<and> chain m ds b)"
  by (induction cs arbitrary: a) auto

lemma chain_length: "chain a cs b \<Longrightarrow> b = a + length (concat (map payload cs))"
  by (induction cs arbitrary: a) fastforce+

lemma stream_refines_offset:
  "stream_refines budget (Some (base, bs)) st \<Longrightarrow> unat (sst_offset st) = base + length bs"
  by (auto simp: stream_refines_def dest: chain_length)

lemma trim_backlog_step:
  "trim_backlog [] n budget t = ([], n, t)"
  "trim_backlog (c # rest) n budget t =
     (if rest \<noteq> [] \<and> n > budget then trim_backlog rest (n - length (lc_data c)) budget (t + 1)
      else (c # rest, n, t))"
  by (subst trim_backlog.simps, simp)+

lemma trim_backlog_effect:
  "trim_backlog cs n budget t = (cs', n', t') \<Longrightarrow> n = sum_list (map (\<lambda>c. length (lc_data c)) cs) \<Longrightarrow>
   (\<exists>old. cs = old @ cs') \<and> (cs \<noteq> [] \<longrightarrow> cs' \<noteq> []) \<and> window_ok budget cs' n'"
proof (induction cs arbitrary: n t)
  case Nil
  then show ?case by (simp add: trim_backlog_step window_ok_def)
next
  case (Cons c cs)
  show ?case
  proof (cases "cs \<noteq> [] \<and> n > budget")
    case True
    have "trim_backlog cs (n - length (lc_data c)) budget (t + 1) = (cs', n', t')"
      using Cons.prems(1) True by (simp add: trim_backlog_step)
    then have "(\<exists>old. cs = old @ cs') \<and> (cs \<noteq> [] \<longrightarrow> cs' \<noteq> []) \<and> window_ok budget cs' n'"
      by (rule Cons.IH) (use Cons.prems(2) in simp)
    then show ?thesis using True by (metis append_Cons)
  next
    case False
    then have "cs' = c # cs" "n' = n"
      using Cons.prems(1) by (auto simp: trim_backlog_step split: if_splits)
    then show ?thesis using False Cons.prems(2) by (auto simp: window_ok_def)
  qed
qed

text \<open>Recording a chunk simulates the abstract append of its payload.\<close>

lemma record_chunk_refines:
  assumes ref: "stream_refines budget l st"
    and rec: "record_chunk budget c st t = Some (st', t')"
    and c: "unat (lc_end_offset c) = unat (lc_begin_offset c) + length (payload c)"
  shows "stream_refines budget (abs_append (lc_begin_offset c) (payload c) l) st'"
proof -
  let ?cs = "sst_backlog st @ [c]"
  obtain cs' n' where trim: "trim_backlog ?cs (sst_backlog_bytes st + length (lc_data c)) budget t = (cs', n', t')"
      and st': "st' = st\<lparr>sst_seen := True, sst_offset := lc_end_offset c, sst_backlog := cs',
        sst_backlog_bytes := n'\<rparr>"
      and cont: "sst_seen st \<longrightarrow> lc_begin_offset c = sst_offset st"
    using rec by (auto simp: record_chunk_def split: if_splits prod.splits)
  have "sst_backlog_bytes st + length (lc_data c) = sum_list (map (\<lambda>c. length (lc_data c)) ?cs)"
    using ref by (simp add: stream_refines_def window_ok_def)
  from trim_backlog_effect[OF trim this] obtain old where old: "?cs = old @ cs'"
      and cs': "cs' \<noteq> []" "window_ok budget cs' n'" by auto
  have "\<exists>base bs old. abs_append (lc_begin_offset c) (payload c) l = Some (base, bs)
      \<and> bs = old @ concat (map payload cs') \<and> chain (base + length old) cs' (unat (lc_end_offset c))"
  proof (cases l)
    case None
    then have "sst_backlog st = []" using ref by (simp add: stream_refines_def)
    then have "cs' = [c]" using old cs'(1) by (cases old) auto
    then show ?thesis using None c by (simp add: abs_append_def)
  next
    case (Some p)
    obtain base bs where p: "p = (base, bs)" by fastforce
    obtain older where o: "bs = older @ concat (map payload (sst_backlog st))"
        "chain (base + length older) (sst_backlog st) (unat (sst_offset st))"
        and seen: "sst_seen st"
      using ref Some p by (auto simp: stream_refines_def)
    have ch: "chain (base + length older) ?cs (unat (lc_end_offset c))"
      using o(2) c cont seen by (auto simp: chain_append)
    have "concat (map payload ?cs) = concat (map payload old) @ concat (map payload cs')"
      using old by (metis concat_append map_append)
    then have bytes: "bs @ payload c = (older @ concat (map payload old)) @ concat (map payload cs')"
      using o(1) by simp
    obtain m where "chain (base + length older) old m" "chain m cs' (unat (lc_end_offset c))"
      using ch unfolding old chain_append by blast
    then have "chain (base + length (older @ concat (map payload old))) cs' (unat (lc_end_offset c))"
      using chain_length[of "base + length older" old m] by (simp add: add.assoc)
    then show ?thesis using bytes Some p by (auto simp: abs_append_def)
  qed
  then show ?thesis using st' cs' by (auto simp: stream_refines_def)
qed

text \<open>A plan made from a state that refines the log replays the log.\<close>

definition replayed :: "LogReplayPlan \<Rightarrow> bytes" where
  "replayed p =
     (case lrp_chunks p of
        [] \<Rightarrow> []
      | c # cs \<Rightarrow>
          drop (unat (lrp_start_offset p) - unat (lc_begin_offset c)) (concat (map payload (c # cs))))"

definition replays :: "abs_log \<Rightarrow> u64 option \<Rightarrow> LogReplayPlan \<Rightarrow> bool" where
  "replays l since p \<longleftrightarrow>
     (case l of
        None \<Rightarrow> p = \<lparr>lrp_start_offset = 0, lrp_gap_bytes = 0, lrp_chunks = []\<rparr>
      | Some (base, bs) \<Rightarrow>
          (case since of
             None \<Rightarrow> unat (lrp_start_offset p) = base + length bs \<and> lrp_gap_bytes p = 0
               \<and> lrp_chunks p = []
           | Some n \<Rightarrow>
               if base + length bs \<le> unat n
               then unat (lrp_start_offset p) = base + length bs \<and> lrp_gap_bytes p = 0
                 \<and> lrp_chunks p = []
               else unat (lrp_start_offset p) = unat n + unat (lrp_gap_bytes p)
                 \<and> unat (lrp_start_offset p) \<le> base + length bs
                 \<and> base \<le> unat (lrp_start_offset p)
                 \<and> replayed p = drop (unat (lrp_start_offset p) - base) bs))"

lemma chain_bounds:
  "chain a cs b \<Longrightarrow> c \<in> set cs \<Longrightarrow> a \<le> unat (lc_begin_offset c) \<and> unat (lc_end_offset c) \<le> b"
proof (induction cs arbitrary: a)
  case (Cons d cs)
  then show ?case using chain_length[of _ cs b] by fastforce
qed simp

lemma chain_dropWhile:
  assumes "chain a cs b" "n < b"
  shows "\<exists>old c rest. cs = old @ c # rest \<and> dropWhile (\<lambda>c. unat (lc_end_offset c) \<le> n) cs = c # rest
      \<and> chain a old (unat (lc_begin_offset c)) \<and> n < unat (lc_end_offset c)
      \<and> (unat (lc_begin_offset c) \<le> n \<or> old = []) \<or> cs = [] \<and> a = b"
  using assms
proof (induction cs arbitrary: a)
  case (Cons d cs)
  show ?case
  proof (cases "unat (lc_end_offset d) \<le> n")
    case False
    then show ?thesis using Cons.prems by (intro disjI1 exI[of _ "[]"] exI[of _ d] exI[of _ cs]) auto
  next
    case True
    have ch: "chain (a + length (payload d)) cs b" and d: "unat (lc_begin_offset d) = a"
        "unat (lc_end_offset d) = a + length (payload d)"
      using Cons.prems(1) by auto
    have "cs \<noteq> []" using ch True d Cons.prems(2) by auto
    then obtain old c rest where *: "cs = old @ c # rest"
        "dropWhile (\<lambda>c. unat (lc_end_offset c) \<le> n) cs = c # rest"
        "chain (a + length (payload d)) old (unat (lc_begin_offset c))" "n < unat (lc_end_offset c)"
        "unat (lc_begin_offset c) \<le> n \<or> old = []"
      using Cons.IH[OF ch Cons.prems(2)] by blast
    have "unat (lc_begin_offset c) \<le> n" using *(3,5) True d by auto
    then show ?thesis using * True d
      by (intro disjI1 exI[of _ "d # old"] exI[of _ c] exI[of _ rest]) auto
  qed
qed simp

lemma plan_replays:
  assumes ref: "stream_refines budget l st"
  shows "replays l since (plan_locked st since)"
proof (cases l)
  case None
  then show ?thesis using ref
    by (auto simp: stream_refines_def replays_def plan_locked_def Let_def split: option.split)
next
  case (Some p)
  obtain base bs where p: "p = (base, bs)" by fastforce
  have off: "unat (sst_offset st) = base + length bs"
    using stream_refines_offset ref Some p by blast
  show ?thesis
  proof (cases since)
    case None
    then show ?thesis using Some p off by (simp add: replays_def plan_locked_def Let_def)
  next
    case since: (Some n)
    show ?thesis
    proof (cases "sst_offset st \<le> n")
      case True
      then have "base + length bs \<le> unat n" using off by (simp add: word_le_nat_alt)
      then show ?thesis using Some p off since True by (simp add: replays_def plan_locked_def Let_def)
    next
      case False
      then have lt: "unat n < unat (sst_offset st)" by (simp add: word_le_nat_alt)
      obtain old where o: "bs = old @ concat (map payload (sst_backlog st))"
          "chain (base + length old) (sst_backlog st) (unat (sst_offset st))"
          "sst_backlog st \<noteq> []"
        using ref Some p by (auto simp: stream_refines_def)
      from chain_dropWhile[OF o(2) lt] o(3) obtain older c rest where
          w: "sst_backlog st = older @ c # rest"
            "dropWhile (\<lambda>c. unat (lc_end_offset c) \<le> unat n) (sst_backlog st) = c # rest"
            "chain (base + length old) older (unat (lc_begin_offset c))"
            "unat n < unat (lc_end_offset c)"
        by blast
      have b: "unat (lc_begin_offset c) = base + length (old @ concat (map payload older))"
        using chain_length[OF w(3)] by simp
      have bs: "bs = (old @ concat (map payload older)) @ concat (map payload (c # rest))"
        using o(1) w(1) by simp
      have e: "unat (lc_end_offset c) \<le> base + length bs"
        using chain_bounds[OF o(2), of c] w(1) off by simp
      have plan: "plan_locked st since =
          (if lc_begin_offset c > n
           then \<lparr>lrp_start_offset = lc_begin_offset c, lrp_gap_bytes = lc_begin_offset c - n,
                 lrp_chunks = c # rest\<rparr>
           else \<lparr>lrp_start_offset = n, lrp_gap_bytes = 0, lrp_chunks = c # rest\<rparr>)"
        using False since w(2) by (simp add: plan_locked_def Let_def word_le_nat_alt)
      have be: "unat (lc_begin_offset c) \<le> unat (lc_end_offset c)"
        using o(2) w(1) by (auto simp: chain_append)
      have nb: "\<not> base + length bs \<le> unat n" using lt off by simp
      show ?thesis
      proof (cases "lc_begin_offset c > n")
        case True
        then have gap: "unat (lc_begin_offset c - n) = unat (lc_begin_offset c) - unat n"
            "unat n < unat (lc_begin_offset c)"
          by (simp_all add: unat_sub word_le_nat_alt word_less_nat_alt)
        have ne: "unat (lc_begin_offset c) \<le> base + length bs" using be e by simp
        show ?thesis
          using Some p since nb plan True gap b bs ne by (simp add: replays_def replayed_def)
      next
        case False
        then have "unat (lc_begin_offset c) \<le> unat n" by (simp add: word_less_nat_alt)
        then show ?thesis
          using Some p since nb plan False b bs e w(4)
          by (simp add: replays_def replayed_def add.assoc)
      qed
    qed
  qed
qed

section \<open>Runs of the streamer\<close>

type_synonym abs_logs = "JobId \<Rightarrow> LogStreamKind \<Rightarrow> abs_log"

definition log_append :: "JobId \<Rightarrow> LogStreamKind \<Rightarrow> u64 \<Rightarrow> bytes \<Rightarrow> abs_logs \<Rightarrow> abs_logs" where
  "log_append i kind begin_offset data h =
     h(i := (h i)(kind := abs_append begin_offset data (h i kind)))"

text \<open>The operations beside the abstract logs: registering a job starts its logs afresh, a published
  chunk is appended, everything else leaves the logs alone. A size fits a \<open>size_t\<close>.\<close>

inductive streamer_run ::
  "('t, 'u) Topic \<Rightarrow> LogStreamerConfig \<Rightarrow> 't LogStreamer \<Rightarrow> abs_logs \<Rightarrow> bool"
  for topic config where
  start: "streamer_run topic config (LogStreamer_init config) (\<lambda>i kind. None)"
| register: "streamer_run topic config s h \<Longrightarrow> register_job topic i s = (code, error, s') \<Longrightarrow>
    streamer_run topic config s' (if code = kRegistered then h(i := \<lambda>kind. None) else h)"
| unregister: "streamer_run topic config s h \<Longrightarrow>
    streamer_run topic config (snd (unregister_job topic i s)) h"
| publish: "streamer_run topic config s h \<Longrightarrow> length data < 2 ^ 64 \<Longrightarrow>
    publish_chunk topic i kind data begin_offset end_offset s = (code, s') \<Longrightarrow>
    streamer_run topic config s'
      (if code = kPublished then log_append i kind begin_offset data h else h)"
| marker: "streamer_run topic config s h \<Longrightarrow>
    publish_drop_marker topic i kind offset dropped s = (code, s') \<Longrightarrow>
    streamer_run topic config s' (if code = kPublished then log_append i kind offset [] h else h)"
| finish: "streamer_run topic config s h \<Longrightarrow>
    streamer_run topic config (snd (finish_job topic i job_state exit s)) h"
| subscribe: "streamer_run topic config s h \<Longrightarrow>
    streamer_run topic config (snd (subscribe topic i since_stdout since_stderr s)) h"
| drop: "streamer_run topic config s h \<Longrightarrow> streamer_run topic config (drop_token (token :: 'u LogFollowToken) s) h"
| listener: "streamer_run topic config s h \<Longrightarrow>
    streamer_run topic config (set_change_listener b s) h"

definition streamer_inv :: "LogStreamerConfig \<Rightarrow> 't LogStreamer \<Rightarrow> abs_logs \<Rightarrow> bool" where
  "streamer_inv config s h \<longleftrightarrow>
     lsr_config s = config
   \<and> (\<forall>i k. map_of (lsr_jobs s) i = Some k \<longrightarrow> k < length (lsr_entries s)
        \<and> (\<forall>kind. stream_refines (lcf_backlog_bytes_per_stream config) (h i kind)
                    (entry_stream kind (lsr_entries s ! k))))
   \<and> (\<forall>i j k. map_of (lsr_jobs s) i = Some k \<longrightarrow> map_of (lsr_jobs s) j = Some k \<longrightarrow> i = j)"

lemma notify_simps [simp]:
  "lsr_config (notify s) = lsr_config s" "lsr_entries (notify s) = lsr_entries s"
  "lsr_jobs (notify s) = lsr_jobs s"
  by (simp_all add: notify_def)

lemma streamer_inv_notify [simp]: "streamer_inv config (notify s) h \<longleftrightarrow> streamer_inv config s h"
  by (simp add: streamer_inv_def)

text \<open>An entry may change in everything but its streams.\<close>

lemma streamer_inv_frame:
  assumes "streamer_inv config s h" "lsr_config s' = lsr_config s" "lsr_jobs s' = lsr_jobs s"
    and "lsr_entries s' = (lsr_entries s)[k := e]"
    and "\<And>kind. entry_stream kind e = entry_stream kind (lsr_entries s ! k)"
  shows "streamer_inv config s' h"
proof -
  have "entry_stream kind (lsr_entries s' ! m) = entry_stream kind (lsr_entries s ! m)" for kind m
    using assms(4,5) by (cases "m = k \<and> k < length (lsr_entries s)") 
      (auto simp: nth_list_update list_update_beyond not_less)
  then show ?thesis using assms(1-4) unfolding streamer_inv_def by simp
qed

lemma publish_registered_inv:
  assumes inv: "streamer_inv config s h"
    and pub: "publish_registered topic i c s = (code, s')"
    and c: "lc_kind c = kData" "unat (lc_end_offset c) = unat (lc_begin_offset c) + length (payload c)"
  shows "streamer_inv config s'
     (if code = kPublished then log_append i (lc_stream c) (lc_begin_offset c) (payload c) h else h)"
proof (cases "code = kPublished")
  case False
  then show ?thesis using inv pub
    by (auto simp: publish_registered_def publish_locked_def Let_def
        split: option.splits if_splits prod.splits)
next
  case True
  obtain k where k: "map_of (lsr_jobs s) i = Some k" "\<not> je_finished (lsr_entries s ! k)"
    using pub True by (auto simp: publish_registered_def split: option.splits if_splits)
  let ?e = "lsr_entries s ! k" and ?b = "lcf_backlog_bytes_per_stream config"
  obtain st t tp where rec: "record_chunk ?b c (entry_stream (lc_stream c) ?e) (lsr_backlog_trims s)
        = Some (st, t)"
      and ent: "lsr_entries s' = (lsr_entries s)[k := (put_entry_stream (lc_stream c) st ?e)\<lparr>je_topic := tp\<rparr>]"
      and fr: "lsr_config s' = lsr_config s" "lsr_jobs s' = lsr_jobs s"
    using pub True k c(1) inv
    by (auto simp: publish_registered_def publish_locked_def Let_def streamer_inv_def
        split: option.splits prod.splits)
  have kl: "k < length (lsr_entries s)"
      and ref: "stream_refines ?b (h i kind) (entry_stream kind ?e)" for kind
    using inv k by (auto simp: streamer_inv_def)
  have new: "stream_refines ?b (abs_append (lc_begin_offset c) (payload c) (h i (lc_stream c))) st"
    by (rule record_chunk_refines[OF ref rec c(2)])
  have str: "entry_stream kind ((put_entry_stream (lc_stream c) st ?e)\<lparr>je_topic := tp\<rparr>) =
      (if kind = lc_stream c then st else entry_stream kind ?e)" for kind
    by (cases kind; cases "lc_stream c") (auto simp: entry_stream_def put_entry_stream_def)
  show ?thesis
    unfolding streamer_inv_def
  proof (intro conjI allI impI)
    show "lsr_config s' = config" using inv fr by (simp add: streamer_inv_def)
  next
    fix j m assume j: "map_of (lsr_jobs s') j = Some m"
    then show "m < length (lsr_entries s')" using inv fr ent by (auto simp: streamer_inv_def)
    fix kind
    show "stream_refines ?b
        ((if code = kPublished then log_append i (lc_stream c) (lc_begin_offset c) (payload c) h else h)
           j kind) (entry_stream kind (lsr_entries s' ! m))"
    proof (cases "j = i")
      case True
      then have "m = k" using j fr k by simp
      then show ?thesis using \<open>code = kPublished\<close> True new ref kl str ent
        by (auto simp: log_append_def)
    next
      case False
      then have "m \<noteq> k" using j fr k inv by (auto simp: streamer_inv_def)
      then show ?thesis using \<open>code = kPublished\<close> False j fr inv ent
        by (auto simp: log_append_def streamer_inv_def)
    qed
  next
    fix j j' m assume "map_of (lsr_jobs s') j = Some m" "map_of (lsr_jobs s') j' = Some m"
    then show "j = j'" using inv fr by (auto simp: streamer_inv_def)
  qed
qed

lemma data_chunk_sel [simp]:
  "lc_kind (data_chunk kind data b e) = kData" "lc_stream (data_chunk kind data b e) = kind"
  "lc_begin_offset (data_chunk kind data b e) = b" "lc_end_offset (data_chunk kind data b e) = e"
  by (simp_all add: data_chunk_def)

lemma payload_data:
  assumes "length data < 2 ^ 64" "data \<noteq> []" "\<not> e < b" "b + of_nat (length data) = e"
  shows "payload (data_chunk kind data b e) = data" "unat e = unat b + length data"
proof -
  have n: "unat (of_nat (length data) :: u64) = length data"
    using assms(1) by (simp add: unat_of_nat)
  show e: "unat e = unat b + length data"
    using assms(3,4) n by (metis linorder_not_less unat_plus_simple)
  then have "b \<noteq> e" using assms(2) by auto
  then show "payload (data_chunk kind data b e) = data"
    by (simp add: payload_def data_chunk_def)
qed

lemma streamer_run_inv: "streamer_run topic config s h \<Longrightarrow> streamer_inv config s h"
proof (induction rule: streamer_run.induct)
  case start
  then show ?case by (simp add: streamer_inv_def LogStreamer_init_def)
next
  case (register s h i code error s')
  show ?case
  proof (cases "code = kRegistered")
    case False
    then show ?thesis using register by (auto simp: register_job_def split: if_splits)
  next
    case True
    then have s': "s' = s\<lparr>lsr_jobs := omap_put i (length (lsr_entries s)) (lsr_jobs s),
        lsr_entries := lsr_entries s @ [JobEntry_init topic i]\<rparr>"
      using register.hyps(2) by (auto simp: register_job_def split: if_splits)
    have fresh: "stream_refines b None (entry_stream kind (JobEntry_init topic i))" for b kind
      by (simp add: stream_refines_def entry_stream_def JobEntry_init_def StreamState_init_def window_ok_def)
    show ?thesis using register.IH fresh True
      by (auto simp: s' streamer_inv_def map_of_omap_put nth_append split: if_splits)
        (meson less_SucI)+
  qed
next
  case (unregister s h i)
  then show ?case
    by (auto simp: unregister_job_def Let_def streamer_inv_def map_of_omap_erase nth_list_update
        entry_stream_def split: option.splits if_splits)
next
  case (publish s h data i kind begin_offset end_offset code s')
  show ?case
  proof (cases "data = [] \<or> end_offset < begin_offset \<or> begin_offset + of_nat (length data) \<noteq> end_offset")
    case True
    then have "code = kInvalidOffset" "s' = s" using publish.hyps(3) by (auto simp: publish_chunk_def)
    then show ?thesis using publish.IH by simp
  next
    case False
    let ?c = "data_chunk kind data begin_offset end_offset"
    have pl: "payload ?c = data" "unat end_offset = unat begin_offset + length data"
      using payload_data[OF publish.hyps(2)] False by auto
    have "publish_registered topic i ?c s = (code, s')"
      using publish.hyps(3) False by (simp add: publish_chunk_def)
    from publish_registered_inv[OF publish.IH this] pl show ?thesis
      by (simp cong: if_cong)
  qed
next
  case (marker s h i kind offset dropped code s')
  let ?c = "data_chunk kind (map of_char (drop_marker_text dropped)) offset offset"
  have "payload ?c = []" by (simp add: payload_def data_chunk_def)
  with publish_registered_inv[OF marker.IH marker.hyps(2)[unfolded publish_drop_marker_def]]
  show ?case by (simp cong: if_cong)
next
  case (finish s h i job_state exit)
  show ?case
  proof (cases "map_of (lsr_jobs s) i")
    case None
    then show ?thesis using finish.IH by (simp add: finish_job_def)
  next
    case (Some k)
    show ?thesis
      by (cases "je_finished (lsr_entries s ! k)")
        (use Some finish.IH in \<open>auto simp: finish_job_def Let_def split: prod.split
           intro!: streamer_inv_frame[OF finish.IH, of _ k] simp: entry_stream_def\<close>)
  qed
next
  case (subscribe s h i since_stdout since_stderr)
  show ?case
  proof (cases "map_of (lsr_jobs s) i")
    case None
    then show ?thesis using subscribe.IH by (simp add: Log_Streamer.subscribe_def)
  next
    case (Some k)
    then show ?thesis using subscribe.IH
      by (auto simp: Log_Streamer.subscribe_def Let_def entry_stream_def split: prod.split
          intro!: streamer_inv_frame[OF subscribe.IH, of _ k])
  qed
next
  case (drop s h token)
  show ?case
    by (rule streamer_inv_frame[OF drop.IH, of _ "lft_job token" "(lsr_entries s ! lft_job token)
        \<lparr>je_sessions := je_sessions (lsr_entries s ! lft_job token) - 1\<rparr>"])
      (auto simp: drop_token_def Let_def entry_stream_def)
next
  case (listener s h b)
  then show ?case by (simp add: streamer_inv_def set_change_listener_def)
qed

text \<open>Property C40. In every reachable state of the streamer, whatever was published, trimmed, finished
  and subscribed before and in whatever order, a subscription refines the abstract log that forgets
  nothing: without an offset, or with one at or past the end, it starts at the end; otherwise the start
  is the requested offset plus the announced gap, and the bytes of the replayed chunks from the start
  on are exactly the published bytes from that offset to the end of the stream. The window of every
  stream stays within its budget or is a single chunk.\<close>

theorem replay_refines_log:
  assumes run: "streamer_run topic config s h"
    and sub: "subscribe topic i since_stdout since_stderr s = (r, s')"
    and token: "lsu_session r = Some token"
  shows "replays (h i kind) (if kind = kStdout then since_stdout else since_stderr) (replay kind token)
    \<and> (\<exists>k. map_of (lsr_jobs s) i = Some k
         \<and> (sst_backlog_bytes (entry_stream kind (lsr_entries s ! k)) \<le> lcf_backlog_bytes_per_stream config
            \<or> length (sst_backlog (entry_stream kind (lsr_entries s ! k))) \<le> 1))"
proof -
  obtain k where k: "map_of (lsr_jobs s) i = Some k"
    using sub token by (auto simp: Log_Streamer.subscribe_def subscribe_failed_def split: option.splits)
  let ?e = "lsr_entries s ! k"
  have tok: "lft_stdout_plan token = plan_locked (je_stdout ?e) since_stdout"
      "lft_stderr_plan token = plan_locked (je_stderr ?e) since_stderr"
    using sub token k
    by (auto simp: Log_Streamer.subscribe_def subscribe_failed_def Let_def split: if_splits prod.splits)
  have ref: "stream_refines (lcf_backlog_bytes_per_stream config) (h i kind) (entry_stream kind ?e)" for kind
    using streamer_run_inv[OF run] k by (auto simp: streamer_inv_def)
  have "replays (h i kind) (if kind = kStdout then since_stdout else since_stderr) (replay kind token)"
    using plan_replays[OF ref[of kind]] tok by (cases kind) (auto simp: replay_def entry_stream_def)
  then show ?thesis using k ref[of kind] by (auto simp: stream_refines_def window_ok_def)
qed

definition demo_topic :: "(unit, unit) Topic" where
  "demo_topic = \<lparr>tp_new = (\<lambda>name. ()), tp_publish = (\<lambda>c t. (0, ())), tp_close = id,
     tp_subscribe = (\<lambda>n name t. ((), ()))\<rparr>"

definition demo_streamer :: "unit LogStreamer" where
  "demo_streamer =
     snd (publish_chunk demo_topic 7 kStdout [97, 98, 99] 10 13
       (snd (snd (register_job demo_topic 7 (LogStreamer_init LogStreamerConfig_init)))))"

definition demo_logs :: abs_logs where
  "demo_logs = log_append 7 kStdout 10 [97, 98, 99] ((\<lambda>i kind. None)(7 := \<lambda>kind. None))"

lemma demo_streamer_run: "streamer_run demo_topic LogStreamerConfig_init demo_streamer demo_logs"
proof -
  let ?s0 = "LogStreamer_init LogStreamerConfig_init :: unit LogStreamer"
  let ?s1 = "snd (snd (register_job demo_topic 7 ?s0))"
  have r: "register_job demo_topic 7 ?s0 = (kRegistered, [], ?s1)"
    by (simp add: register_job_def job_id_valid_def LogStreamer_init_def omap_contains_def)
  have 1: "streamer_run demo_topic LogStreamerConfig_init ?s1 ((\<lambda>i kind. None)(7 := \<lambda>kind. None))"
    using streamer_run.register[OF streamer_run.start r] by simp
  have p: "publish_chunk demo_topic 7 kStdout [97, 98, 99] 10 13 ?s1 = (kPublished, demo_streamer)"
    by (simp add: demo_streamer_def publish_chunk_def publish_registered_def publish_locked_def
        register_job_def job_id_valid_def LogStreamer_init_def omap_contains_def JobEntry_init_def
        record_chunk_def data_chunk_def entry_stream_def StreamState_init_def trim_backlog_step
        demo_topic_def Let_def)
  show ?thesis
    using streamer_run.publish[OF 1 _ p] by (simp add: demo_logs_def)
qed

lemma demo_subscribe:
  "\<exists>r s' token. subscribe demo_topic 7 (Some 11) None demo_streamer = (r, s') \<and> lsu_session r = Some token"
  by (simp add: Log_Streamer.subscribe_def demo_streamer_def publish_chunk_def publish_registered_def
      publish_locked_def register_job_def job_id_valid_def LogStreamer_init_def omap_contains_def
      JobEntry_init_def record_chunk_def data_chunk_def entry_stream_def StreamState_init_def
      trim_backlog_step demo_topic_def Let_def notify_def put_entry_stream_def LogStreamerConfig_init_def
      word_less_nat_alt word_le_nat_alt)

theorem replay_refines_log_witness:
  "\<exists>p. replays (Some (10, [97, 98, 99])) (Some 11) p \<and> replayed p = drop (unat (lrp_start_offset p) - 10) [97, 98, 99]"
proof -
  obtain r s' token where d: "subscribe demo_topic 7 (Some 11) None demo_streamer = (r, s')"
      "lsu_session r = Some token"
    using demo_subscribe by blast
  have "replays (demo_logs 7 kStdout) (Some 11) (replay kStdout token)"
    using replay_refines_log[OF demo_streamer_run d, of kStdout] by simp
  moreover have "demo_logs 7 kStdout = Some (10, [97, 98, 99])"
    by (simp add: demo_logs_def log_append_def abs_append_def)
  ultimately show ?thesis by (intro exI[of _ "replay kStdout token"]) (auto simp: replays_def)
qed

end
