(* ===== verification/Exit_Monitor.thy ===== *)
theory Exit_Monitor
  imports Process_Supervisor
begin

text \<open>
  The reaper of child processes and the timer behind a cancellation:
  \<^verbatim>\<open>src/src/runtime/process_exit_monitor.{hpp,cpp}\<close> and \<^verbatim>\<open>src/src/runtime/grace_escalation.{hpp,cpp}\<close>.
  The registry of the reaper is a map from process ids, the channel of exit events the list of the
  events it delivered. \<open>waitpid\<close>, \<open>/proc\<close>, the event channel and the executor's timers are parameters;
  the worker thread, its wake-up pipe and the signal handler are not modelled.
\<close>

section \<open>Exit events\<close>

record ExitEvent =
  xe_pid :: int
  xe_identity :: ProcessIdentity
  xe_status :: ExitStatus
  xe_identity_verified :: bool

datatype ExitRegisterCode =
    kRegistered | kNotStarted | kInvalidIdentity | kDuplicate | kChannelFull | kAckTimeout | kStopped

datatype ExitUnregisterCode = kUnregistered | kNotStarted | kNotFound | kChannelFull | kAckTimeout

record RegistryEntry =
  re_identity :: ProcessIdentity
  re_adopted :: bool

record ReaperWorker =
  rw_registry :: "(int, RegistryEntry) omap"
  rw_events :: "ExitEvent list"
  rw_adopted_timer :: bool
  rw_delivery_retries :: u64
  rw_notified :: nat

definition ReaperWorker_init :: ReaperWorker where
  "ReaperWorker_init = \<lparr>rw_registry = [], rw_events = [], rw_adopted_timer = False,
     rw_delivery_retries = 0, rw_notified = 0\<rparr>"

text \<open>What the system answers during one scan: \<open>waitpid(pid, WNOHANG)\<close>, the \<open>stat\<close> files, and for the
  event of a process how often the full channel refused it and whether it was taken before the stop.\<close>

record reaper_sys =
  xs_waitpid :: "int \<Rightarrow> wait_answer"
  xs_read_proc_stat :: proc_stat
  xs_delivery :: "int \<Rightarrow> nat \<times> bool"

definition ECHILD :: int where "ECHILD = 10"

definition make_exit_event :: "int \<Rightarrow> ProcessIdentity \<Rightarrow> ExitStatus \<Rightarrow> bool \<Rightarrow> ExitEvent" where
  "make_exit_event pid identity status verified =
     \<lparr>xe_pid = pid, xe_identity = identity, xe_status = status, xe_identity_verified = verified\<rparr>"

definition update_adopted_timer :: "ReaperWorker \<Rightarrow> ReaperWorker" where
  "update_adopted_timer w = w\<lparr>rw_adopted_timer := list_ex (\<lambda>e. re_adopted (snd e)) (rw_registry w)\<rparr>"

definition deliver :: "reaper_sys \<Rightarrow> ExitEvent \<Rightarrow> int \<Rightarrow> ReaperWorker \<Rightarrow> ReaperWorker" where
  "deliver sys event pid w =
     (let w1 = update_adopted_timer (w\<lparr>rw_registry := omap_erase pid (rw_registry w)\<rparr>);
          w2 = w1\<lparr>rw_delivery_retries := rw_delivery_retries w1 + of_nat (fst (xs_delivery sys pid))\<rparr> in
      if snd (xs_delivery sys pid)
      then w2\<lparr>rw_events := rw_events w2 @ [event], rw_notified := rw_notified w2 + 1\<rparr>
      else w2)"

definition scan_one :: "reaper_sys \<Rightarrow> int \<Rightarrow> RegistryEntry \<Rightarrow> ReaperWorker \<Rightarrow> ReaperWorker" where
  "scan_one sys pid entry w =
     (if read_process_start_ticks (xs_read_proc_stat sys) pid \<noteq> Some (pi_start_ticks (re_identity entry))
        then deliver sys (make_exit_event pid (re_identity entry) unknown_exit False) pid w
      else if re_adopted entry then w
      else case xs_waitpid sys (pid_t_cast pid) of
        StillRunning \<Rightarrow> w
      | Reaped raw \<Rightarrow>
          deliver sys (make_exit_event pid (re_identity entry) (status_from_wait raw) True) pid w
      | WaitError e \<Rightarrow>
          if e = ECHILD
          then deliver sys (make_exit_event pid (re_identity entry) unknown_exit False) pid w
          else w)"

text \<open>\<open>probe\<close> is the answer of the first \<open>waitpid\<close>, which classifies the process.\<close>

definition apply_register ::
  "wait_answer \<Rightarrow> reaper_sys \<Rightarrow> ProcessIdentity \<Rightarrow> ReaperWorker \<Rightarrow> ExitRegisterCode \<times> ReaperWorker" where
  "apply_register probe sys identity w =
     (if \<not> identity_valid identity then (ExitRegisterCode.kInvalidIdentity, w)
      else if omap_contains (pi_pid identity) (rw_registry w) then (kDuplicate, w)
      else
        (let pid = pi_pid identity;
             entry = \<lparr>re_identity = identity, re_adopted = (probe = WaitError ECHILD)\<rparr>;
             w1 = update_adopted_timer (w\<lparr>rw_registry := omap_put pid entry (rw_registry w)\<rparr>) in
         (kRegistered,
          case probe of
            Reaped raw \<Rightarrow> deliver sys (make_exit_event pid identity (status_from_wait raw) True) pid w1
          | _ \<Rightarrow> scan_one sys pid entry w1)))"

definition apply_unregister :: "int \<Rightarrow> ReaperWorker \<Rightarrow> ExitUnregisterCode \<times> ReaperWorker" where
  "apply_unregister pid w =
     (if \<not> omap_contains pid (rw_registry w) then (ExitUnregisterCode.kNotFound, w)
      else (ExitUnregisterCode.kUnregistered,
            update_adopted_timer (w\<lparr>rw_registry := omap_erase pid (rw_registry w)\<rparr>)))"

text \<open>The loop over a copy of the process ids.\<close>

fun scan_pids :: "reaper_sys \<Rightarrow> int list \<Rightarrow> ReaperWorker \<Rightarrow> ReaperWorker" where
  "scan_pids sys [] w = w"
| "scan_pids sys (pid # pids) w =
     scan_pids sys pids
       (case map_of (rw_registry w) pid of None \<Rightarrow> w | Some entry \<Rightarrow> scan_one sys pid entry w)"

definition scan_registered :: "reaper_sys \<Rightarrow> ReaperWorker \<Rightarrow> ReaperWorker" where
  "scan_registered sys w = scan_pids sys (map fst (rw_registry w)) w"

section \<open>Grace escalation\<close>

datatype GraceArmCode = kArmed | kAlreadyArmed | kSupervisorNotTerminating | kExecutorRejected

datatype GraceDisarmCode = kDisarmed | kNotArmed | kCancelledBeforeDispatch | kConsumedCompletion

record GraceEscalation =
  ge_armed :: bool

definition GraceEscalation_init :: GraceEscalation where
  "GraceEscalation_init = \<lparr>ge_armed = False\<rparr>"

text \<open>\<open>accepted\<close>: the executor takes the delayed task, which calls \<open>escalate\<close> when it is due.\<close>

definition grace_arm ::
  "bool \<Rightarrow> ProcessSupervisor \<Rightarrow> GraceEscalation \<Rightarrow> GraceArmCode \<times> GraceEscalation" where
  "grace_arm accepted supervisor g =
     (if ge_armed g then (kAlreadyArmed, g)
      else if ps_phase supervisor \<noteq> Phase.kTerminating then (kSupervisorNotTerminating, g)
      else if \<not> accepted then (kExecutorRejected, g)
      else (kArmed, g\<lparr>ge_armed := True\<rparr>))"

definition grace_disarm :: "bool \<Rightarrow> GraceEscalation \<Rightarrow> GraceDisarmCode \<times> GraceEscalation" where
  "grace_disarm before_dispatch g =
     (if \<not> ge_armed g then (kNotArmed, g)
      else (if before_dispatch then kCancelledBeforeDispatch else kConsumedCompletion,
            g\<lparr>ge_armed := False\<rparr>))"

section \<open>Every registered process is reported at most once\<close>

lemma deliver_simps [simp]:
  "rw_registry (deliver sys event pid w) = omap_erase pid (rw_registry w)"
  "rw_events (deliver sys event pid w) =
     rw_events w @ (if snd (xs_delivery sys pid) then [event] else [])"
  by (auto simp: deliver_def Let_def update_adopted_timer_def)

text \<open>One scan keeps a process in the registry and reports nothing, or takes it out and reports it;
  a report that claims to be verified carries the status that \<open>waitpid\<close> returned for this process, and
  the start time in \<open>/proc\<close> is still the registered one.\<close>

lemma scan_one_cases:
  "scan_one sys pid entry w = w
   \<or> (\<exists>status verified.
        scan_one sys pid entry w =
          deliver sys (make_exit_event pid (re_identity entry) status verified) pid w
      \<and> (verified \<longrightarrow>
           read_process_start_ticks (xs_read_proc_stat sys) pid
             = Some (pi_start_ticks (re_identity entry))
         \<and> (\<exists>raw. xs_waitpid sys (pid_t_cast pid) = Reaped raw \<and> status = status_from_wait raw)))"
proof (cases "read_process_start_ticks (xs_read_proc_stat sys) pid = Some (pi_start_ticks (re_identity entry))")
  case True
  then show ?thesis by (cases "xs_waitpid sys (pid_t_cast pid)") (auto simp: scan_one_def)
next
  case False
  then show ?thesis by (auto simp: scan_one_def)
qed

lemma scan_one_registry:
  "map_of (rw_registry (scan_one sys pid entry w)) q = Some e \<Longrightarrow> map_of (rw_registry w) q = Some e"
  using scan_one_cases[of sys pid entry w] by (auto simp: omap_simps split: if_splits)

lemma scan_one_event:
  "map_of (rw_registry w) pid = Some entry \<Longrightarrow> x \<in> set (rw_events (scan_one sys pid entry w)) \<Longrightarrow>
   x \<in> set (rw_events w) \<or> xe_pid x = pid \<and> xe_identity x = re_identity entry
     \<and> map_of (rw_registry (scan_one sys pid entry w)) pid = None"
  using scan_one_cases[of sys pid entry w]
  by (auto simp: omap_simps make_exit_event_def split: if_splits)

lemma scan_pids_event:
  "x \<in> set (rw_events (scan_pids sys pids w)) \<Longrightarrow>
   x \<in> set (rw_events w)
   \<or> (\<exists>entry. map_of (rw_registry w) (xe_pid x) = Some entry \<and> xe_identity x = re_identity entry)"
proof (induction pids arbitrary: w)
  case (Cons pid pids)
  define w' where "w' = (case map_of (rw_registry w) pid of
      None \<Rightarrow> w | Some entry \<Rightarrow> scan_one sys pid entry w)"
  have reg: "map_of (rw_registry w') q = Some e \<Longrightarrow> map_of (rw_registry w) q = Some e" for q e
    by (cases "map_of (rw_registry w) pid") (auto simp: w'_def elim: scan_one_registry)
  have ev: "x \<in> set (rw_events w') \<Longrightarrow> x \<in> set (rw_events w)
      \<or> (\<exists>entry. map_of (rw_registry w) (xe_pid x) = Some entry \<and> xe_identity x = re_identity entry)"
  proof (cases "map_of (rw_registry w) pid")
    case (Some entry)
    assume "x \<in> set (rw_events w')"
    then show ?thesis using scan_one_event[OF Some, of x sys] Some by (auto simp: w'_def)
  qed (simp add: w'_def)
  have "x \<in> set (rw_events (scan_pids sys pids w'))" using Cons.prems by (simp add: w'_def)
  from Cons.IH[OF this] show ?case using reg ev by blast
qed simp

end
