(* ===== verification/Job_Manager.thy ===== *)
theory Job_Manager
  imports Scheduler Recovery Log_Streamer Exit_Monitor
begin

unbundle bit_operations_syntax

text \<open>
  The job manager, the only writer of the daemon: \<^verbatim>\<open>src/src/runtime/job_manager.{hpp,cpp}\<close>. Its worker
  handles commands and events one after the other, so every handler is a function on the manager's
  state, in which the store, the queue, the streamer and the supervised processes are the modelled
  components. Everything outside (clocks, file system, process system calls, the executor's task
  runners and timers, the exit monitor and the log pump as other threads) is a record of operations on
  an arbitrary state of the world. The signals the manager sends are recorded in order. The wake-up
  pipe, the worker thread and the flag that stops it are not modelled.
\<close>

section \<open>The log directory\<close>

record file_status =
  fs_mode :: u32
  fs_uid :: u32

definition S_ISLNK :: "u32 \<Rightarrow> bool" where
  "S_ISLNK m \<longleftrightarrow> m AND 0xF000 = 0xA000"

definition S_ISDIR :: "u32 \<Rightarrow> bool" where
  "S_ISDIR m \<longleftrightarrow> m AND 0xF000 = 0x4000"

definition EEXIST :: int where "EEXIST = 17"

text \<open>\<open>lstat\<close> answers with \<open>errno\<close> or the status; the functions return the error text, \<open>None\<close> for
  success.\<close>

type_synonym lstat_sys = "string \<Rightarrow> int + file_status"

definition check_prefix ::
  "lstat_sys \<Rightarrow> u32 \<Rightarrow> (int \<Rightarrow> string) \<Rightarrow> string \<Rightarrow> string option" where
  "check_prefix lstat geteuid strerror current =
     (case lstat current of
        Inl e \<Rightarrow> Some (''cannot stat '' @ current @ '': '' @ strerror e)
      | Inr status \<Rightarrow>
          if S_ISLNK (fs_mode status) \<or> \<not> S_ISDIR (fs_mode status)
            then Some (current @ '' is not a real directory'')
          else if fs_uid status \<noteq> 0 \<and> fs_uid status \<noteq> geteuid
            then Some (current @ '' is owned by uid '' @ std_to_string (unat (fs_uid status))
                         @ '' (expected root or daemon euid)'')
          else if fs_mode status AND 0x12 \<noteq> 0 \<and> fs_mode status AND 0x200 = 0
            then Some (current @ '' is group/world writable without the sticky bit'')
          else None)"

fun first_error :: "('a \<Rightarrow> 'b option) \<Rightarrow> 'a list \<Rightarrow> 'b option" where
  "first_error f [] = None"
| "first_error f (x # xs) = (case f x of Some e \<Rightarrow> Some e | None \<Rightarrow> first_error f xs)"

text \<open>The directories the loop over the path looks at, in order.\<close>

definition checked_prefixes :: "string \<Rightarrow> string list" where
  "checked_prefixes path =
     map (\<lambda>i. if i = 0 then ''/'' else take i path) (filter (\<lambda>i. path ! i = CHR ''/'') [0..<length path])
     @ (if last path \<noteq> CHR ''/'' then [path] else [])"

definition validate_directory_chain ::
  "lstat_sys \<Rightarrow> u32 \<Rightarrow> (int \<Rightarrow> string) \<Rightarrow> string \<Rightarrow> string option" where
  "validate_directory_chain lstat geteuid strerror path =
     (if path = [] \<or> hd path \<noteq> CHR ''/''
        then Some (''log root must be an absolute path: '' @ path)
      else first_error (check_prefix lstat geteuid strerror) (checked_prefixes path))"

definition parent_directory :: "string \<Rightarrow> string" where
  "parent_directory path =
     (let before = rev (tl (dropWhile (\<lambda>c. c \<noteq> CHR ''/'') (rev path))) in
      if before = [] then ''/'' else before)"

text \<open>\<open>mkdir\<close> answers with \<open>0\<close> or \<open>errno\<close>; the two calls of \<open>lstat\<close> see the file system before and after
  it.\<close>

definition prepare_log_root ::
  "lstat_sys \<Rightarrow> (string \<Rightarrow> int) \<Rightarrow> lstat_sys \<Rightarrow> u32 \<Rightarrow> (int \<Rightarrow> string) \<Rightarrow> string \<Rightarrow> string option" where
  "prepare_log_root lstat mkdir lstat_after geteuid strerror path =
     (if path = [] \<or> hd path \<noteq> CHR ''/''
        then Some (''log root must be an absolute path: '' @ path)
      else case validate_directory_chain lstat geteuid strerror (parent_directory path) of
        Some e \<Rightarrow> Some e
      | None \<Rightarrow>
          if mkdir path \<noteq> 0 \<and> mkdir path \<noteq> EEXIST
            then Some (''mkdir '' @ path @ '' failed: '' @ strerror (mkdir path))
          else validate_directory_chain lstat_after geteuid strerror path)"

definition ensure_job_directory ::
  "(string \<Rightarrow> int) \<Rightarrow> lstat_sys \<Rightarrow> u32 \<Rightarrow> (int \<Rightarrow> string) \<Rightarrow> string \<Rightarrow> JobId \<Rightarrow> string + string" where
  "ensure_job_directory mkdir lstat geteuid strerror root i =
     (let out = root @ ''/'' @ std_to_string (unat i) in
      if mkdir out \<noteq> 0 \<and> mkdir out \<noteq> EEXIST
        then Inl (''mkdir '' @ out @ '' failed: '' @ strerror (mkdir out))
      else case lstat out of
        Inl e \<Rightarrow> Inl (''cannot stat '' @ out @ '': '' @ strerror e)
      | Inr status \<Rightarrow>
          if S_ISLNK (fs_mode status) \<or> \<not> S_ISDIR (fs_mode status)
            then Inl (out @ '' is not a real directory'')
          else if fs_uid status \<noteq> 0 \<and> fs_uid status \<noteq> geteuid
            then Inl (out @ '' is owned by uid '' @ std_to_string (unat (fs_uid status)))
          else Inr out)"

section \<open>Small conversions\<close>

definition profile_from_spec :: "JobSpec \<Rightarrow> LaunchProfile" where
  "profile_from_spec spec =
     (case js_launch_profile spec of
        None \<Rightarrow> \<lparr>pf_mode = kCudaVisibleDevices, pf_physical_argument = []\<rparr>
      | Some argument \<Rightarrow>
          if argument \<noteq> [] then \<lparr>pf_mode = kPhysicalArgument, pf_physical_argument = argument\<rparr>
          else \<lparr>pf_mode = kCudaVisibleDevices, pf_physical_argument = []\<rparr>)"

definition exit_wire :: "ExitStatus \<Rightarrow> IpcExitStatus" where
  "exit_wire status =
     \<lparr>ies_exited_normally = (es_reason status = ExitReason.kExited),
      ies_code = of_int (if es_reason status = ExitReason.kExited then es_exit_code status
                         else es_signal_number status)\<rparr>"

fun state_wire :: "JobState \<Rightarrow> u8" where
  "state_wire JobState.kQueued = 0"
| "state_wire JobState.kStarting = 1"
| "state_wire JobState.kRunning = 2"
| "state_wire JobState.kStopping = 3"
| "state_wire JobState.kFinished = 4"
| "state_wire JobState.kFailed = 5"
| "state_wire JobState.kCancelled = 6"
| "state_wire JobState.kLost = 7"

section \<open>State\<close>

record JobManagerConfig =
  jc_cancel_grace :: int
  jc_log_root :: string
  jc_command_capacity :: nat
  jc_ack_timeout :: int
  jc_scheduler_scan_window :: nat

definition job_manager_config_error :: "JobManagerConfig \<Rightarrow> string option" where
  "job_manager_config_error c =
     (if jc_log_root c = [] \<or> hd (jc_log_root c) \<noteq> CHR ''/''
        then Some ''log root must be an absolute path''
      else if length (jc_log_root c) > kMaxDirectoryBytes then Some ''log root too long''
      else if jc_cancel_grace c < kMinGracePeriod \<or> jc_cancel_grace c > kMaxGracePeriod
        then Some ''cancel grace out of range''
      else if jc_command_capacity c = 0 then Some ''command capacity must be positive''
      else if jc_ack_timeout c \<le> 0 then Some ''ack timeout must be positive''
      else if \<not> scheduler_config_valid \<lparr>scfg_scan_window = jc_scheduler_scan_window c\<rparr>
        then Some ''scheduler scan window must be within [1, 4096]''
      else None)"

definition kPhaseRecovery :: u64 where "kPhaseRecovery = 1"
definition kPhaseGpuObserved :: u64 where "kPhaseGpuObserved = 2"
definition kPhaseSchedulingOpen :: u64 where "kPhaseSchedulingOpen = 3"

datatype JobSubmitCode = kSubmitted | kStoreFailed | kQueueRejected | kUnavailable

record JobSubmitOutcome =
  jso_code :: JobSubmitCode
  jso_job_id :: u64
  jso_detail :: string

datatype JobCancelCode =
  kCancelled | kStopping | kNotFound | kInvalidState | kStoreFailed | kUnavailable

record JobCancelOutcome =
  jco_code :: JobCancelCode
  jco_state :: u8
  jco_detail :: string

datatype AtomicStat =
    commands_processed | jobs_submitted | jobs_launched | launch_failures | jobs_finished
  | jobs_failed | jobs_cancelled | jobs_adopted | recancels_armed | scheduler_runs
  | scheduler_scheduled | scheduler_failed | scheduler_affinity_avoids
  | scheduler_affinity_fallbacks | store_write_failures | abandoned_at_stop | active_supervised

record SupervisedJob =
  su_id :: JobId
  su_leased_gpu :: GpuUuid
  su_supervisor :: "ProcessSupervisor option"
  su_grace :: "GraceEscalation option"
  su_cancelling :: bool
  su_adopted :: bool
  su_exited :: bool
  su_pump_done :: bool
  su_terminal_state :: u8
  su_terminal_exit :: "IpcExitStatus option"

definition SupervisedJob_init :: "JobId \<Rightarrow> SupervisedJob" where
  "SupervisedJob_init i =
     \<lparr>su_id = i, su_leased_gpu = [], su_supervisor = None, su_grace = None, su_cancelling = False,
      su_adopted = False, su_exited = False, su_pump_done = False, su_terminal_state = 0,
      su_terminal_exit = None\<rparr>"

datatype Command = Submit JobSpec | Cancel u64 | Wake SchedulerTrigger

record ('s, 't, 'f, 'w) JobManager =
  jm_store :: 's
  jm_queue :: GlobalJobQueue
  jm_streamer :: "'t LogStreamer"
  jm_files :: 'f
  jm_world :: 'w
  jm_phase :: u64
  jm_commands :: "Command list"
  jm_supervised :: "(u64, SupervisedJob) omap"
  jm_by_pid :: "(int, u64) omap"
  jm_evaluation :: "ScheduleEvaluation option"
  jm_stats :: "AtomicStat \<Rightarrow> u64"
  jm_signals :: "sent list"

text \<open>A scheduling task that the executor refuses, that ends without a result, that is cancelled before
  it starts, or that runs.\<close>

datatype scheduler_task = NotAccepted | NoResult | CancelledEarly | Ran

record ('s, 't, 'u, 'f, 'w) JobManagerDeps =
  jd_store :: "'s StateStore"
  jd_topic :: "('t, 'u) Topic"
  jd_io :: "'f LogIo"
  jd_adapter :: DefaultLaunchAdapter
  jd_config :: JobManagerConfig
  jd_store_task :: "'w \<Rightarrow> bool \<times> 'w"
  jd_scheduler_task :: "'w \<Rightarrow> scheduler_task \<times> 'w"
  jd_system_clock :: "'w \<Rightarrow> time_point \<times> 'w"
  jd_steady_clock :: "'w \<Rightarrow> int \<times> 'w"
  jd_gpu_snapshot :: "'w \<Rightarrow> GpuObservationSnapshot option \<times> 'w"
  jd_resolve :: "u32 \<Rightarrow> 'w \<Rightarrow> IdentityResolveResult \<times> 'w"
  jd_mkdir :: "'w \<Rightarrow> string \<Rightarrow> int"
  jd_lstat :: "'w \<Rightarrow> lstat_sys"
  jd_geteuid :: u32
  jd_strerror :: "int \<Rightarrow> string"
  jd_spawn :: "LaunchPlan \<Rightarrow> 'w \<Rightarrow> spawn_os \<times> 'w"
  jd_read_proc_stat :: "'w \<Rightarrow> proc_stat"
  jd_register_process :: "ProcessIdentity \<Rightarrow> 'w \<Rightarrow> ExitRegisterCode \<times> 'w"
  jd_unregister_process :: "int \<Rightarrow> 'w \<Rightarrow> 'w"
  jd_attach :: "JobId \<Rightarrow> LogSink \<Rightarrow> 'w \<Rightarrow> bool \<times> 'w"
  jd_kill :: "'w \<Rightarrow> kill_sys"
  jd_timer :: "'w \<Rightarrow> bool \<times> 'w"

definition bump :: "AtomicStat \<Rightarrow> ('s, 't, 'f, 'w) JobManager \<Rightarrow> ('s, 't, 'f, 'w) JobManager" where
  "bump c m = m\<lparr>jm_stats := (jm_stats m)(c := jm_stats m c + 1)\<rparr>"

definition find_stored :: "StateSnapshot \<Rightarrow> u64 \<Rightarrow> StoredJob option" where
  "find_stored snapshot job_id = find (\<lambda>record. sj_id record = job_id) (ss_jobs snapshot)"

section \<open>Writing to the store\<close>

definition run_write ::
  "('s, 't, 'u, 'f, 'w) JobManagerDeps \<Rightarrow> StateMutation \<Rightarrow> ('s, 't, 'f, 'w) JobManager
     \<Rightarrow> StateStoreWriteResult \<times> ('s, 't, 'f, 'w) JobManager" where
  "run_write d mutation m =
     (case jd_store_task d (jm_world m) of
        (completed, w) \<Rightarrow>
          if \<not> completed
          then (\<lparr>swr_code = StateStoreErrorCode.kBackendUnavailable, swr_revision = 0\<rparr>,
                bump store_write_failures (m\<lparr>jm_world := w\<rparr>))
          else (case st_apply (jd_store d) (jm_store m) mutation of
                  (written, s) \<Rightarrow> (written, m\<lparr>jm_store := s, jm_world := w\<rparr>)))"

text \<open>The argument \<open>compose\<close> returns the updated record and the leases to release; it may read the clock.\<close>

type_synonym 'w compose = "StoredJob \<Rightarrow> 'w \<Rightarrow> StoredJob \<times> GpuUuid list \<times> 'w"

fun rewrite_attempts ::
  "nat \<Rightarrow> ('s, 't, 'u, 'f, 'w) JobManagerDeps \<Rightarrow> u64 \<Rightarrow> 'w compose \<Rightarrow> ('s, 't, 'f, 'w) JobManager
     \<Rightarrow> StateStoreWriteResult \<times> ('s, 't, 'f, 'w) JobManager" where
  "rewrite_attempts 0 d job_id compose m =
     (\<lparr>swr_code = kRevisionConflict, swr_revision = 0\<rparr>, m)"
| "rewrite_attempts (Suc n) d job_id compose m =
     (let load = st_load (jd_store d) (jm_store m) in
      if \<not> slr_ok load then (\<lparr>swr_code = slr_code load, swr_revision = 0\<rparr>, m)
      else case find_stored (slr_snapshot load) job_id of
        None \<Rightarrow> (\<lparr>swr_code = StateStoreErrorCode.kJobNotFound, swr_revision = 0\<rparr>, m)
      | Some record \<Rightarrow>
          (case compose record (jm_world m) of
             (updated, releases, w) \<Rightarrow>
               (case run_write d (empty_mutation\<lparr>sm_expected_revision := ss_revision (slr_snapshot load),
                        sm_update_jobs := [updated], sm_release_leases := releases\<rparr>)
                      (m\<lparr>jm_world := w\<rparr>) of
                  (written, m1) \<Rightarrow>
                    if swr_ok written \<or> swr_code written \<noteq> kRevisionConflict then (written, m1)
                    else rewrite_attempts n d job_id compose m1)))"

definition rewrite_job ::
  "('s, 't, 'u, 'f, 'w) JobManagerDeps \<Rightarrow> u64 \<Rightarrow> 'w compose \<Rightarrow> ('s, 't, 'f, 'w) JobManager
     \<Rightarrow> StateStoreWriteResult \<times> ('s, 't, 'f, 'w) JobManager" where
  "rewrite_job d job_id compose m = rewrite_attempts 3 d job_id compose m"

text \<open>The change of state and revision every rewrite makes.\<close>

definition advance :: "JobState \<Rightarrow> StoredJob \<Rightarrow> StoredJob" where
  "advance state record = record\<lparr>sj_state := state, sj_revision := sj_revision record + 1\<rparr>"

section \<open>Submission\<close>

definition submit_failed :: "StateStoreErrorCode \<Rightarrow> JobSubmitOutcome" where
  "submit_failed code =
     \<lparr>jso_code = JobSubmitCode.kStoreFailed, jso_job_id = 0,
      jso_detail = StateStoreErrorCode_to_string code\<rparr>"

definition max_job_id :: "StoredJob list \<Rightarrow> u64" where
  "max_job_id jobs = foldl (\<lambda>max_id record. max max_id (sj_id record)) 0 jobs"

definition new_record :: "StoredJob list \<Rightarrow> JobSpec \<Rightarrow> StoredJob" where
  "new_record jobs spec =
     \<lparr>sj_id = max_job_id jobs + 1, sj_spec = spec, sj_state = JobState.kQueued, sj_revision = 0,
      sj_execution = blank_execution\<rparr>"

text \<open>What follows the creation of the record: admission, or the compensating write.\<close>

definition admit_created ::
  "('s, 't, 'u, 'f, 'w) JobManagerDeps \<Rightarrow> StoredJob \<Rightarrow> u64 \<Rightarrow> ('s, 't, 'f, 'w) JobManager
     \<Rightarrow> JobSubmitOutcome \<times> ('s, 't, 'f, 'w) JobManager" where
  "admit_created d record revision m =
     (case queue_admit (jm_queue m) record of
        (q, admission) \<Rightarrow>
          if \<not> qr_ok admission then
            (case run_write d (empty_mutation\<lparr>sm_expected_revision := revision,
                     sm_update_jobs := [record\<lparr>sj_state := JobState.kCancelled, sj_revision := 1\<rparr>]\<rparr>)
                    (m\<lparr>jm_queue := q\<rparr>) of
               (rollback, m1) \<Rightarrow>
                 (\<lparr>jso_code = JobSubmitCode.kQueueRejected, jso_job_id = 0,
                   jso_detail = QueueErrorCode_to_string (qr_code admission)
                     @ (if \<not> swr_ok rollback
                        then ''; rollback failed: '' @ StateStoreErrorCode_to_string (swr_code rollback)
                        else [])\<rparr>, m1))
          else
            (\<lparr>jso_code = kSubmitted, jso_job_id = sj_id record, jso_detail = []\<rparr>,
             bump jobs_submitted (m\<lparr>jm_queue := q\<rparr>)))"

definition process_submit ::
  "('s, 't, 'u, 'f, 'w) JobManagerDeps \<Rightarrow> JobSpec \<Rightarrow> ('s, 't, 'f, 'w) JobManager
     \<Rightarrow> JobSubmitOutcome \<times> ('s, 't, 'f, 'w) JobManager" where
  "process_submit d spec m =
     (let load = st_load (jd_store d) (jm_store m) in
      if \<not> slr_ok load then (submit_failed (slr_code load), m)
      else
        (let record = new_record (ss_jobs (slr_snapshot load)) spec in
         case run_write d (empty_mutation\<lparr>sm_expected_revision := ss_revision (slr_snapshot load),
                  sm_create_jobs := [record]\<rparr>) m of
           (written, m1) \<Rightarrow>
             if \<not> swr_ok written then (submit_failed (swr_code written), m1)
             else admit_created d record (swr_revision written) m1))"

section \<open>Cancellation\<close>

text \<open>The process side of a cancellation; the escalation object is made when there is none.\<close>

definition arm_grace ::
  "('s, 't, 'u, 'f, 'w) JobManagerDeps \<Rightarrow> bool \<Rightarrow> SupervisedJob \<Rightarrow> ProcessSupervisor \<Rightarrow> 'w
     \<Rightarrow> SupervisedJob \<times> 'w" where
  "arm_grace d from_recovery job supervisor w =
     (let g = (case su_grace job of None \<Rightarrow> GraceEscalation_init | Some g \<Rightarrow> g) in
      if \<not> su_cancelling job \<or> from_recovery then
        (case jd_timer d w of
           (accepted, w1) \<Rightarrow>
             (job\<lparr>su_grace := Some (snd (grace_arm accepted supervisor g)), su_cancelling := True\<rparr>, w1))
      else (job\<lparr>su_grace := Some g\<rparr>, w))"

definition begin_cancellation ::
  "('s, 't, 'u, 'f, 'w) JobManagerDeps \<Rightarrow> u64 \<Rightarrow> bool \<Rightarrow> ('s, 't, 'f, 'w) JobManager
     \<Rightarrow> ('s, 't, 'f, 'w) JobManager" where
  "begin_cancellation d job_id from_recovery m =
     (case map_of (jm_supervised m) job_id of
        None \<Rightarrow> m
      | Some job \<Rightarrow>
          (case su_supervisor job of
             None \<Rightarrow> m
           | Some supervisor \<Rightarrow>
               (case jd_steady_clock d (jm_world m) of
                  (now, w) \<Rightarrow>
                    (case request_cancel (jd_kill d w) now supervisor of
                       (cancel, supervisor1, signals) \<Rightarrow>
                         let job1 = job\<lparr>su_supervisor := Some supervisor1\<rparr>;
                             m1 = m\<lparr>jm_world := w, jm_signals := jm_signals m @ signals\<rparr> in
                         if cr_outcome cancel = CancelOutcome.kNotRunning
                            \<or> cr_outcome cancel = CancelOutcome.kAlreadyExited
                         then m1\<lparr>jm_supervised := omap_put job_id job1 (jm_supervised m)\<rparr>
                         else (case arm_grace d from_recovery job1 supervisor1 w of
                                 (job2, w2) \<Rightarrow>
                                   m1\<lparr>jm_world := w2,
                                      jm_supervised := omap_put job_id job2 (jm_supervised m)\<rparr>)))))"

definition cancel_outcome :: "JobCancelCode \<Rightarrow> u8 \<Rightarrow> string \<Rightarrow> JobCancelOutcome" where
  "cancel_outcome code state detail = \<lparr>jco_code = code, jco_state = state, jco_detail = detail\<rparr>"

definition cancel_store_failed :: "StateStoreErrorCode \<Rightarrow> JobCancelOutcome" where
  "cancel_store_failed code =
     cancel_outcome JobCancelCode.kStoreFailed 0 (StateStoreErrorCode_to_string code)"

definition cancel_queued ::
  "('s, 't, 'u, 'f, 'w) JobManagerDeps \<Rightarrow> u64 \<Rightarrow> ('s, 't, 'f, 'w) JobManager
     \<Rightarrow> JobCancelOutcome \<times> ('s, 't, 'f, 'w) JobManager" where
  "cancel_queued d job_id m =
     (case rewrite_job d job_id (\<lambda>current w. (advance JobState.kCancelled current, [], w)) m of
        (written, m1) \<Rightarrow>
          if \<not> swr_ok written then (cancel_store_failed (swr_code written), m1)
          else (case queue_remove (jm_queue m1) job_id of
                  (q, removal) \<Rightarrow>
                    (cancel_outcome JobCancelCode.kCancelled (state_wire JobState.kCancelled)
                       (if \<not> qr_ok removal \<and> qr_code removal \<noteq> QueueErrorCode.kJobNotFound
                        then ''cancelled but queue removal failed: ''
                               @ QueueErrorCode_to_string (qr_code removal)
                        else []),
                     bump jobs_cancelled (m1\<lparr>jm_queue := q\<rparr>))))"

definition cancel_active ::
  "('s, 't, 'u, 'f, 'w) JobManagerDeps \<Rightarrow> u64 \<Rightarrow> ('s, 't, 'f, 'w) JobManager
     \<Rightarrow> JobCancelOutcome \<times> ('s, 't, 'f, 'w) JobManager" where
  "cancel_active d job_id m =
     (case rewrite_job d job_id (\<lambda>current w. (advance JobState.kStopping current, [], w)) m of
        (written, m1) \<Rightarrow>
          if \<not> swr_ok written then (cancel_store_failed (swr_code written), m1)
          else (cancel_outcome JobCancelCode.kStopping (state_wire JobState.kStopping) [],
                begin_cancellation d job_id False m1))"

definition process_cancel ::
  "('s, 't, 'u, 'f, 'w) JobManagerDeps \<Rightarrow> u64 \<Rightarrow> ('s, 't, 'f, 'w) JobManager
     \<Rightarrow> JobCancelOutcome \<times> ('s, 't, 'f, 'w) JobManager" where
  "process_cancel d job_id m =
     (let load = st_load (jd_store d) (jm_store m) in
      if \<not> slr_ok load then (cancel_store_failed (slr_code load), m)
      else case find_stored (slr_snapshot load) job_id of
        None \<Rightarrow> (cancel_outcome JobCancelCode.kNotFound 0 ''job not found'', m)
      | Some record \<Rightarrow>
          if sj_state record = JobState.kQueued then cancel_queued d job_id m
          else if sj_state record = JobState.kStarting \<or> sj_state record = JobState.kRunning
            then cancel_active d job_id m
          else if sj_state record = JobState.kStopping
            then (cancel_outcome JobCancelCode.kStopping (state_wire JobState.kStopping) [],
                  begin_cancellation d job_id False m)
          else if sj_state record = JobState.kCancelled
            then (cancel_outcome JobCancelCode.kCancelled (state_wire JobState.kCancelled) [], m)
          else (cancel_outcome JobCancelCode.kInvalidState (state_wire (sj_state record))
                  (JobState_to_string (sj_state record)), m))"

end
