(* ===== verification/Job_Lifecycle.thy ===== *)
theory Job_Lifecycle
  imports Job_Manager
begin

text \<open>
  The rest of the job manager (\<^verbatim>\<open>src/src/runtime/job_manager.cpp\<close>): from a scheduled job to a running
  process, from the exit of a process to the terminal state of its job, the adoption of running
  processes after a restart, the loops of the worker, and the calls of the owner thread.
\<close>

section \<open>Launch\<close>

definition put_world :: "'w \<Rightarrow> ('s, 't, 'f, 'w) JobManager \<Rightarrow> ('s, 't, 'f, 'w) JobManager" where
  "put_world w m = m\<lparr>jm_world := w\<rparr>"

definition finish_stream ::
  "('s, 't, 'u, 'f, 'w) JobManagerDeps \<Rightarrow> JobId \<Rightarrow> u8 \<Rightarrow> IpcExitStatus option
     \<Rightarrow> ('s, 't, 'f, 'w) JobManager \<Rightarrow> ('s, 't, 'f, 'w) JobManager" where
  "finish_stream d i state exit m =
     m\<lparr>jm_streamer := snd (finish_job (jd_topic d) i state exit (jm_streamer m))\<rparr>"

definition unregister_stream ::
  "('s, 't, 'u, 'f, 'w) JobManagerDeps \<Rightarrow> JobId \<Rightarrow> ('s, 't, 'f, 'w) JobManager
     \<Rightarrow> ('s, 't, 'f, 'w) JobManager" where
  "unregister_stream d i m = m\<lparr>jm_streamer := snd (unregister_job (jd_topic d) i (jm_streamer m))\<rparr>"

definition failed_record ::
  "('s, 't, 'u, 'f, 'w) JobManagerDeps \<Rightarrow> GpuUuid \<Rightarrow> string \<Rightarrow> 'w compose" where
  "failed_record d uuid reason current w =
     (if is_terminal (sj_state current) then (current, [], w)
      else case jd_system_clock d w of
        (now, w1) \<Rightarrow>
          ((advance JobState.kFailed current)\<lparr>sj_execution :=
             (sj_execution current)\<lparr>er_failure_reason := Some (take kMaxFailureReasonBytes reason),
                er_end_time := Some now\<rparr>\<rparr>, [uuid], w1))"

definition fail_launch ::
  "('s, 't, 'u, 'f, 'w) JobManagerDeps \<Rightarrow> u64 \<Rightarrow> GpuUuid \<Rightarrow> string \<Rightarrow> ('s, 't, 'f, 'w) JobManager
     \<Rightarrow> ('s, 't, 'f, 'w) JobManager" where
  "fail_launch d job_id uuid reason m =
     (case rewrite_job d job_id (failed_record d uuid reason) (bump launch_failures m) of
        (written, m1) \<Rightarrow>
          let m2 = (if \<not> swr_ok written then bump store_write_failures m1 else m1) in
          bump jobs_failed (finish_stream d job_id (state_wire JobState.kFailed) None m2))"

text \<open>The destructor of a supervisor, as part of the manager's state.\<close>

definition drop_supervisor ::
  "ProcessSupervisor option \<Rightarrow> ('s, 't, 'f, 'w) JobManager \<Rightarrow> ('s, 't, 'f, 'w) JobManager" where
  "drop_supervisor supervisor m =
     (case supervisor of
        None \<Rightarrow> m
      | Some s \<Rightarrow> m\<lparr>jm_signals := jm_signals m @ snd (destroy s)\<rparr>)"

definition drop_sink ::
  "('s, 't, 'u, 'f, 'w) JobManagerDeps \<Rightarrow> LogSink \<Rightarrow> ('s, 't, 'f, 'w) JobManager
     \<Rightarrow> ('s, 't, 'f, 'w) JobManager" where
  "drop_sink d sink m = m\<lparr>jm_files := snd (close_all (jd_io d) sink (jm_files m))\<rparr>"

definition running_record ::
  "('s, 't, 'u, 'f, 'w) JobManagerDeps \<Rightarrow> ProcessIdentity \<Rightarrow> string \<Rightarrow> 'w compose" where
  "running_record d identity directory current w =
     (case jd_system_clock d w of
        (now, w1) \<Rightarrow>
          ((advance JobState.kRunning current)\<lparr>sj_execution :=
             (sj_execution current)\<lparr>er_identity := identity, er_start_time := Some now,
                er_log_path := Some directory\<rparr>\<rparr>, [], w1))"

definition supervise ::
  "u64 \<Rightarrow> SupervisedJob \<Rightarrow> int \<Rightarrow> ('s, 't, 'f, 'w) JobManager \<Rightarrow> ('s, 't, 'f, 'w) JobManager" where
  "supervise job_id job pid m =
     bump active_supervised
       (m\<lparr>jm_supervised := omap_put job_id job (jm_supervised m),
          jm_by_pid := omap_put pid job_id (jm_by_pid m)\<rparr>)"

text \<open>The process runs: persist it, watch it, connect its pipes.\<close>

definition launch_spawned ::
  "('s, 't, 'u, 'f, 'w) JobManagerDeps \<Rightarrow> u64 \<Rightarrow> GpuUuid \<Rightarrow> string \<Rightarrow> LogSink \<Rightarrow> ProcessSupervisor
     \<Rightarrow> ProcessIdentity \<Rightarrow> ('s, 't, 'f, 'w) JobManager \<Rightarrow> ('s, 't, 'f, 'w) JobManager" where
  "launch_spawned d job_id uuid directory sink supervisor identity m =
     (let undo = (\<lambda>reason after m.
            drop_sink d sink
              (fail_launch d job_id uuid reason
                (drop_supervisor (Some supervisor) (after (unregister_stream d job_id m))))) in
      case rewrite_job d job_id (running_record d identity directory) m of
        (written, m1) \<Rightarrow>
          if \<not> swr_ok written
            then undo (''running state persist failed: ''
                         @ StateStoreErrorCode_to_string (swr_code written)) id m1
          else
            (case jd_register_process d identity (jm_world m1) of
               (code, w) \<Rightarrow>
                 let m2 = put_world w m1 in
                 if code \<noteq> ExitRegisterCode.kRegistered
                   then undo ''exit monitor registration failed'' id m2
                 else
                   (case jd_attach d job_id sink (jm_world m2) of
                      (attached, w2) \<Rightarrow>
                        let m3 = put_world w2 m2 in
                        if \<not> attached
                          then undo ''log pump attach failed''
                                 (\<lambda>m. put_world (jd_unregister_process d (pi_pid identity) (jm_world m)) m)
                                 m3
                        else
                          bump jobs_launched
                            (supervise job_id
                              ((SupervisedJob_init job_id)\<lparr>su_leased_gpu := uuid,
                                 su_supervisor := Some supervisor\<rparr>)
                              (pi_pid identity) m3))))"

text \<open>The plan is ready: open the log files, register the stream, spawn.\<close>

definition launch_prepared ::
  "('s, 't, 'u, 'f, 'w) JobManagerDeps \<Rightarrow> u64 \<Rightarrow> GpuUuid \<Rightarrow> IdentityInfo \<Rightarrow> LaunchPlan \<Rightarrow> string
     \<Rightarrow> ('s, 't, 'f, 'w) JobManager \<Rightarrow> ('s, 't, 'f, 'w) JobManager" where
  "launch_prepared d job_id uuid identity plan directory m =
     (case sink_open (jd_io d) (LogSinkConfig_init directory)
             \<lparr>lso_owner_uid = ii_uid identity, lso_owner_gid = ii_gid identity,
              lso_allow_ownership_downgrade = True\<rparr> [] LogSink_init (jm_files m) of
        (code, open_error, sink, f) \<Rightarrow>
          let m1 = m\<lparr>jm_files := f\<rparr> in
          if code \<noteq> LogSinkErrorCode.kNone
            then drop_sink d sink (fail_launch d job_id uuid (''log sink open failed: '' @ open_error) m1)
          else
            (case register_job (jd_topic d) job_id (jm_streamer m1) of
               (registered, register_error, streamer) \<Rightarrow>
                 let m2 = m1\<lparr>jm_streamer := streamer\<rparr> in
                 if registered \<noteq> LogRegisterCode.kRegistered
                   then drop_sink d sink
                          (fail_launch d job_id uuid
                             (''log streamer register failed: '' @ register_error) m2)
                 else
                   (case jd_spawn d plan (jm_world m2) of
                      (os, w) \<Rightarrow>
                        (case spawn os plan (ProcessSupervisor_init
                                \<lparr>cpo_grace_period = jc_cancel_grace (jd_config d)\<rparr>) of
                           (spawned, supervisor, signals) \<Rightarrow>
                             let m3 = m2\<lparr>jm_world := w, jm_signals := jm_signals m2 @ signals\<rparr> in
                             if spr_code spawned \<noteq> SpawnErrorCode.kNone
                               then drop_sink d sink (drop_supervisor (Some supervisor)
                                      (fail_launch d job_id uuid
                                        (''spawn failed: '' @ SpawnErrorCode_to_string (spr_code spawned)
                                           @ (if spr_message spawned = [] then []
                                              else '': '' @ spr_message spawned))
                                        (unregister_stream d job_id m3)))
                             else launch_spawned d job_id uuid directory sink supervisor
                                    (spr_identity spawned) m3))))"

definition physical_index_of :: "GpuObservationSnapshot option \<Rightarrow> GpuUuid \<Rightarrow> u32" where
  "physical_index_of snapshot uuid =
     (case snapshot of
        None \<Rightarrow> 0
      | Some s \<Rightarrow> (case find_device s uuid of None \<Rightarrow> 0 | Some device \<Rightarrow> go_index device))"

definition launch_scheduled ::
  "('s, 't, 'u, 'f, 'w) JobManagerDeps \<Rightarrow> u64 \<Rightarrow> GpuUuid \<Rightarrow> ('s, 't, 'f, 'w) JobManager
     \<Rightarrow> ('s, 't, 'f, 'w) JobManager" where
  "launch_scheduled d job_id uuid m =
     (let load = st_load (jd_store d) (jm_store m) in
      if \<not> slr_ok load then bump launch_failures m
      else case find_stored (slr_snapshot load) job_id of
        None \<Rightarrow> bump launch_failures m
      | Some record \<Rightarrow>
          if sj_state record \<noteq> JobState.kStarting then bump launch_failures m
          else
            (case jd_gpu_snapshot d (jm_world m) of
               (snapshot, w1) \<Rightarrow>
                 (case jd_resolve d (js_owner_uid (sj_spec record)) w1 of
                    (identity, w2) \<Rightarrow>
                      let m1 = put_world w2 m; profile = profile_from_spec (sj_spec record) in
                      if irr_code identity \<noteq> IdentityResolveErrorCode.kNone
                        then fail_launch d job_id uuid
                               (''identity resolve failed: '' @ irr_message identity) m1
                      else if validate_profile profile \<noteq> LaunchProfileErrorCode.kNone
                        then fail_launch d job_id uuid (''invalid launch profile: ''
                               @ LaunchProfileErrorCode_to_string (validate_profile profile)) m1
                      else
                        (let plan = prepare (jd_adapter d) job_id (sj_spec record)
                               \<lparr>ga_uuid = uuid, ga_physical_index = physical_index_of snapshot uuid,
                                ga_logical_index = 0\<rparr> profile (irr_identity identity) in
                         if lpr_code plan \<noteq> LaunchPrepareErrorCode.kNone
                           then fail_launch d job_id uuid
                                  (''launch plan rejected: '' @ lpr_message plan) m1
                         else
                           (case ensure_job_directory (jd_mkdir d w2) (jd_lstat d w2) (jd_geteuid d)
                                   (jd_strerror d) (jc_log_root (jd_config d)) job_id of
                              Inl directory_error \<Rightarrow> fail_launch d job_id uuid directory_error m1
                            | Inr directory \<Rightarrow>
                                launch_prepared d job_id uuid (irr_identity identity) (lpr_plan plan)
                                  directory m1)))))"

section \<open>Scheduling\<close>

definition consume_schedule ::
  "('s, 't, 'u, 'f, 'w) JobManagerDeps \<Rightarrow> ScheduleResult \<Rightarrow> ('s, 't, 'f, 'w) JobManager
     \<Rightarrow> ('s, 't, 'f, 'w) JobManager" where
  "consume_schedule d result m =
     (let m1 = (if sr_code result = kScheduled \<or> sr_code result = kNoCandidate
                then m\<lparr>jm_evaluation := Some (sr_evaluation result)\<rparr> else m) in
      case (sev_job_id (sr_event result), sev_gpu_uuid (sr_event result)) of
        (Some job_id, Some uuid) \<Rightarrow>
          if sr_code result = kScheduled then
            (let m2 = bump scheduler_scheduled m1;
                 m3 = (if sev_selection_reason (sr_event result) = kAvoidRequiredAffinity
                         then bump scheduler_affinity_avoids m2
                       else if sev_selection_reason (sr_event result) = kAffinityFallback
                         then bump scheduler_affinity_fallbacks m2
                       else m2) in
             launch_scheduled d job_id uuid m3)
          else if schedule_failed result then bump scheduler_failed m1 else m1
      | _ \<Rightarrow> if schedule_failed result then bump scheduler_failed m1 else m1)"

definition schedule_now ::
  "('s, 't, 'u, 'f, 'w) JobManagerDeps \<Rightarrow> SchedulerTrigger \<Rightarrow> ('s, 't, 'f, 'w) JobManager
     \<Rightarrow> ('s, 't, 'f, 'w) JobManager" where
  "schedule_now d trigger m =
     (if jm_phase m < kPhaseSchedulingOpen then m
      else case jd_gpu_snapshot d (jm_world m) of
        (None, w) \<Rightarrow> bump scheduler_failed (put_world w m)
      | (Some snapshot, w) \<Rightarrow>
          (case jd_scheduler_task d w of
             (NotAccepted, w1) \<Rightarrow> bump scheduler_failed (put_world w1 m)
           | (NoResult, w1) \<Rightarrow> bump scheduler_failed (bump scheduler_runs (put_world w1 m))
           | (CancelledEarly, w1) \<Rightarrow>
               consume_schedule d (schedule_cancelled trigger) (bump scheduler_runs (put_world w1 m))
           | (Ran, w1) \<Rightarrow>
               (case run_once (jd_store d)
                       \<lparr>scfg_scan_window = jc_scheduler_scan_window (jd_config d)\<rparr> trigger snapshot
                       (jm_queue m) (jm_store m) of
                  None \<Rightarrow> bump scheduler_failed (bump scheduler_runs (put_world w1 m))
                | Some (result, q, s) \<Rightarrow>
                    consume_schedule d result
                      (bump scheduler_runs (m\<lparr>jm_world := w1, jm_queue := q, jm_store := s\<rparr>)))))"

section \<open>Exit\<close>

definition post_wake ::
  "('s, 't, 'u, 'f, 'w) JobManagerDeps \<Rightarrow> SchedulerTrigger \<Rightarrow> ('s, 't, 'f, 'w) JobManager
     \<Rightarrow> ('s, 't, 'f, 'w) JobManager" where
  "post_wake d trigger m =
     (if length (jm_commands m) < jc_command_capacity (jd_config d)
      then m\<lparr>jm_commands := jm_commands m @ [Wake trigger]\<rparr> else m)"

definition terminal_of :: "bool \<Rightarrow> ExitEvent \<Rightarrow> JobState \<times> string option" where
  "terminal_of cancelling event =
     (if cancelling then (JobState.kCancelled, None)
      else if \<not> xe_identity_verified event
        then (JobState.kFailed,
              Some ''exit status unavailable (identity verification failed or adopted process)'')
      else if exit_is_success (xe_status event) then (JobState.kFinished, None)
      else (JobState.kFailed,
            Some (if es_reason (xe_status event) = ExitReason.kExited
                  then ''exited with code '' @ int_to_string (es_exit_code (xe_status event))
                  else ''terminated by signal '' @ int_to_string (es_signal_number (xe_status event)))))"

definition exited_record ::
  "('s, 't, 'u, 'f, 'w) JobManagerDeps \<Rightarrow> JobState \<Rightarrow> string option \<Rightarrow> ExitEvent \<Rightarrow> GpuUuid \<Rightarrow> 'w compose" where
  "exited_record d terminal reason event uuid current w =
     (if is_terminal (sj_state current) then (current, [], w)
      else case jd_system_clock d w of
        (now, w1) \<Rightarrow>
          ((advance terminal current)\<lparr>sj_execution :=
             (sj_execution current)
               \<lparr>er_exit := (if xe_identity_verified event then Some (xe_status event)
                            else er_exit (sj_execution current)),
                er_end_time := Some now, er_failure_reason := reason\<rparr>\<rparr>, [uuid], w1))"

definition terminal_stat :: "JobState \<Rightarrow> AtomicStat" where
  "terminal_stat terminal =
     (case terminal of
        JobState.kFinished \<Rightarrow> jobs_finished
      | JobState.kCancelled \<Rightarrow> jobs_cancelled
      | _ \<Rightarrow> jobs_failed)"

text \<open>Erasing an entry destroys its supervisor; the escalation object goes first and is disarmed.\<close>

definition erase_supervised ::
  "u64 \<Rightarrow> SupervisedJob \<Rightarrow> ('s, 't, 'f, 'w) JobManager \<Rightarrow> ('s, 't, 'f, 'w) JobManager" where
  "erase_supervised job_id job m =
     (let m1 = drop_supervisor (su_supervisor job)
                 (m\<lparr>jm_supervised := omap_erase job_id (jm_supervised m)\<rparr>) in
      m1\<lparr>jm_stats := (jm_stats m1)(active_supervised := jm_stats m1 active_supervised - 1)\<rparr>)"

definition disarm_job :: "SupervisedJob \<Rightarrow> SupervisedJob" where
  "disarm_job job = job\<lparr>su_grace := map_option (\<lambda>g. snd (grace_disarm True g)) (su_grace job)\<rparr>"

definition process_exit ::
  "('s, 't, 'u, 'f, 'w) JobManagerDeps \<Rightarrow> ExitEvent \<Rightarrow> ('s, 't, 'f, 'w) JobManager
     \<Rightarrow> ('s, 't, 'f, 'w) JobManager" where
  "process_exit d event m =
     (case map_of (jm_by_pid m) (xe_pid event) of
        None \<Rightarrow> m
      | Some job_id \<Rightarrow>
          (case map_of (jm_supervised m) job_id of
             None \<Rightarrow> m\<lparr>jm_by_pid := omap_erase (xe_pid event) (jm_by_pid m)\<rparr>
           | Some entry \<Rightarrow>
               let job = disarm_job entry;
                   m0 = m\<lparr>jm_supervised := omap_put job_id job (jm_supervised m)\<rparr> in
               (case terminal_of (su_cancelling job) event of
                  (terminal, reason) \<Rightarrow>
                    (case rewrite_job d job_id
                            (exited_record d terminal reason event (su_leased_gpu job)) m0 of
                       (written, m1) \<Rightarrow>
                         let m2 = (if \<not> swr_ok written then bump store_write_failures m1
                                   else bump (terminal_stat terminal) m1);
                             exit_info = (if xe_identity_verified event
                                          then Some (exit_wire (xe_status event)) else None);
                             m3 = (if su_adopted job \<or> su_pump_done job
                                   then erase_supervised job_id job
                                          (finish_stream d job_id (state_wire terminal) exit_info m2)
                                   else m2\<lparr>jm_supervised := omap_put job_id
                                          (job\<lparr>su_exited := True, su_terminal_state := state_wire terminal,
                                               su_terminal_exit := exit_info\<rparr>) (jm_supervised m2)\<rparr>) in
                         post_wake d kJobExited
                           (m3\<lparr>jm_by_pid := omap_erase (xe_pid event) (jm_by_pid m3)\<rparr>)))))"

fun drain_exit_events ::
  "('s, 't, 'u, 'f, 'w) JobManagerDeps \<Rightarrow> ExitEvent list \<Rightarrow> ('s, 't, 'f, 'w) JobManager
     \<Rightarrow> ('s, 't, 'f, 'w) JobManager" where
  "drain_exit_events d [] m = m"
| "drain_exit_events d (event # events) m = drain_exit_events d events (process_exit d event m)"

definition pump_finished ::
  "('s, 't, 'u, 'f, 'w) JobManagerDeps \<Rightarrow> JobId \<Rightarrow> ('s, 't, 'f, 'w) JobManager
     \<Rightarrow> ('s, 't, 'f, 'w) JobManager" where
  "pump_finished d i m =
     (case map_of (jm_supervised m) i of
        None \<Rightarrow> m
      | Some entry \<Rightarrow>
          let job = entry\<lparr>su_pump_done := True\<rparr>;
              m1 = m\<lparr>jm_supervised := omap_put i job (jm_supervised m)\<rparr> in
          if su_exited job
          then erase_supervised i job
                 (finish_stream d i (su_terminal_state job) (su_terminal_exit job) m1)
          else m1)"

fun drain_pump_done ::
  "('s, 't, 'u, 'f, 'w) JobManagerDeps \<Rightarrow> JobId list \<Rightarrow> ('s, 't, 'f, 'w) JobManager
     \<Rightarrow> ('s, 't, 'f, 'w) JobManager" where
  "drain_pump_done d [] m = m"
| "drain_pump_done d (i # is) m = drain_pump_done d is (pump_finished d i m)"

text \<open>The delayed task of the escalation object, which runs when the grace period is over.\<close>

definition fire_grace ::
  "('s, 't, 'u, 'f, 'w) JobManagerDeps \<Rightarrow> u64 \<Rightarrow> ('s, 't, 'f, 'w) JobManager
     \<Rightarrow> ('s, 't, 'f, 'w) JobManager" where
  "fire_grace d job_id m =
     (case map_of (jm_supervised m) job_id of
        None \<Rightarrow> m
      | Some job \<Rightarrow>
          (case (su_grace job, su_supervisor job) of
             (Some g, Some supervisor) \<Rightarrow>
               if ge_armed g then
                 (case jd_steady_clock d (jm_world m) of
                    (now, w) \<Rightarrow>
                      (case escalate (jd_kill d w) now supervisor of
                         (_, supervisor1, signals) \<Rightarrow>
                           m\<lparr>jm_world := w, jm_signals := jm_signals m @ signals,
                             jm_supervised := omap_put job_id
                               (job\<lparr>su_supervisor := Some supervisor1\<rparr>) (jm_supervised m)\<rparr>))
               else m
           | _ \<Rightarrow> m))"

section \<open>Adoption after a restart\<close>

definition lease_of_job :: "StateSnapshot \<Rightarrow> JobId \<Rightarrow> GpuUuid" where
  "lease_of_job snapshot i =
     (case find (\<lambda>lease. gl_job_id lease = i) (ss_leases snapshot) of
        None \<Rightarrow> [] | Some lease \<Rightarrow> gl_gpu_uuid lease)"

definition adopt_outcome ::
  "('s, 't, 'u, 'f, 'w) JobManagerDeps \<Rightarrow> RecoveryJobOutcome \<Rightarrow> ('s, 't, 'f, 'w) JobManager
     \<Rightarrow> ('s, 't, 'f, 'w) JobManager" where
  "adopt_outcome d outcome m =
     (let load = st_load (jd_store d) (jm_store m); i = ro_job_id outcome;
          needs_recancel = (ro_decision outcome = kAdoptedStoppingNeedsRecancel) in
      if ro_decision outcome \<noteq> kAdoptedRunning \<and> ro_decision outcome \<noteq> kAdoptedPromotedToRunning
         \<and> \<not> needs_recancel then m
      else if \<not> slr_ok load then m
      else case find_stored (slr_snapshot load) i of
        None \<Rightarrow> m
      | Some record \<Rightarrow>
          if \<not> has_identity (sj_execution record) then m
          else
            (let identity = er_identity (sj_execution record) in
             case adopt (jd_read_proc_stat d (jm_world m)) identity
                    (ProcessSupervisor_init \<lparr>cpo_grace_period = jc_cancel_grace (jd_config d)\<rparr>) of
               (adopted, supervisor) \<Rightarrow>
                 if adr_code adopted \<noteq> AdoptErrorCode.kNone then m
                 else
                   (case jd_register_process d identity (jm_world m) of
                      (code, w) \<Rightarrow>
                        if code \<noteq> ExitRegisterCode.kRegistered
                          then drop_supervisor (Some supervisor) (put_world w m)
                        else
                          (let job = (SupervisedJob_init i)\<lparr>su_adopted := True,
                                 su_leased_gpu := lease_of_job (slr_snapshot load) i,
                                 su_supervisor := Some supervisor, su_cancelling := needs_recancel,
                                 su_grace := (if needs_recancel then Some GraceEscalation_init else None)\<rparr>;
                               m1 = supervise i job (pi_pid identity) (bump jobs_adopted (put_world w m)) in
                           if needs_recancel
                           then bump recancels_armed (begin_cancellation d i True m1)
                           else m1))))"

definition arm_recovery ::
  "('s, 't, 'u, 'f, 'w) JobManagerDeps \<Rightarrow> RecoveryResult option \<Rightarrow> ('s, 't, 'f, 'w) JobManager
     \<Rightarrow> ('s, 't, 'f, 'w) JobManager" where
  "arm_recovery d recovery m =
     (case recovery of
        None \<Rightarrow> m
      | Some r \<Rightarrow> if \<not> rr_ok r then m else fold (adopt_outcome d) (rr_outcomes r) m)"

section \<open>The worker's loops\<close>

datatype Ack = SubmitAck JobSubmitOutcome | CancelAck JobCancelOutcome

definition handle_command ::
  "('s, 't, 'u, 'f, 'w) JobManagerDeps \<Rightarrow> Command \<Rightarrow> ('s, 't, 'f, 'w) JobManager
     \<Rightarrow> Ack list \<times> ('s, 't, 'f, 'w) JobManager" where
  "handle_command d command m =
     (case command of
        Submit spec \<Rightarrow>
          (case process_submit d spec m of
             (outcome, m1) \<Rightarrow> ([SubmitAck outcome], post_wake d kJobSubmitted m1))
      | Cancel job_id \<Rightarrow>
          (case process_cancel d job_id m of
             (outcome, m1) \<Rightarrow> ([CancelAck outcome], post_wake d kJobCancelled m1))
      | Wake trigger \<Rightarrow> ([], schedule_now d trigger m))"

text \<open>The loop over the command channel, with a bound on its turns; \<open>None\<close> if the bound is reached.\<close>

fun process_commands ::
  "nat \<Rightarrow> ('s, 't, 'u, 'f, 'w) JobManagerDeps \<Rightarrow> ('s, 't, 'f, 'w) JobManager
     \<Rightarrow> (Ack list \<times> ('s, 't, 'f, 'w) JobManager) option" where
  "process_commands 0 d m = (if jm_commands m = [] then Some ([], m) else None)"
| "process_commands (Suc n) d m =
     (case jm_commands m of
        [] \<Rightarrow> Some ([], m)
      | command # rest \<Rightarrow>
          (case handle_command d command (bump commands_processed (m\<lparr>jm_commands := rest\<rparr>)) of
             (acks, m1) \<Rightarrow>
               map_option (\<lambda>(more_acks, m2). (acks @ more_acks, m2)) (process_commands n d m1)))"

definition reject_command :: "Command \<Rightarrow> Ack list" where
  "reject_command command =
     (case command of
        Submit _ \<Rightarrow> [SubmitAck \<lparr>jso_code = JobSubmitCode.kUnavailable, jso_job_id = 0,
                      jso_detail = ''job manager is stopping''\<rparr>]
      | Cancel _ \<Rightarrow> [CancelAck (cancel_outcome JobCancelCode.kUnavailable 0 ''job manager is stopping'')]
      | Wake _ \<Rightarrow> [])"

definition reject_pending_commands ::
  "('s, 't, 'f, 'w) JobManager \<Rightarrow> Ack list \<times> ('s, 't, 'f, 'w) JobManager" where
  "reject_pending_commands m = (concat (map reject_command (jm_commands m)), m\<lparr>jm_commands := []\<rparr>)"

definition abandon_job :: "SupervisedJob \<Rightarrow> bool" where
  "abandon_job job \<longleftrightarrow>
     (case su_supervisor job of None \<Rightarrow> False | Some s \<Rightarrow> fst (abandon s) = kAbandoned)"

definition released_job :: "SupervisedJob \<Rightarrow> SupervisedJob" where
  "released_job job = job\<lparr>su_supervisor := None, su_grace := None\<rparr>"

text \<open>An abandoned supervisor is idle, so that its destructor sends nothing; one that was not running
  sends nothing either.\<close>

definition abandon_supervised ::
  "('s, 't, 'f, 'w) JobManager \<Rightarrow> nat \<times> ('s, 't, 'f, 'w) JobManager" where
  "abandon_supervised m =
     (let abandoned = length (filter (\<lambda>e. abandon_job (snd e)) (jm_supervised m));
          signals = concat (map (\<lambda>e. case su_supervisor (snd e) of
              None \<Rightarrow> [] | Some s \<Rightarrow> snd (destroy (snd (abandon s)))) (jm_supervised m)) in
      (abandoned,
       m\<lparr>jm_supervised := map (\<lambda>e. (fst e, released_job (snd e))) (jm_supervised m),
         jm_signals := jm_signals m @ signals,
         jm_stats := (jm_stats m)(active_supervised :=
           jm_stats m active_supervised - of_nat abandoned)\<rparr>))"

section \<open>The owner's side\<close>

datatype JobManagerStartCode =
  kStarted | kAlreadyStarted | kInvalidConfig | kLogRootInvalid | kWorkersRejected

fun JobManagerStartCode_to_string :: "JobManagerStartCode \<Rightarrow> string" where
  "JobManagerStartCode_to_string kStarted = ''started''"
| "JobManagerStartCode_to_string kAlreadyStarted = ''already started''"
| "JobManagerStartCode_to_string JobManagerStartCode.kInvalidConfig = ''invalid config''"
| "JobManagerStartCode_to_string kLogRootInvalid = ''log root rejected''"
| "JobManagerStartCode_to_string kWorkersRejected = ''executor rejected a worker''"

datatype JobManagerStopCode = kStopped | kNotRunning | kAlreadyStopped

fun JobManagerStopCode_to_string :: "JobManagerStopCode \<Rightarrow> string" where
  "JobManagerStopCode_to_string JobManagerStopCode.kStopped = ''stopped''"
| "JobManagerStopCode_to_string JobManagerStopCode.kNotRunning = ''not running''"
| "JobManagerStopCode_to_string kAlreadyStopped = ''already stopped''"

record manager_owner =
  mo_started :: bool
  mo_stop_requested :: bool

text \<open>The answers of the start-up calls: the log root, the exit monitor, the pump, the wake pipe and the
  executor, in the order of the calls.\<close>

record start_answers =
  sa_log_root :: "string option"
  sa_monitor :: "string option"
  sa_pump :: "string option"
  sa_pipe :: bool
  sa_worker :: bool

text \<open>A rejected worker is destroyed with everything it supervises.\<close>

definition destroy_worker ::
  "('s, 't, 'f, 'w) JobManager \<Rightarrow> ('s, 't, 'f, 'w) JobManager" where
  "destroy_worker m =
     m\<lparr>jm_supervised := [], jm_by_pid := [],
       jm_signals := jm_signals m @ concat (map (\<lambda>e. case su_supervisor (snd e) of
           None \<Rightarrow> [] | Some s \<Rightarrow> snd (destroy s)) (jm_supervised m))\<rparr>"

definition manager_start ::
  "('s, 't, 'u, 'f, 'w) JobManagerDeps \<Rightarrow> start_answers \<Rightarrow> RecoveryResult option \<Rightarrow> manager_owner
     \<Rightarrow> ('s, 't, 'f, 'w) JobManager
     \<Rightarrow> (JobManagerStartCode \<times> string) \<times> manager_owner \<times> ('s, 't, 'f, 'w) JobManager" where
  "manager_start d a recovery owner m =
     (if mo_started owner then ((kAlreadyStarted, ''job manager already started''), owner, m)
      else if mo_stop_requested owner
        then ((JobManagerStartCode.kInvalidConfig, ''job manager was stopped and cannot restart''), owner, m)
      else case job_manager_config_error (jd_config d) of
        Some e \<Rightarrow> ((JobManagerStartCode.kInvalidConfig, e), owner, m)
      | None \<Rightarrow>
          (case sa_log_root a of
             Some e \<Rightarrow> ((kLogRootInvalid, e), owner, m)
           | None \<Rightarrow>
               (case sa_monitor a of
                  Some e \<Rightarrow> ((kWorkersRejected, ''exit monitor start failed: '' @ e), owner, m)
                | None \<Rightarrow>
                    (case sa_pump a of
                       Some e \<Rightarrow> ((kWorkersRejected, ''log pump start failed: '' @ e), owner, m)
                     | None \<Rightarrow>
                         if \<not> sa_pipe a then ((kWorkersRejected, ''wake pipe creation failed''), owner, m)
                         else
                           (let m1 = arm_recovery d recovery m in
                            if \<not> sa_worker a
                              then ((kWorkersRejected, ''executor rejected the blocking worker''), owner,
                                    destroy_worker m1)
                            else ((kStarted, []), owner\<lparr>mo_started := True\<rparr>,
                                  post_wake d kRecoveryCompleted m1))))))"

definition enqueue_command ::
  "('s, 't, 'u, 'f, 'w) JobManagerDeps \<Rightarrow> Command \<Rightarrow> manager_owner \<Rightarrow> ('s, 't, 'f, 'w) JobManager
     \<Rightarrow> string option \<times> ('s, 't, 'f, 'w) JobManager" where
  "enqueue_command d command owner m =
     (if mo_stop_requested owner \<or> \<not> mo_started owner then (Some ''job manager is not running'', m)
      else if length (jm_commands m) \<ge> jc_command_capacity (jd_config d)
        then (Some ''job manager command channel is full'', m)
      else (None, m\<lparr>jm_commands := jm_commands m @ [command]\<rparr>))"

text \<open>The reply of \<open>submit_job\<close> and \<open>cancel_job\<close>: the refusal to enqueue, a timeout, or the worker's
  acknowledgement.\<close>

definition submit_reply :: "string option \<Rightarrow> JobSubmitOutcome option \<Rightarrow> JobSubmitOutcome" where
  "submit_reply refused acknowledged =
     (case refused of
        Some detail \<Rightarrow> \<lparr>jso_code = JobSubmitCode.kUnavailable, jso_job_id = 0, jso_detail = detail\<rparr>
      | None \<Rightarrow>
          (case acknowledged of
             None \<Rightarrow> \<lparr>jso_code = JobSubmitCode.kUnavailable, jso_job_id = 0,
                      jso_detail = ''job manager did not acknowledge submission''\<rparr>
           | Some outcome \<Rightarrow> outcome))"

definition cancel_reply :: "string option \<Rightarrow> JobCancelOutcome option \<Rightarrow> JobCancelOutcome" where
  "cancel_reply refused acknowledged =
     (case refused of
        Some detail \<Rightarrow> cancel_outcome JobCancelCode.kUnavailable 0 detail
      | None \<Rightarrow>
          (case acknowledged of
             None \<Rightarrow> cancel_outcome JobCancelCode.kUnavailable 0
                      ''job manager did not acknowledge cancellation''
           | Some outcome \<Rightarrow> outcome))"

definition manager_stop ::
  "manager_owner \<Rightarrow> ('s, 't, 'f, 'w) JobManager
     \<Rightarrow> JobManagerStopCode \<times> Ack list \<times> manager_owner \<times> ('s, 't, 'f, 'w) JobManager" where
  "manager_stop owner m =
     (if mo_stop_requested owner then (kAlreadyStopped, [], owner, m)
      else if \<not> mo_started owner
        then (JobManagerStopCode.kNotRunning, [], owner\<lparr>mo_stop_requested := True\<rparr>, m)
      else
        (case reject_pending_commands m of
           (acks, m1) \<Rightarrow>
             (case abandon_supervised m1 of
                (abandoned, m2) \<Rightarrow>
                  (JobManagerStopCode.kStopped, acks,
                   owner\<lparr>mo_stop_requested := True, mo_started := False\<rparr>,
                   m2\<lparr>jm_stats := (jm_stats m2)(abandoned_at_stop :=
                        jm_stats m2 abandoned_at_stop + of_nat abandoned)\<rparr>))))"

end
