(* ===== verification/Job_Manager_Laws.thy ===== *)
theory Job_Manager_Laws
  imports Job_Lifecycle Scheduler_Laws Recovery_Laws
begin

text \<open>
  The handlers of the job manager over any backend that keeps the store contract. \<open>manager_ok\<close> is what
  they all keep: a well-formed store, a well-formed queue that mirrors the stored queued jobs (unless a
  lost compensating write was reported), and for every supervised process that has not exited a stored
  job that is running or stopping and holds the lease of the device the manager remembers.
\<close>

section \<open>Stored jobs\<close>

lemma find_stored_iff:
  assumes "content_wf c"
  shows "find_stored (snapshot_of c) i = Some r \<longleftrightarrow> map_of (sc_jobs c) i = Some r"
proof -
  have "find_stored (snapshot_of c) i = Some r \<Longrightarrow> r \<in> snd ` set (sc_jobs c) \<and> sj_id r = i" for r
    by (auto simp: find_stored_def snapshot_of_def find_Some_iff)
  then have 1: "find_stored (snapshot_of c) i = Some r \<Longrightarrow> map_of (sc_jobs c) i = Some r" for r
    using content_wf_range[OF assms, of r] by blast
  have "find_stored (snapshot_of c) i \<noteq> None" if "map_of (sc_jobs c) i = Some r"
  proof -
    have "r \<in> snd ` set (sc_jobs c)" "sj_id r = i"
      using that content_wf_id(2)[OF assms that] map_of_SomeD[OF that] by force+
    then show ?thesis by (auto simp: find_stored_def snapshot_of_def find_None_iff)
  qed
  with 1 show ?thesis by fastforce
qed

lemma find_stored_None:
  assumes "content_wf c"
  shows "find_stored (snapshot_of c) i = None \<longleftrightarrow> map_of (sc_jobs c) i = None"
  using find_stored_iff[OF assms, of i] by (metis not_None_eq)

lemma foldl_max_ge:
  "(a :: u64) \<le> foldl (\<lambda>m r. max m (sj_id r)) a jobs"
  "r \<in> set jobs \<Longrightarrow> sj_id r \<le> foldl (\<lambda>m r. max m (sj_id r)) a jobs"
proof (induction jobs arbitrary: a)
  case (Cons x xs)
  {
    case 1
    show ?case using Cons(1)[of "max a (sj_id x)"] by simp
  next
    case 2
    then show ?case using Cons(1)[of "max a (sj_id x)"] Cons(2)[of "max a (sj_id x)"] by auto
  }
qed simp_all

lemma max_job_id_ge: "r \<in> set jobs \<Longrightarrow> sj_id r \<le> max_job_id jobs"
  by (simp add: max_job_id_def foldl_max_ge(2))

text \<open>The id of a new job is fresh, unless the counter wraps around to the invalid id \<open>0\<close>.\<close>

lemma new_id_fresh:
  assumes "content_wf c" "max_job_id (ss_jobs (snapshot_of c)) + 1 \<noteq> 0"
    and "map_of (sc_jobs c) i = Some r"
  shows "i < max_job_id (ss_jobs (snapshot_of c)) + 1"
proof -
  let ?m = "max_job_id (ss_jobs (snapshot_of c))"
  have "r \<in> set (ss_jobs (snapshot_of c))" "sj_id r = i"
    using assms map_of_SomeD content_wf_id(2) by (force simp: snapshot_of_def)+
  then have "i \<le> ?m" using max_job_id_ge by blast
  moreover have "unat (?m + 1) = Suc (unat ?m)"
    using assms(2) unatSuc[of ?m] by (simp add: add.commute)
  then have "?m < ?m + 1" by (simp add: word_less_nat_alt)
  ultimately show ?thesis by simp
qed

section \<open>Frames\<close>

lemma bump_frame [simp]:
  "jm_store (bump c m) = jm_store m" "jm_queue (bump c m) = jm_queue m"
  "jm_supervised (bump c m) = jm_supervised m" "jm_by_pid (bump c m) = jm_by_pid m"
  "jm_world (bump c m) = jm_world m" "jm_commands (bump c m) = jm_commands m"
  "jm_streamer (bump c m) = jm_streamer m" "jm_files (bump c m) = jm_files m"
  "jm_signals (bump c m) = jm_signals m" "jm_phase (bump c m) = jm_phase m"
  by (simp_all add: bump_def)

lemma put_world_frame [simp]:
  "jm_store (put_world w m) = jm_store m" "jm_queue (put_world w m) = jm_queue m"
  "jm_supervised (put_world w m) = jm_supervised m" "jm_commands (put_world w m) = jm_commands m"
  by (simp_all add: put_world_def)

lemma finish_stream_frame [simp]:
  "jm_store (finish_stream d i st e m) = jm_store m" "jm_queue (finish_stream d i st e m) = jm_queue m"
  "jm_supervised (finish_stream d i st e m) = jm_supervised m"
  "jm_commands (finish_stream d i st e m) = jm_commands m"
  by (simp_all add: finish_stream_def)

lemma unregister_stream_frame [simp]:
  "jm_store (unregister_stream d i m) = jm_store m" "jm_queue (unregister_stream d i m) = jm_queue m"
  "jm_supervised (unregister_stream d i m) = jm_supervised m"
  "jm_commands (unregister_stream d i m) = jm_commands m"
  by (simp_all add: unregister_stream_def)

lemma drop_frame [simp]:
  "jm_store (drop_supervisor s m) = jm_store m" "jm_queue (drop_supervisor s m) = jm_queue m"
  "jm_supervised (drop_supervisor s m) = jm_supervised m"
  "jm_commands (drop_supervisor s m) = jm_commands m"
  "jm_store (drop_sink d k m) = jm_store m" "jm_queue (drop_sink d k m) = jm_queue m"
  "jm_supervised (drop_sink d k m) = jm_supervised m" "jm_commands (drop_sink d k m) = jm_commands m"
  by (simp_all add: drop_supervisor_def drop_sink_def split: option.split)

lemma post_wake_frame [simp]:
  "jm_store (post_wake d t m) = jm_store m" "jm_queue (post_wake d t m) = jm_queue m"
  "jm_supervised (post_wake d t m) = jm_supervised m"
  by (simp_all add: post_wake_def)

section \<open>The invariant\<close>

definition occupies :: "JobState \<Rightarrow> bool" where
  "occupies s \<longleftrightarrow> s = JobState.kRunning \<or> s = JobState.kStopping"

definition supervised_ok :: "store_content \<Rightarrow> (u64, SupervisedJob) omap \<Rightarrow> bool" where
  "supervised_ok c jobs \<longleftrightarrow>
     (\<forall>i job. map_of jobs i = Some job \<longrightarrow>
        (\<exists>r. map_of (sc_jobs c) i = Some r \<and> sj_state r \<noteq> JobState.kQueued))
   \<and> (\<forall>i job. map_of jobs i = Some job \<and> \<not> su_exited job \<longrightarrow>
        (\<exists>r. map_of (sc_jobs c) i = Some r \<and> occupies (sj_state r))
      \<and> map_of (sc_leases c) (su_leased_gpu job)
          = Some \<lparr>gl_gpu_uuid = su_leased_gpu job, gl_job_id = i\<rparr>)"

definition manager_ok ::
  "('s \<Rightarrow> store_content) \<Rightarrow> ('s \<Rightarrow> bool) \<Rightarrow> bool \<Rightarrow> ('s, 't, 'f, 'w) JobManager \<Rightarrow> bool" where
  "manager_ok content good lost m \<longleftrightarrow>
     good (jm_store m) \<and> queue_inv (jm_queue m)
   \<and> (\<not> lost \<longrightarrow> queue_mirrors (jm_queue m) (content (jm_store m)))
   \<and> supervised_ok (content (jm_store m)) (jm_supervised m)"

lemma manager_ok_frame:
  assumes "manager_ok content good lost m" "jm_store m' = jm_store m" "jm_queue m' = jm_queue m"
    and "jm_supervised m' = jm_supervised m"
  shows "manager_ok content good lost m'"
  using assms by (simp add: manager_ok_def)

lemma manager_ok_simps [simp]:
  "manager_ok content good lost (bump c m) = manager_ok content good lost m"
  "manager_ok content good lost (put_world w m) = manager_ok content good lost m"
  "manager_ok content good lost (m\<lparr>jm_world := w\<rparr>) = manager_ok content good lost m"
  "manager_ok content good lost (m\<lparr>jm_evaluation := e\<rparr>) = manager_ok content good lost m"
  "manager_ok content good lost (m\<lparr>jm_by_pid := p\<rparr>) = manager_ok content good lost m"
  "manager_ok content good lost (finish_stream d i st ex m) = manager_ok content good lost m"
  "manager_ok content good lost (drop_sink d sink m) = manager_ok content good lost m"
  "manager_ok content good lost (drop_supervisor s m) = manager_ok content good lost m"
  "manager_ok content good lost (post_wake d t m) = manager_ok content good lost m"
  by (simp_all add: manager_ok_def)

lemma occupies_leaseable: "occupies s \<Longrightarrow> leaseable s"
  by (auto simp: occupies_def leaseable_def)

text \<open>Supervised entries survive a change of the store that leaves their jobs running or stopping and
  hands out leases to other jobs only; that their leases are still there follows from the lease matrix.\<close>

lemma evolves_not_queued:
  "job_evolves a b \<Longrightarrow> sj_state a \<noteq> JobState.kQueued \<Longrightarrow> sj_state b \<noteq> JobState.kQueued"
  unfolding job_evolves_def by (metis can_transition_not_queued tranclp.cases)

lemma supervised_ok_change:
  assumes ok: "supervised_ok c jobs" and wf: "content_wf c" and wf': "content_wf c'"
    and ev: "jobs_evolve (sc_jobs c) (sc_jobs c')"
    and ids: "\<And>i job. map_of jobs' i = Some job \<Longrightarrow> \<exists>job0. map_of jobs i = Some job0
      \<and> (su_exited job0 \<longrightarrow> su_exited job) \<and> su_leased_gpu job0 = su_leased_gpu job"
    and live: "\<And>i job. map_of jobs' i = Some job \<Longrightarrow> \<not> su_exited job \<Longrightarrow>
      \<exists>r. map_of (sc_jobs c') i = Some r \<and> occupies (sj_state r)"
    and leases: "\<And>u l job. map_of (sc_leases c') u = Some l \<Longrightarrow> map_of jobs' (gl_job_id l) = Some job \<Longrightarrow>
      \<not> su_exited job \<Longrightarrow> map_of (sc_leases c) u = Some l"
  shows "supervised_ok c' jobs'"
  unfolding supervised_ok_def
proof (intro allI impI conjI)
  fix i job assume "map_of jobs' i = Some job"
  from ids[OF this] obtain job0 where "map_of jobs i = Some job0" by blast
  then obtain r where "map_of (sc_jobs c) i = Some r" "sj_state r \<noteq> JobState.kQueued"
    using ok unfolding supervised_ok_def by blast
  then show "\<exists>r. map_of (sc_jobs c') i = Some r \<and> sj_state r \<noteq> JobState.kQueued"
    using ev evolves_not_queued unfolding jobs_evolve_def by blast
next
  fix i job assume a: "map_of jobs' i = Some job \<and> \<not> su_exited job"
  from live a show r: "\<exists>r. map_of (sc_jobs c') i = Some r \<and> occupies (sj_state r)" by blast
  from ids a obtain job0 where j0: "map_of jobs i = Some job0" "\<not> su_exited job0"
      "su_leased_gpu job0 = su_leased_gpu job" by blast
  then have l0: "map_of (sc_leases c) (su_leased_gpu job)
      = Some \<lparr>gl_gpu_uuid = su_leased_gpu job, gl_job_id = i\<rparr>"
    using ok unfolding supervised_ok_def by (metis (no_types, lifting))
  from r obtain r' where "map_of (sc_jobs c') i = Some r'" "leaseable (sj_state r')"
    using occupies_leaseable by blast
  then obtain u l where ul: "map_of (sc_leases c') u = Some l" "gl_job_id l = i"
    using content_wf_matrix[OF wf', of i r'] by auto
  then have "map_of (sc_leases c) u = Some l" using leases a by blast
  then have "u = su_leased_gpu job"
    using lease_unique[OF wf _ l0, of u l] ul(2) by simp
  moreover from this have "l = \<lparr>gl_gpu_uuid = su_leased_gpu job, gl_job_id = i\<rparr>"
    using \<open>map_of (sc_leases c) u = Some l\<close> l0 by simp
  ultimately show "map_of (sc_leases c') (su_leased_gpu job)
      = Some \<lparr>gl_gpu_uuid = su_leased_gpu job, gl_job_id = i\<rparr>"
    using ul(1) by simp
qed

text \<open>Entries may be replaced by others with the same device that are no less finished, or go.\<close>

lemma supervised_ok_weaken:
  assumes "supervised_ok c jobs"
    and "\<And>i job. map_of jobs' i = Some job \<Longrightarrow> \<exists>job0. map_of jobs i = Some job0
      \<and> (su_exited job0 \<longrightarrow> su_exited job) \<and> su_leased_gpu job0 = su_leased_gpu job"
  shows "supervised_ok c jobs'"
  unfolding supervised_ok_def
proof (intro conjI allI impI)
  fix i job assume "map_of jobs' i = Some job"
  from assms(2)[OF this] show "\<exists>r. map_of (sc_jobs c) i = Some r \<and> sj_state r \<noteq> JobState.kQueued"
    using assms(1) unfolding supervised_ok_def by blast
next
  fix i job assume a: "map_of jobs' i = Some job \<and> \<not> su_exited job"
  from assms(2) a obtain job0 where "map_of jobs i = Some job0 \<and> \<not> su_exited job0"
      "su_leased_gpu job0 = su_leased_gpu job" by blast
  note j = this
  show "\<exists>r. map_of (sc_jobs c) i = Some r \<and> occupies (sj_state r)"
    using assms(1) j(1) unfolding supervised_ok_def by blast
  have "map_of (sc_leases c) (su_leased_gpu job0)
        = Some \<lparr>gl_gpu_uuid = su_leased_gpu job0, gl_job_id = i\<rparr>"
    using assms(1) j(1) unfolding supervised_ok_def by blast
  then show "map_of (sc_leases c) (su_leased_gpu job)
        = Some \<lparr>gl_gpu_uuid = su_leased_gpu job, gl_job_id = i\<rparr>"
    using j(2) by simp
qed

lemma supervised_ok_put:
  assumes "supervised_ok c jobs" "map_of jobs i = Some job0" "su_exited job0 \<longrightarrow> su_exited job"
    and "su_leased_gpu job = su_leased_gpu job0"
  shows "supervised_ok c (omap_put i job jobs)"
  by (rule supervised_ok_weaken[OF assms(1)]) (use assms in \<open>auto simp: map_of_omap_put split: if_splits\<close>)

lemma supervised_ok_erase: "supervised_ok c jobs \<Longrightarrow> supervised_ok c (omap_erase i jobs)"
  by (rule supervised_ok_weaken) (auto simp: map_of_omap_erase split: if_splits)

text \<open>The queue after a change of one record.\<close>

lemma mirrors_put:
  assumes wf: "content_wf c" and wf': "content_wf c'" and jobs: "map_of (sc_jobs c') = (map_of (sc_jobs c))(i \<mapsto> r)"
    and q: "queue_mirrors q c" and new: "sj_state r \<noteq> JobState.kQueued"
    and old: "\<And>r0. map_of (sc_jobs c) i = Some r0 \<Longrightarrow> sj_state r0 \<noteq> JobState.kQueued"
  shows "queue_mirrors q c'"
  using q new old unfolding queue_mirrors_iff[OF wf] queue_mirrors_iff[OF wf'] jobs
  by (auto simp: map_of_omap_put)

lemma mirrors_put_removed:
  assumes wf: "content_wf c" and wf': "content_wf c'" and jobs: "map_of (sc_jobs c') = (map_of (sc_jobs c))(i \<mapsto> r)"
    and q: "queue_mirrors q c" and new: "sj_state r \<noteq> JobState.kQueued"
    and q': "q_entries q' = filter (\<lambda>e. qe_job_id e \<noteq> i) (q_entries q)"
  shows "queue_mirrors q' c'"
  using q new unfolding queue_mirrors_iff[OF wf] queue_mirrors_iff[OF wf'] jobs q'
  by (auto simp: map_of_omap_put)

lemma mirrors_put_admitted:
  assumes wf: "content_wf c" and wf': "content_wf c'"
    and jobs: "map_of (sc_jobs c') = (map_of (sc_jobs c))(sj_id r \<mapsto> r)"
    and q: "queue_mirrors q c" and new: "sj_state r = JobState.kQueued"
    and fresh: "map_of (sc_jobs c) (sj_id r) = None"
    and q': "set (q_entries q') = insert (entry_of r) (set (q_entries q))"
  shows "queue_mirrors q' c'"
  using q new fresh unfolding queue_mirrors_iff[OF wf] queue_mirrors_iff[OF wf'] jobs q'
  by (auto simp: map_of_omap_put entry_of_def)

lemma update_effect:
  "mutation_effect c (empty_mutation\<lparr>sm_expected_revision := n, sm_update_jobs := [r],
       sm_release_leases := us\<rparr>) =
     \<lparr>sc_revision = sc_revision c + 1, sc_jobs = omap_put (sj_id r) r (sc_jobs c),
      sc_leases = fold omap_erase us (sc_leases c)\<rparr>"
  "mutation_effect c (empty_mutation\<lparr>sm_expected_revision := n, sm_update_jobs := [r]\<rparr>) =
     \<lparr>sc_revision = sc_revision c + 1, sc_jobs = omap_put (sj_id r) r (sc_jobs c),
      sc_leases = sc_leases c\<rparr>"
  "mutation_effect c (empty_mutation\<lparr>sm_expected_revision := n, sm_create_jobs := [r]\<rparr>) =
     \<lparr>sc_revision = sc_revision c + 1, sc_jobs = omap_put (sj_id r) r (sc_jobs c),
      sc_leases = sc_leases c\<rparr>"
  by (simp_all add: mutation_effect_def empty_mutation_def put_jobs_def put_leases_def)

lemma fold_erase_sub: "map_of (fold omap_erase us ls) u = Some l \<Longrightarrow> map_of ls u = Some l"
  by (simp add: map_of_fold_erase split: if_splits)

section \<open>Writes\<close>

definition wrote :: "('s, 't, 'f, 'w) JobManager \<Rightarrow> ('s, 't, 'f, 'w) JobManager \<Rightarrow> bool" where
  "wrote m m' \<longleftrightarrow>
     jm_queue m' = jm_queue m \<and> jm_supervised m' = jm_supervised m \<and> jm_by_pid m' = jm_by_pid m
   \<and> jm_commands m' = jm_commands m \<and> jm_streamer m' = jm_streamer m \<and> jm_files m' = jm_files m
   \<and> jm_signals m' = jm_signals m \<and> jm_phase m' = jm_phase m"

lemma wrote_refl [simp]: "wrote m m" by (simp add: wrote_def)

lemma wrote_trans: "wrote a b \<Longrightarrow> wrote b c \<Longrightarrow> wrote a c" by (simp add: wrote_def)

lemma wrote_world [simp]: "wrote (m\<lparr>jm_world := w\<rparr>) m' \<longleftrightarrow> wrote m m'" by (simp add: wrote_def)

lemma advance_sel [simp]:
  "sj_id (advance s r) = sj_id r" "sj_state (advance s r) = s" "sj_spec (advance s r) = sj_spec r"
  "sj_execution (advance s r) = sj_execution r" "sj_revision (advance s r) = sj_revision r + 1"
  by (simp_all add: advance_def)

text \<open>The reply to a submission says so when the compensating write failed.\<close>

definition reports_lost_rollback :: "JobSubmitOutcome \<Rightarrow> bool" where
  "reports_lost_rollback out \<longleftrightarrow> (\<exists>a b. jso_detail out = a @ ''; rollback failed: '' @ b)"

context state_store
begin

lemma load_finds:
  assumes "inv s" "slr_ok (st_load store s)"
  shows "find_stored (slr_snapshot (st_load store s)) i = map_of (sc_jobs (content s)) i"
  using find_stored_iff[OF inv_wf[OF assms(1)]] find_stored_None[OF inv_wf[OF assms(1)]]
    load_reads[OF assms] by (metis option.exhaust)

lemma run_write_cases:
  assumes d: "jd_store d = store" and i: "inv (jm_store m)" and w: "run_write d mu m = (wr, m')"
  shows "wrote m m' \<and> inv (jm_store m')
    \<and> (\<not> swr_ok wr \<longrightarrow> content (jm_store m') = content (jm_store m))
    \<and> (swr_ok wr \<longrightarrow>
         content (jm_store m') = mutation_effect (content (jm_store m)) mu
       \<and> swr_revision wr = sc_revision (content (jm_store m)) + 1
       \<and> jobs_evolve (sc_jobs (content (jm_store m))) (sc_jobs (content (jm_store m'))))"
proof -
  obtain completed w' where t: "jd_store_task d (jm_world m) = (completed, w')" by fastforce
  obtain wr' s' where a: "st_apply store (jm_store m) mu = (wr', s')" by fastforce
  show ?thesis
  proof (cases completed)
    case False
    then show ?thesis using w t i by (auto simp: run_write_def wrote_def swr_ok_def)
  next
    case True
    then have "wr = wr'" "m' = m\<lparr>jm_store := s', jm_world := w'\<rparr>"
      using w t a d by (auto simp: run_write_def)
    then show ?thesis using apply_rejects[OF i a] apply_accepts[OF i a] by (auto simp: wrote_def)
  qed
qed

lemma rewrite_cases:
  assumes d: "jd_store d = store"
  shows "inv (jm_store m) \<Longrightarrow> rewrite_attempts n d k compose m = (wr, m') \<Longrightarrow>
    wrote m m' \<and> inv (jm_store m')
    \<and> (\<not> swr_ok wr \<longrightarrow> content (jm_store m') = content (jm_store m))
    \<and> (swr_ok wr \<longrightarrow>
        (\<exists>r w u us w'. map_of (sc_jobs (content (jm_store m))) k = Some r \<and> compose r w = (u, us, w')
         \<and> content (jm_store m') = \<lparr>sc_revision = sc_revision (content (jm_store m)) + 1,
              sc_jobs = omap_put (sj_id u) u (sc_jobs (content (jm_store m))),
              sc_leases = fold omap_erase us (sc_leases (content (jm_store m)))\<rparr>)
       \<and> jobs_evolve (sc_jobs (content (jm_store m))) (sc_jobs (content (jm_store m'))))"
proof (induction n arbitrary: m)
  case 0
  then show ?case by (auto simp: swr_ok_def)
next
  case (Suc n)
  let ?load = "st_load store (jm_store m)"
  consider (bad) "\<not> slr_ok ?load"
    | (missing) "slr_ok ?load" "map_of (sc_jobs (content (jm_store m))) k = None"
    | (found) r where "slr_ok ?load" "map_of (sc_jobs (content (jm_store m))) k = Some r"
    by fastforce
  then show ?case
  proof cases
    case bad
    then show ?thesis using Suc.prems d by (auto simp: Let_def swr_ok_def slr_ok_def)
  next
    case missing
    then show ?thesis
      using Suc.prems d load_finds[OF Suc.prems(1) missing(1)] by (auto simp: Let_def swr_ok_def)
  next
    case found
    obtain u us w' where c: "compose r (jm_world m) = (u, us, w')" by (metis prod_cases3)
    let ?mu = "empty_mutation\<lparr>sm_expected_revision := ss_revision (slr_snapshot ?load),
        sm_update_jobs := [u], sm_release_leases := us\<rparr>"
    obtain wr1 m1 where rw: "run_write d ?mu (m\<lparr>jm_world := w'\<rparr>) = (wr1, m1)" by fastforce
    have eq: "rewrite_attempts (Suc n) d k compose m =
        (if swr_ok wr1 \<or> swr_code wr1 \<noteq> kRevisionConflict then (wr1, m1)
         else rewrite_attempts n d k compose m1)"
      using found d load_finds[OF Suc.prems(1) found(1)] c rw by (simp add: Let_def)
    have step: "wrote m m1 \<and> inv (jm_store m1)
        \<and> (\<not> swr_ok wr1 \<longrightarrow> content (jm_store m1) = content (jm_store m))
        \<and> (swr_ok wr1 \<longrightarrow>
           content (jm_store m1) = mutation_effect (content (jm_store m)) ?mu
         \<and> jobs_evolve (sc_jobs (content (jm_store m))) (sc_jobs (content (jm_store m1))))"
      using run_write_cases[OF d _ rw] Suc.prems(1) by auto
    show ?thesis
    proof (cases "swr_ok wr1 \<or> swr_code wr1 \<noteq> kRevisionConflict")
      case True
      then have "wr = wr1" "m' = m1" using Suc.prems(2) eq by auto
      then show ?thesis using step found(2) c unfolding update_effect by blast
    next
      case False
      have "rewrite_attempts n d k compose m1 = (wr, m')" using False Suc.prems(2) eq by simp
      note IH = Suc.IH[OF _ this]
      have c1: "content (jm_store m1) = content (jm_store m)" using step False by blast
      show ?thesis using IH[unfolded c1] step wrote_trans[of m m1 m'] by blast
    qed
  qed
qed

text \<open>The effect of a rewrite on the invariant, for a job that is not queued.\<close>

lemma rewrite_ok:
  assumes d: "jd_store d = store" and ok: "manager_ok content inv lost m"
    and rw: "rewrite_job d k compose m = (wr, m')"
    and comp: "\<And>r w u us w'. map_of (sc_jobs (content (jm_store m))) k = Some r \<Longrightarrow>
        compose r w = (u, us, w') \<Longrightarrow>
        sj_id u = sj_id r \<and> sj_state r \<noteq> JobState.kQueued \<and> sj_state u \<noteq> JobState.kQueued
      \<and> (occupies (sj_state u) \<or> (\<forall>job. map_of (jm_supervised m) k = Some job \<longrightarrow> su_exited job))"
  shows "manager_ok content inv lost m'"
proof (cases "swr_ok wr")
  case False
  then show ?thesis
    using rewrite_cases[OF d _ rw[unfolded rewrite_job_def]] ok
    by (auto simp: manager_ok_def wrote_def)
next
  case True
  let ?c = "content (jm_store m)" and ?c' = "content (jm_store m')"
  have i: "inv (jm_store m)" using ok by (simp add: manager_ok_def)
  note cs = rewrite_cases[OF d i rw[unfolded rewrite_job_def]]
  from cs True obtain r w u us w' where r: "map_of (sc_jobs ?c) k = Some r" "compose r w = (u, us, w')"
      and c': "?c' = \<lparr>sc_revision = sc_revision ?c + 1, sc_jobs = omap_put (sj_id u) u (sc_jobs ?c),
              sc_leases = fold omap_erase us (sc_leases ?c)\<rparr>"
      and ev: "jobs_evolve (sc_jobs ?c) (sc_jobs ?c')" by blast
  have wf: "content_wf ?c" "content_wf ?c'" using inv_wf i cs by auto
  have k: "sj_id u = k" using comp[OF r] content_wf_id(2)[OF wf(1) r(1)] by simp
  note u = comp[OF r]
  have jobs: "map_of (sc_jobs ?c') = (map_of (sc_jobs ?c))(k \<mapsto> u)"
    using c' k by (simp add: omap_simps)
  have "supervised_ok ?c' (jm_supervised m)"
  proof (rule supervised_ok_change[OF _ wf ev])
    show "supervised_ok ?c (jm_supervised m)" using ok by (simp add: manager_ok_def)
    show "\<exists>r. map_of (sc_jobs ?c') i = Some r \<and> occupies (sj_state r)"
      if a: "map_of (jm_supervised m) i = Some job" "\<not> su_exited job" for i job
    proof (cases "i = k")
      case True
      then show ?thesis using u a jobs by auto
    next
      case False
      then show ?thesis using ok a jobs
        unfolding manager_ok_def supervised_ok_def by auto
    qed
    show "map_of (sc_leases ?c) u = Some l" if "map_of (sc_leases ?c') u = Some l" for u l
      using that c' fold_erase_sub by fastforce
  qed auto
  moreover have "\<not> lost \<longrightarrow> queue_mirrors (jm_queue m) ?c'"
    using mirrors_put[OF wf jobs] ok u r(1) by (auto simp: manager_ok_def)
  ultimately show ?thesis using cs ok by (auto simp: manager_ok_def wrote_def)
qed

lemma create_effect:
  assumes d: "jd_store d = store" and ok: "manager_ok content inv lost m"
    and ld: "slr_ok (st_load store (jm_store m))"
    and rec: "created = new_record (ss_jobs (slr_snapshot (st_load store (jm_store m)))) spec"
    and wr: "run_write d (empty_mutation\<lparr>sm_expected_revision := n, sm_create_jobs := [created]\<rparr>) m = (wr, m1)"
    and w: "swr_ok wr"
  shows "wrote m m1" "inv (jm_store m1)"
    and "map_of (sc_jobs (content (jm_store m1))) =
           (map_of (sc_jobs (content (jm_store m))))(sj_id created \<mapsto> created)"
    and "map_of (sc_jobs (content (jm_store m))) (sj_id created) = None"
    and "\<And>i r. map_of (sc_jobs (content (jm_store m))) i = Some r \<Longrightarrow> i < sj_id created"
    and "sc_leases (content (jm_store m1)) = sc_leases (content (jm_store m))"
    and "swr_revision wr = sc_revision (content (jm_store m)) + 1"
    and "sc_revision (content (jm_store m1)) = sc_revision (content (jm_store m)) + 1"
    and "admissible created"
    and "supervised_ok (content (jm_store m1)) (jm_supervised m1)"
proof -
  let ?c = "content (jm_store m)" and ?c1 = "content (jm_store m1)"
  have i: "inv (jm_store m)" using ok by (simp add: manager_ok_def)
  note cs = run_write_cases[OF d i wr]
  show wrote: "wrote m m1" and i1: "inv (jm_store m1)" and "swr_revision wr = sc_revision ?c + 1"
    using cs w by auto
  have c1: "?c1 = \<lparr>sc_revision = sc_revision ?c + 1, sc_jobs = omap_put (sj_id created) created (sc_jobs ?c),
      sc_leases = sc_leases ?c\<rparr>"
    using cs w unfolding update_effect by blast
  then show jobs: "map_of (sc_jobs ?c1) = (map_of (sc_jobs ?c))(sj_id created \<mapsto> created)"
    and leases: "sc_leases ?c1 = sc_leases ?c" and "sc_revision ?c1 = sc_revision ?c + 1"
    by (simp_all add: omap_simps)
  have wf: "content_wf ?c" "content_wf ?c1" using inv_wf i i1 by auto
  have so: "stored_job_ok (sj_id created) created" using content_wf_id(1)[OF wf(2)] jobs by simp
  then show "admissible created" using rec
    by (simp add: stored_job_ok_def admissible_def new_record_def)
  have "sj_id created \<noteq> 0" using so by (simp add: stored_job_ok_def job_id_valid_def)
  then show fresh: "\<And>i r. map_of (sc_jobs ?c) i = Some r \<Longrightarrow> i < sj_id created"
    using new_id_fresh[OF wf(1)] rec load_reads[OF i ld] by (simp add: new_record_def)
  then show none: "map_of (sc_jobs ?c) (sj_id created) = None" by (metis less_irrefl option.exhaust)
  have "supervised_ok ?c1 (jm_supervised m)"
  proof (rule supervised_ok_change[OF _ wf])
    show "supervised_ok ?c (jm_supervised m)" using ok by (simp add: manager_ok_def)
    show "jobs_evolve (sc_jobs ?c) (sc_jobs ?c1)" using cs w by blast
    show "\<exists>r. map_of (sc_jobs ?c1) i = Some r \<and> occupies (sj_state r)"
      if a: "map_of (jm_supervised m) i = Some job" "\<not> su_exited job" for i job
      using ok a jobs none unfolding manager_ok_def supervised_ok_def
      by (metis (no_types, lifting) fun_upd_apply option.distinct(1))
  qed (auto simp: leases)
  then show "supervised_ok ?c1 (jm_supervised m1)" using wrote by (simp add: wrote_def)
qed

lemma admit_created_ok:
  assumes d: "jd_store d = store" and i: "inv (jm_store m1)" and q: "queue_inv (jm_queue m1)"
    and wf: "content_wf c" and jobs: "map_of (sc_jobs (content (jm_store m1))) =
           (map_of (sc_jobs c))(sj_id created \<mapsto> created)"
    and fresh: "map_of (sc_jobs c) (sj_id created) = None"
    and rec: "admissible created"
    and sup: "supervised_ok (content (jm_store m1)) (jm_supervised m1)"
    and mirror: "\<not> lost \<longrightarrow> queue_mirrors (jm_queue m1) c"
    and ad: "admit_created d created rv m1 = (out, m')"
  shows "manager_ok content inv (lost \<or> reports_lost_rollback out) m'"
proof -
  let ?c1 = "content (jm_store m1)"
  obtain q' adm where a: "queue_admit (jm_queue m1) created = (q', adm)" by fastforce
  have queued: "sj_state created = JobState.kQueued" using rec by (simp add: admissible_def)
  show ?thesis
  proof (cases "qr_ok adm")
    case True
    then have m': "m' = bump jobs_submitted (m1\<lparr>jm_queue := q'\<rparr>)" using ad a by (simp add: admit_created_def)
    have q': "queue_inv q'" "set (q_entries q') = insert (entry_of created) (set (q_entries (jm_queue m1)))"
      using jq.admit_ok[OF q, of "created"] True a by auto
    have "\<not> lost \<longrightarrow> queue_mirrors q' ?c1"
      using mirrors_put_admitted[OF wf inv_wf[OF i] jobs _ queued fresh q'(2)] mirror by blast
    then show ?thesis using m' i q' sup by (simp add: manager_ok_def)
  next
    case False
    have q': "q' = jm_queue m1" using jq.admit_rejected[of "jm_queue m1" "created"] False a by simp
    let ?canc = "created\<lparr>sj_state := JobState.kCancelled, sj_revision := 1\<rparr>"
    obtain wr m2 where w: "run_write d (empty_mutation\<lparr>sm_expected_revision := rv,
        sm_update_jobs := [?canc]\<rparr>) (m1\<lparr>jm_queue := q'\<rparr>) = (wr, m2)" by fastforce
    have m2: "m' = m2" using ad a False w by (auto simp: admit_created_def)
    have det: "reports_lost_rollback out" if "\<not> swr_ok wr"
      unfolding reports_lost_rollback_def
      by (rule exI[of _ "QueueErrorCode_to_string (qr_code adm)"],
          rule exI[of _ "StateStoreErrorCode_to_string (swr_code wr)"])
        (use ad a False w that in \<open>auto simp: admit_created_def\<close>)
    note cs = run_write_cases[OF d _ w]
    have i2: "inv (jm_store m2)" using cs i by simp
    show ?thesis
    proof (cases "swr_ok wr")
      case False
      then show ?thesis using m2 det cs i q sup q' by (auto simp: manager_ok_def wrote_def)
    next
      case True
      let ?c2 = "content (jm_store m2)"
      have c2: "?c2 = \<lparr>sc_revision = sc_revision ?c1 + 1,
          sc_jobs = omap_put (sj_id created) ?canc (sc_jobs ?c1), sc_leases = sc_leases ?c1\<rparr>"
        and ev: "jobs_evolve (sc_jobs ?c1) (sc_jobs ?c2)"
        using cs i True by (auto simp: update_effect)
      have jobs2: "map_of (sc_jobs ?c2) = (map_of (sc_jobs c))(sj_id created \<mapsto> ?canc)"
        using c2 jobs by (simp add: omap_simps)
      have "\<not> lost \<longrightarrow> queue_mirrors (jm_queue m1) ?c2"
        using mirrors_put[OF wf inv_wf[OF i2] jobs2] mirror fresh by simp
      moreover have "supervised_ok ?c2 (jm_supervised m1)"
      proof (rule supervised_ok_change[OF sup inv_wf[OF i] inv_wf[OF i2] ev])
        show "\<exists>r. map_of (sc_jobs ?c2) j = Some r \<and> occupies (sj_state r)"
          if b: "map_of (jm_supervised m1) j = Some job" "\<not> su_exited job" for j job
        proof -
          obtain r where r: "map_of (sc_jobs ?c1) j = Some r" "occupies (sj_state r)"
            using sup b unfolding supervised_ok_def by blast
          then have "j \<noteq> sj_id created" using jobs queued by (auto simp: occupies_def)
          then show ?thesis using r c2 by (auto simp: omap_simps)
        qed
      qed (auto simp: c2)
      ultimately show ?thesis using m2 cs i q q' by (auto simp: manager_ok_def wrote_def)
    qed
  qed
qed

lemma process_submit_ok:
  assumes d: "jd_store d = store" and ok: "manager_ok content inv lost m"
    and sub: "process_submit d spec m = (out, m')"
  shows "manager_ok content inv (lost \<or> reports_lost_rollback out) m'"
proof -
  let ?load = "st_load store (jm_store m)"
  let ?fresh = "new_record (ss_jobs (slr_snapshot ?load)) spec"
  have i: "inv (jm_store m)" using ok by (simp add: manager_ok_def)
  show ?thesis
  proof (cases "slr_ok ?load")
    case False
    then show ?thesis using sub d ok by (auto simp: process_submit_def Let_def manager_ok_def)
  next
    case ld: True
    obtain wr m1 where w: "run_write d (empty_mutation\<lparr>sm_expected_revision := ss_revision (slr_snapshot ?load),
        sm_create_jobs := [?fresh]\<rparr>) m = (wr, m1)" by fastforce
    show ?thesis
    proof (cases "swr_ok wr")
      case False
      then show ?thesis
        using sub d ld w run_write_cases[OF d i w] ok
        by (auto simp: process_submit_def Let_def manager_ok_def wrote_def)
    next
      case True
      note e = create_effect[OF d ok ld refl w True]
      have ad: "admit_created d ?fresh (swr_revision wr) m1 = (out, m')"
        using sub d ld w True by (simp add: process_submit_def Let_def)
      show ?thesis
        by (rule admit_created_ok[OF d e(2) _ inv_wf[OF i] e(3) e(4) e(9) e(10) _ ad])
          (use e(1) ok in \<open>auto simp: wrote_def manager_ok_def\<close>)
    qed
  qed
qed

lemma cancel_queued_ok:
  assumes d: "jd_store d = store" and ok: "manager_ok content inv lost m"
    and r: "map_of (sc_jobs (content (jm_store m))) k = Some r" "sj_state r = JobState.kQueued"
  shows "manager_ok content inv lost (snd (cancel_queued d k m))"
proof -
  let ?c = "content (jm_store m)"
  have i: "inv (jm_store m)" using ok by (simp add: manager_ok_def)
  obtain wr m1 where rw: "rewrite_job d k (\<lambda>current w. (advance JobState.kCancelled current, [], w)) m = (wr, m1)"
    by fastforce
  obtain q rem where q: "queue_remove (jm_queue m1) k = (q, rem)" by fastforce
  note cs = rewrite_cases[OF d i rw[unfolded rewrite_job_def]]
  show ?thesis
  proof (cases "swr_ok wr")
    case False
    then show ?thesis using rw cs ok by (auto simp: cancel_queued_def manager_ok_def wrote_def)
  next
    case True
    let ?c1 = "content (jm_store m1)"
    have wf: "content_wf ?c" "content_wf ?c1" using inv_wf i cs by auto
    have k: "sj_id r = k" using content_wf_id(2)[OF wf(1) r(1)] .
    have c1: "map_of (sc_jobs ?c1) = (map_of (sc_jobs ?c))(k \<mapsto> advance JobState.kCancelled r)"
      and leases: "sc_leases ?c1 = sc_leases ?c"
      and ev: "jobs_evolve (sc_jobs ?c) (sc_jobs ?c1)" and wrote: "wrote m m1"
      using cs True r(1) k by (auto simp: omap_simps)
    have none: "map_of (jm_supervised m) k = None"
      using ok r unfolding manager_ok_def supervised_ok_def by (metis option.exhaust option.inject)
    have q': "queue_inv q \<and> q_entries q = filter (\<lambda>e. qe_job_id e \<noteq> k) (q_entries (jm_queue m1))"
    proof -
      have qi: "queue_inv (jm_queue m1)" using ok wrote by (simp add: manager_ok_def wrote_def)
      then show ?thesis
        using queue_remove_ok[OF qi, of k] queue_remove_ok_iff[OF qi, of k] jq.remove_rejected[of "jm_queue m1" k] q
        by (cases "qr_ok rem") (auto simp: entry_ids_def intro!: filter_True[symmetric])
    qed
    then have "\<not> lost \<longrightarrow> queue_mirrors q ?c1"
      using mirrors_put_removed[OF wf c1, of "jm_queue m1" q] wrote ok by (simp add: manager_ok_def wrote_def)
    moreover have "supervised_ok ?c1 (jm_supervised m)"
    proof (rule supervised_ok_change[OF _ wf ev])
      show "supervised_ok ?c (jm_supervised m)" using ok by (simp add: manager_ok_def)
      show "\<exists>r. map_of (sc_jobs ?c1) j = Some r \<and> occupies (sj_state r)"
        if a: "map_of (jm_supervised m) j = Some job" "\<not> su_exited job" for j job
        using ok a c1 none unfolding manager_ok_def supervised_ok_def by (cases "j = k") auto
    qed (auto simp: leases)
    ultimately show ?thesis
      using rw True q cs q' wrote by (auto simp: cancel_queued_def manager_ok_def wrote_def)
  qed
qed

lemma begin_cancellation_ok:
  assumes ok: "manager_ok content inv lost m"
  shows "manager_ok content inv lost (begin_cancellation d k recovery m)"
proof (cases "map_of (jm_supervised m) k")
  case None
  then show ?thesis using ok by (simp add: begin_cancellation_def)
next
  case (Some job)
  then show ?thesis using ok
    by (auto simp: begin_cancellation_def arm_grace_def manager_ok_def Let_def
        split: option.split prod.split intro!: supervised_ok_put[OF _ Some])
qed

lemma cancel_active_ok:
  assumes d: "jd_store d = store" and ok: "manager_ok content inv lost m"
    and r: "map_of (sc_jobs (content (jm_store m))) k = Some r" "sj_state r \<noteq> JobState.kQueued"
  shows "manager_ok content inv lost (snd (cancel_active d k m))"
proof -
  obtain wr m1 where rw: "rewrite_job d k (\<lambda>current w. (advance JobState.kStopping current, [], w)) m = (wr, m1)"
    by fastforce
  have "manager_ok content inv lost m1"
    by (rule rewrite_ok[OF d ok rw]) (use r in \<open>auto simp: occupies_def\<close>)
  moreover from this have "manager_ok content inv lost (begin_cancellation d k False m1)"
    by (rule begin_cancellation_ok)
  ultimately show ?thesis using rw by (simp add: cancel_active_def)
qed

lemma process_cancel_ok:
  assumes d: "jd_store d = store" and ok: "manager_ok content inv lost m"
  shows "manager_ok content inv lost (snd (process_cancel d k m))"
proof -
  have i: "inv (jm_store m)" using ok by (simp add: manager_ok_def)
  show ?thesis
    using ok cancel_queued_ok[OF d ok] cancel_active_ok[OF d ok] begin_cancellation_ok[OF ok] load_finds[OF i] d
    by (auto simp: process_cancel_def Let_def split: option.split)
qed

text \<open>A launch: the job was just scheduled, so that nothing is supervised under its id yet.\<close>

lemma fail_launch_ok:
  assumes d: "jd_store d = store" and ok: "manager_ok content inv lost m"
    and none: "map_of (jm_supervised m) k = None"
    and r: "map_of (sc_jobs (content (jm_store m))) k = Some r" "sj_state r \<noteq> JobState.kQueued"
  shows "manager_ok content inv lost (fail_launch d k uuid reason m)"
proof -
  obtain wr m1 where rw: "rewrite_job d k (failed_record d uuid reason) (bump launch_failures m) = (wr, m1)"
    by fastforce
  have ok': "manager_ok content inv lost (bump launch_failures m)"
    using ok by (rule manager_ok_frame) simp_all
  have "manager_ok content inv lost m1"
    by (rule rewrite_ok[OF d ok' rw])
      (use r none in \<open>auto simp: failed_record_def split: if_splits prod.splits\<close>)
  then show ?thesis using rw by (auto simp: fail_launch_def manager_ok_def Let_def)
qed

lemma supervised_ok_insert:
  assumes "supervised_ok c jobs" "map_of (sc_jobs c) k = Some r" "occupies (sj_state r)"
    and "map_of (sc_leases c) (su_leased_gpu job) = Some \<lparr>gl_gpu_uuid = su_leased_gpu job, gl_job_id = k\<rparr>"
  shows "supervised_ok c (omap_put k job jobs)"
  using assms unfolding supervised_ok_def by (auto simp: map_of_omap_put occupies_def)

lemma launch_spawned_ok:
  assumes d: "jd_store d = store" and ok: "manager_ok content inv lost m"
    and none: "map_of (jm_supervised m) k = None"
    and r: "map_of (sc_jobs (content (jm_store m))) k = Some r" "sj_state r \<noteq> JobState.kQueued"
    and l: "map_of (sc_leases (content (jm_store m))) uuid = Some \<lparr>gl_gpu_uuid = uuid, gl_job_id = k\<rparr>"
  shows "manager_ok content inv lost (launch_spawned d k uuid dir sink supervisor identity m)"
proof -
  obtain wr m1 where rw: "rewrite_job d k (running_record d identity dir) m = (wr, m1)" by fastforce
  have i: "inv (jm_store m)" using ok by (simp add: manager_ok_def)
  have ok1: "manager_ok content inv lost m1"
    by (rule rewrite_ok[OF d ok rw])
      (use r none in \<open>auto simp: running_record_def occupies_def split: prod.splits\<close>)
  note cs = rewrite_cases[OF d i rw[unfolded rewrite_job_def]]
  obtain r1 where r1: "map_of (sc_jobs (content (jm_store m1))) k = Some r1" "sj_state r1 \<noteq> JobState.kQueued"
      "swr_ok wr \<longrightarrow> occupies (sj_state r1)
        \<and> map_of (sc_leases (content (jm_store m1))) uuid = Some \<lparr>gl_gpu_uuid = uuid, gl_job_id = k\<rparr>"
  proof (cases "swr_ok wr")
    case True
    have "sj_id r = k" using content_wf_id(2)[OF inv_wf[OF i] r(1)] .
    moreover from cs True r(1) obtain w u us w' where
        "running_record d identity dir r w = (u, us, w')"
        "content (jm_store m1) = \<lparr>sc_revision = sc_revision (content (jm_store m)) + 1,
              sc_jobs = omap_put (sj_id u) u (sc_jobs (content (jm_store m))),
              sc_leases = fold omap_erase us (sc_leases (content (jm_store m)))\<rparr>" by auto
    ultimately show ?thesis using that[of u] l
      by (auto simp: running_record_def omap_simps occupies_def split: prod.splits)
  qed (use cs r in auto)
  have none1: "map_of (jm_supervised m1) k = None" using cs none by (simp add: wrote_def)
  have undo: "manager_ok content inv lost (fail_launch d k uuid reason m2)"
    if "jm_store m2 = jm_store m1" "jm_queue m2 = jm_queue m1" "jm_supervised m2 = jm_supervised m1" for reason m2
    by (rule fail_launch_ok[OF d manager_ok_frame[OF ok1 that]]) (use that none1 r1 in simp_all)
  have watch: "manager_ok content inv lost (supervise k job pid m2)"
    if "swr_ok wr" "jm_store m2 = jm_store m1" "jm_queue m2 = jm_queue m1" "jm_supervised m2 = jm_supervised m1"
      "su_leased_gpu job = uuid" for job pid m2
    using that r1 ok1 by (auto simp: supervise_def manager_ok_def intro!: supervised_ok_insert)
  show ?thesis using rw
    by (auto simp: launch_spawned_def Let_def intro!: undo watch split: prod.split)
qed

lemma launch_prepared_ok:
  assumes d: "jd_store d = store" and ok: "manager_ok content inv lost m"
    and none: "map_of (jm_supervised m) k = None"
    and r: "map_of (sc_jobs (content (jm_store m))) k = Some r" "sj_state r \<noteq> JobState.kQueued"
    and l: "map_of (sc_leases (content (jm_store m))) uuid = Some \<lparr>gl_gpu_uuid = uuid, gl_job_id = k\<rparr>"
  shows "manager_ok content inv lost (launch_prepared d k uuid identity plan dir m)"
proof -
  have fail: "manager_ok content inv lost (fail_launch d k uuid reason m2)"
    and go: "manager_ok content inv lost (launch_spawned d k uuid dir sink supervisor ident m2)"
    if "jm_store m2 = jm_store m" "jm_queue m2 = jm_queue m" "jm_supervised m2 = jm_supervised m"
    for reason sink supervisor ident m2
    using fail_launch_ok[OF d manager_ok_frame[OF ok that]] launch_spawned_ok[OF d manager_ok_frame[OF ok that]]
      that none r l by simp_all
  show ?thesis
    by (auto simp: launch_prepared_def Let_def intro!: fail go split: prod.split)
qed

lemma launch_scheduled_ok:
  assumes d: "jd_store d = store" and ok: "manager_ok content inv lost m"
    and none: "map_of (jm_supervised m) k = None"
    and r: "map_of (sc_jobs (content (jm_store m))) k = Some r" "sj_state r \<noteq> JobState.kQueued"
    and l: "map_of (sc_leases (content (jm_store m))) uuid = Some \<lparr>gl_gpu_uuid = uuid, gl_job_id = k\<rparr>"
  shows "manager_ok content inv lost (launch_scheduled d k uuid m)"
proof -
  have world: "manager_ok content inv lost (put_world w m)" for w using ok by simp
  have fail: "manager_ok content inv lost (fail_launch d k uuid reason (put_world w m))"
    and go: "manager_ok content inv lost (launch_prepared d k uuid identity plan dir (put_world w m))"
    for reason w identity plan dir
    using fail_launch_ok[OF d world] launch_prepared_ok[OF d world] none r l by simp_all
  show ?thesis using ok
    by (auto simp: launch_scheduled_def Let_def intro!: fail go split: prod.split option.split sum.split)
qed

lemma start_supervised_ok:
  assumes ok: "supervised_ok c jobs" and r: "map_of (sc_jobs c) (sj_id r) = Some r" "sj_state r = JobState.kQueued"
    and free: "map_of (sc_leases c) u = None"
  shows "supervised_ok (mutation_effect c (start_mutation n r u)) jobs"
    and "map_of jobs (sj_id r) = None"
proof -
  show none: "map_of jobs (sj_id r) = None"
    using ok r unfolding supervised_ok_def by (metis option.exhaust option.inject)
  show "supervised_ok (mutation_effect c (start_mutation n r u)) jobs"
    using ok none free unfolding supervised_ok_def start_effect
    by (auto simp: omap_simps) (metis option.distinct(1))+
qed

lemma consume_schedule_ok:
  assumes d: "jd_store d = store" and ok: "manager_ok content inv lost m"
    and go: "\<And>k uuid. sr_code result = kScheduled \<Longrightarrow> sev_job_id (sr_event result) = Some k \<Longrightarrow>
      sev_gpu_uuid (sr_event result) = Some uuid \<Longrightarrow>
      map_of (jm_supervised m) k = None
      \<and> (\<exists>r. map_of (sc_jobs (content (jm_store m))) k = Some r \<and> sj_state r \<noteq> JobState.kQueued)
      \<and> map_of (sc_leases (content (jm_store m))) uuid = Some \<lparr>gl_gpu_uuid = uuid, gl_job_id = k\<rparr>"
  shows "manager_ok content inv lost (consume_schedule d result m)"
proof -
  have stay: "manager_ok content inv lost m2"
    if "jm_store m2 = jm_store m" "jm_queue m2 = jm_queue m" "jm_supervised m2 = jm_supervised m" for m2
    using manager_ok_frame[OF ok that] .
  have launch: "manager_ok content inv lost (launch_scheduled d k uuid m2)"
    if "sr_code result = kScheduled" "sev_job_id (sr_event result) = Some k"
      "sev_gpu_uuid (sr_event result) = Some uuid"
      "jm_store m2 = jm_store m" "jm_queue m2 = jm_queue m" "jm_supervised m2 = jm_supervised m" for k uuid m2
    using launch_scheduled_ok[OF d stay[OF that(4-6)]] go[OF that(1-3)] that(4-6) by auto
  show ?thesis using ok
    by (auto simp: consume_schedule_def Let_def intro!: launch split: option.split)
qed

lemma schedule_now_ok:
  assumes d: "jd_store d = store" and ok: "manager_ok content inv lost m"
  shows "manager_ok content inv lost (schedule_now d trigger m)"
proof -
  have early: "manager_ok content inv lost
      (consume_schedule d (schedule_cancelled trigger) (bump scheduler_runs (put_world w m)))" for w
    by (rule consume_schedule_ok[OF d]) (use ok in \<open>simp_all add: schedule_cancelled_def schedule_result_def\<close>)
  have ran: "manager_ok content inv lost
      (consume_schedule d res (bump scheduler_runs (m\<lparr>jm_world := w, jm_queue := q, jm_store := s\<rparr>)))"
    if ro: "run_once store config trigger gpus (jm_queue m) (jm_store m) = Some (res, q, s)"
    for res q s w config gpus
  proof -
    let ?m = "bump scheduler_runs (m\<lparr>jm_world := w, jm_queue := q, jm_store := s\<rparr>)"
    have i: "inv (jm_store m)" and qi: "queue_inv (jm_queue m)" and sup: "supervised_ok (content (jm_store m)) (jm_supervised m)"
      and mir: "\<not> lost \<Longrightarrow> queue_mirrors (jm_queue m) (content (jm_store m))"
      using ok by (simp_all add: manager_ok_def)
    from run_once_cases[OF i qi ro] show ?thesis
    proof (elim disjE exE conjE)
      assume "sr_code res \<noteq> kScheduled" "inv s" "content s = content (jm_store m)" "q = jm_queue m"
      then show ?thesis
        by (intro consume_schedule_ok[OF d]) (use ok in \<open>auto simp: manager_ok_def\<close>)
    next
      fix pre r g
      assume sel: "selected_job config gpus (jm_queue m) (content (jm_store m)) pre r g"
        and ev: "sev_job_id (sr_event res) = Some (sj_id r)" "sev_gpu_uuid (sr_event res) = Some (go_uuid g)"
        and s: "inv s" "content s = mutation_effect (content (jm_store m))
            (start_mutation (sc_revision (content (jm_store m))) r (go_uuid g))"
        and q: "qr_ok (snd (queue_remove (jm_queue m) (sj_id r)))" "q = fst (queue_remove (jm_queue m) (sj_id r))"
      have free: "map_of (sc_leases (content (jm_store m))) (go_uuid g) = None"
        using sel inv_wf[OF i] by (auto simp: selected_job_def available_def leased_iff)
      note st = start_supervised_ok[OF sup _ _ free, of r]
      have "manager_ok content inv lost ?m"
        using st sel s q mirrors_after_start[OF inv_wf[OF i] _ mir qi q(1)] inv_wf[OF s(1)]
          queue_remove_ok[OF qi q(1)]
        by (auto simp: manager_ok_def selected_job_def)
      then show ?thesis
        by (rule consume_schedule_ok[OF d])
          (use ev st(2) sel s in \<open>auto simp: selected_job_def start_effect omap_simps\<close>)
    qed
  qed
  show ?thesis
    using d ok by (auto simp: schedule_now_def intro!: early ran
        split: prod.split option.split scheduler_task.split)
qed

text \<open>An exit: afterwards the entry is gone or marked as exited.\<close>

lemma exited_record_sel:
  assumes "exited_record d terminal reason event uuid r w = (u, us, w')"
  shows "sj_id u = sj_id r"
    and "sj_state u = (if is_terminal (sj_state r) then sj_state r else terminal)"
  using assms by (auto simp: exited_record_def split: if_splits prod.splits)

lemma rewrite_exited_ok:
  assumes d: "jd_store d = store" and ok: "manager_ok content inv lost m"
    and rw: "rewrite_job d k (exited_record d terminal reason event uuid) m = (wr, m1)"
    and job: "map_of (jm_supervised m) k = Some job" and t: "is_terminal terminal"
    and jobs: "\<And>i j. map_of jobs i = Some j \<Longrightarrow> i \<noteq> k \<Longrightarrow> map_of (jm_supervised m) i = Some j"
    and jobk: "\<And>j. map_of jobs k = Some j \<Longrightarrow> su_exited j \<and> su_leased_gpu j = su_leased_gpu job"
  shows "manager_ok content inv lost (m1\<lparr>jm_supervised := jobs\<rparr>)"
proof -
  let ?m = "m\<lparr>jm_supervised := jobs\<rparr>" and ?m1 = "m1\<lparr>jm_supervised := jobs\<rparr>"
  let ?c = "content (jm_store m)" and ?c1 = "content (jm_store m1)"
  have i: "inv (jm_store m)" using ok by (simp add: manager_ok_def)
  note cs = rewrite_cases[OF d i rw[unfolded rewrite_job_def]]
  have ids: "\<exists>job0. map_of (jm_supervised m) i = Some job0 \<and> (su_exited job0 \<longrightarrow> su_exited j)
      \<and> su_leased_gpu job0 = su_leased_gpu j" if "map_of jobs i = Some j" for i j
    using that jobs[of i j] jobk[of j] job by (cases "i = k") auto
  have sup: "supervised_ok ?c (jm_supervised m)" using ok by (simp add: manager_ok_def)
  show ?thesis
  proof (cases "swr_ok wr")
    case False
    then show ?thesis using cs ok supervised_ok_weaken[OF sup ids] by (auto simp: manager_ok_def wrote_def)
  next
    case True
    from cs True obtain r w u us w' where r: "map_of (sc_jobs ?c) k = Some r"
        "exited_record d terminal reason event uuid r w = (u, us, w')"
      and c': "?c1 = \<lparr>sc_revision = sc_revision ?c + 1, sc_jobs = omap_put (sj_id u) u (sc_jobs ?c),
              sc_leases = fold omap_erase us (sc_leases ?c)\<rparr>"
      and ev: "jobs_evolve (sc_jobs ?c) (sc_jobs ?c1)" by blast
    note u = exited_record_sel[OF r(2)]
    have wf: "content_wf ?c" "content_wf ?c1" using inv_wf i cs by auto
    have k: "sj_id u = k" using u content_wf_id(2)[OF wf(1) r(1)] by simp
    have mp: "map_of (sc_jobs ?c1) = (map_of (sc_jobs ?c))(k \<mapsto> u)" using c' k by (simp add: omap_simps)
    have rq: "sj_state r \<noteq> JobState.kQueued"
      using sup job r(1) unfolding supervised_ok_def by fastforce
    have "supervised_ok ?c1 jobs"
    proof (rule supervised_ok_change[OF sup wf ev])
      show "\<exists>r. map_of (sc_jobs ?c1) i = Some r \<and> occupies (sj_state r)"
        if a: "map_of jobs i = Some j" "\<not> su_exited j" for i j
        using a jobs[of i j] jobk[of j] sup mp unfolding supervised_ok_def by (cases "i = k") auto
      show "map_of (sc_leases ?c) u = Some l" if "map_of (sc_leases ?c1) u = Some l" for u l
        using that c' fold_erase_sub by fastforce
    qed (use ids in auto)
    moreover have "\<not> lost \<longrightarrow> queue_mirrors (jm_queue m) ?c1"
      using mirrors_put[OF wf mp] ok u r(1) rq t by (auto simp: manager_ok_def is_terminal_def split: if_splits)
    ultimately show ?thesis using cs ok by (auto simp: manager_ok_def wrote_def)
  qed
qed

end

definition adopted_decision :: "RecoveryDecisionCode \<Rightarrow> bool" where
  "adopted_decision c \<longleftrightarrow>
     c = kAdoptedRunning \<or> c = kAdoptedPromotedToRunning \<or> c = kAdoptedStoppingNeedsRecancel"

lemma terminal_of_terminal: "terminal_of b event = (t, reason) \<Longrightarrow> is_terminal t"
  by (auto simp: terminal_of_def is_terminal_def split: if_splits)

lemma disarm_job_sel [simp]:
  "su_exited (disarm_job job) = su_exited job" "su_leased_gpu (disarm_job job) = su_leased_gpu job"
  "su_adopted (disarm_job job) = su_adopted job" "su_pump_done (disarm_job job) = su_pump_done job"
  "su_cancelling (disarm_job job) = su_cancelling job"
  "su_supervisor (disarm_job job) = su_supervisor job"
  by (simp_all add: disarm_job_def)

context state_store
begin

lemma process_exit_ok:
  assumes d: "jd_store d = store" and ok: "manager_ok content inv lost m"
  shows "manager_ok content inv lost (process_exit d event m)"
proof (cases "map_of (jm_by_pid m) (xe_pid event)")
  case None
  then show ?thesis using ok by (simp add: process_exit_def)
next
  case (Some k)
  show ?thesis
  proof (cases "map_of (jm_supervised m) k")
    case None
    then show ?thesis using ok Some by (simp add: process_exit_def)
  next
    case job: (Some job)
    let ?m0 = "m\<lparr>jm_supervised := omap_put k (disarm_job job) (jm_supervised m)\<rparr>"
    obtain t reason where t: "terminal_of (su_cancelling job) event = (t, reason)" by fastforce
    obtain wr m1 where rw: "rewrite_job d k (exited_record d t reason event (su_leased_gpu job)) ?m0 = (wr, m1)"
      by fastforce
    have ok0: "manager_ok content inv lost ?m0"
      using ok supervised_ok_put[OF _ job] by (simp add: manager_ok_def)
    note ex = rewrite_exited_ok[OF d ok0 rw _ terminal_of_terminal[OF t]]
    have sup1: "jm_supervised m1 = jm_supervised ?m0"
      using rewrite_cases[OF d _ rw[unfolded rewrite_job_def]] ok0 by (simp add: manager_ok_def wrote_def)
    have gone: "manager_ok content inv lost (m1\<lparr>jm_supervised := omap_erase k (jm_supervised m1)\<rparr>)"
      by (rule ex) (use sup1 in \<open>auto simp: omap_simps\<close>)
    have marked: "manager_ok content inv lost (m1\<lparr>jm_supervised := omap_put k j (jm_supervised m1)\<rparr>)"
      if "su_exited j" "su_leased_gpu j = su_leased_gpu job" for j
      by (rule ex[of "disarm_job job"]) (use sup1 that in \<open>auto simp: omap_simps\<close>)
    from gone marked show ?thesis using Some job t rw
      by (simp add: process_exit_def Let_def erase_supervised_def manager_ok_def)
  qed
qed

lemma pump_finished_ok:
  assumes ok: "manager_ok content inv lost m"
  shows "manager_ok content inv lost (pump_finished d k m)"
proof (cases "map_of (jm_supervised m) k")
  case None
  then show ?thesis using ok by (simp add: pump_finished_def)
next
  case (Some job)
  then show ?thesis using ok
    by (auto simp: pump_finished_def Let_def erase_supervised_def manager_ok_def
        intro!: supervised_ok_erase supervised_ok_put[OF _ Some])
qed

lemma fire_grace_ok:
  assumes ok: "manager_ok content inv lost m"
  shows "manager_ok content inv lost (fire_grace d k m)"
proof (cases "map_of (jm_supervised m) k")
  case None
  then show ?thesis using ok by (simp add: fire_grace_def)
next
  case (Some job)
  then show ?thesis using ok
    by (auto simp: fire_grace_def manager_ok_def intro!: supervised_ok_put[OF _ Some] split: option.split prod.split)
qed

lemma lease_of_job_reads:
  assumes wf: "content_wf c" and r: "map_of (sc_jobs c) k = Some r" "occupies (sj_state r)"
  shows "map_of (sc_leases c) (lease_of_job (snapshot_of c) k)
    = Some \<lparr>gl_gpu_uuid = lease_of_job (snapshot_of c) k, gl_job_id = k\<rparr>"
proof -
  obtain u l where ul: "map_of (sc_leases c) u = Some l" "gl_job_id l = k"
    using content_wf_matrix[OF wf, of k r] occupies_leaseable[OF r(2)] r(1) by auto
  have l: "gl_gpu_uuid l = u" using content_wf_lease[OF wf ul(1)] by simp
  have "l \<in> set (ss_leases (snapshot_of c))" using map_of_SomeD[OF ul(1)] by (force simp: snapshot_of_def)
  then obtain l' where f: "find (\<lambda>x. gl_job_id x = k) (ss_leases (snapshot_of c)) = Some l'"
    using ul(2) by (cases "find (\<lambda>x. gl_job_id x = k) (ss_leases (snapshot_of c))") (auto simp: find_None_iff)
  then have l': "l' \<in> set (ss_leases (snapshot_of c))" "gl_job_id l' = k" by (auto simp: find_Some_iff)
  moreover have "omap_wf (sc_leases c)" using wf by (simp add: content_wf_def lease_table_ok_def)
  ultimately obtain u' where "map_of (sc_leases c) u' = Some l'"
    by (auto simp: snapshot_of_def omap_lookup_iff[symmetric])
  with lease_unique[OF wf this ul(1)] l' ul have "u' = u" "l' = l" by auto
  with f l ul show ?thesis by (cases l) (simp add: lease_of_job_def)
qed

lemma begin_cancellation_store [simp]:
  "jm_store (begin_cancellation d k recovery m) = jm_store m"
  by (simp add: begin_cancellation_def Let_def split: option.split prod.split)

lemma adopt_outcome_store [simp]: "jm_store (adopt_outcome d out m) = jm_store m"
  by (simp add: adopt_outcome_def Let_def supervise_def split: option.split prod.split)

lemma adopt_outcome_ok:
  assumes d: "jd_store d = store" and ok: "manager_ok content inv lost m"
    and stored: "adopted_decision (ro_decision out) \<Longrightarrow>
      \<exists>r. map_of (sc_jobs (content (jm_store m))) (ro_job_id out) = Some r \<and> occupies (sj_state r)"
  shows "manager_ok content inv lost (adopt_outcome d out m)"
proof (cases "adopted_decision (ro_decision out) \<and> slr_ok (st_load store (jm_store m))")
  case False
  then show ?thesis using ok d by (auto simp: adopt_outcome_def adopted_decision_def Let_def)
next
  case True
  let ?k = "ro_job_id out" and ?lease = "lease_of_job (slr_snapshot (st_load store (jm_store m))) (ro_job_id out)"
  have i: "inv (jm_store m)" using ok by (simp add: manager_ok_def)
  from stored True obtain r where r: "map_of (sc_jobs (content (jm_store m))) ?k = Some r"
    "occupies (sj_state r)" by blast
  have lease: "map_of (sc_leases (content (jm_store m))) ?lease = Some \<lparr>gl_gpu_uuid = ?lease, gl_job_id = ?k\<rparr>"
    using lease_of_job_reads[OF inv_wf[OF i] r] load_reads[OF i] True by simp
  have watch: "manager_ok content inv lost (supervise ?k job pid (bump s (put_world w m)))"
    if "su_leased_gpu job = ?lease" for job pid s w
    using that ok r lease by (auto simp: supervise_def manager_ok_def intro!: supervised_ok_insert)
  show ?thesis using ok d
    by (auto simp: adopt_outcome_def Let_def intro!: begin_cancellation_ok watch split: option.split prod.split)
qed

lemma arm_recovery_ok:
  assumes d: "jd_store d = store" and ok: "manager_ok content inv lost m"
    and stored: "\<And>res out. recovery = Some res \<Longrightarrow> rr_ok res \<Longrightarrow> out \<in> set (rr_outcomes res) \<Longrightarrow>
      adopted_decision (ro_decision out) \<Longrightarrow>
      \<exists>r. map_of (sc_jobs (content (jm_store m))) (ro_job_id out) = Some r \<and> occupies (sj_state r)"
  shows "manager_ok content inv lost (arm_recovery d recovery m)"
proof -
  have "manager_ok content inv lost (fold (adopt_outcome d) outs m)"
    if "manager_ok content inv lost m"
      "\<And>out. out \<in> set outs \<Longrightarrow> adopted_decision (ro_decision out) \<Longrightarrow>
         \<exists>r. map_of (sc_jobs (content (jm_store m))) (ro_job_id out) = Some r \<and> occupies (sj_state r)" for outs
    using that
  proof (induction outs arbitrary: m)
    case (Cons out outs)
    have "manager_ok content inv lost (adopt_outcome d out m)"
      by (rule adopt_outcome_ok[OF d Cons.prems(1)]) (use Cons.prems(2) in simp)
    then show ?case using Cons.IH[of "adopt_outcome d out m"] Cons.prems(2) by simp
  qed simp
  then show ?thesis using ok stored by (auto simp: arm_recovery_def split: option.split)
qed

text \<open>A successful recovery reports an adoption only for a job that it left running or stopping.\<close>

lemma recover_outcomes_occupy:
  assumes "inv s" "queue_inv q" "recover store verifier now q s = (res, q', s')" "rr_ok res"
    and out: "out \<in> set (rr_outcomes res)" "adopted_decision (ro_decision out)"
  shows "\<exists>r. map_of (sc_jobs (content s')) (ro_job_id out) = Some r \<and> occupies (sj_state r)"
proof -
  note eff = recover_effect[OF assms(1-4)]
  have wf: "content_wf (content s)" using assms(1) by (rule inv_wf)
  have plan: "ro_job_id (fst (plan_job verifier now snap r)) = sj_id r"
    "ro_decision (fst (plan_job verifier now snap r)) = recovery_decision verifier r" for snap r
    by (simp_all add: plan_job_def Let_def)
  from out obtain r where r: "r \<in> snd ` set (sc_jobs (content s))" "ro_job_id out = sj_id r"
      "ro_decision out = recovery_decision verifier r"
    unfolding eff(5) by (force simp: recovery_plan_def snapshot_of_def plan)
  have v: "verified verifier r" "leaseable (sj_state r)"
    using out(2) r(3)
    by (auto simp: adopted_decision_def recovery_decision_def verified_def has_identity_def is_active_leaseable
        split: if_splits IdentityVerification.splits)
  have "occupies (sj_state (recovered_job verifier now r))"
    using v by (cases "sj_state r = kStarting")
      (auto simp: recovered_job_simps promoted_record_def occupies_def leaseable_def)
  moreover have "map_of (sc_jobs (content s)) (sj_id r) = Some r" using r(1) content_wf_range[OF wf] by simp
  ultimately show ?thesis using eff(6) r(2) by simp
qed

end

end
