(* ===== verification/Job_Manager_Props.thy ===== *)
theory Job_Manager_Props
  imports Job_Manager_Laws Recovery_Props Log_Sink_Props Log_Streamer_Props Process_Props
begin

text \<open>
  The properties of the job manager. Runs of the manager start with a recovery and interleave the work
  of its loop (commands, exits, finished log pumps, escalations) with calls of the owner and changes of
  the environment; they keep the invariant of \<open>Job_Manager_Laws\<close>. The rest of the theory says what
  submissions, cancellations and exits do to the store.
\<close>

section \<open>Runs\<close>

definition acks_lost :: "Ack list \<Rightarrow> bool" where
  "acks_lost acks \<longleftrightarrow> (\<exists>out. SubmitAck out \<in> set acks \<and> reports_lost_rollback out)"

lemma acks_lost_simps [simp]:
  "\<not> acks_lost []" "acks_lost (a @ b) \<longleftrightarrow> acks_lost a \<or> acks_lost b"
  "acks_lost [SubmitAck out] \<longleftrightarrow> reports_lost_rollback out" "\<not> acks_lost [CancelAck c]"
  by (auto simp: acks_lost_def)

lemma manager_ok_mono: "manager_ok content good lost m \<Longrightarrow> manager_ok content good (lost \<or> x) m"
  by (simp add: manager_ok_def)

lemma map_of_released:
  "map_of (map (\<lambda>e. (fst e, released_job (snd e))) jobs) i = map_option released_job (map_of jobs i)"
  by (induction jobs) auto

lemma released_job_sel [simp]:
  "su_exited (released_job job) = su_exited job" "su_leased_gpu (released_job job) = su_leased_gpu job"
  by (simp_all add: released_job_def)

context state_store
begin

lemma drain_exit_events_ok:
  assumes "jd_store d = store"
  shows "manager_ok content inv lost m \<Longrightarrow> manager_ok content inv lost (drain_exit_events d events m)"
  by (induction events arbitrary: m) (simp_all add: process_exit_ok[OF assms])

lemma drain_pump_done_ok:
  "manager_ok content inv lost m \<Longrightarrow> manager_ok content inv lost (drain_pump_done d jobs m)"
  by (induction jobs arbitrary: m) (simp_all add: pump_finished_ok)

lemma handle_command_ok:
  assumes d: "jd_store d = store" and ok: "manager_ok content inv lost m"
    and h: "handle_command d command m = (acks, m')"
  shows "manager_ok content inv (lost \<or> acks_lost acks) m'"
proof (cases command)
  case (Submit spec)
  obtain out m1 where p: "process_submit d spec m = (out, m1)" by fastforce
  then show ?thesis using process_submit_ok[OF d ok p] Submit h by (auto simp: handle_command_def)
next
  case (Cancel k)
  obtain out m1 where p: "process_cancel d k m = (out, m1)" by fastforce
  then show ?thesis using process_cancel_ok[OF d ok, of k] Cancel h by (auto simp: handle_command_def)
next
  case (Wake trigger)
  then show ?thesis using schedule_now_ok[OF d ok] h by (auto simp: handle_command_def)
qed

lemma process_commands_ok:
  assumes d: "jd_store d = store"
  shows "manager_ok content inv lost m \<Longrightarrow> process_commands n d m = Some (acks, m') \<Longrightarrow>
    manager_ok content inv (lost \<or> acks_lost acks) m'"
proof (induction n arbitrary: m acks lost)
  case 0
  then show ?case by (auto split: if_splits)
next
  case (Suc n)
  show ?case
  proof (cases "jm_commands m")
    case Nil
    then show ?thesis using Suc.prems by auto
  next
    case (Cons command rest)
    let ?m = "bump commands_processed (m\<lparr>jm_commands := rest\<rparr>)"
    obtain acks1 m1 where h: "handle_command d command ?m = (acks1, m1)" by fastforce
    then obtain acks2 where rest: "process_commands n d m1 = Some (acks2, m')" "acks = acks1 @ acks2"
      using Suc.prems(2) Cons by auto
    have "manager_ok content inv lost ?m"
      by (rule manager_ok_frame[OF Suc.prems(1)]) simp_all
    from Suc.IH[OF handle_command_ok[OF d this h] rest(1)] show ?thesis
      using rest(2) by (simp add: disj_assoc)
  qed
qed

lemma manager_stop_ok:
  assumes "manager_ok content inv lost m"
  shows "manager_ok content inv lost (snd (snd (snd (manager_stop owner m))))"
proof -
  have sup: "supervised_ok (content (jm_store m)) (jm_supervised m)" using assms by (simp add: manager_ok_def)
  have "supervised_ok (content (jm_store m)) (map (\<lambda>e. (fst e, released_job (snd e))) (jm_supervised m))"
    by (rule supervised_ok_weaken[OF sup]) (auto simp: map_of_released)
  then show ?thesis using assms
    by (simp add: manager_stop_def reject_pending_commands_def abandon_supervised_def manager_ok_def Let_def)
qed

lemma manager_start_ok:
  assumes d: "jd_store d = store" and good: "inv s" "queue_inv q"
    and rec: "recover store verifier now q s = (res, jm_queue m, jm_store m)" and ok: "rr_ok res"
    and fresh: "jm_supervised m = []"
  shows "manager_ok content inv False (snd (snd (manager_start d a (Some res) owner m)))"
proof -
  note eff = recover_effect[OF good rec ok]
  have ok0: "manager_ok content inv False m"
    using eff fresh by (simp add: manager_ok_def supervised_ok_def)
  have armed: "manager_ok content inv False (arm_recovery d (Some res) m)"
    by (rule arm_recovery_ok[OF d ok0]) (use recover_outcomes_occupy[OF good rec ok] in auto)
  moreover have "manager_ok content inv False (destroy_worker (arm_recovery d (Some res) m))"
    using armed by (simp add: destroy_worker_def manager_ok_def supervised_ok_def)
  ultimately show ?thesis
    using ok0 by (auto simp: manager_start_def Let_def split: option.split)
qed

end

text \<open>A run over the in-memory backend. The flag says whether a reply reported a failed compensating
  write. The environment moves its own state, the files, the log streamer, the command channel and the
  phase.\<close>

inductive manager_run ::
  "(InMemoryStateStore, 't, 'u, 'f, 'w) JobManagerDeps \<Rightarrow> bool
     \<Rightarrow> (InMemoryStateStore, 't, 'f, 'w) JobManager \<Rightarrow> bool"
  for d :: "(InMemoryStateStore, 't, 'u, 'f, 'w) JobManagerDeps" where
  run_start: "im_inv s \<Longrightarrow> queue_inv q \<Longrightarrow>
    recover in_memory_store verifier now q s = (res, jm_queue m, jm_store m) \<Longrightarrow> rr_ok res \<Longrightarrow>
    jm_supervised m = [] \<Longrightarrow> manager_run d False (snd (snd (manager_start d a (Some res) owner m)))"
| run_commands: "manager_run d lost m \<Longrightarrow> process_commands n d m = Some (acks, m') \<Longrightarrow>
    manager_run d (lost \<or> acks_lost acks) m'"
| run_exits: "manager_run d lost m \<Longrightarrow> manager_run d lost (drain_exit_events d events m)"
| run_pumps: "manager_run d lost m \<Longrightarrow> manager_run d lost (drain_pump_done d jobs m)"
| run_grace: "manager_run d lost m \<Longrightarrow> manager_run d lost (fire_grace d k m)"
| run_enqueue: "manager_run d lost m \<Longrightarrow> manager_run d lost (snd (enqueue_command d command owner m))"
| run_stop: "manager_run d lost m \<Longrightarrow> manager_run d lost (snd (snd (snd (manager_stop owner m))))"
| run_environment: "manager_run d lost m \<Longrightarrow>
    manager_run d lost (m\<lparr>jm_world := w, jm_files := f, jm_streamer := t, jm_commands := commands, jm_phase := phase\<rparr>)"

lemma manager_run_ok:
  assumes d: "jd_store d = in_memory_store"
  shows "manager_run d lost m \<Longrightarrow> manager_ok im_content im_inv lost m"
proof (induction rule: manager_run.induct)
  case run_start
  then show ?case by (rule im.manager_start_ok[OF d])
next
  case run_commands
  then show ?case using im.process_commands_ok[OF d] by blast
next
  case run_enqueue
  then show ?case by (auto simp: enqueue_command_def manager_ok_def)
next
  case run_environment
  then show ?case by (simp add: manager_ok_def)
qed (simp_all add: im.drain_exit_events_ok[OF d] im.drain_pump_done_ok im.fire_grace_ok im.manager_stop_ok)

section \<open>Writes of a store that is not failing\<close>

abbreviation update_mutation :: "u64 \<Rightarrow> StoredJob \<Rightarrow> GpuUuid list \<Rightarrow> StateMutation" where
  "update_mutation n u us \<equiv>
     empty_mutation\<lparr>sm_expected_revision := n, sm_update_jobs := [u], sm_release_leases := us\<rparr>"

lemma entry_accepted:
  assumes wf: "content_wf c" and rv: "sc_revision c \<noteq> u64_max"
    and fits: "entry_fits c \<lparr>rme_update_job = u, rme_release_gpu = g\<rparr>"
  shows "mutation_ok (apply_mutation (sc_jobs c) (sc_leases c) (sc_revision c) config
    (update_mutation (sc_revision c) u (case g of None \<Rightarrow> [] | Some x \<Rightarrow> [x])))"
proof -
  let ?us = "case g of None \<Rightarrow> [] | Some x \<Rightarrow> [x]"
  have "mutation_ok (apply_mutation (sc_jobs c) (sc_leases c) (sc_revision c) config
      ((empty_mutation\<lparr>sm_update_jobs := [u], sm_release_leases := ?us\<rparr>)
        \<lparr>sm_expected_revision := sc_revision c\<rparr>))"
    by (rule chunk_accepted[OF wf, of "[\<lparr>rme_update_job = u, rme_release_gpu = g\<rparr>]"])
      (use fits rv in \<open>auto simp: chunk_holds_def chunk_pure_def empty_mutation_def entry_count_eq kMaxEntries_def
        split: option.split\<close>)
  then show ?thesis by (simp add: empty_mutation_def)
qed

text \<open>A queued job holds no lease, and its cancellation releases none.\<close>

lemma cancel_accepted:
  assumes wf: "content_wf c" and job: "map_of (sc_jobs c) k = Some r" and st: "sj_state r = JobState.kQueued"
    and rv: "sc_revision c \<noteq> u64_max"
  shows "mutation_ok (apply_mutation (sc_jobs c) (sc_leases c) (sc_revision c) config
    (update_mutation (sc_revision c) (advance JobState.kCancelled r) []))"
proof -
  let ?u = "advance JobState.kCancelled r"
  have ok: "stored_job_ok k r" and k: "sj_id r = k" and wj: "omap_wf (sc_jobs c)" and wl: "omap_wf (sc_leases c)"
    using wf content_wf_id[OF wf job] by (auto simp: content_wf_def job_table_ok_def lease_table_ok_def)
  have ex: "validate_execution (sj_execution r) JobState.kCancelled (sj_spec r) = JobExecutionValidationCode.kNone"
    using ok st unfolding stored_job_ok_def validate_execution_iff by (auto simp: execution_ok_def is_terminal_def)
  have "sj_revision r \<noteq> u64_max" using ok st revision_fits_queued by (simp add: stored_job_ok_def)
  then have up: "apply_updates [?u] (sc_jobs c) = Inr (omap_put k ?u (sc_jobs c))"
    using ok st job k ex by (simp add: stored_job_ok_def same_spec_iff)
  have nolease: "\<forall>x l. map_of (sc_leases c) x = Some l \<longrightarrow> gl_job_id l \<noteq> k"
    using content_wf_matrix[OF wf job] st by (simp add: leaseable_def)
  have "lease_matrix_ok (sc_jobs c) (sc_leases c)" using wf by (simp add: content_wf_def)
  then have "lease_matrix_ok (omap_put k ?u (sc_jobs c)) (sc_leases c)"
    unfolding lease_matrix_iff[OF wj wl] lease_matrix_iff[OF omap_wf_put[OF wj] wl]
    using nolease st job by (auto simp: omap_simps leaseable_def split: if_splits)
  with up rv show ?thesis
    by (auto simp: mutation_ok_def apply_mutation_def empty_mutation_def entry_count_eq kMaxEntries_def)
qed

context available_store
begin

lemma rewrite_accepted:
  assumes d: "jd_store d = store" and i: "inv (jm_store m)" and rdy: "ready (jm_store m)"
    and task: "\<And>w. fst (jd_store_task d w)"
    and r: "map_of (sc_jobs (content (jm_store m))) k = Some r"
    and comp: "compose r (jm_world m) = (u, us, w')"
    and acc: "\<And>config. mutation_ok (apply_mutation (sc_jobs (content (jm_store m)))
        (sc_leases (content (jm_store m))) (sc_revision (content (jm_store m))) config
        (update_mutation (sc_revision (content (jm_store m))) u us))"
    and rw: "rewrite_job d k compose m = (wr, m')"
  shows "swr_ok wr \<and> wrote m m' \<and> inv (jm_store m')
    \<and> content (jm_store m') = \<lparr>sc_revision = sc_revision (content (jm_store m)) + 1,
        sc_jobs = omap_put (sj_id u) u (sc_jobs (content (jm_store m))),
        sc_leases = fold omap_erase us (sc_leases (content (jm_store m)))\<rparr>"
proof -
  let ?mu = "update_mutation (sc_revision (content (jm_store m))) u us"
  have ld: "slr_ok (st_load store (jm_store m))" using ready_load[OF i rdy] .
  have acc: "swr_ok (fst (st_apply store (jm_store m) ?mu))" using ready_apply[OF i rdy acc] .
  obtain wr1 m1 where w1: "run_write d ?mu (m\<lparr>jm_world := w'\<rparr>) = (wr1, m1)" by fastforce
  have ok1: "swr_ok wr1"
    using w1 acc task[of w'] d by (auto simp: run_write_def split: prod.splits)
  have "rewrite_job d k compose m = (wr1, m1)"
    using ld load_finds[OF i ld] load_reads[OF i ld] r comp w1 ok1 d
    by (simp add: rewrite_job_def numeral_3_eq_3 Let_def snapshot_of_def)
  then have "wr = wr1" "m' = m1" using rw by auto
  then show ?thesis using run_write_cases[OF d _ w1] i ok1 by (auto simp: update_effect)
qed

end

section \<open>The record of an exit\<close>

lemma int_to_string_ok:
  assumes "\<bar>n\<bar> < 10 ^ 10"
  shows "length (int_to_string n) \<le> 11 \<and> \<not> contains_nul (int_to_string n)"
proof -
  have "length (std_to_string (nat \<bar>n\<bar>)) \<le> 10"
    by (rule std_to_string_length) (use assms in \<open>simp_all add: nat_less_iff\<close>)
  moreover have "\<not> contains_nul (std_to_string (nat \<bar>n\<bar>))"
    using std_to_string_value[of "nat \<bar>n\<bar>"]
    by (auto simp: digits_ok_def contains_nul_def NUL_def is_digit_def dest!: bspec[of _ _ "CHR 0x00"])
  ultimately show ?thesis by (auto simp: int_to_string_def contains_nul_def NUL_def)
qed

lemma terminal_reason_ok:
  assumes "\<bar>es_exit_code (xe_status event)\<bar> < 10 ^ 10" "\<bar>es_signal_number (xe_status event)\<bar> < 10 ^ 10"
    and "terminal_of b event = (t, reason)"
  shows "optional_text_ok kMaxFailureReasonBytes reason"
  using assms(3) int_to_string_ok[OF assms(1)] int_to_string_ok[OF assms(2)]
  by (auto simp: terminal_of_def optional_text_ok_def kMaxFailureReasonBytes_def contains_nul_def NUL_def
      split: if_splits)

lemma terminal_not_leaseable: "is_terminal t \<Longrightarrow> \<not> leaseable t"
  by (auto simp: is_terminal_def leaseable_def)

lemma exited_record_fits:
  assumes wf: "content_wf c" and r: "map_of (sc_jobs c) k = Some r"
    and step: "can_transition (sj_state r) t" "is_terminal t" "leaseable (sj_state r)"
    and clock: "\<And>t0. er_start_time (sj_execution r) = Some t0 \<Longrightarrow> t0 \<le> fst (jd_system_clock d w)"
    and reason: "optional_text_ok kMaxFailureReasonBytes reason"
    and lease: "map_of (sc_leases c) uuid = Some \<lparr>gl_gpu_uuid = uuid, gl_job_id = k\<rparr>"
    and rec: "exited_record d t reason event uuid r w = (u, us, w')"
  shows "us = [uuid] \<and> entry_fits c \<lparr>rme_update_job = u, rme_release_gpu = Some uuid\<rparr>
    \<and> sj_id u = k \<and> sj_state u = t \<and> sj_spec u = sj_spec r
    \<and> er_failure_reason (sj_execution u) = reason \<and> er_end_time (sj_execution u) \<noteq> None
    \<and> er_exit (sj_execution u) = (if xe_identity_verified event then Some (xe_status event) else None)"
proof -
  have ok: "stored_job_ok k r" "sj_id r = k" using content_wf_id[OF wf r] by auto
  then have ex: "execution_ok (sj_execution r) (sj_state r) (sj_spec r)"
    by (simp add: stored_job_ok_def validate_execution_iff)
  have nt: "\<not> is_terminal (sj_state r)" using step(1) by (rule can_transition_not_terminal)
  let ?u = "(advance t r)\<lparr>sj_execution := (sj_execution r)
      \<lparr>er_exit := (if xe_identity_verified event then Some (xe_status event) else er_exit (sj_execution r)),
       er_end_time := Some (fst (jd_system_clock d w)), er_failure_reason := reason\<rparr>\<rparr>"
  have u: "u = ?u" "us = [uuid]" using rec nt by (auto simp: exited_record_def split: prod.splits)
  have "execution_ok (sj_execution ?u) t (sj_spec r)"
    using ex nt step(2) clock reason by (auto simp: execution_ok_def is_terminal_def)
  then have "entry_fits c \<lparr>rme_update_job = ?u, rme_release_gpu = Some uuid\<rparr>"
    using ok r step lease active_edges(2)[OF ok(1) step(3)] terminal_not_leaseable[OF step(2)]
    by (simp add: entry_fits_def validate_execution_iff)
  then show ?thesis unfolding u using ok ex nt by (auto simp: execution_ok_def)
qed

context available_store
begin

lemma process_exit_settles:
  assumes d: "jd_store d = store" and ok: "manager_ok content inv lost m" and rdy: "ready (jm_store m)"
    and task: "\<And>w. fst (jd_store_task d w)" and rv: "sc_revision (content (jm_store m)) \<noteq> u64_max"
    and pid: "map_of (jm_by_pid m) (xe_pid event) = Some k"
    and job: "map_of (jm_supervised m) k = Some job" "\<not> su_exited job"
    and r: "map_of (sc_jobs (content (jm_store m))) k = Some r"
    and clock: "\<And>w t0. er_start_time (sj_execution r) = Some t0 \<Longrightarrow> t0 \<le> fst (jd_system_clock d w)"
    and range: "\<bar>es_exit_code (xe_status event)\<bar> < 10 ^ 10" "\<bar>es_signal_number (xe_status event)\<bar> < 10 ^ 10"
    and t: "terminal_of (su_cancelling job) event = (t, reason)" and step: "can_transition (sj_state r) t"
  shows "\<exists>r'. content (jm_store (process_exit d event m)) = \<lparr>sc_revision = sc_revision (content (jm_store m)) + 1,
        sc_jobs = omap_put k r' (sc_jobs (content (jm_store m))),
        sc_leases = omap_erase (su_leased_gpu job) (sc_leases (content (jm_store m)))\<rparr>
      \<and> sj_state r' = t \<and> sj_spec r' = sj_spec r
      \<and> er_failure_reason (sj_execution r') = reason \<and> er_end_time (sj_execution r') \<noteq> None
      \<and> er_exit (sj_execution r') = (if xe_identity_verified event then Some (xe_status event) else None)"
    and "jm_queue (process_exit d event m) = jm_queue m"
    and "jm_by_pid (process_exit d event m) = omap_erase (xe_pid event) (jm_by_pid m)"
    and "map_of (jm_supervised (process_exit d event m)) k = Some job' \<Longrightarrow> su_exited job'"
    and "length (jm_commands m) < jc_command_capacity (jd_config d) \<Longrightarrow>
      jm_commands (process_exit d event m) = jm_commands m @ [Wake kJobExited]"
proof -
  let ?c = "content (jm_store m)" and ?m0 = "m\<lparr>jm_supervised := omap_put k (disarm_job job) (jm_supervised m)\<rparr>"
  have i: "inv (jm_store m)" and sup: "supervised_ok ?c (jm_supervised m)" using ok by (simp_all add: manager_ok_def)
  have lease: "map_of (sc_leases ?c) (su_leased_gpu job) = Some \<lparr>gl_gpu_uuid = su_leased_gpu job, gl_job_id = k\<rparr>"
    and occ: "occupies (sj_state r)"
    using sup job r unfolding supervised_ok_def by fastforce+
  obtain u us w' where e: "exited_record d t reason event (su_leased_gpu job) r (jm_world m) = (u, us, w')"
    using prod_cases3 by blast
  note fit = exited_record_fits[OF inv_wf[OF i] r step terminal_of_terminal[OF t] occupies_leaseable[OF occ] clock
      terminal_reason_ok[OF range t] lease e]
  obtain wr m1 where rw: "rewrite_job d k (exited_record d t reason event (su_leased_gpu job)) ?m0 = (wr, m1)"
    by fastforce
  have acc: "swr_ok wr \<and> wrote ?m0 m1 \<and> inv (jm_store m1)
    \<and> content (jm_store m1) = \<lparr>sc_revision = sc_revision ?c + 1, sc_jobs = omap_put (sj_id u) u (sc_jobs ?c),
        sc_leases = fold omap_erase us (sc_leases ?c)\<rparr>"
    using rewrite_accepted[OF d _ _ task _ _ _ rw, of r u us w'] i rdy r e fit
      entry_accepted[OF inv_wf[OF i] rv, of u "Some (su_leased_gpu job)"] by simp
  show "\<exists>r'. content (jm_store (process_exit d event m)) = \<lparr>sc_revision = sc_revision ?c + 1,
        sc_jobs = omap_put k r' (sc_jobs ?c), sc_leases = omap_erase (su_leased_gpu job) (sc_leases ?c)\<rparr>
      \<and> sj_state r' = t \<and> sj_spec r' = sj_spec r
      \<and> er_failure_reason (sj_execution r') = reason \<and> er_end_time (sj_execution r') \<noteq> None
      \<and> er_exit (sj_execution r') = (if xe_identity_verified event then Some (xe_status event) else None)"
    by (rule exI[of _ u])
      (use pid job t rw acc fit in \<open>auto simp: process_exit_def erase_supervised_def Let_def\<close>)
  have sup1: "jm_supervised m1 = jm_supervised ?m0" "jm_queue m1 = jm_queue m" "jm_by_pid m1 = jm_by_pid m"
    "jm_commands m1 = jm_commands m" using acc by (simp_all add: wrote_def)
  show "jm_queue (process_exit d event m) = jm_queue m"
    "jm_by_pid (process_exit d event m) = omap_erase (xe_pid event) (jm_by_pid m)"
    "length (jm_commands m) < jc_command_capacity (jd_config d) \<Longrightarrow>
      jm_commands (process_exit d event m) = jm_commands m @ [Wake kJobExited]"
    using pid job t rw acc sup1
    by (simp_all add: process_exit_def erase_supervised_def Let_def post_wake_def finish_stream_def
        drop_supervisor_def split: option.split)
  show "map_of (jm_supervised (process_exit d event m)) k = Some job' \<Longrightarrow> su_exited job'"
    using pid job t rw acc sup1
    by (auto simp: process_exit_def erase_supervised_def Let_def omap_simps split: if_splits)
qed

end

section \<open>A concrete run\<close>

definition demo_deps :: "(InMemoryStateStore, unit, unit, string, unit) JobManagerDeps" where
  "demo_deps = \<lparr>jd_store = in_memory_store, jd_topic = demo_topic, jd_io = demo_io, jd_adapter = demo_adapter,
     jd_config = \<lparr>jc_cancel_grace = kDefaultGracePeriod, jc_log_root = ''/var/log/yori'',
       jc_command_capacity = 4, jc_ack_timeout = 1000, jc_scheduler_scan_window = 16\<rparr>,
     jd_store_task = (\<lambda>w. (True, w)), jd_scheduler_task = (\<lambda>w. (Ran, w)),
     jd_system_clock = (\<lambda>w. (30, w)), jd_steady_clock = (\<lambda>w. (30, w)),
     jd_gpu_snapshot = (\<lambda>w. (None, w)),
     jd_resolve = (\<lambda>uid w. (\<lparr>irr_code = IdentityResolveErrorCode.kNone, irr_identity = demo_identity,
        irr_message = []\<rparr>, w)),
     jd_mkdir = (\<lambda>w path. 0), jd_lstat = (\<lambda>w path. Inl 2), jd_geteuid = 0, jd_strerror = (\<lambda>e. []),
     jd_spawn = (\<lambda>plan w. (demo_os, w)), jd_read_proc_stat = (\<lambda>w. demo_stat),
     jd_register_process = (\<lambda>identity w. (ExitRegisterCode.kRegistered, w)),
     jd_unregister_process = (\<lambda>pid w. w), jd_attach = (\<lambda>i sink w. (True, w)),
     jd_kill = (\<lambda>w pid signal. 0), jd_timer = (\<lambda>w. (True, w))\<rparr>"

definition demo_manager :: "InMemoryStateStore \<Rightarrow> GlobalJobQueue \<Rightarrow> (InMemoryStateStore, unit, string, unit) JobManager" where
  "demo_manager s q = \<lparr>jm_store = s, jm_queue = q, jm_streamer = LogStreamer_init LogStreamerConfig_init,
     jm_files = [], jm_world = (), jm_phase = kPhaseSchedulingOpen, jm_commands = [], jm_supervised = [],
     jm_by_pid = [], jm_evaluation = None, jm_stats = (\<lambda>_. 0), jm_signals = []\<rparr>"

definition demo_answers :: start_answers where
  "demo_answers = \<lparr>sa_log_root = None, sa_monitor = None, sa_pump = None, sa_pipe = True, sa_worker = True\<rparr>"

definition demo_outcome :: RecoveryJobOutcome where
  "demo_outcome = \<lparr>ro_job_id = 7, ro_previous_state = JobState.kRunning, ro_decision = kAdoptedRunning,
     ro_released_gpu = None\<rparr>"

definition demo_recovery :: RecoveryResult where
  "demo_recovery = \<lparr>rr_code = RecoveryErrorCode.kNone, rr_outcomes = [demo_outcome],
     rr_store_error = StateStoreErrorCode.kNone, rr_queue_error = QueueErrorCode.kNone, rr_store_revision = 3\<rparr>"

definition demo_started :: "(InMemoryStateStore, unit, string, unit) JobManager" where
  "demo_started = snd (snd (manager_start demo_deps demo_answers (Some demo_recovery)
     \<lparr>mo_started = False, mo_stop_requested = False\<rparr> (demo_manager demo_store3 demo_empty_queue)))"

lemma demo_load:
  "st_load in_memory_store demo_store3
     = \<lparr>slr_code = StateStoreErrorCode.kNone, slr_snapshot = snapshot_of (im_content demo_store3)\<rparr>"
  by (simp add: in_memory_store_def im_load_def demo_restart_room im_content_def snapshot_of_def)

lemma demo_running_identity:
  "has_identity (sj_execution demo_running)" "sj_id demo_running = 7" "sj_revision demo_running = 2"
  "er_identity (sj_execution demo_running) = \<lparr>pi_pid = 42, pi_pgid = 42, pi_start_ticks = 987\<rparr>"
  by (simp_all add: demo_running_def demo_job_def has_identity_def identity_valid_def blank_execution_def)

lemma demo_recovery_plan:
  "recovery_plan (\<lambda>_. kVerified) 20 (snapshot_of (im_content demo_store3))
     = \<lparr>rp_outcomes = [demo_outcome], rp_mutations = []\<rparr>"
  by (simp add: recovery_plan_def plan_job_def recovery_decision_def snapshot_of_def im_content_def
      demo_restart_room is_active_def demo_running_identity demo_outcome_def)

lemma demo_restore:
  "queue_restore demo_empty_queue (snapshot_of (im_content demo_store3))
     = (demo_empty_queue, queue_result kRestoreApplied QueueErrorCode.kNone None 0 0 2 None None spec_fine)"
  using demo_running_ok
  by (simp add: snapshot_of_def im_content_def demo_restart_room queue_restore_def demo_empty_queue_def
      stored_job_ok_def demo_running_identity Let_def)

lemma demo_recover:
  "recover in_memory_store (\<lambda>_. kVerified) 20 demo_empty_queue demo_store3
     = (demo_recovery, demo_empty_queue, demo_store3)"
proof -
  have "ss_revision (snapshot_of (im_content demo_store3)) = 3"
    by (simp add: snapshot_of_def im_content_def demo_restart_room)
  then show ?thesis
    by (simp add: recover_def demo_load slr_ok_def demo_recovery_plan Let_def flush_chunk_def entry_count_eq empty_mutation_def
        demo_restore queue_result_def qr_ok_def demo_recovery_def)
qed

lemma demo_recovered: "rr_ok demo_recovery" by (simp add: demo_recovery_def rr_ok_def)

definition demo_adopted :: ProcessSupervisor where
  "demo_adopted = (ProcessSupervisor_init \<lparr>cpo_grace_period = kDefaultGracePeriod\<rparr>)
     \<lparr>ps_identity := \<lparr>pi_pid = 42, pi_pgid = 42, pi_start_ticks = 987\<rparr>, ps_exit_status := unknown_exit,
       ps_phase := Phase.kRunning\<rparr>"

definition demo_entry :: SupervisedJob where
  "demo_entry = (SupervisedJob_init 7)\<lparr>su_adopted := True, su_leased_gpu := ''GPU-a'',
     su_supervisor := Some demo_adopted\<rparr>"

lemma demo_verified: "verify_process_identity demo_stat \<lparr>pi_pid = 42, pi_pgid = 42, pi_start_ticks = 987\<rparr>"
proof -
  have "\<forall>t \<in> set demo_stat_tokens. token_ok t"
    by (auto simp: demo_stat_tokens_def token_ok_def is_blank_def NUL_def)
  moreover have "demo_stat_tokens ! 2 = ''42''" "demo_stat_tokens ! 19 = ''987''"
    by (simp_all add: demo_stat_tokens_def nth_append)
  moreover have "digits_ok ''42''" "digits_ok ''987''" "decimal_value ''42'' = 42" "decimal_value ''987'' = 987"
    by (simp_all add: digits_ok_def is_digit_def decimal_value_def digit_value_def)
  ultimately show ?thesis
    using verify_identity_tokens[of demo_stat "\<lparr>pi_pid = 42, pi_pgid = 42, pi_start_ticks = 987\<rparr>" "''42 (a''"
        demo_stat_tokens]
    by (simp add: demo_stat_def demo_stat_tokens_def NUL_def identity_valid_def)
qed

lemma demo_adopt:
  "adopt demo_stat \<lparr>pi_pid = 42, pi_pgid = 42, pi_start_ticks = 987\<rparr>
       (ProcessSupervisor_init \<lparr>cpo_grace_period = kDefaultGracePeriod\<rparr>)
     = (\<lparr>adr_code = AdoptErrorCode.kNone, adr_message = []\<rparr>, demo_adopted)"
  using demo_verified by (simp add: adopt_def identity_valid_def ProcessSupervisor_init_def Let_def demo_adopted_def)

lemma demo_started_eq:
  "jm_store demo_started = demo_store3" "jm_queue demo_started = demo_empty_queue"
  "jm_by_pid demo_started = [(42, 7)]" "jm_supervised demo_started = [(7, demo_entry)]"
  "jm_commands demo_started = [Wake kRecoveryCompleted]"
proof -
  have config: "job_manager_config_error (jd_config demo_deps) = None"
    by (simp add: job_manager_config_error_def demo_deps_def kMaxDirectoryBytes_def kMinGracePeriod_def
        kMaxGracePeriod_def kDefaultGracePeriod_def scheduler_config_valid_def kMaxScanWindow_def kMaxCapacity_def)
  have finds: "find_stored (snapshot_of (im_content demo_store3)) 7 = Some demo_running"
    "lease_of_job (snapshot_of (im_content demo_store3)) 7 = ''GPU-a''"
    by (simp_all add: find_stored_def lease_of_job_def snapshot_of_def im_content_def demo_running_identity demo_store3_def)
  have "demo_started = post_wake demo_deps kRecoveryCompleted (supervise 7 demo_entry 42
      (bump jobs_adopted (put_world () (demo_manager demo_store3 demo_empty_queue))))"
    using demo_recovered config
    by (simp add: demo_started_def manager_start_def demo_answers_def Let_def arm_recovery_def)
      (simp add: demo_recovery_def adopt_outcome_def demo_outcome_def demo_deps_def demo_manager_def demo_load slr_ok_def finds
        demo_running_identity demo_adopt demo_entry_def SupervisedJob_init_def Let_def)
  note eq = this
  show "jm_store demo_started = demo_store3" "jm_queue demo_started = demo_empty_queue"
    "jm_by_pid demo_started = [(42, 7)]" "jm_supervised demo_started = [(7, demo_entry)]"
    "jm_commands demo_started = [Wake kRecoveryCompleted]"
    unfolding eq by (simp_all add: supervise_def demo_manager_def put_world_def bump_def post_wake_def demo_deps_def)
qed

lemma demo_started_run: "manager_run demo_deps False demo_started"
  unfolding demo_started_def
  by (rule manager_run.run_start[OF demo_store3_inv demo_empty_queue_inv _ demo_recovered,
        of "\<lambda>_. kVerified" 20]) (simp_all add: demo_manager_def demo_recover)

lemma demo_deps_store: "jd_store demo_deps = in_memory_store" by (simp add: demo_deps_def)

lemma demo_deps_sel:
  "jd_store_task demo_deps w = (True, w)" "jd_system_clock demo_deps w = (30, w)"
  "jc_command_capacity (jd_config demo_deps) = 4"
  by (simp_all add: demo_deps_def)

section \<open>Properties\<close>




definition demo_exit :: ExitEvent where
  "demo_exit = \<lparr>xe_pid = 42, xe_identity = \<lparr>pi_pid = 42, pi_pgid = 42, pi_start_ticks = 987\<rparr>,
     xe_status = \<lparr>es_reason = ExitReason.kExited, es_exit_code = 0, es_signal_number = 0\<rparr>,
     xe_identity_verified = True\<rparr>"


end
