(* ===== verification/Job_Command_Props.thy ===== *)
theory Job_Command_Props
  imports Job_Manager_Props
begin

text \<open>
  What the two commands of the job manager do: a submission either creates, stores and queues one job or
  leaves no queued job behind, and a cancellation follows the state of the job.
\<close>

section \<open>Submission\<close>

text \<open>The effect of a submission on jobs, leases and queue.\<close>

definition submitted ::
  "JobSpec \<Rightarrow> JobSubmitOutcome \<Rightarrow> store_content \<Rightarrow> GlobalJobQueue \<Rightarrow> store_content \<Rightarrow> GlobalJobQueue \<Rightarrow> bool" where
  "submitted spec out c q c' q' \<longleftrightarrow>
     (\<exists>r. r = \<lparr>sj_id = jso_job_id out, sj_spec = spec, sj_state = JobState.kQueued, sj_revision = 0,
               sj_execution = blank_execution\<rparr>
        \<and> map_of (sc_jobs c') = (map_of (sc_jobs c))(jso_job_id out \<mapsto> r)
        \<and> (\<forall>i. map_of (sc_jobs c) i \<noteq> None \<longrightarrow> i < jso_job_id out)
        \<and> sc_leases c' = sc_leases c
        \<and> set (q_entries q') = insert (entry_of r) (set (q_entries q)))"

definition not_submitted :: "store_content \<Rightarrow> GlobalJobQueue \<Rightarrow> store_content \<Rightarrow> GlobalJobQueue \<Rightarrow> bool" where
  "not_submitted c q c' q' \<longleftrightarrow>
     q' = q \<and> sc_leases c' = sc_leases c
   \<and> (\<forall>i r. map_of (sc_jobs c) i = Some r \<longrightarrow> map_of (sc_jobs c') i = Some r)
   \<and> (\<forall>i r. map_of (sc_jobs c) i = None \<and> map_of (sc_jobs c') i = Some r \<longrightarrow> sj_state r = JobState.kCancelled)"

lemma not_submitted_refl [simp]: "not_submitted c q c q"
  by (auto simp: not_submitted_def)

context state_store
begin

lemma admit_created_effect:
  assumes d: "jd_store d = store" and i: "inv (jm_store m1)" and q: "queue_inv (jm_queue m1)"
    and rec: "created = new_record jobs spec"
    and mp: "map_of (sc_jobs (content (jm_store m1))) = (map_of (sc_jobs c))(sj_id created \<mapsto> created)"
    and fresh: "\<And>i r. map_of (sc_jobs c) i = Some r \<Longrightarrow> i < sj_id created"
    and leases: "sc_leases (content (jm_store m1)) = sc_leases c"
    and ad: "admit_created d created rv m1 = (out, m')"
  shows "jso_code out = kSubmitted \<and> submitted spec out c (jm_queue m1) (content (jm_store m')) (jm_queue m')
    \<or> jso_code out \<noteq> kSubmitted \<and> jso_job_id out = 0
      \<and> (reports_lost_rollback out \<or> not_submitted c (jm_queue m1) (content (jm_store m')) (jm_queue m'))"
proof -
  obtain q' adm where a: "queue_admit (jm_queue m1) created = (q', adm)" by fastforce
  show ?thesis
  proof (cases "qr_ok adm")
    case True
    then have m': "m' = bump jobs_submitted (m1\<lparr>jm_queue := q'\<rparr>)"
        "out = \<lparr>jso_code = kSubmitted, jso_job_id = sj_id created, jso_detail = []\<rparr>"
      using ad a by (simp_all add: admit_created_def)
    have "set (q_entries q') = insert (entry_of created) (set (q_entries (jm_queue m1)))"
      using jq.admit_ok[OF q, of "created"] True a by auto
    then show ?thesis
      using m' mp leases fresh rec by (auto simp: submitted_def new_record_def)
  next
    case False
    have q': "q' = jm_queue m1" using jq.admit_rejected[of "jm_queue m1" "created"] False a by simp
    let ?canc = "created\<lparr>sj_state := JobState.kCancelled, sj_revision := 1\<rparr>"
    obtain wr m2 where w: "run_write d (empty_mutation\<lparr>sm_expected_revision := rv,
        sm_update_jobs := [?canc]\<rparr>) (m1\<lparr>jm_queue := q'\<rparr>) = (wr, m2)" by fastforce
    have out: "m' = m2" "jso_code out = JobSubmitCode.kQueueRejected" "jso_job_id out = 0"
      using ad a False w by (auto simp: admit_created_def)
    have det: "reports_lost_rollback out" if "\<not> swr_ok wr"
      unfolding reports_lost_rollback_def
      by (rule exI[of _ "QueueErrorCode_to_string (qr_code adm)"],
          rule exI[of _ "StateStoreErrorCode_to_string (swr_code wr)"])
        (use ad a False w that in \<open>auto simp: admit_created_def\<close>)
    note cs = run_write_cases[OF d _ w]
    have "not_submitted c (jm_queue m1) (content (jm_store m2)) (jm_queue m2)" if "swr_ok wr"
    proof -
      have "map_of (sc_jobs (content (jm_store m2))) = (map_of (sc_jobs c))(sj_id created \<mapsto> ?canc)"
        "sc_leases (content (jm_store m2)) = sc_leases c" "jm_queue m2 = jm_queue m1"
        using cs i that mp leases q' by (auto simp: update_effect omap_simps wrote_def)
      then show ?thesis using fresh by (auto simp: not_submitted_def split: if_splits)
    qed
    then show ?thesis using out det by (cases "swr_ok wr") auto
  qed
qed

lemma process_submit_effect:
  assumes d: "jd_store d = store" and ok: "manager_ok content inv lost m"
    and sub: "process_submit d spec m = (out, m')"
  shows "jso_code out = kSubmitted
      \<and> submitted spec out (content (jm_store m)) (jm_queue m) (content (jm_store m')) (jm_queue m')
    \<or> jso_code out \<noteq> kSubmitted \<and> jso_job_id out = 0
      \<and> (reports_lost_rollback out
         \<or> not_submitted (content (jm_store m)) (jm_queue m) (content (jm_store m')) (jm_queue m'))"
proof -
  let ?load = "st_load store (jm_store m)"
  let ?fresh = "new_record (ss_jobs (slr_snapshot ?load)) spec"
  have i: "inv (jm_store m)" using ok by (simp add: manager_ok_def)
  show ?thesis
  proof (cases "slr_ok ?load")
    case False
    then show ?thesis using sub d by (auto simp: process_submit_def Let_def submit_failed_def)
  next
    case ld: True
    obtain wr m1 where w: "run_write d (empty_mutation\<lparr>sm_expected_revision := ss_revision (slr_snapshot ?load),
        sm_create_jobs := [?fresh]\<rparr>) m = (wr, m1)" by fastforce
    show ?thesis
    proof (cases "swr_ok wr")
      case False
      then show ?thesis
        using sub d ld w run_write_cases[OF d i w]
        by (auto simp: process_submit_def Let_def submit_failed_def wrote_def)
    next
      case True
      note e = create_effect[OF d ok ld refl w True]
      have ad: "admit_created d ?fresh (swr_revision wr) m1 = (out, m')"
        using sub d ld w True by (simp add: process_submit_def Let_def)
      have q: "jm_queue m1 = jm_queue m" "queue_inv (jm_queue m1)"
        using e(1) ok by (auto simp: wrote_def manager_ok_def)
      show ?thesis
        unfolding q(1)[symmetric]
        by (rule admit_created_effect[OF d e(2) q(2) refl e(3) _ e(6) ad]) (rule e(5))
    qed
  qed
qed

end

text \<open>A valid specification is accepted while there is room.\<close>

lemma create_accepted:
  assumes wf: "content_wf c" and rec: "created = new_record (ss_jobs (snapshot_of c)) spec"
    and id: "sj_id created \<noteq> 0" and spec: "jsv_ok (job_validate spec)"
    and room: "length (sc_jobs c) < vc_max_jobs config" and rv: "sc_revision c \<noteq> u64_max"
  shows "mutation_ok (apply_mutation (sc_jobs c) (sc_leases c) (sc_revision c) config
    (empty_mutation\<lparr>sm_expected_revision := sc_revision c, sm_create_jobs := [created]\<rparr>))"
proof -
  have wj: "omap_wf (sc_jobs c)" and wl: "omap_wf (sc_leases c)"
    using wf by (auto simp: content_wf_def job_table_ok_def lease_table_ok_def)
  have fresh: "map_of (sc_jobs c) (sj_id created) = None"
    using new_id_fresh[OF wf, of "sj_id created"] id rec
    by (cases "map_of (sc_jobs c) (sj_id created)") (auto simp: new_record_def)
  have r: "sj_state created = JobState.kQueued" "sj_revision created = 0" "sj_spec created = spec"
    "sj_execution created = blank_execution" using rec by (simp_all add: new_record_def)
  have ex: "validate_execution blank_execution JobState.kQueued spec = JobExecutionValidationCode.kNone"
    unfolding validate_execution_iff
    by (simp add: execution_ok_def blank_execution_def is_terminal_def optional_text_ok_def blank_identity_def)
  have cr: "apply_creates config [created] (sc_jobs c) = Inr (omap_put (sj_id created) created (sc_jobs c))"
    using id spec room fresh r ex by (simp add: job_id_valid_def omap_contains_def)
  have "gl_job_id l \<noteq> sj_id created" if "map_of (sc_leases c) u = Some l" for u l
    using content_wf_lease[OF wf that] fresh by auto
  moreover have "lease_matrix_ok (sc_jobs c) (sc_leases c)" using wf by (simp add: content_wf_def)
  ultimately have "lease_matrix_ok (omap_put (sj_id created) created (sc_jobs c)) (sc_leases c)"
    unfolding lease_matrix_iff[OF wj wl] lease_matrix_iff[OF omap_wf_put[OF wj] wl]
    using r by (auto simp: omap_simps leaseable_def split: if_splits)
  with cr rv show ?thesis
    by (auto simp: mutation_ok_def apply_mutation_def empty_mutation_def entry_count_eq kMaxEntries_def)
qed

context available_store
begin

lemma process_submit_accepted:
  assumes d: "jd_store d = store" and ok: "manager_ok content inv False m" and rdy: "ready (jm_store m)"
    and task: "\<And>w. fst (jd_store_task d w)" and rv: "sc_revision (content (jm_store m)) \<noteq> u64_max"
    and id: "max_job_id (map snd (sc_jobs (content (jm_store m)))) \<noteq> u64_max"
    and spec: "jsv_ok (job_validate spec)"
    and room: "length (sc_jobs (content (jm_store m))) < vc_max_jobs (limits (jm_store m))"
    and space: "length (q_entries (jm_queue m)) < q_capacity (jm_queue m)"
    and sub: "process_submit d spec m = (out, m')"
  shows "jso_code out = kSubmitted"
proof -
  let ?c = "content (jm_store m)" and ?load = "st_load store (jm_store m)"
  let ?fresh = "new_record (ss_jobs (slr_snapshot ?load)) spec"
  let ?mu = "empty_mutation\<lparr>sm_expected_revision := ss_revision (slr_snapshot ?load), sm_create_jobs := [?fresh]\<rparr>"
  have i: "inv (jm_store m)" and q: "queue_inv (jm_queue m)" and mir: "queue_mirrors (jm_queue m) ?c"
    using ok by (simp_all add: manager_ok_def)
  have ld: "slr_ok ?load" using ready_load[OF i rdy] .
  note snap = load_reads[OF i ld]
  have id0: "sj_id ?fresh \<noteq> 0"
    using id by (auto simp: new_record_def snap snapshot_of_def add_eq_0_iff equation_minus_iff)
  have "mutation_ok (apply_mutation (sc_jobs ?c) (sc_leases ?c) (sc_revision ?c) (limits (jm_store m)) ?mu)"
    using create_accepted[OF inv_wf[OF i] refl _ spec room rv] id0 snap by (simp add: snapshot_of_def)
  then have "swr_ok (fst (st_apply store (jm_store m) ?mu))" by (rule ready_apply[OF i rdy])
  moreover obtain wr m1 where w: "run_write d ?mu m = (wr, m1)" by fastforce
  ultimately have okw: "swr_ok wr" using task[of "jm_world m"] d by (auto simp: run_write_def split: prod.splits)
  note e = create_effect[OF d ok ld refl w okw]
  have q1: "jm_queue m1 = jm_queue m" using e(1) by (simp add: wrote_def)
  have "sj_id ?fresh \<notin> entry_ids (q_entries (jm_queue m))"
    using mir e(4) unfolding queue_mirrors_iff[OF inv_wf[OF i]] by (auto simp: entry_ids_def)
  then have "qr_ok (snd (queue_admit (jm_queue m1) ?fresh))"
    using e(9) space by (simp add: queue_admit_ok_iff q1)
  moreover have "admit_created d ?fresh (swr_revision wr) m1 = (out, m')"
    using sub d ld w okw by (simp add: process_submit_def Let_def)
  ultimately show ?thesis by (auto simp: admit_created_def split: prod.splits)
qed

end

section \<open>Cancellation\<close>

lemma stopping_fits:
  assumes wf: "content_wf c" and r: "map_of (sc_jobs c) k = Some r"
    and st: "sj_state r = JobState.kRunning \<or> sj_state r = JobState.kStarting \<and> identity_valid (er_identity (sj_execution r))"
  shows "entry_fits c \<lparr>rme_update_job = advance JobState.kStopping r, rme_release_gpu = None\<rparr>"
proof -
  have ok: "stored_job_ok k r" "sj_id r = k" using content_wf_id[OF wf r] by auto
  then have ex: "execution_ok (sj_execution r) (sj_state r) (sj_spec r)"
    by (simp add: stored_job_ok_def validate_execution_iff)
  have ls: "leaseable (sj_state r)" using st by (auto simp: leaseable_def)
  have "execution_ok (sj_execution r) JobState.kStopping (sj_spec r)"
    using ex st by (auto simp: execution_ok_def is_terminal_def)
  then show ?thesis
    using ok r st ls active_edges(2)[OF ok(1) ls]
    by (auto simp: entry_fits_def validate_execution_iff leaseable_def)
qed

lemma begin_cancellation_frame:
  "jm_store (begin_cancellation d k b m) = jm_store m" "jm_queue (begin_cancellation d k b m) = jm_queue m"
  by (simp_all add: begin_cancellation_def Let_def split: option.split prod.split)

context available_store
begin

text \<open>A starting job whose process is not recorded yet cannot be moved to stopping.\<close>

lemma cancel_starting_blank:
  assumes d: "jd_store d = store" and i: "inv (jm_store m)"
    and r: "map_of (sc_jobs (content (jm_store m))) k = Some r" "\<not> identity_valid (er_identity (sj_execution r))"
    and c: "cancel_active d k m = (out, m')"
  shows "jco_code out = JobCancelCode.kStoreFailed \<and> content (jm_store m') = content (jm_store m)
    \<and> jm_queue m' = jm_queue m \<and> jm_signals m' = jm_signals m"
proof -
  let ?compose = "\<lambda>current w. (advance JobState.kStopping current, [], w)"
  obtain wr m1 where rw: "rewrite_job d k ?compose m = (wr, m1)" by fastforce
  note cs = rewrite_cases[OF d i rw[unfolded rewrite_job_def]]
  have "\<not> swr_ok wr"
  proof
    assume w: "swr_ok wr"
    have k: "sj_id r = k" using content_wf_id(2)[OF inv_wf[OF i] r(1)] .
    have wf: "content_wf (content (jm_store m1))" using cs by (intro inv_wf) blast
    have "map_of (sc_jobs (content (jm_store m1))) k = Some (advance JobState.kStopping r)"
      using cs w r(1) k by (auto simp: omap_simps)
    from content_wf_id(1)[OF wf this] have "execution_ok (sj_execution r) JobState.kStopping (sj_spec r)"
      by (simp add: stored_job_ok_def validate_execution_iff)
    then show False using r(2) by (simp add: execution_ok_def)
  qed
  then show ?thesis
    using c rw cs by (auto simp: cancel_active_def cancel_store_failed_def cancel_outcome_def wrote_def)
qed

lemma cancel_active_stops:
  assumes d: "jd_store d = store" and i: "inv (jm_store m)" and rdy: "ready (jm_store m)"
    and task: "\<And>w. fst (jd_store_task d w)" and rv: "sc_revision (content (jm_store m)) \<noteq> u64_max"
    and r: "map_of (sc_jobs (content (jm_store m))) k = Some r"
      "sj_state r = JobState.kRunning \<or> sj_state r = JobState.kStarting \<and> identity_valid (er_identity (sj_execution r))"
    and c: "cancel_active d k m = (out, m')"
  shows "\<exists>m1. m' = begin_cancellation d k False m1 \<and> wrote m m1
    \<and> content (jm_store m1) = \<lparr>sc_revision = sc_revision (content (jm_store m)) + 1,
        sc_jobs = omap_put k (advance JobState.kStopping r) (sc_jobs (content (jm_store m))),
        sc_leases = sc_leases (content (jm_store m))\<rparr>
    \<and> out = cancel_outcome JobCancelCode.kStopping (state_wire JobState.kStopping) []"
proof -
  let ?compose = "\<lambda>current w. (advance JobState.kStopping current, [], w)"
  obtain wr m1 where rw: "rewrite_job d k ?compose m = (wr, m1)" by fastforce
  have "sj_id r = k" using content_wf_id(2)[OF inv_wf[OF i] r(1)] .
  then show ?thesis
    using rewrite_accepted[OF d i rdy task r(1) _ _ rw, of "advance JobState.kStopping r" "[]" "jm_world m"]
      entry_accepted[OF inv_wf[OF i] rv stopping_fits[OF inv_wf[OF i] r]] c rw
    by (auto simp: cancel_active_def)
qed

lemma cancel_queued_cancels:
  assumes d: "jd_store d = store" and i: "inv (jm_store m)" and rdy: "ready (jm_store m)"
    and q: "queue_inv (jm_queue m)"
    and task: "\<And>w. fst (jd_store_task d w)" and rv: "sc_revision (content (jm_store m)) \<noteq> u64_max"
    and r: "map_of (sc_jobs (content (jm_store m))) k = Some r" "sj_state r = JobState.kQueued"
    and c: "cancel_queued d k m = (out, m')"
  shows "jco_code out = JobCancelCode.kCancelled
    \<and> content (jm_store m') = \<lparr>sc_revision = sc_revision (content (jm_store m)) + 1,
        sc_jobs = omap_put k (advance JobState.kCancelled r) (sc_jobs (content (jm_store m))),
        sc_leases = sc_leases (content (jm_store m))\<rparr>
    \<and> q_entries (jm_queue m') = filter (\<lambda>e. qe_job_id e \<noteq> k) (q_entries (jm_queue m))
    \<and> jm_supervised m' = jm_supervised m \<and> jm_signals m' = jm_signals m"
proof -
  let ?compose = "\<lambda>current w. (advance JobState.kCancelled current, [], w)"
  obtain wr m1 where rw: "rewrite_job d k ?compose m = (wr, m1)" by fastforce
  have k: "sj_id r = k" using content_wf_id(2)[OF inv_wf[OF i] r(1)] .
  have e: "swr_ok wr \<and> wrote m m1
    \<and> content (jm_store m1) = \<lparr>sc_revision = sc_revision (content (jm_store m)) + 1,
        sc_jobs = omap_put k (advance JobState.kCancelled r) (sc_jobs (content (jm_store m))),
        sc_leases = sc_leases (content (jm_store m))\<rparr>"
    using rewrite_accepted[OF d i rdy task r(1) _ _ rw, of "advance JobState.kCancelled r" "[]" "jm_world m"]
      cancel_accepted[OF inv_wf[OF i] r rv] k by auto
  obtain q' rem where q': "queue_remove (jm_queue m) k = (q', rem)" by fastforce
  have "q_entries q' = filter (\<lambda>e. qe_job_id e \<noteq> k) (q_entries (jm_queue m))"
    using queue_remove_ok[OF q, of k] queue_remove_ok_iff[OF q, of k] jq.remove_rejected[of "jm_queue m" k] q'
    by (cases "qr_ok rem") (auto simp: entry_ids_def intro!: filter_True[symmetric])
  then show ?thesis
    using c rw e q' by (auto simp: cancel_queued_def cancel_outcome_def wrote_def split: prod.splits)
qed

end

section \<open>Properties\<close>





end
