(* ===== verification/Ipc_Service.thy ===== *)
theory Ipc_Service
  imports Job_Manager
begin

text \<open>
  The request service of the daemon (\<^verbatim>\<open>src/include/yori/ipc/ipc_service.hpp\<close>,
  \<^verbatim>\<open>src/src/ipc/ipc_service.cpp\<close>): one handler per request, authorisation by the credentials of the
  peer, and the views of jobs, queue and devices with their masking.

  The state store, the GPU and schedule views, the reader of log tails, the clock and the writer of the
  jobs (\<open>JobControl\<close>) are interfaces that the service is given; they are a record of operations on a
  state \<open>'c\<close> that only \<open>submit_job\<close> and \<open>cancel_job\<close> may change. The file reader of log tails is I/O and
  not modelled.
\<close>

section \<open>Configuration and interfaces\<close>

record PeerCredentials =
  pc_uid :: u32
  pc_gid :: u32
  pc_pid :: u32

record IpcServiceConfig =
  isc_admin_gids :: "u32 list"
  isc_admin_uids :: "u32 list"
  isc_max_listed_jobs :: u32
  isc_max_log_tail_bytes :: u32
  isc_sensitive_env_patterns :: "string list"

definition IpcServiceConfig_init :: IpcServiceConfig where
  "IpcServiceConfig_init =
     \<lparr>isc_admin_gids = [], isc_admin_uids = [], isc_max_listed_jobs = of_nat kMaxListItems,
      isc_max_log_tail_bytes = of_nat kMaxLogTailBytes,
      isc_sensitive_env_patterns = [''TOKEN'', ''KEY'', ''SECRET'', ''PASSWORD'']\<rparr>"

definition ipc_service_config_valid :: "IpcServiceConfig \<Rightarrow> bool" where
  "ipc_service_config_valid c \<longleftrightarrow>
     \<not> (isc_max_listed_jobs c = 0 \<or> unat (isc_max_listed_jobs c) > kMaxListItems
        \<or> isc_max_log_tail_bytes c = 0 \<or> unat (isc_max_log_tail_bytes c) > kMaxLogTailBytes)
   \<and> \<not> length (isc_sensitive_env_patterns c) > 64
   \<and> list_all (\<lambda>p. \<not> (p = [] \<or> length p > 64 \<or> contains_nul p)) (isc_sensitive_env_patterns c)"

record LogTailResult =
  ltr_ok :: bool
  ltr_truncated :: bool
  ltr_tail :: bytes

record 'c IpcService =
  svc_config :: IpcServiceConfig
  svc_load :: "'c \<Rightarrow> StateStoreLoadResult"
  svc_gpu_snapshot :: "'c \<Rightarrow> GpuObservationSnapshot option"
  svc_evaluation :: "'c \<Rightarrow> ScheduleEvaluation option"
  svc_read_tail :: "'c \<Rightarrow> string \<Rightarrow> u32 \<Rightarrow> LogTailResult"
  svc_now :: "'c \<Rightarrow> time_point"
  svc_submit_job :: "JobSpec \<Rightarrow> 'c \<Rightarrow> JobSubmitOutcome \<times> 'c"
  svc_cancel_job :: "u64 \<Rightarrow> 'c \<Rightarrow> JobCancelOutcome \<times> 'c"

section \<open>Helpers\<close>

fun gpu_observed_wire :: "GpuObservedState \<Rightarrow> u8" where
  "gpu_observed_wire GpuObservedState.kFree = 0"
| "gpu_observed_wire GpuObservedState.kExternalBusy = 1"
| "gpu_observed_wire GpuObservedState.kUnavailable = 2"

fun gpu_logical_wire :: "GpuLogicalState \<Rightarrow> u8" where
  "gpu_logical_wire GpuLogicalState.kFree = 0"
| "gpu_logical_wire GpuLogicalState.kAllocated = 1"
| "gpu_logical_wire GpuLogicalState.kExternalBusy = 2"
| "gpu_logical_wire GpuLogicalState.kUnavailable = 3"

fun wait_reason_wire :: "WaitReason \<Rightarrow> u8" where
  "wait_reason_wire WaitReason.kNone = 0"
| "wait_reason_wire WaitReason.kNoFreeGpu = 1"
| "wait_reason_wire WaitReason.kAffinityGpuAllocated = 2"
| "wait_reason_wire WaitReason.kAffinityGpuExternal = 3"
| "wait_reason_wire WaitReason.kAffinityGpuState = 4"

fun env_source_wire :: "EnvSource \<Rightarrow> u8" where
  "env_source_wire EnvSource.kNone = 0"
| "env_source_wire EnvSource.kConda = 1"
| "env_source_wire EnvSource.kVenv = 2"

text \<open>The enumerator with a given value, for a value the decoder has range checked.\<close>

definition env_source_of :: "u8 \<Rightarrow> EnvSource" where
  "env_source_of c = (if c = 1 then EnvSource.kConda else if c = 2 then EnvSource.kVenv else EnvSource.kNone)"

fun placement_mode_wire :: "GpuPlacementMode \<Rightarrow> u8" where
  "placement_mode_wire GpuPlacementMode.kAny = 0"
| "placement_mode_wire GpuPlacementMode.kRequired = 1"
| "placement_mode_wire GpuPlacementMode.kPreferred = 2"

text \<open>The system clock counts nanoseconds.\<close>

definition unix_ns :: "time_point \<Rightarrow> u64" where
  "unix_ns t = of_int t"

definition to_lower_char :: "char \<Rightarrow> char" where
  "to_lower_char c =
     (if 65 \<le> (of_char c :: nat) \<and> (of_char c :: nat) \<le> 90 then char_of ((of_char c :: nat) + 32) else c)"

definition to_lower_ascii :: "string \<Rightarrow> string" where
  "to_lower_ascii s = map to_lower_char s"

fun starts_with :: "string \<Rightarrow> string \<Rightarrow> bool" where
  "starts_with [] s = True"
| "starts_with (c # cs) [] = False"
| "starts_with (c # cs) (x # xs) = (c = x \<and> starts_with cs xs)"

fun has_substring :: "string \<Rightarrow> string \<Rightarrow> bool" where
  "has_substring p [] = starts_with p []"
| "has_substring p (x # xs) = (starts_with p (x # xs) \<or> has_substring p xs)"

text \<open>\<open>Inl\<close> is the reason of the rejection. A string of digits is read up to its end.\<close>

definition resolve_gpu_spec :: "string \<Rightarrow> GpuObservationSnapshot \<Rightarrow> string + GpuUuid" where
  "resolve_gpu_spec gpu_spec snapshot =
     (if gpu_spec = [] then Inl ''GPU_SPEC_EMPTY''
      else if list_all is_digit gpu_spec then
        (case strtoull gpu_spec of
           None \<Rightarrow> Inl (''GPU_INDEX_NOT_FOUND: '' @ gpu_spec)
         | Some (index, erange) \<Rightarrow>
             if erange \<or> index > 0xFFFFFFFF then Inl (''GPU_INDEX_NOT_FOUND: '' @ gpu_spec)
             else (case find (\<lambda>device. go_index device = ucast index) (gs_devices snapshot) of
                     None \<Rightarrow> Inl (''GPU_INDEX_NOT_FOUND: '' @ gpu_spec)
                   | Some device \<Rightarrow> Inr (go_uuid device)))
      else if \<not> uuid_valid gpu_spec then Inl ''GPU_UUID_INVALID''
      else if list_ex (\<lambda>device. go_uuid device = gpu_spec) (gs_devices snapshot) then Inr gpu_spec
      else Inl (''GPU_UUID_NOT_FOUND: '' @ gpu_spec))"

fun resolve_entries ::
  "string \<Rightarrow> GpuObservationSnapshot \<Rightarrow> string list \<Rightarrow> nat \<Rightarrow> GpuUuid list \<Rightarrow> string + GpuUuid list" where
  "resolve_entries gpu_spec snapshot [] n out =
     (if out = [] then Inl (''GPU_SPEC_INVALID: '' @ gpu_spec) else Inr out)"
| "resolve_entries gpu_spec snapshot (entry # rest) n out =
     (if n + 1 > kMaxPlacementDevices then Inl (''GPU_SPEC_INVALID: '' @ gpu_spec)
      else case resolve_gpu_spec entry snapshot of
        Inl failure \<Rightarrow> Inl failure
      | Inr device \<Rightarrow>
          resolve_entries gpu_spec snapshot rest (n + 1)
            (if device \<in> set out then out else out @ [device]))"

definition resolve_gpu_spec_list :: "string \<Rightarrow> GpuObservationSnapshot \<Rightarrow> string + GpuUuid list" where
  "resolve_gpu_spec_list gpu_spec snapshot = resolve_entries gpu_spec snapshot (split_commas gpu_spec) 0 []"

section \<open>The service\<close>

definition is_admin :: "IpcServiceConfig \<Rightarrow> PeerCredentials \<Rightarrow> bool" where
  "is_admin config peer \<longleftrightarrow>
     list_ex (\<lambda>gid. pc_gid peer = gid) (isc_admin_gids config)
   \<or> list_ex (\<lambda>uid. pc_uid peer = uid) (isc_admin_uids config)"

definition is_sensitive_env_name :: "IpcServiceConfig \<Rightarrow> string \<Rightarrow> bool" where
  "is_sensitive_env_name config name \<longleftrightarrow>
     list_ex (\<lambda>pattern. has_substring (to_lower_ascii pattern) (to_lower_ascii name))
       (isc_sensitive_env_patterns config)"

definition error_response :: "IpcRequestKind \<Rightarrow> IpcError \<Rightarrow> string \<Rightarrow> IpcResponse" where
  "error_response kind error detail =
     IpcResponse_init\<lparr>irs_kind := kind, irs_error := error, irs_detail := detail\<rparr>"

definition may_see :: "IpcServiceConfig \<Rightarrow> PeerCredentials \<Rightarrow> StoredJob \<Rightarrow> bool" where
  "may_see config peer record \<longleftrightarrow> js_owner_uid (sj_spec record) = pc_uid peer \<or> is_admin config peer"

text \<open>The steps every handler of one job starts with: load, find, authorise. \<open>Inl\<close> is the reply.\<close>

definition authorised_job ::
  "'c IpcService \<Rightarrow> IpcRequestKind \<Rightarrow> PeerCredentials \<Rightarrow> u64 \<Rightarrow> 'c
     \<Rightarrow> IpcResponse + (StateSnapshot \<times> StoredJob)" where
  "authorised_job service kind peer job_id c =
     (let load = svc_load service c in
      if \<not> slr_ok load then Inl (error_response kind IpcError.kStoreFailed (StateStoreErrorCode_to_string (slr_code load)))
      else case find_stored (slr_snapshot load) job_id of
        None \<Rightarrow> Inl (error_response kind IpcError.kNotFound ''job not found'')
      | Some record \<Rightarrow>
          if \<not> may_see (svc_config service) peer record
          then Inl ((error_response kind IpcError.kDenied ''not job owner or admin'')
                 \<lparr>irs_state := (if kind = IpcRequestKind.kCancel then state_wire (sj_state record) else 0)\<rparr>)
          else Inr (slr_snapshot load, record))"

definition submitted_spec :: "PeerCredentials \<Rightarrow> IpcSubmitRequest \<Rightarrow> GpuPlacement \<Rightarrow> time_point \<Rightarrow> JobSpec" where
  "submitted_spec peer request placement now =
     \<lparr>js_owner_uid = pc_uid peer, js_owner_gid = pc_gid peer, js_argv = isr_argv request,
      js_cwd = isr_cwd request, js_env = isr_env request, js_executable = isr_executable request,
      js_env_metadata = map_option (\<lambda>m. \<lparr>em_source = env_source_of (iem_source m),
          em_python_version = iem_python_version m\<rparr>) (isr_env_metadata request),
      js_gpu_request = isr_gpu_request request, js_gpu_placement = placement,
      js_launch_profile = isr_launch_profile request,
      js_tensorboard_logdir = isr_tensorboard_logdir request, js_submit_time = now\<rparr>"

definition resolve_placement ::
  "'c IpcService \<Rightarrow> IpcSubmitRequest \<Rightarrow> 'c \<Rightarrow> (IpcError \<times> string) + GpuPlacement" where
  "resolve_placement service request c =
     (case (isr_gpu_spec request, isr_gpu_preferred_spec request) of
        (None, None) \<Rightarrow> Inr \<lparr>gp_mode = GpuPlacementMode.kAny, gp_devices = []\<rparr>
      | (Some _, Some _) \<Rightarrow>
          Inl (IpcError.kInvalidSpec, ''gpu_spec and gpu_preferred_spec are mutually exclusive'')
      | (spec, preferred) \<Rightarrow>
          if isr_gpu_request request \<noteq> 1
            then Inl (IpcError.kInvalidSpec,
                      JobSpecErrorCode_to_string JobSpecErrorCode.kPlacementGpuRequestConflict)
          else case svc_gpu_snapshot service c of
            None \<Rightarrow> Inl (IpcError.kNotAvailable, ''no gpu observation available for placement resolution'')
          | Some snapshot \<Rightarrow>
              (case preferred of
                 Some text \<Rightarrow>
                   (case resolve_gpu_spec text snapshot of
                      Inl failure \<Rightarrow> Inl (IpcError.kInvalidSpec, failure)
                    | Inr target \<Rightarrow> Inr \<lparr>gp_mode = GpuPlacementMode.kPreferred, gp_devices = [target]\<rparr>)
               | None \<Rightarrow>
                   (case resolve_gpu_spec_list (the spec) snapshot of
                      Inl failure \<Rightarrow> Inl (IpcError.kInvalidSpec, failure)
                    | Inr devices \<Rightarrow> Inr \<lparr>gp_mode = GpuPlacementMode.kRequired, gp_devices = devices\<rparr>)))"

definition submit_response :: "JobSubmitOutcome \<Rightarrow> IpcResponse" where
  "submit_response outcome =
     (case jso_code outcome of
        kSubmitted \<Rightarrow> IpcResponse_init\<lparr>irs_kind := IpcRequestKind.kSubmit, irs_job_id := jso_job_id outcome\<rparr>
      | JobSubmitCode.kStoreFailed \<Rightarrow>
          error_response IpcRequestKind.kSubmit IpcError.kStoreFailed (jso_detail outcome)
      | JobSubmitCode.kQueueRejected \<Rightarrow>
          error_response IpcRequestKind.kSubmit IpcError.kQueueRejected (jso_detail outcome)
      | JobSubmitCode.kUnavailable \<Rightarrow>
          error_response IpcRequestKind.kSubmit IpcError.kNotAvailable (jso_detail outcome))"

definition handle_submit ::
  "'c IpcService \<Rightarrow> PeerCredentials \<Rightarrow> IpcSubmitRequest \<Rightarrow> 'c \<Rightarrow> IpcResponse \<times> 'c" where
  "handle_submit service peer request c =
     (case resolve_placement service request c of
        Inl (error, detail) \<Rightarrow> (error_response IpcRequestKind.kSubmit error detail, c)
      | Inr placement \<Rightarrow>
          (let spec = submitted_spec peer request placement (svc_now service c);
               validation = job_validate spec in
           if \<not> jsv_ok validation then
             (if jsv_code validation = JobSpecErrorCode.kRootOwnerNotAllowed
              then error_response IpcRequestKind.kSubmit IpcError.kDenied ''root cannot submit jobs''
              else error_response IpcRequestKind.kSubmit IpcError.kInvalidSpec
                     (JobSpecErrorCode_to_string (jsv_code validation)), c)
           else (case svc_submit_job service spec c of
                   (outcome, c1) \<Rightarrow> (submit_response outcome, c1))))"

section \<open>Lists\<close>

definition wait_of ::
  "ScheduleEvaluation option \<Rightarrow> bool \<Rightarrow> JobId \<Rightarrow> u8 \<times> string option" where
  "wait_of evaluation details i =
     (case evaluation of
        None \<Rightarrow> (0, None)
      | Some e \<Rightarrow>
          (case find (\<lambda>skip. sk_job skip = i) (sv_skipped e) of
             None \<Rightarrow> (0, None)
           | Some skip \<Rightarrow>
               (wait_reason_wire (sk_reason skip), if details then sk_target skip else None)))"

definition truncation_detail :: "u32 \<Rightarrow> string" where
  "truncation_detail limit = ''listing truncated to '' @ std_to_string (unat limit) @ '' jobs''"

definition summary_of ::
  "IpcServiceConfig \<Rightarrow> PeerCredentials \<Rightarrow> ScheduleEvaluation option \<Rightarrow> StoredJob \<Rightarrow> IpcJobSummary" where
  "summary_of config peer evaluation record =
     (let masked = (js_owner_uid (sj_spec record) \<noteq> pc_uid peer \<and> \<not> is_admin config peer);
          wait = (if sj_state record = JobState.kQueued
                  then wait_of evaluation (\<not> masked) (sj_id record) else (0, None)) in
      \<lparr>ijs_job_id = sj_id record, ijs_state = state_wire (sj_state record),
       ijs_owner_uid = js_owner_uid (sj_spec record), ijs_revision = sj_revision record,
       ijs_masked = masked,
       ijs_argv = (if masked then [] else js_argv (sj_spec record)),
       ijs_cwd = (if masked then [] else js_cwd (sj_spec record)),
       ijs_tensorboard_logdir = (if masked then None else js_tensorboard_logdir (sj_spec record)),
       ijs_exit = map_option exit_wire (er_exit (sj_execution record)),
       ijs_wait_reason = fst wait, ijs_wait_detail = snd wait\<rparr>)"

definition handle_ps :: "'c IpcService \<Rightarrow> PeerCredentials \<Rightarrow> 'c \<Rightarrow> IpcResponse" where
  "handle_ps service peer c =
     (let load = svc_load service c; config = svc_config service; limit = isc_max_listed_jobs config in
      if \<not> slr_ok load
        then error_response IpcRequestKind.kPs IpcError.kStoreFailed (StateStoreErrorCode_to_string (slr_code load))
      else
        (let jobs = ss_jobs (slr_snapshot load); truncate = length jobs > unat limit in
         IpcResponse_init\<lparr>irs_kind := IpcRequestKind.kPs,
           irs_error := (if truncate then IpcError.kLimit else IpcError.kNone),
           irs_detail := (if truncate then truncation_detail limit else []),
           irs_jobs := map (summary_of config peer (svc_evaluation service c)) (take (unat limit) jobs)\<rparr>))"

definition queue_entry_of ::
  "IpcServiceConfig \<Rightarrow> PeerCredentials \<Rightarrow> ScheduleEvaluation option \<Rightarrow> StoredJob \<Rightarrow> IpcQueueEntry" where
  "queue_entry_of config peer evaluation record =
     (let wait = wait_of evaluation (is_admin config peer \<or> js_owner_uid (sj_spec record) = pc_uid peer)
                   (sj_id record) in
      \<lparr>iqe_job_id = sj_id record, iqe_owner_uid = js_owner_uid (sj_spec record),
       iqe_submit_time_unix_ns = unix_ns (js_submit_time (sj_spec record)),
       iqe_state = state_wire (sj_state record),
       iqe_wait_reason = fst wait, iqe_wait_detail = snd wait\<rparr>)"

text \<open>\<open>std::sort\<close> by submit time and id, which are distinct keys.\<close>

definition queue_view :: "StateSnapshot \<Rightarrow> StoredJob list" where
  "queue_view snapshot =
     sort_key (\<lambda>record. (js_submit_time (sj_spec record), sj_id record))
       (filter (\<lambda>record. sj_state record = JobState.kQueued) (ss_jobs snapshot))"

definition handle_queue :: "'c IpcService \<Rightarrow> PeerCredentials \<Rightarrow> 'c \<Rightarrow> IpcResponse" where
  "handle_queue service peer c =
     (let load = svc_load service c; config = svc_config service; limit = isc_max_listed_jobs config in
      if \<not> slr_ok load
        then error_response IpcRequestKind.kQueue IpcError.kStoreFailed (StateStoreErrorCode_to_string (slr_code load))
      else
        (let queued = queue_view (slr_snapshot load); truncate = length queued > unat limit in
         IpcResponse_init\<lparr>irs_kind := IpcRequestKind.kQueue,
           irs_error := (if truncate then IpcError.kLimit else IpcError.kNone),
           irs_detail := (if truncate then truncation_detail limit else []),
           irs_queue := map (queue_entry_of config peer (svc_evaluation service c)) (take (unat limit) queued)\<rparr>))"

definition device_of :: "StateSnapshot \<Rightarrow> GpuObservation \<Rightarrow> IpcGpuDevice" where
  "device_of snapshot observation =
     (let leased_by = map_option gl_job_id
            (find (\<lambda>lease. gl_gpu_uuid lease = go_uuid observation) (ss_leases snapshot)) in
      \<lparr>igd_uuid = go_uuid observation, igd_index = go_index observation,
       igd_observed_state = gpu_observed_wire (go_state observation),
       igd_logical_state =
         gpu_logical_wire (derive_logical_state (go_state observation) (leased_by \<noteq> None)),
       igd_utilization_percent = gt_utilization_percent (go_telemetry observation),
       igd_memory_used_bytes = gt_memory_used_bytes (go_telemetry observation),
       igd_memory_total_bytes = gt_memory_total_bytes (go_telemetry observation),
       igd_leased_by_job = leased_by\<rparr>)"

definition handle_gpu :: "'c IpcService \<Rightarrow> 'c \<Rightarrow> IpcResponse" where
  "handle_gpu service c =
     (case svc_gpu_snapshot service c of
        None \<Rightarrow> error_response IpcRequestKind.kGpu IpcError.kNotAvailable ''no gpu observation available''
      | Some snapshot \<Rightarrow>
          (let load = svc_load service c in
           if \<not> slr_ok load
             then error_response IpcRequestKind.kGpu IpcError.kStoreFailed
                    (StateStoreErrorCode_to_string (slr_code load))
           else IpcResponse_init\<lparr>irs_kind := IpcRequestKind.kGpu, irs_gpu_revision := gs_revision snapshot,
                  irs_devices := map (device_of (slr_snapshot load)) (gs_devices snapshot)\<rparr>))"

section \<open>One job\<close>

definition cancel_response :: "JobCancelOutcome \<Rightarrow> IpcResponse" where
  "cancel_response outcome =
     (let err = error_response IpcRequestKind.kCancel in
      case jco_code outcome of
        JobCancelCode.kCancelled \<Rightarrow>
          IpcResponse_init\<lparr>irs_kind := IpcRequestKind.kCancel, irs_state := jco_state outcome\<rparr>
      | JobCancelCode.kStopping \<Rightarrow>
          IpcResponse_init\<lparr>irs_kind := IpcRequestKind.kCancel, irs_state := jco_state outcome\<rparr>
      | JobCancelCode.kNotFound \<Rightarrow> err IpcError.kNotFound ''job not found''
      | JobCancelCode.kInvalidState \<Rightarrow>
          (err IpcError.kInvalidState (jco_detail outcome))\<lparr>irs_state := jco_state outcome\<rparr>
      | JobCancelCode.kStoreFailed \<Rightarrow> err IpcError.kStoreFailed (jco_detail outcome)
      | JobCancelCode.kUnavailable \<Rightarrow> err IpcError.kNotAvailable (jco_detail outcome))"

definition handle_cancel ::
  "'c IpcService \<Rightarrow> PeerCredentials \<Rightarrow> u64 \<Rightarrow> 'c \<Rightarrow> IpcResponse \<times> 'c" where
  "handle_cancel service peer job_id c =
     (case authorised_job service IpcRequestKind.kCancel peer job_id c of
        Inl response \<Rightarrow> (response, c)
      | Inr (snapshot, record) \<Rightarrow>
          if sj_state record = JobState.kCancelled then
            (IpcResponse_init\<lparr>irs_kind := IpcRequestKind.kCancel,
               irs_state := state_wire JobState.kCancelled\<rparr>, c)
          else if is_terminal (sj_state record) then
            ((error_response IpcRequestKind.kCancel IpcError.kInvalidState
                (JobState_to_string (sj_state record)))\<lparr>irs_state := state_wire (sj_state record)\<rparr>, c)
          else (case svc_cancel_job service job_id c of (outcome, c1) \<Rightarrow> (cancel_response outcome, c1)))"

definition handle_logs :: "'c IpcService \<Rightarrow> PeerCredentials \<Rightarrow> IpcLogsRequest \<Rightarrow> 'c \<Rightarrow> IpcResponse" where
  "handle_logs service peer request c =
     (case authorised_job service IpcRequestKind.kLogs peer (ilr_job_id request) c of
        Inl response \<Rightarrow> response
      | Inr (snapshot, record) \<Rightarrow>
          (case er_log_path (sj_execution record) of
             None \<Rightarrow> error_response IpcRequestKind.kLogs IpcError.kInvalidState
                      ''job has not started; no logs yet''
           | Some directory \<Rightarrow>
               (let max_bytes = min (ilr_max_bytes request) (isc_max_log_tail_bytes (svc_config service));
                    out = svc_read_tail service c
                            (directory @ ''/'' @ log_file_name LogStreamKind.kStdout) max_bytes;
                    err = svc_read_tail service c
                            (directory @ ''/'' @ log_file_name LogStreamKind.kStderr) max_bytes in
                if \<not> ltr_ok out \<or> \<not> ltr_ok err
                  then error_response IpcRequestKind.kLogs IpcError.kNotAvailable
                         (''log read failed: '' @ directory)
                else IpcResponse_init\<lparr>irs_kind := IpcRequestKind.kLogs,
                       irs_logs := \<lparr>ilp_stdout_truncated = ltr_truncated out, ilp_stdout_tail = ltr_tail out,
                         ilp_stderr_truncated = ltr_truncated err, ilp_stderr_tail = ltr_tail err\<rparr>\<rparr>)))"

definition validate_logs_follow ::
  "'c IpcService \<Rightarrow> PeerCredentials \<Rightarrow> IpcLogsFollowRequest \<Rightarrow> 'c \<Rightarrow> IpcResponse" where
  "validate_logs_follow service peer request c =
     (case authorised_job service IpcRequestKind.kLogsFollow peer (ifr_job_id request) c of
        Inl response \<Rightarrow> response
      | Inr (snapshot, record) \<Rightarrow>
          if er_log_path (sj_execution record) = None
            then error_response IpcRequestKind.kLogsFollow IpcError.kInvalidState
                   ''job has not started; no logs yet''
          else IpcResponse_init\<lparr>irs_kind := IpcRequestKind.kLogsFollow,
                 irs_logs_follow := \<lparr>ifp_job_state = state_wire (sj_state record), ifp_stdout_offset = 0,
                   ifp_stderr_offset = 0\<rparr>\<rparr>)"

definition handle_tensorboard :: "'c IpcService \<Rightarrow> PeerCredentials \<Rightarrow> u64 \<Rightarrow> 'c \<Rightarrow> IpcResponse" where
  "handle_tensorboard service peer job_id c =
     (case authorised_job service IpcRequestKind.kTensorboard peer job_id c of
        Inl response \<Rightarrow> response
      | Inr (snapshot, record) \<Rightarrow>
          IpcResponse_init\<lparr>irs_kind := IpcRequestKind.kTensorboard,
            irs_tensorboard := \<lparr>itp_logdir = js_tensorboard_logdir (sj_spec record),
              itp_cwd = js_cwd (sj_spec record)\<rparr>\<rparr>)"

definition env_entry_of :: "IpcServiceConfig \<Rightarrow> string \<times> string \<Rightarrow> IpcEnvEntry" where
  "env_entry_of config e =
     (let masked = is_sensitive_env_name config (fst e) in
      \<lparr>iee_name = fst e, iee_masked = masked, iee_value = (if masked then ''***'' else snd e)\<rparr>)"

text \<open>The device list of a placement is not empty unless the mode is \<open>kAny\<close>.\<close>

definition inspect_of ::
  "'c IpcService \<Rightarrow> StateSnapshot \<Rightarrow> StoredJob \<Rightarrow> 'c \<Rightarrow> IpcInspectPayload" where
  "inspect_of service snapshot record c =
     (let spec = sj_spec record; placement = js_gpu_placement spec;
          lease = find (\<lambda>l. gl_job_id l = sj_id record) (ss_leases snapshot) in
      \<lparr>iip_job_id = sj_id record, iip_state = state_wire (sj_state record),
       iip_owner_uid = js_owner_uid spec, iip_revision = sj_revision record, iip_cwd = js_cwd spec,
       iip_executable = js_executable spec, iip_argv = js_argv spec,
       iip_env_metadata = map_option (\<lambda>m. \<lparr>iem_source = env_source_wire (em_source m),
           iem_python_version = em_python_version m\<rparr>) (js_env_metadata spec),
       iip_env = map (env_entry_of (svc_config service)) (js_env spec),
       iip_gpu_uuid = map_option gl_gpu_uuid lease,
       iip_gpu_index = (case lease of
           None \<Rightarrow> None
         | Some l \<Rightarrow> (case svc_gpu_snapshot service c of
             None \<Rightarrow> None
           | Some s \<Rightarrow> map_option go_index (find_device s (gl_gpu_uuid l)))),
       iip_gpu_placement_mode = placement_mode_wire (gp_mode placement),
       iip_gpu_placement_device =
         (if gp_mode placement = GpuPlacementMode.kAny then None else Some (hd (gp_devices placement))),
       iip_gpu_placement_devices =
         (if gp_mode placement = GpuPlacementMode.kRequired then gp_devices placement else []),
       iip_submit_time_unix_ns = unix_ns (js_submit_time spec),
       iip_exit = map_option exit_wire (er_exit (sj_execution record)),
       iip_log_path = er_log_path (sj_execution record)\<rparr>)"

definition handle_inspect :: "'c IpcService \<Rightarrow> PeerCredentials \<Rightarrow> u64 \<Rightarrow> 'c \<Rightarrow> IpcResponse" where
  "handle_inspect service peer job_id c =
     (case authorised_job service IpcRequestKind.kInspect peer job_id c of
        Inl response \<Rightarrow> response
      | Inr (snapshot, record) \<Rightarrow>
          IpcResponse_init\<lparr>irs_kind := IpcRequestKind.kInspect,
            irs_inspect := inspect_of service snapshot record c\<rparr>)"

definition handle :: "'c IpcService \<Rightarrow> PeerCredentials \<Rightarrow> IpcRequest \<Rightarrow> 'c \<Rightarrow> IpcResponse \<times> 'c" where
  "handle service peer request c =
     (case irq_kind request of
        IpcRequestKind.kSubmit \<Rightarrow> handle_submit service peer (irq_submit request) c
      | IpcRequestKind.kPs \<Rightarrow> (handle_ps service peer c, c)
      | IpcRequestKind.kQueue \<Rightarrow> (handle_queue service peer c, c)
      | IpcRequestKind.kGpu \<Rightarrow> (handle_gpu service c, c)
      | IpcRequestKind.kCancel \<Rightarrow> handle_cancel service peer (icr_job_id (irq_cancel request)) c
      | IpcRequestKind.kLogs \<Rightarrow> (handle_logs service peer (irq_logs request) c, c)
      | IpcRequestKind.kLogsFollow \<Rightarrow>
          (error_response IpcRequestKind.kLogsFollow IpcError.kUnsupported
             ''streaming follow is not enabled on this endpoint'', c)
      | IpcRequestKind.kTensorboard \<Rightarrow>
          (handle_tensorboard service peer (itr_job_id (irq_tensorboard request)) c, c)
      | IpcRequestKind.kInspect \<Rightarrow> (handle_inspect service peer (iir_job_id (irq_inspect request)) c, c))"

text \<open>The service as the daemon builds it: over the store and the job manager, which acknowledges a command
  with its outcome. The observation of the GPUs, the log files and the clock are parameters.\<close>

definition daemon_service ::
  "IpcServiceConfig \<Rightarrow> ('s, 't, 'u, 'f, 'w) JobManagerDeps
     \<Rightarrow> (('s, 't, 'f, 'w) JobManager \<Rightarrow> GpuObservationSnapshot option)
     \<Rightarrow> (('s, 't, 'f, 'w) JobManager \<Rightarrow> string \<Rightarrow> u32 \<Rightarrow> LogTailResult)
     \<Rightarrow> (('s, 't, 'f, 'w) JobManager \<Rightarrow> time_point) \<Rightarrow> ('s, 't, 'f, 'w) JobManager IpcService" where
  "daemon_service config d observed tail_of now =
     \<lparr>svc_config = config, svc_load = (\<lambda>m. st_load (jd_store d) (jm_store m)), svc_gpu_snapshot = observed,
      svc_evaluation = jm_evaluation, svc_read_tail = tail_of, svc_now = now,
      svc_submit_job = process_submit d, svc_cancel_job = process_cancel d\<rparr>"

end
