(* ===== verification/Ipc_Service_Props.thy ===== *)
theory Ipc_Service_Props
  imports Ipc_Service Ipc_Props Job_Command_Props
begin

text \<open>
  The properties of the request service: its responses are in the range of the protocol, whatever the
  request, and they do not depend on what the peer must not see.
\<close>

section \<open>Responses are in range\<close>

lemma state_wire_range [simp]: "state_wire s \<le> kUnderlyingJobStateMax"
  by (cases s) (simp_all add: kUnderlyingJobStateMax_def)

lemma gpu_wire_range [simp]:
  "gpu_observed_wire o' \<le> kUnderlyingGpuObservedStateMax" "gpu_logical_wire l \<le> kUnderlyingGpuLogicalStateMax"
  by (cases o'; simp add: kUnderlyingGpuObservedStateMax_def)
    (cases l; simp add: kUnderlyingGpuLogicalStateMax_def)

lemma error_response_sel [simp]:
  "irs_kind (error_response k e d) = k" "irs_error (error_response k e d) = e"
  "irs_state (error_response k e d) = 0" "irs_jobs (error_response k e d) = []"
  "irs_queue (error_response k e d) = []" "irs_devices (error_response k e d) = []"
  "irs_inspect (error_response k e d) = IpcInspectPayload_init"
  "ifp_job_state (irs_logs_follow (error_response k e d)) = 0"
  by (simp_all add: error_response_def IpcResponse_init_def)

lemma init_response_sel [simp]:
  "irs_state IpcResponse_init = 0" "irs_jobs IpcResponse_init = []" "irs_queue IpcResponse_init = []"
  "irs_devices IpcResponse_init = []" "irs_inspect IpcResponse_init = IpcInspectPayload_init"
  "ifp_job_state (irs_logs_follow IpcResponse_init) = 0"
  by (simp_all add: IpcResponse_init_def)

lemma zero_range [simp]: "(0 :: u8) \<le> kUnderlyingJobStateMax" "(6 :: u8) \<le> kUnderlyingJobStateMax"
  by (simp_all add: kUnderlyingJobStateMax_def)

text \<open>The range of a response in any version the server may answer in.\<close>

definition typed :: "IpcRequestKind \<Rightarrow> IpcResponse \<Rightarrow> bool" where
  "typed kind r \<longleftrightarrow> irs_kind r = kind \<and> (\<forall>v. response_range (r\<lparr>irs_version := v\<rparr>))"

lemma typed_error [simp]: "typed k (error_response k e d)"
  by (cases k) (simp_all add: typed_def response_range_def inspect_range_def IpcInspectPayload_init_def)

lemma typed_error_state [simp]:
  "s \<le> kUnderlyingJobStateMax \<Longrightarrow> typed k ((error_response k e d)\<lparr>irs_state := s\<rparr>)"
  by (cases k) (simp_all add: typed_def response_range_def inspect_range_def IpcInspectPayload_init_def)

lemma authorised_cases:
  assumes "authorised_job service kind peer k c = Inl r"
  shows "typed kind r \<and> irs_error r \<noteq> IpcError.kNone"
  using assms by (auto simp: authorised_job_def Let_def split: if_splits option.splits)

lemma authorised_job_found:
  assumes "authorised_job service kind peer k c = Inr (snapshot, record)"
  shows "slr_ok (svc_load service c) \<and> snapshot = slr_snapshot (svc_load service c)
    \<and> record \<in> set (ss_jobs snapshot) \<and> sj_id record = k \<and> may_see (svc_config service) peer record"
  using assms
  by (auto simp: authorised_job_def Let_def find_stored_def find_Some_iff split: if_splits option.splits)

lemma typed_submit: "typed IpcRequestKind.kSubmit (fst (handle_submit service peer request c))"
proof -
  have "typed IpcRequestKind.kSubmit (submit_response outcome)" for outcome
    by (cases "jso_code outcome")
      (simp_all add: submit_response_def, simp add: typed_def response_range_def)
  then show ?thesis
    by (auto simp: handle_submit_def Let_def split: sum.split prod.split)
qed

lemma typed_ps: "typed IpcRequestKind.kPs (handle_ps service peer c)"
  by (auto simp: handle_ps_def Let_def)
    (auto simp: typed_def response_range_def list_all_iff summary_of_def Let_def)

lemma typed_queue: "typed IpcRequestKind.kQueue (handle_queue service peer c)"
  by (auto simp: handle_queue_def Let_def)
    (auto simp: typed_def response_range_def list_all_iff queue_entry_of_def Let_def)

lemma device_of_range:
  assumes "telemetry_ok (go_telemetry o')"
  shows "device_range (device_of snapshot o')"
  using assms
  by (cases "gt_utilization_percent (go_telemetry o')"; cases "gt_memory_used_bytes (go_telemetry o')";
      cases "gt_memory_total_bytes (go_telemetry o')")
    (auto simp: device_range_def device_of_def Let_def telemetry_ok_def memory_pair_def)

lemma typed_gpu:
  assumes "\<And>s. svc_gpu_snapshot service c = Some s \<Longrightarrow> gov_ok (gpu_validate s)"
  shows "typed IpcRequestKind.kGpu (handle_gpu service c)"
proof (cases "svc_gpu_snapshot service c")
  case None
  then show ?thesis by (simp add: handle_gpu_def)
next
  case (Some s)
  then have "snapshot_ok s" using assms gpu_validate_iff by blast
  then have "list_all device_range (map (device_of snapshot) (gs_devices s))" for snapshot
    using device_of_range by (auto simp: snapshot_ok_def list_all_iff)
  then show ?thesis
    using Some by (auto simp: handle_gpu_def Let_def) (auto simp: typed_def response_range_def)
qed

lemma typed_cancel:
  assumes "\<And>k. jco_state (fst (svc_cancel_job service k c)) \<le> kUnderlyingJobStateMax"
  shows "typed IpcRequestKind.kCancel (fst (handle_cancel service peer k c))"
proof (cases "authorised_job service IpcRequestKind.kCancel peer k c")
  case (Inl r)
  then show ?thesis using authorised_cases[OF Inl] by (simp add: handle_cancel_def)
next
  case (Inr x)
  have "typed IpcRequestKind.kCancel (cancel_response outcome)"
    if "jco_state outcome \<le> kUnderlyingJobStateMax" for outcome
    using that by (cases "jco_code outcome")
      (simp_all add: cancel_response_def Let_def, simp_all add: typed_def response_range_def)
  moreover have "typed IpcRequestKind.kCancel (IpcResponse_init\<lparr>irs_kind := IpcRequestKind.kCancel, irs_state := 6\<rparr>)"
    by (simp add: typed_def response_range_def)
  ultimately show ?thesis
    using Inr assms[of k] by (auto simp: handle_cancel_def split: prod.splits)
qed

lemma typed_logs: "typed IpcRequestKind.kLogs (handle_logs service peer request c)"
  using authorised_cases[of service IpcRequestKind.kLogs peer "ilr_job_id request" c]
  by (auto simp: handle_logs_def Let_def split: sum.split option.split)
    (auto simp: typed_def response_range_def)

lemma typed_tensorboard: "typed IpcRequestKind.kTensorboard (handle_tensorboard service peer k c)"
  using authorised_cases[of service IpcRequestKind.kTensorboard peer k c]
  by (auto simp: handle_tensorboard_def split: sum.split) (auto simp: typed_def response_range_def)

lemma typed_inspect:
  assumes "\<And>r. slr_ok (svc_load service c) \<Longrightarrow> r \<in> set (ss_jobs (slr_snapshot (svc_load service c))) \<Longrightarrow>
    jsv_ok (job_validate (sj_spec r))"
  shows "typed IpcRequestKind.kInspect (handle_inspect service peer k c)"
proof (cases "authorised_job service IpcRequestKind.kInspect peer k c")
  case (Inl r)
  then show ?thesis using authorised_cases[OF Inl] by (simp add: handle_inspect_def)
next
  case (Inr x)
  then obtain snapshot job where x: "x = (snapshot, job)" by fastforce
  have "spec_ok (sj_spec job)"
    using authorised_job_found[OF Inr[unfolded x]] assms[of job] job_validate_iff by auto
  then have "gp_mode (js_gpu_placement (sj_spec job)) = GpuPlacementMode.kRequired \<longrightarrow>
      length (gp_devices (js_gpu_placement (sj_spec job))) < 256"
    by (auto simp: spec_ok_def kMaxPlacementDevices_def)
  then have "inspect_range v (inspect_of service snapshot job c)" for v
    by (auto simp: inspect_range_def inspect_of_def Let_def)
  then show ?thesis
    using Inr x by (simp add: handle_inspect_def typed_def response_range_def)
qed

lemma handle_typed:
  assumes "\<And>r. slr_ok (svc_load service c) \<Longrightarrow> r \<in> set (ss_jobs (slr_snapshot (svc_load service c))) \<Longrightarrow>
      jsv_ok (job_validate (sj_spec r))"
    and "\<And>s. svc_gpu_snapshot service c = Some s \<Longrightarrow> gov_ok (gpu_validate s)"
    and "\<And>k. jco_state (fst (svc_cancel_job service k c)) \<le> kUnderlyingJobStateMax"
  shows "typed (irq_kind request) (fst (handle service peer request c))"
  by (cases "irq_kind request")
    (simp_all add: handle_def typed_submit typed_ps typed_queue typed_gpu[OF assms(2)] typed_cancel[OF assms(3)]
      typed_logs typed_tensorboard typed_inspect[OF assms(1)])

section \<open>What a peer must not see\<close>

text \<open>The view of a peer. Of a job of another user, unless the peer is an administrator, the id, the
  state, the revision, the owner, the submit time and the exit status stay; of a visible job the values
  of sensitive environment variables go. The target of a skipped job stays only if the job is visible.\<close>

definition hide_env :: "IpcServiceConfig \<Rightarrow> (string, string) omap \<Rightarrow> (string, string) omap" where
  "hide_env config env = map (\<lambda>e. if is_sensitive_env_name config (fst e) then (fst e, []) else e) env"

definition redact_job :: "IpcServiceConfig \<Rightarrow> PeerCredentials \<Rightarrow> StoredJob \<Rightarrow> StoredJob" where
  "redact_job config peer r =
     (if may_see config peer r
      then r\<lparr>sj_spec := (sj_spec r)\<lparr>js_env := hide_env config (js_env (sj_spec r))\<rparr>\<rparr>
      else r\<lparr>sj_spec := \<lparr>js_owner_uid = js_owner_uid (sj_spec r), js_owner_gid = 0, js_argv = [], js_cwd = [],
             js_env = [], js_executable = None, js_env_metadata = None, js_gpu_request = 0,
             js_gpu_placement = \<lparr>gp_mode = GpuPlacementMode.kAny, gp_devices = []\<rparr>, js_launch_profile = None,
             js_tensorboard_logdir = None, js_submit_time = js_submit_time (sj_spec r)\<rparr>,
             sj_execution := blank_execution\<lparr>er_exit := er_exit (sj_execution r)\<rparr>\<rparr>)"

definition redact_load :: "IpcServiceConfig \<Rightarrow> PeerCredentials \<Rightarrow> StateStoreLoadResult \<Rightarrow> StateStoreLoadResult" where
  "redact_load config peer l =
     l\<lparr>slr_snapshot := (slr_snapshot l)\<lparr>ss_jobs := map (redact_job config peer) (ss_jobs (slr_snapshot l))\<rparr>\<rparr>"

definition redact_evaluation ::
  "IpcServiceConfig \<Rightarrow> PeerCredentials \<Rightarrow> StoredJob list \<Rightarrow> ScheduleEvaluation \<Rightarrow> ScheduleEvaluation" where
  "redact_evaluation config peer jobs e =
     e\<lparr>sv_skipped := map (\<lambda>skip. if \<exists>r \<in> set jobs. sj_id r = sk_job skip \<and> may_see config peer r then skip
         else skip\<lparr>sk_target := None\<rparr>) (sv_skipped e)\<rparr>"

definition redacted :: "PeerCredentials \<Rightarrow> 'c IpcService \<Rightarrow> 'c IpcService" where
  "redacted peer service =
     service\<lparr>svc_load := \<lambda>c. redact_load (svc_config service) peer (svc_load service c),
       svc_evaluation := \<lambda>c. map_option (redact_evaluation (svc_config service) peer
         (ss_jobs (slr_snapshot (svc_load service c)))) (svc_evaluation service c)\<rparr>"

lemma redacted_sel [simp]:
  "svc_config (redacted peer service) = svc_config service"
  "svc_gpu_snapshot (redacted peer service) = svc_gpu_snapshot service"
  "svc_read_tail (redacted peer service) = svc_read_tail service"
  "svc_now (redacted peer service) = svc_now service"
  "svc_submit_job (redacted peer service) = svc_submit_job service"
  "svc_cancel_job (redacted peer service) = svc_cancel_job service"
  "slr_ok (svc_load (redacted peer service) c) = slr_ok (svc_load service c)"
  "slr_code (svc_load (redacted peer service) c) = slr_code (svc_load service c)"
  "ss_leases (slr_snapshot (svc_load (redacted peer service) c)) = ss_leases (slr_snapshot (svc_load service c))"
  "ss_jobs (slr_snapshot (svc_load (redacted peer service) c))
     = map (redact_job (svc_config service) peer) (ss_jobs (slr_snapshot (svc_load service c)))"
  by (simp_all add: redacted_def redact_load_def slr_ok_def)

lemma redact_job_sel [simp]:
  "sj_id (redact_job config peer r) = sj_id r" "sj_state (redact_job config peer r) = sj_state r"
  "sj_revision (redact_job config peer r) = sj_revision r"
  "js_owner_uid (sj_spec (redact_job config peer r)) = js_owner_uid (sj_spec r)"
  "js_submit_time (sj_spec (redact_job config peer r)) = js_submit_time (sj_spec r)"
  "er_exit (sj_execution (redact_job config peer r)) = er_exit (sj_execution r)"
  by (simp_all add: redact_job_def)

lemma may_see_redact [simp]: "may_see config peer (redact_job config peer r) = may_see config peer r"
  by (simp add: may_see_def)

lemma find_map: "find P (map f xs) = map_option f (find (P \<circ> f) xs)"
  by (induction xs) auto

lemma find_stored_redact:
  "find_stored (slr_snapshot (svc_load (redacted peer service) c)) k
     = map_option (redact_job (svc_config service) peer) (find_stored (slr_snapshot (svc_load service c)) k)"
  by (simp add: find_stored_def find_map comp_def)

text \<open>Authorisation is the same; an authorised job is visible.\<close>

lemma authorised_redact:
  "authorised_job (redacted peer service) kind peer k c =
     map_sum id (\<lambda>(s, r). (slr_snapshot (svc_load (redacted peer service) c), redact_job (svc_config service) peer r))
       (authorised_job service kind peer k c)"
  by (simp add: authorised_job_def Let_def find_stored_redact split: option.split)

lemma redact_visible:
  assumes "may_see config peer r"
  shows "redact_job config peer r = r\<lparr>sj_spec := (sj_spec r)\<lparr>js_env := hide_env config (js_env (sj_spec r))\<rparr>\<rparr>"
  using assms by (simp add: redact_job_def)

lemma env_entries_hidden: "map (env_entry_of config) (hide_env config env) = map (env_entry_of config) env"
  by (auto simp: hide_env_def env_entry_of_def Let_def)

lemma wait_of_redact:
  assumes "r \<in> set jobs" "visible \<longleftrightarrow> may_see config peer r"
  shows "wait_of (map_option (redact_evaluation config peer jobs) e) visible (sj_id r) = wait_of e visible (sj_id r)"
proof (cases e)
  case (Some ev)
  let ?f = "\<lambda>skip. if \<exists>r \<in> set jobs. sj_id r = sk_job skip \<and> may_see config peer r then skip
      else skip\<lparr>sk_target := None\<rparr>"
  have "find (\<lambda>skip. sk_job skip = sj_id r) (map ?f (sv_skipped ev))
      = map_option ?f (find (\<lambda>skip. sk_job skip = sj_id r) (sv_skipped ev))"
    unfolding find_map by (rule arg_cong2[of _ _ _ _ map_option]) (auto simp: comp_def intro!: arg_cong2[of _ _ _ _ find])
  note hidden = this
  show ?thesis
  proof (cases "find (\<lambda>skip. sk_job skip = sj_id r) (sv_skipped ev)")
    case None
    then show ?thesis
      using Some hidden by (simp add: wait_of_def redact_evaluation_def)
  next
    case (Some skip)
    then have "sk_job skip = sj_id r"
      by (auto simp: find_Some_iff)
    then show ?thesis
      using \<open>e = Some ev\<close> Some hidden assms by (auto simp: wait_of_def redact_evaluation_def)
  qed
qed (simp add: wait_of_def)

lemma insort_key_map: "insort_key f (g x) (map g xs) = map g (insort_key (f \<circ> g) x xs)"
  by (induction xs) auto

lemma sort_key_map: "sort_key f (map g xs) = map g (sort_key (f \<circ> g) xs)"
  by (induction xs) (simp_all add: insort_key_map comp_def)

lemma queue_view_redact:
  "queue_view (slr_snapshot (svc_load (redacted peer service) c))
     = map (redact_job (svc_config service) peer) (queue_view (slr_snapshot (svc_load service c)))"
  by (simp add: queue_view_def filter_map sort_key_map comp_def)

lemma evaluation_redacted:
  "svc_evaluation (redacted peer service) c = map_option (redact_evaluation (svc_config service) peer
     (ss_jobs (slr_snapshot (svc_load service c)))) (svc_evaluation service c)"
  by (simp add: redacted_def)

lemma summary_redact:
  assumes "r \<in> set (ss_jobs (slr_snapshot (svc_load service c)))"
  shows "summary_of (svc_config service) peer (svc_evaluation (redacted peer service) c)
      (redact_job (svc_config service) peer r)
    = summary_of (svc_config service) peer (svc_evaluation service c) r"
proof -
  have "wait_of (svc_evaluation (redacted peer service) c) (may_see (svc_config service) peer r) (sj_id r)
      = wait_of (svc_evaluation service c) (may_see (svc_config service) peer r) (sj_id r)"
    unfolding evaluation_redacted by (rule wait_of_redact[OF assms]) simp
  moreover have "(js_owner_uid (sj_spec r) \<noteq> pc_uid peer \<and> \<not> is_admin (svc_config service) peer)
      = (\<not> may_see (svc_config service) peer r)"
    by (auto simp: may_see_def)
  ultimately show ?thesis
    by (cases "may_see (svc_config service) peer r") (auto simp: summary_of_def Let_def redact_job_def)
qed

lemma queue_entry_redact:
  assumes "r \<in> set (ss_jobs (slr_snapshot (svc_load service c)))"
  shows "queue_entry_of (svc_config service) peer (svc_evaluation (redacted peer service) c)
      (redact_job (svc_config service) peer r)
    = queue_entry_of (svc_config service) peer (svc_evaluation service c) r"
proof -
  have "wait_of (svc_evaluation (redacted peer service) c)
        (is_admin (svc_config service) peer \<or> js_owner_uid (sj_spec r) = pc_uid peer) (sj_id r)
      = wait_of (svc_evaluation service c)
        (is_admin (svc_config service) peer \<or> js_owner_uid (sj_spec r) = pc_uid peer) (sj_id r)"
    unfolding evaluation_redacted by (rule wait_of_redact[OF assms]) (auto simp: may_see_def)
  then show ?thesis by (simp add: queue_entry_of_def Let_def)
qed

lemma ps_redact: "handle_ps (redacted peer service) peer c = handle_ps service peer c"
proof -
  have "map (summary_of (svc_config service) peer (svc_evaluation (redacted peer service) c))
        (map (redact_job (svc_config service) peer) (take n (ss_jobs (slr_snapshot (svc_load service c)))))
      = map (summary_of (svc_config service) peer (svc_evaluation service c))
        (take n (ss_jobs (slr_snapshot (svc_load service c))))" for n
    by (auto simp: summary_redact dest!: in_set_takeD)
  then show ?thesis by (simp add: handle_ps_def Let_def take_map)
qed

lemma queue_redact: "handle_queue (redacted peer service) peer c = handle_queue service peer c"
proof -
  have "map (queue_entry_of (svc_config service) peer (svc_evaluation (redacted peer service) c))
        (map (redact_job (svc_config service) peer) (take n (queue_view (slr_snapshot (svc_load service c)))))
      = map (queue_entry_of (svc_config service) peer (svc_evaluation service c))
        (take n (queue_view (slr_snapshot (svc_load service c))))" for n
    by (auto simp: queue_entry_redact queue_view_def dest!: in_set_takeD)
  then show ?thesis by (simp add: handle_queue_def Let_def queue_view_redact take_map)
qed

lemma device_of_redact:
  "device_of (slr_snapshot (svc_load (redacted peer service) c)) = device_of (slr_snapshot (svc_load service c))"
  by (simp add: device_of_def fun_eq_iff)

lemma gpu_redact: "handle_gpu (redacted peer service) c = handle_gpu service c"
  by (simp add: handle_gpu_def Let_def device_of_redact split: option.split)

lemma visible_sel:
  assumes "may_see config peer r"
  shows "sj_execution (redact_job config peer r) = sj_execution r"
    "js_tensorboard_logdir (sj_spec (redact_job config peer r)) = js_tensorboard_logdir (sj_spec r)"
    "js_cwd (sj_spec (redact_job config peer r)) = js_cwd (sj_spec r)"
  using assms by (simp_all add: redact_job_def)

lemma inspect_redact:
  assumes "may_see (svc_config service) peer r"
  shows "inspect_of (redacted peer service) (slr_snapshot (svc_load (redacted peer service) c))
      (redact_job (svc_config service) peer r) c
    = inspect_of service (slr_snapshot (svc_load service c)) r c"
  using assms by (simp add: inspect_of_def Let_def redact_visible env_entries_hidden split: option.split)

lemma one_job_redact:
  "handle_cancel (redacted peer service) peer k c = handle_cancel service peer k c"
  "handle_logs (redacted peer service) peer request c = handle_logs service peer request c"
  "validate_logs_follow (redacted peer service) peer follow c = validate_logs_follow service peer follow c"
  "handle_tensorboard (redacted peer service) peer k c = handle_tensorboard service peer k c"
  "handle_inspect (redacted peer service) peer k c = handle_inspect service peer k c"
  by (auto simp: handle_cancel_def handle_logs_def validate_logs_follow_def handle_tensorboard_def
      handle_inspect_def authorised_redact visible_sel inspect_redact Let_def
      dest!: authorised_job_found split: sum.split option.split)

lemma submit_redact:
  "handle_submit (redacted peer service) peer request c = handle_submit service peer request c"
proof -
  have "resolve_placement (redacted peer service) request c = resolve_placement service request c"
    by (simp add: resolve_placement_def split: option.split)
  then show ?thesis by (simp add: handle_submit_def Let_def split: sum.split)
qed

text \<open>The effect of a request: none, a submission of a validated spec of the peer, or the cancellation of
  a job the peer may see that has not ended.\<close>

lemma handle_effect:
  "snd (handle service peer request c) = c
   \<or> (\<exists>spec. jsv_ok (job_validate spec) \<and> js_owner_uid spec = pc_uid peer \<and> js_owner_gid spec = pc_gid peer
        \<and> snd (handle service peer request c) = snd (svc_submit_job service spec c))
   \<or> (\<exists>r. r \<in> set (ss_jobs (slr_snapshot (svc_load service c)))
        \<and> may_see (svc_config service) peer r \<and> \<not> is_terminal (sj_state r)
        \<and> snd (handle service peer request c) = snd (svc_cancel_job service (sj_id r) c))"
proof (cases "irq_kind request = IpcRequestKind.kCancel")
  case True
  let ?k = "icr_job_id (irq_cancel request)"
  show ?thesis
  proof (cases "authorised_job service IpcRequestKind.kCancel peer ?k c")
    case (Inl r)
    then show ?thesis using True by (simp add: handle_def handle_cancel_def)
  next
    case (Inr x)
    then obtain snapshot job where "x = (snapshot, job)" by fastforce
    with Inr True authorised_job_found[of service IpcRequestKind.kCancel peer ?k c snapshot job]
    show ?thesis by (auto simp: handle_def handle_cancel_def split: prod.splits)
  qed
next
  case False
  have "snd (handle_submit service peer q c) = c
     \<or> (\<exists>spec. jsv_ok (job_validate spec) \<and> js_owner_uid spec = pc_uid peer \<and> js_owner_gid spec = pc_gid peer
        \<and> snd (handle_submit service peer q c) = snd (svc_submit_job service spec c))" for q
    by (cases "resolve_placement service q c")
      (auto simp: handle_submit_def Let_def submitted_spec_def split: prod.splits)
  from this[of "irq_submit request"] False show ?thesis
    by (cases "irq_kind request") (auto simp: handle_def)
qed

text \<open>A cancellation answers with a state in range.\<close>

lemma process_cancel_state: "jco_state (fst (process_cancel d k m)) \<le> kUnderlyingJobStateMax"
  by (simp add: process_cancel_def Let_def cancel_queued_def cancel_active_def kUnderlyingJobStateMax_def
      cancel_store_failed_def cancel_outcome_def state_wire_range[unfolded kUnderlyingJobStateMax_def]
      split: option.split prod.split)

lemma manager_specs_valid:
  assumes "jd_store d = in_memory_store" "manager_run d lost m" "slr_ok (st_load (jd_store d) (jm_store m))"
    and "r \<in> set (ss_jobs (slr_snapshot (st_load (jd_store d) (jm_store m))))"
  shows "jsv_ok (job_validate (sj_spec r))"
proof -
  have inv: "im_inv (jm_store m)" using manager_run_ok[OF assms(1,2)] by (simp add: manager_ok_def)
  then have "slr_snapshot (st_load (jd_store d) (jm_store m)) = snapshot_of (im_content (jm_store m))"
    using im.load_reads assms(1,3) by simp
  with assms(4) obtain i where "(i, r) \<in> set (sc_jobs (im_content (jm_store m)))"
    by (auto simp: snapshot_of_def)
  moreover have "job_table_ok (sc_jobs (im_content (jm_store m)))"
    using im.inv_wf[OF inv] by (simp add: content_wf_def)
  ultimately show ?thesis by (auto simp: job_table_ok_def list_all_iff stored_job_ok_def)
qed

section \<open>Properties\<close>

text \<open>Property C8. Every response of the daemon's service is well typed. In any reachable state of the job
  manager, whatever the peer and the request, the response has the kind of the request and lies in the
  range of the protocol in every version the server may answer in, so that a frame the server writes is
  decoded by the client to the same response, up to the fields its version does not carry. The
  observation of the GPUs, if there is one, passes validation.\<close>

theorem service_response_typed:
  assumes "jd_store d = in_memory_store" and "manager_run d lost m"
    and "\<And>s. observed m = Some s \<Longrightarrow> gov_ok (gpu_validate s)"
    and r: "r = fst (handle (daemon_service config d observed tail_of now) peer request m)"
  shows "irs_kind r = irq_kind request \<and> (\<forall>v. response_range (r\<lparr>irs_version := v\<rparr>))
    \<and> (\<forall>v out framed. append_response_frame (r\<lparr>irs_version := v\<rparr>) out = Some framed \<longrightarrow>
        (\<exists>payload. framed = out @ w_u32 (of_nat (length payload)) @ payload
           \<and> ipc_payload_length_valid (of_nat (length payload))
           \<and> decode_response_payload payload = Inr (response_wire (r\<lparr>irs_version := v\<rparr>))))"
proof -
  have "typed (irq_kind request) r"
    unfolding r
  proof (rule handle_typed)
    show "jsv_ok (job_validate (sj_spec x))"
      if "slr_ok (svc_load (daemon_service config d observed tail_of now) m)"
        "x \<in> set (ss_jobs (slr_snapshot (svc_load (daemon_service config d observed tail_of now) m)))" for x
      using that manager_specs_valid[OF assms(1,2)] by (simp add: daemon_service_def)
  qed (simp_all add: daemon_service_def assms(3) process_cancel_state)
  then show ?thesis
    unfolding typed_def using response_frame_decodes by blast
qed

definition demo_peer :: PeerCredentials where
  "demo_peer = \<lparr>pc_uid = 2000, pc_gid = 100, pc_pid = 9\<rparr>"

definition demo_service :: "(InMemoryStateStore, unit, string, unit) JobManager IpcService" where
  "demo_service = daemon_service IpcServiceConfig_init demo_deps (\<lambda>_. None)
     (\<lambda>_ _ _. \<lparr>ltr_ok = True, ltr_truncated = False, ltr_tail = []\<rparr>) (\<lambda>_. 5)"

definition demo_cancel :: IpcRequest where
  "demo_cancel = IpcRequest_init\<lparr>irq_kind := IpcRequestKind.kCancel, irq_cancel := \<lparr>icr_job_id = 7\<rparr>\<rparr>"

text \<open>Another user asks to cancel job 7, which runs.\<close>

lemma demo_denied:
  "(error_response IpcRequestKind.kCancel IpcError.kDenied ''not job owner or admin'')\<lparr>irs_state := 2\<rparr>
     = fst (handle demo_service demo_peer demo_cancel demo_started)"
proof -
  have "find_stored (snapshot_of (im_content demo_store3)) 7 = Some demo_running"
    by (simp add: find_stored_def snapshot_of_def im_content_def demo_running_identity demo_restart_room)
  then show ?thesis
    by (simp add: handle_def demo_cancel_def handle_cancel_def authorised_job_def demo_service_def
        daemon_service_def demo_started_eq demo_deps_store demo_load slr_ok_def demo_restart_room may_see_def
        is_admin_def IpcServiceConfig_init_def demo_peer_def)
      (simp add: demo_running_def demo_job_def demo_spec_def)
qed

theorem service_response_typed_witness:
  "irq_kind demo_cancel = IpcRequestKind.kCancel \<and> response_range
     ((error_response IpcRequestKind.kCancel IpcError.kDenied ''not job owner or admin'')
        \<lparr>irs_state := 2, irs_version := 4\<rparr>)"
  using service_response_typed[OF demo_deps_store demo_started_run _ demo_denied[unfolded demo_service_def]]
  by (simp add: demo_cancel_def)

text \<open>Property C7. The service shows a peer nothing of a job that is not the peer's, unless the peer is an
  administrator, but its id, state, revision, owner, submit time, exit status and lease, and never the
  value of a sensitive environment variable: every response, and the state left behind, is the same as
  over a store and an evaluation from which the rest has been erased. A request changes the state only by
  submitting a valid job that carries the peer's own uid and gid, or by cancelling a stored job that has
  not ended and that the peer owns or administers.\<close>

theorem service_hides_foreign:
  "handle (redacted peer service) peer request c = handle service peer request c
   \<and> validate_logs_follow (redacted peer service) peer follow c = validate_logs_follow service peer follow c
   \<and> (snd (handle service peer request c) = c
    \<or> (\<exists>spec. jsv_ok (job_validate spec) \<and> js_owner_uid spec = pc_uid peer \<and> js_owner_gid spec = pc_gid peer
        \<and> snd (handle service peer request c) = snd (svc_submit_job service spec c))
    \<or> (\<exists>r. r \<in> set (ss_jobs (slr_snapshot (svc_load service c)))
        \<and> may_see (svc_config service) peer r \<and> \<not> is_terminal (sj_state r)
        \<and> snd (handle service peer request c) = snd (svc_cancel_job service (sj_id r) c)))"
proof -
  have "handle (redacted peer service) peer request c = handle service peer request c"
    by (cases "irq_kind request")
      (simp_all add: handle_def submit_redact ps_redact queue_redact gpu_redact one_job_redact)
  then show ?thesis
    using handle_effect by (simp add: one_job_redact)
qed

end
