(* ===== verification/Sqlite_Store.thy ===== *)
theory Sqlite_Store
  imports Store_Laws Ipc_Codec
begin

unbundle bit_operations_syntax

text \<open>
  The SQLite backend of the state store (\<^verbatim>\<open>src/include/yori/store/sqlite_state_store.hpp\<close>,
  \<^verbatim>\<open>src/src/store/sqlite_state_store.cpp\<close>): the encoding of a job as a row, the decoding of a database
  with its checks, schema migration, and \<open>load\<close> and \<open>apply\<close> as transactions.

  The SQLite library is a record of the calls the code makes, on a state \<open>'d\<close> that stands for the
  connection and the file. A statement is named by a constructor that stands for its SQL text. A query
  answers \<open>None\<close> when it cannot be prepared, and otherwise the rows up to the first step that is not
  \<open>SQLITE_ROW\<close>, with the flag whether that step was \<open>SQLITE_DONE\<close>. An update binds its values and answers
  whether the step was \<open>SQLITE_DONE\<close>. \<open>sqlite3_int64\<close> is a 64-bit word that is read with \<open>sint\<close>.
\<close>

section \<open>The library\<close>

type_synonym i64 = "64 word"

datatype sql_value = SqlNull | SqlInt i64 | SqlText string | SqlBlob string

datatype sql_script =
    kSchemaSql | kMigrationV1ToV2Sql | kMigrationV2ToV3Sql | kMigrationV3ToV4Sql
  | Begin_Immediate | Rollback | Commit

datatype sql_query = Select_Schema_Version | Select_Revision | Select_Jobs | Select_Leases

datatype sql_update = Replace_Job | Delete_Lease | Insert_Lease | Update_Revision

text \<open>\<open>column_text\<close> and \<open>column_blob\<close> are the bytes behind the pointer, \<open>None\<close> for a null pointer.\<close>

record 'd Sqlite =
  sq_exec :: "sql_script \<Rightarrow> 'd \<Rightarrow> bool \<times> 'd"
  sq_query :: "sql_query \<Rightarrow> 'd \<Rightarrow> (sql_value list list \<times> bool) option"
  sq_update :: "sql_update \<Rightarrow> sql_value list \<Rightarrow> 'd \<Rightarrow> bool \<times> 'd"
  sq_column_int64 :: "sql_value \<Rightarrow> i64"
  sq_column_text :: "sql_value \<Rightarrow> string option"
  sq_column_blob :: "sql_value \<Rightarrow> string option"
  sq_errmsg :: "'d \<Rightarrow> string"

section \<open>Encoding of values\<close>

definition kDetailLimit :: nat where "kDetailLimit = 200"

definition truncate_detail :: "string \<Rightarrow> string" where
  "truncate_detail raw = take kDetailLimit raw"

definition kMaxPlacementDevicesTextLength :: nat where
  "kMaxPlacementDevicesTextLength =
     kMaxPlacementDevices * uuid_kMaxBytes + kMaxPlacementDevices - 1"

definition put_u32_le :: "u32 \<Rightarrow> string" where
  "put_u32_le v = map (\<lambda>shift. char_of_byte (ucast (drop_bit shift v AND 0xff))) [0, 8, 16, 24]"

definition take_u32_le :: "string \<Rightarrow> (u32 \<times> string) option" where
  "take_u32_le cursor =
     (if length cursor < 4 then None
      else Some (fold (\<lambda>index v. v OR push_bit (8 * index) (ucast (byte_of_char (cursor ! index))))
                   [0, 1, 2, 3] 0, drop 4 cursor))"

definition kMaxEncodedItems :: nat where "kMaxEncodedItems = 2 * 256"

definition encode_string_list :: "string list \<Rightarrow> string" where
  "encode_string_list items =
     put_u32_le (of_nat (length items)) @ concat (map (\<lambda>item. put_u32_le (of_nat (length item)) @ item) items)"

fun decode_items :: "nat \<Rightarrow> string \<Rightarrow> string list option" where
  "decode_items 0 cursor = (if cursor = [] then Some [] else None)"
| "decode_items (Suc n) cursor =
     (case take_u32_le cursor of
        None \<Rightarrow> None
      | Some (len, rest) \<Rightarrow>
          if length rest < unat len then None
          else map_option (\<lambda>items. take (unat len) rest # items) (decode_items n (drop (unat len) rest)))"

definition decode_string_list :: "string option \<Rightarrow> string list option" where
  "decode_string_list data =
     (case data of
        None \<Rightarrow> None
      | Some blob \<Rightarrow>
          if length blob < 4 then None
          else case take_u32_le blob of
            None \<Rightarrow> None
          | Some (n, cursor) \<Rightarrow> if unat n > kMaxEncodedItems then None else decode_items (unat n) cursor)"

definition encode_time :: "time_point \<Rightarrow> i64" where
  "encode_time t = word_of_int t"

definition decode_time :: "i64 \<Rightarrow> time_point" where
  "decode_time nanos = sint nanos"

text \<open>The enumerators with a given value, for a value that has been range checked.\<close>

definition JobState_of :: "int \<Rightarrow> JobState" where
  "JobState_of n = [JobState.kQueued, JobState.kStarting, JobState.kRunning, JobState.kStopping,
     JobState.kFinished, JobState.kFailed, JobState.kCancelled, JobState.kLost] ! nat n"

fun job_state_value :: "JobState \<Rightarrow> i64" where
  "job_state_value JobState.kQueued = 0"
| "job_state_value JobState.kStarting = 1"
| "job_state_value JobState.kRunning = 2"
| "job_state_value JobState.kStopping = 3"
| "job_state_value JobState.kFinished = 4"
| "job_state_value JobState.kFailed = 5"
| "job_state_value JobState.kCancelled = 6"
| "job_state_value JobState.kLost = 7"

definition ExitReason_of :: "int \<Rightarrow> ExitReason" where
  "ExitReason_of n = [ExitReason.kExited, ExitReason.kSignaled, ExitReason.kUnknown] ! nat n"

fun exit_reason_value :: "ExitReason \<Rightarrow> i64" where
  "exit_reason_value ExitReason.kExited = 0"
| "exit_reason_value ExitReason.kSignaled = 1"
| "exit_reason_value ExitReason.kUnknown = 2"

section \<open>Reading rows\<close>

text \<open>\<open>std::optional\<close> of a column: a null pointer with no bytes is no value.\<close>

definition nullable_text :: "'d Sqlite \<Rightarrow> sql_value \<Rightarrow> string option" where
  "nullable_text sq v = sq_column_text sq v"

fun env_of_items :: "string list \<Rightarrow> (string \<times> string) list" where
  "env_of_items (name # value # rest) = (name, value) # env_of_items rest"
| "env_of_items _ = []"

definition decode_exit :: "int \<Rightarrow> int \<Rightarrow> int \<Rightarrow> int \<Rightarrow> ExitStatus option option" where
  "decode_exit has_exit reason code signal_number =
     (if has_exit = 1 then
        (if reason < 0 \<or> reason > 2 \<or> code < 0 \<or> code > 255 \<or> signal_number < 0 \<or> signal_number > 64
         then None
         else Some (Some \<lparr>es_reason = ExitReason_of reason, es_exit_code = code,
                          es_signal_number = signal_number\<rparr>))
      else Some None)"

definition decode_metadata :: "string option \<Rightarrow> string option \<Rightarrow> EnvMetadata option option" where
  "decode_metadata environment_type python_version =
     (case environment_type of
        Some t \<Rightarrow>
          if t = ''conda'' then Some (Some \<lparr>em_source = EnvSource.kConda, em_python_version = python_version\<rparr>)
          else if t = ''venv'' then Some (Some \<lparr>em_source = EnvSource.kVenv, em_python_version = python_version\<rparr>)
          else if t = ''none'' then Some (Some \<lparr>em_source = EnvSource.kNone, em_python_version = python_version\<rparr>)
          else None
      | None \<Rightarrow> if python_version \<noteq> None then None else Some None)"

definition decode_placement :: "string option \<Rightarrow> string option \<Rightarrow> string option \<Rightarrow> GpuPlacement option" where
  "decode_placement placement_mode placement_device placement_devices =
     (if placement_mode = None \<or> placement_mode = Some ''any'' then
        (if placement_device \<noteq> None \<or> placement_devices \<noteq> None then None
         else Some \<lparr>gp_mode = GpuPlacementMode.kAny, gp_devices = []\<rparr>)
      else if placement_mode = Some ''required'' then
        (case (placement_devices, placement_device) of
           (Some devices_text, Some device_text) \<Rightarrow>
             if devices_text = [] \<or> length devices_text > kMaxPlacementDevicesTextLength then None
             else
               (let devices = split_commas devices_text in
                if list_ex (\<lambda>entry. entry = [] \<or> \<not> uuid_valid entry) devices then None
                else if device_text = [] \<or> device_text \<noteq> hd devices then None
                else Some \<lparr>gp_mode = GpuPlacementMode.kRequired, gp_devices = devices\<rparr>)
         | _ \<Rightarrow> None)
      else if placement_mode = Some ''preferred'' then
        (case placement_device of
           None \<Rightarrow> None
         | Some device \<Rightarrow>
             if \<not> uuid_valid device \<or> placement_devices \<noteq> None then None
             else Some \<lparr>gp_mode = GpuPlacementMode.kPreferred, gp_devices = [device]\<rparr>)
      else None)"

text \<open>The checks on the record as a whole, after the columns.\<close>

definition check_decoded :: "StoredJob \<Rightarrow> StateStoreErrorCode + StoredJob" where
  "check_decoded r =
     (if \<not> job_id_valid (sj_id r) \<or> \<not> jsv_ok (job_validate (sj_spec r)) then Inl kInvalidJob
      else if (sj_state r = JobState.kQueued) \<noteq> (sj_revision r = 0) then Inl kInvalidJob
      else if validate_execution (sj_execution r) (sj_state r) (sj_spec r) \<noteq> JobExecutionValidationCode.kNone
        then Inl kInvalidExecutionRecord
      else Inr r)"

text \<open>The columns are those of \<open>Select_Jobs\<close> in order.\<close>

definition decode_row :: "'d Sqlite \<Rightarrow> sql_value list \<Rightarrow> StateStoreErrorCode + StoredJob" where
  "decode_row sq row =
     (let column = (\<lambda>i. sq_column_int64 sq (row ! i)); num = (\<lambda>i. sint (column i));
          opt = (\<lambda>i. nullable_text sq (row ! i)); blob = (\<lambda>i. sq_column_blob sq (row ! i)) in
      if num 1 < 0 \<or> num 1 > 7 then Inl kInvalidJob
      else if num 2 < 0 then Inl kInvalidJob
      else if num 3 < 0 \<or> num 3 > 0xFFFFFFFF \<or> num 4 < 0 \<or> num 4 > 0xFFFFFFFF then Inl kInvalidJob
      else case decode_string_list (blob 5) of
        None \<Rightarrow> Inl kInvalidJob
      | Some argv \<Rightarrow>
        (case decode_string_list (blob 7) of
           None \<Rightarrow> Inl kInvalidJob
         | Some env_items \<Rightarrow>
           if length env_items mod 2 \<noteq> 0 then Inl kInvalidJob
           else if num 8 < 0 \<or> num 8 > 0xFFFFFFFF then Inl kInvalidJob
           else if num 12 < 0 \<or> num 13 < 0 \<or> num 14 < 0 then Inl kInvalidExecutionRecord
           else if (num 15 \<noteq> 0 \<and> num 15 \<noteq> 1) \<or> (num 17 \<noteq> 0 \<and> num 17 \<noteq> 1) \<or> (num 19 \<noteq> 0 \<and> num 19 \<noteq> 1)
             then Inl kInvalidExecutionRecord
           else case decode_exit (num 19) (num 20) (num 21) (num 22) of
             None \<Rightarrow> Inl kInvalidExecutionRecord
           | Some exit \<Rightarrow>
             (case decode_metadata (opt 26) (opt 27) of
                None \<Rightarrow> Inl kInvalidJob
              | Some metadata \<Rightarrow>
                (case decode_placement (opt 28) (opt 29) (opt 30) of
                   None \<Rightarrow> Inl kInvalidJob
                 | Some placement \<Rightarrow>
                   check_decoded
                     \<lparr>sj_id = column 0,
                      sj_spec = \<lparr>js_owner_uid = ucast (column 3), js_owner_gid = ucast (column 4),
                        js_argv = argv, js_cwd = (case opt 6 of None \<Rightarrow> [] | Some cwd \<Rightarrow> cwd),
                        js_env = foldl emplace_env [] (env_of_items env_items), js_executable = opt 25,
                        js_env_metadata = metadata, js_gpu_request = ucast (column 8),
                        js_gpu_placement = placement, js_launch_profile = opt 9,
                        js_tensorboard_logdir = opt 10, js_submit_time = decode_time (column 11)\<rparr>,
                      sj_state = JobState_of (num 1), sj_revision = column 2,
                      sj_execution = \<lparr>er_identity = \<lparr>pi_pid = num 12, pi_pgid = num 13, pi_start_ticks = column 14\<rparr>,
                        er_start_time = (if num 15 = 1 then Some (decode_time (column 16)) else None),
                        er_end_time = (if num 17 = 1 then Some (decode_time (column 18)) else None),
                        er_exit = exit, er_failure_reason = opt 23, er_log_path = opt 24\<rparr>\<rparr>))))"

text \<open>The loop of \<open>decode_jobs\<close> over the rows.\<close>

fun decode_job_rows ::
  "'d Sqlite \<Rightarrow> sql_value list list \<Rightarrow> job_table \<Rightarrow> StateStoreErrorCode + job_table" where
  "decode_job_rows sq [] jobs = Inr jobs"
| "decode_job_rows sq (row # rows) jobs =
     (case decode_row sq row of
        Inl e \<Rightarrow> Inl e
      | Inr r \<Rightarrow> if omap_contains (sj_id r) jobs then Inl kInvalidJob
                 else decode_job_rows sq rows (omap_put (sj_id r) r jobs))"

definition decode_jobs :: "'d Sqlite \<Rightarrow> 'd \<Rightarrow> StateStoreErrorCode + job_table" where
  "decode_jobs sq db =
     (case sq_query sq Select_Jobs db of
        None \<Rightarrow> Inl StateStoreErrorCode.kBackendUnavailable
      | Some (rows, finished) \<Rightarrow>
          (case decode_job_rows sq rows [] of
             Inl e \<Rightarrow> Inl e
           | Inr jobs \<Rightarrow> if finished then Inr jobs else Inl StateStoreErrorCode.kBackendUnavailable))"

fun decode_lease_rows ::
  "'d Sqlite \<Rightarrow> job_table \<Rightarrow> sql_value list list \<Rightarrow> lease_table \<Rightarrow> StateStoreErrorCode + lease_table" where
  "decode_lease_rows sq jobs [] leases = Inr leases"
| "decode_lease_rows sq jobs (row # rows) leases =
     (let uuid = (case nullable_text sq (row ! 0) of None \<Rightarrow> [] | Some u \<Rightarrow> u);
          job_id = sq_column_int64 sq (row ! 1) in
      if \<not> uuid_valid uuid \<or> \<not> job_id_valid job_id then Inl kInvalidLease
      else if \<not> omap_contains job_id jobs then Inl kInvalidLease
      else if omap_contains uuid leases then Inl kInvalidLease
      else decode_lease_rows sq jobs rows
             (omap_put uuid \<lparr>gl_gpu_uuid = uuid, gl_job_id = job_id\<rparr> leases))"

text \<open>The lease matrix: a leaseable job holds exactly one lease, any other none.\<close>

definition decode_leases :: "'d Sqlite \<Rightarrow> job_table \<Rightarrow> 'd \<Rightarrow> StateStoreErrorCode + lease_table" where
  "decode_leases sq jobs db =
     (case sq_query sq Select_Leases db of
        None \<Rightarrow> Inl StateStoreErrorCode.kBackendUnavailable
      | Some (rows, finished) \<Rightarrow>
          (case decode_lease_rows sq jobs rows [] of
             Inl e \<Rightarrow> Inl e
           | Inr leases \<Rightarrow>
               if \<not> finished then Inl StateStoreErrorCode.kBackendUnavailable
               else if list_ex (\<lambda>(i, r). leaseable (sj_state r) \<and> lease_count i leases \<noteq> 1
                      \<or> \<not> leaseable (sj_state r) \<and> lease_count i leases \<noteq> 0) jobs
                 then Inl kInvalidLease
               else Inr leases))"

definition read_revision :: "'d Sqlite \<Rightarrow> 'd \<Rightarrow> u64 option" where
  "read_revision sq db =
     (case sq_query sq Select_Revision db of
        Some (row # _, _) \<Rightarrow>
          (let v = sq_column_int64 sq (row ! 0) in if sint v < 0 then None else Some v)
      | _ \<Rightarrow> None)"

text \<open>\<open>decode_state\<close>: the revision that has been read, for the reply of a failed write, and the
  state or the error.\<close>

record DecodedState =
  ds_revision :: u64
  ds_jobs :: job_table
  ds_leases :: lease_table

definition decode_state :: "'d Sqlite \<Rightarrow> 'd \<Rightarrow> u64 \<times> (StateStoreErrorCode + DecodedState)" where
  "decode_state sq db =
     (case read_revision sq db of
        None \<Rightarrow> (0, Inl StateStoreErrorCode.kBackendUnavailable)
      | Some revision \<Rightarrow>
          (revision,
           case decode_jobs sq db of
             Inl e \<Rightarrow> Inl e
           | Inr jobs \<Rightarrow>
               (case decode_leases sq jobs db of
                  Inl e \<Rightarrow> Inl e
                | Inr leases \<Rightarrow> Inr \<lparr>ds_revision = revision, ds_jobs = jobs, ds_leases = leases\<rparr>)))"

section \<open>Writing rows\<close>

fun join_commas :: "string list \<Rightarrow> string" where
  "join_commas [] = []"
| "join_commas [d] = d"
| "join_commas (d # e # ds) = d @ CHR '','' # join_commas (e # ds)"

fun env_items_of :: "(string, string) omap \<Rightarrow> string list" where
  "env_items_of [] = []"
| "env_items_of ((name, value) # env) = name # value # env_items_of env"

definition opt_text :: "string option \<Rightarrow> sql_value" where
  "opt_text v = (case v of None \<Rightarrow> SqlNull | Some s \<Rightarrow> SqlText s)"

text \<open>The three placement columns.\<close>

definition placement_columns :: "GpuPlacement \<Rightarrow> sql_value list" where
  "placement_columns p =
     (case gp_mode p of
        GpuPlacementMode.kAny \<Rightarrow> [SqlNull, SqlNull, SqlNull]
      | GpuPlacementMode.kRequired \<Rightarrow>
          [SqlText ''required'', SqlText (hd (gp_devices p)), SqlText (join_commas (gp_devices p))]
      | GpuPlacementMode.kPreferred \<Rightarrow> [SqlText ''preferred'', SqlText (hd (gp_devices p)), SqlNull])"

definition job_row :: "StoredJob \<Rightarrow> sql_value list" where
  "job_row r =
     (let spec = sj_spec r; e = sj_execution r; flag = (\<lambda>b. SqlInt (if b then 1 else 0));
          time = (\<lambda>t. SqlInt (case t of None \<Rightarrow> 0 | Some t \<Rightarrow> encode_time t));
          field = (\<lambda>f. SqlInt (case er_exit e of None \<Rightarrow> 0 | Some x \<Rightarrow> f x)) in
      [SqlInt (sj_id r), SqlInt (job_state_value (sj_state r)), SqlInt (sj_revision r),
       SqlInt (ucast (js_owner_uid spec)), SqlInt (ucast (js_owner_gid spec)),
       SqlBlob (encode_string_list (js_argv spec)), SqlText (js_cwd spec),
       SqlBlob (encode_string_list (env_items_of (js_env spec))), SqlInt (ucast (js_gpu_request spec)),
       opt_text (js_launch_profile spec), opt_text (js_tensorboard_logdir spec),
       SqlInt (encode_time (js_submit_time spec)),
       SqlInt (word_of_int (pi_pid (er_identity e))), SqlInt (word_of_int (pi_pgid (er_identity e))),
       SqlInt (pi_start_ticks (er_identity e)),
       flag (er_start_time e \<noteq> None), time (er_start_time e), flag (er_end_time e \<noteq> None), time (er_end_time e),
       flag (er_exit e \<noteq> None), field (\<lambda>x. exit_reason_value (es_reason x)),
       field (\<lambda>x. word_of_int (es_exit_code x)), field (\<lambda>x. word_of_int (es_signal_number x)),
       opt_text (er_failure_reason e), opt_text (er_log_path e), opt_text (js_executable spec),
       opt_text (map_option (\<lambda>m. EnvSource_to_string (em_source m)) (js_env_metadata spec)),
       opt_text (case js_env_metadata spec of None \<Rightarrow> None | Some m \<Rightarrow> em_python_version m)]
      @ placement_columns (js_gpu_placement spec))"

definition write_job_row :: "'d Sqlite \<Rightarrow> StoredJob \<Rightarrow> 'd \<Rightarrow> bool \<times> 'd" where
  "write_job_row sq r db = sq_update sq Replace_Job (job_row r) db"

definition delete_lease_row :: "'d Sqlite \<Rightarrow> GpuUuid \<Rightarrow> 'd \<Rightarrow> bool \<times> 'd" where
  "delete_lease_row sq uuid db = sq_update sq Delete_Lease [SqlText uuid] db"

definition insert_lease_row :: "'d Sqlite \<Rightarrow> GpuLease \<Rightarrow> 'd \<Rightarrow> bool \<times> 'd" where
  "insert_lease_row sq lease db =
     sq_update sq Insert_Lease [SqlText (gl_gpu_uuid lease), SqlInt (gl_job_id lease)] db"

definition write_revision :: "'d Sqlite \<Rightarrow> u64 \<Rightarrow> 'd \<Rightarrow> bool \<times> 'd" where
  "write_revision sq revision db = sq_update sq Update_Revision [SqlInt revision] db"

text \<open>A loop of writes that stops at the first failure.\<close>

fun write_each :: "('a \<Rightarrow> 'd \<Rightarrow> bool \<times> 'd) \<Rightarrow> 'a list \<Rightarrow> 'd \<Rightarrow> bool \<times> 'd" where
  "write_each f [] db = (True, db)"
| "write_each f (x # xs) db = (case f x db of (ok, db1) \<Rightarrow> if ok then write_each f xs db1 else (False, db1))"

section \<open>The store\<close>

record SqliteStateStoreConfig =
  sqc_library_path :: string
  sqc_database_path :: string
  sqc_max_jobs :: nat
  sqc_max_leases :: nat
  sqc_busy_timeout_ms :: int

record 'd SqliteStateStore =
  sqs_config :: SqliteStateStoreConfig
  sqs_open :: bool
  sqs_db :: 'd

section \<open>Opening\<close>

datatype SqliteStoreOpenCode =
    kOpened | kAlreadyOpen | kInvalidConfig | kSymlinkedDatabasePath | kLibraryOpenFailed
  | kSymbolMissing | kDatabaseOpenFailed | kSchemaInitFailed

fun SqliteStoreOpenCode_to_string :: "SqliteStoreOpenCode \<Rightarrow> string" where
  "SqliteStoreOpenCode_to_string SqliteStoreOpenCode.kOpened = ''OPENED''"
| "SqliteStoreOpenCode_to_string SqliteStoreOpenCode.kAlreadyOpen = ''ALREADY_OPEN''"
| "SqliteStoreOpenCode_to_string SqliteStoreOpenCode.kInvalidConfig = ''INVALID_CONFIG''"
| "SqliteStoreOpenCode_to_string kSymlinkedDatabasePath = ''SYMLINKED_DATABASE_PATH''"
| "SqliteStoreOpenCode_to_string kLibraryOpenFailed = ''LIBRARY_OPEN_FAILED''"
| "SqliteStoreOpenCode_to_string kSymbolMissing = ''SYMBOL_MISSING''"
| "SqliteStoreOpenCode_to_string kDatabaseOpenFailed = ''DATABASE_OPEN_FAILED''"
| "SqliteStoreOpenCode_to_string kSchemaInitFailed = ''SCHEMA_INIT_FAILED''"

record SqliteStoreOpenResult =
  sor_code :: SqliteStoreOpenCode
  sor_detail :: string

text \<open>The answers of the system to the calls before the first statement: whether the path is a symbolic
  link, the error of \<open>dlopen\<close>, the symbols that exist, the failure of \<open>sqlite3_open_v2\<close> with its message if
  there is a handle, and the connection.\<close>

record 'd open_answers =
  oa_symlink :: bool
  oa_dlopen :: "string option"
  oa_dlsym :: "string \<Rightarrow> bool"
  oa_open :: "string option option"
  oa_db :: 'd

definition sqlite_bindings :: "string list" where
  "sqlite_bindings =
     [''sqlite3_libversion_number'', ''sqlite3_open_v2'', ''sqlite3_close_v2'', ''sqlite3_busy_timeout'',
      ''sqlite3_errmsg'', ''sqlite3_exec'', ''sqlite3_prepare_v2'', ''sqlite3_step'', ''sqlite3_finalize'',
      ''sqlite3_reset'', ''sqlite3_bind_int64'', ''sqlite3_bind_null'', ''sqlite3_bind_text'',
      ''sqlite3_bind_blob'', ''sqlite3_column_int64'', ''sqlite3_column_text'', ''sqlite3_column_blob'',
      ''sqlite3_column_bytes'']"

definition describe_error :: "'d Sqlite \<Rightarrow> 'd \<Rightarrow> string" where
  "describe_error sq db = truncate_detail (sq_errmsg sq db)"

text \<open>One migration: if the schema has the version it starts from, run its script. \<open>Inl\<close> is the detail
  of a failure.\<close>

definition migrate ::
  "'d Sqlite \<Rightarrow> int \<Rightarrow> sql_script \<Rightarrow> string \<Rightarrow> int \<times> 'd \<Rightarrow> (string \<times> 'd) + (int \<times> 'd)" where
  "migrate sq from script failed x =
     (case x of (version, db) \<Rightarrow>
        if version = from
        then (case sq_exec sq script db of (ok, db1) \<Rightarrow>
                if ok then Inr (from + 1, db1) else Inl (failed @ describe_error sq db1, db1))
        else Inr (version, db))"

definition migrate_schema :: "'d Sqlite \<Rightarrow> int \<times> 'd \<Rightarrow> (string \<times> 'd) + (int \<times> 'd)" where
  "migrate_schema sq x =
     (case migrate sq 1 kMigrationV1ToV2Sql ''v1->v2 migration failed: '' x of
        Inl e \<Rightarrow> Inl e
      | Inr x2 \<Rightarrow>
          (case migrate sq 2 kMigrationV2ToV3Sql ''v2->v3 migration failed: '' x2 of
             Inl e \<Rightarrow> Inl e
           | Inr x3 \<Rightarrow> migrate sq 3 kMigrationV3ToV4Sql ''v3->v4 migration failed: '' x3))"

definition init_schema ::
  "'d Sqlite \<Rightarrow> 'd SqliteStateStore \<Rightarrow> SqliteStoreOpenResult \<times> 'd SqliteStateStore" where
  "init_schema sq s =
     (let failed = (\<lambda>detail db. (\<lparr>sor_code = kSchemaInitFailed, sor_detail = detail\<rparr>,
                                 s\<lparr>sqs_open := False, sqs_db := db\<rparr>)) in
      case sq_exec sq kSchemaSql (sqs_db s) of (ok, db) \<Rightarrow>
      if \<not> ok then failed (describe_error sq db) db
      else case sq_query sq Select_Schema_Version db of
        Some (row # _, _) \<Rightarrow>
          (case migrate_schema sq (sint (sq_column_int64 sq (row ! 0)), db) of
             Inl (detail, db1) \<Rightarrow> failed detail db1
           | Inr (version, db1) \<Rightarrow>
               if version \<noteq> 4 then failed (''unsupported schema version '' @ int_to_string version) db1
               else (\<lparr>sor_code = SqliteStoreOpenCode.kOpened, sor_detail = []\<rparr>,
                     s\<lparr>sqs_open := True, sqs_db := db1\<rparr>))
      | _ \<Rightarrow> failed (describe_error sq db) db)"

definition sqlite_open ::
  "'d Sqlite \<Rightarrow> 'd open_answers \<Rightarrow> 'd SqliteStateStore \<Rightarrow> SqliteStoreOpenResult \<times> 'd SqliteStateStore" where
  "sqlite_open sq a s =
     (let config = sqs_config s; refuse = (\<lambda>code detail. (\<lparr>sor_code = code, sor_detail = detail\<rparr>, s)) in
      if sqs_open s then refuse SqliteStoreOpenCode.kAlreadyOpen []
      else if sqc_database_path config = [] \<or> sqc_max_jobs config = 0 \<or> sqc_max_leases config = 0
           \<or> sqc_busy_timeout_ms config < 0
        then refuse SqliteStoreOpenCode.kInvalidConfig
               ''database_path must be non-empty and limits must be positive''
      else if oa_symlink a then refuse kSymlinkedDatabasePath (sqc_database_path config)
      else case oa_dlopen a of
        Some error \<Rightarrow> refuse kLibraryOpenFailed (truncate_detail error)
      | None \<Rightarrow>
          (case find (\<lambda>name. \<not> oa_dlsym a name) sqlite_bindings of
             Some name \<Rightarrow> refuse kSymbolMissing (''missing symbol '' @ name)
           | None \<Rightarrow>
               (case oa_open a of
                  Some handle \<Rightarrow> refuse kDatabaseOpenFailed
                    (case handle of None \<Rightarrow> ''sqlite3_open_v2 failed'' | Some e \<Rightarrow> truncate_detail e)
                | None \<Rightarrow> init_schema sq (s\<lparr>sqs_db := oa_db a\<rparr>))))"

section \<open>Load and apply\<close>

definition sqlite_load :: "'d Sqlite \<Rightarrow> 'd SqliteStateStore \<Rightarrow> StateStoreLoadResult" where
  "sqlite_load sq s =
     (if \<not> sqs_open s then \<lparr>slr_code = StateStoreErrorCode.kBackendUnavailable, slr_snapshot = empty_snapshot\<rparr>
      else case snd (decode_state sq (sqs_db s)) of
        Inl e \<Rightarrow> \<lparr>slr_code = e, slr_snapshot = empty_snapshot\<rparr>
      | Inr st \<Rightarrow> \<lparr>slr_code = StateStoreErrorCode.kNone,
                   slr_snapshot = \<lparr>ss_revision = ds_revision st, ss_jobs = map snd (ds_jobs st),
                                   ss_leases = map snd (ds_leases st)\<rparr>\<rparr>)"

text \<open>The writes of an accepted mutation, up to and including the commit.\<close>

definition write_rows :: "'d Sqlite \<Rightarrow> StateMutation \<Rightarrow> u64 \<Rightarrow> 'd \<Rightarrow> bool \<times> 'd" where
  "write_rows sq m next_revision db =
     (case write_each (write_job_row sq) (sm_create_jobs m) db of (ok1, db1) \<Rightarrow>
      if \<not> ok1 then (False, db1) else
      case write_each (write_job_row sq) (sm_update_jobs m) db1 of (ok2, db2) \<Rightarrow>
      if \<not> ok2 then (False, db2) else
      case write_each (delete_lease_row sq) (sm_release_leases m) db2 of (ok3, db3) \<Rightarrow>
      if \<not> ok3 then (False, db3) else
      case write_each (insert_lease_row sq) (sm_acquire_leases m) db3 of (ok4, db4) \<Rightarrow>
      if \<not> ok4 then (False, db4) else
      case write_revision sq next_revision db4 of (ok5, db5) \<Rightarrow>
      if \<not> ok5 then (False, db5) else sq_exec sq Commit db5)"

definition int64_max :: u64 where "int64_max = 0x7FFFFFFFFFFFFFFF"

definition sqlite_apply ::
  "'d Sqlite \<Rightarrow> 'd SqliteStateStore \<Rightarrow> StateMutation \<Rightarrow> StateStoreWriteResult \<times> 'd SqliteStateStore" where
  "sqlite_apply sq s m =
     (if \<not> sqs_open s then (\<lparr>swr_code = StateStoreErrorCode.kBackendUnavailable, swr_revision = 0\<rparr>, s)
      else case sq_exec sq Begin_Immediate (sqs_db s) of (begun, db) \<Rightarrow>
      if \<not> begun
        then (\<lparr>swr_code = StateStoreErrorCode.kBackendUnavailable, swr_revision = 0\<rparr>, s\<lparr>sqs_db := db\<rparr>)
      else
        (let give_up = (\<lambda>code revision db.
               (\<lparr>swr_code = code, swr_revision = revision\<rparr>, s\<lparr>sqs_db := snd (sq_exec sq Rollback db)\<rparr>)) in
         case decode_state sq db of
           (revision, Inl e) \<Rightarrow> give_up e revision db
         | (revision, Inr st) \<Rightarrow>
             (let outcome = apply_mutation (ds_jobs st) (ds_leases st) revision
                    \<lparr>vc_max_jobs = sqc_max_jobs (sqs_config s), vc_max_leases = sqc_max_leases (sqs_config s)\<rparr> m in
              if mo_code outcome \<noteq> StateStoreErrorCode.kNone then give_up (mo_code outcome) revision db
              else if mo_next_revision outcome > int64_max then give_up kInvalidMutation revision db
              else case write_rows sq m (mo_next_revision outcome) db of (written, db1) \<Rightarrow>
                if \<not> written then give_up StateStoreErrorCode.kBackendUnavailable revision db1
                else (\<lparr>swr_code = StateStoreErrorCode.kNone, swr_revision = mo_next_revision outcome\<rparr>,
                      s\<lparr>sqs_db := db1\<rparr>))))"

definition sqlite_store :: "'d Sqlite \<Rightarrow> 'd SqliteStateStore StateStore" where
  "sqlite_store sq = \<lparr>st_load = sqlite_load sq, st_apply = sqlite_apply sq\<rparr>"

end
