(* ===== verification/Sqlite_Laws.thy ===== *)
theory Sqlite_Laws
  imports Sqlite_Store Recovery_Laws
begin

unbundle bit_operations_syntax

text \<open>
  Rows and tables of the SQLite backend: a job that fits the columns is read back from its row as it was
  written (\<open>job_row_roundtrip\<close>), and the rows of a table, in whatever order a query answers them, decode to
  the table they came from.
\<close>

section \<open>Blobs\<close>

lemma put_u32_le_eq: "put_u32_le v = map char_of_byte (w_u32 v)"
  by (simp add: put_u32_le_def w_u32_def)

lemma length_put_u32_le [simp]: "length (put_u32_le v) = 4"
  by (simp add: put_u32_le_def)

lemma take_put_u32_le [simp]: "take_u32_le (put_u32_le v @ rest) = Some (v, rest)"
proof -
  have "byte_of_char ((put_u32_le v @ rest) ! i) = w_u32 v ! i" if "i < 4" for i
    using that by (simp add: put_u32_le_eq nth_append)
  then have "fold (\<lambda>index acc. acc OR push_bit (8 * index) (ucast (byte_of_char ((put_u32_le v @ rest) ! index))))
      [0, 1, 2, 3] 0 = v"
    using u32_of_bytes[of v] by simp
  then show ?thesis by (simp add: take_u32_le_def)
qed

lemma decode_items_encoded:
  assumes "\<forall>item \<in> set items. length item < 2 ^ 32"
  shows "decode_items (length items) (concat (map (\<lambda>item. put_u32_le (of_nat (length item)) @ item) items))
    = Some items"
  using assms by (induction items) (simp_all add: unat_of_nat)

lemma decode_encode_string_list:
  assumes "length items \<le> kMaxEncodedItems" "\<forall>item \<in> set items. length item < 2 ^ 32"
  shows "decode_string_list (Some (encode_string_list items)) = Some items"
proof -
  have "unat (of_nat (length items) :: u32) = length items"
    using assms(1) by (simp add: unat_of_nat kMaxEncodedItems_def)
  then show ?thesis
    using assms decode_items_encoded[OF assms(2)]
    by (simp add: decode_string_list_def encode_string_list_def)
qed

section \<open>Rows\<close>

lemma env_items [simp]:
  "env_of_items (env_items_of env) = env" "length (env_items_of env) = 2 * length env"
  by (induction env rule: env_items_of.induct) auto

lemma set_env_items: "x \<in> set (env_items_of env) \<Longrightarrow> \<exists>name value. (name, value) \<in> set env \<and> (x = name \<or> x = value)"
  by (induction env rule: env_items_of.induct) auto

lemma split_commas_not_Nil: "split_commas s \<noteq> []"
  by (cases s) (auto split: list.split)

lemma split_no_comma: "CHR '','' \<notin> set d \<Longrightarrow> split_commas d = [d]"
  by (induction d) auto

lemma split_commas_append: "CHR '','' \<notin> set d \<Longrightarrow> split_commas (d @ CHR '','' # s) = d # split_commas s"
  by (induction d) auto

lemma split_join:
  "ds \<noteq> [] \<Longrightarrow> \<forall>d \<in> set ds. CHR '','' \<notin> set d \<Longrightarrow> split_commas (join_commas ds) = ds"
  by (induction ds rule: join_commas.induct) (simp_all add: split_no_comma split_commas_append)

lemma length_join:
  "ds \<noteq> [] \<Longrightarrow> \<forall>d \<in> set ds. length d \<le> n \<Longrightarrow> length (join_commas ds) \<le> length ds * n + length ds - 1"
proof (induction ds rule: join_commas.induct)
  case (3 d e ds)
  then have "length (join_commas (e # ds)) \<le> length (e # ds) * n + length (e # ds) - 1" "length d \<le> n" by simp_all
  then show ?case by simp
qed simp_all

lemma join_not_Nil: "ds \<noteq> [] \<Longrightarrow> hd ds \<noteq> [] \<Longrightarrow> join_commas ds \<noteq> []"
  by (cases ds rule: join_commas.cases) auto

text \<open>The library reads back what was bound.\<close>

definition columns_ok :: "'d Sqlite \<Rightarrow> bool" where
  "columns_ok sq \<longleftrightarrow>
     (\<forall>n. sq_column_int64 sq (SqlInt n) = n) \<and> (\<forall>s. sq_column_text sq (SqlText s) = Some s)
   \<and> sq_column_text sq SqlNull = None \<and> (\<forall>b. b \<noteq> [] \<longrightarrow> sq_column_blob sq (SqlBlob b) = Some b)"

lemma columns_opt: "columns_ok sq \<Longrightarrow> nullable_text sq (opt_text v) = v"
  by (auto simp: columns_ok_def nullable_text_def opt_text_def split: option.split)

text \<open>The records a row can hold: times and process ids of 64 bits, a start tick below \<open>2 ^ 63\<close>, an exit
  status in the range the decoder accepts, and device ids without a comma.\<close>

definition fits_i64 :: "int \<Rightarrow> bool" where
  "fits_i64 n \<longleftrightarrow> - (2 ^ 63) \<le> n \<and> n < 2 ^ 63"

definition exit_fits :: "ExitStatus \<Rightarrow> bool" where
  "exit_fits x \<longleftrightarrow> 0 \<le> es_exit_code x \<and> es_exit_code x \<le> 255 \<and> 0 \<le> es_signal_number x \<and> es_signal_number x \<le> 64"

definition record_fits :: "StoredJob \<Rightarrow> bool" where
  "record_fits r \<longleftrightarrow>
     omap_wf (js_env (sj_spec r))
   \<and> (\<forall>d \<in> set (gp_devices (js_gpu_placement (sj_spec r))). CHR '','' \<notin> set d)
   \<and> fits_i64 (js_submit_time (sj_spec r))
   \<and> fits_i64 (pi_pid (er_identity (sj_execution r))) \<and> fits_i64 (pi_pgid (er_identity (sj_execution r)))
   \<and> 0 \<le> sint (pi_start_ticks (er_identity (sj_execution r)))
   \<and> pred_option fits_i64 (er_start_time (sj_execution r))
   \<and> pred_option fits_i64 (er_end_time (sj_execution r))
   \<and> pred_option exit_fits (er_exit (sj_execution r))"

lemma sint_of_i64 [simp]: "fits_i64 n \<Longrightarrow> sint (word_of_int n :: i64) = n"
  by (simp add: fits_i64_def signed_of_int signed_take_bit_int_eq_self)

lemma time_roundtrip [simp]: "fits_i64 t \<Longrightarrow> decode_time (encode_time t) = t"
  by (simp add: decode_time_def encode_time_def)

lemma sint_small: "uint (n :: i64) < 2 ^ 63 \<Longrightarrow> sint n = uint n"
  using order_trans[OF _ uint_ge_0, of "- (2 ^ 63)" n] by (simp add: sint_uint signed_take_bit_int_eq_self)

lemma sint_u32 [simp]: "sint (ucast (n :: u32) :: i64) = uint n"
proof -
  have "uint n < 2 ^ 32" using uint_bounded[of n] by simp
  moreover have "uint (ucast n :: i64) = uint n" by (rule uint_up_ucast) (simp add: is_up)
  ultimately show ?thesis by (simp add: sint_small)
qed

lemma u32_of_i64 [simp]: "ucast (ucast (n :: u32) :: i64) = n"
  by (rule bit_word_eqI) (auto simp: bit_ucast_iff dest: bit_imp_le_length)

lemma state_roundtrip [simp]:
  "JobState_of (sint (job_state_value s)) = s"
  "0 \<le> sint (job_state_value s)" "sint (job_state_value s) \<le> 7"
  by (cases s; simp add: JobState_of_def sint_small)+

lemma reason_roundtrip [simp]:
  "ExitReason_of (sint (exit_reason_value s)) = s"
  "0 \<le> sint (exit_reason_value s)" "sint (exit_reason_value s) \<le> 2"
  by (cases s; simp add: ExitReason_of_def sint_small)+

lemma metadata_roundtrip [simp]:
  "decode_metadata (map_option (\<lambda>m. EnvSource_to_string (em_source m)) md)
     (case md of None \<Rightarrow> None | Some m \<Rightarrow> em_python_version m) = Some md"
proof (cases md)
  case (Some m)
  then show ?thesis by (cases m; cases "em_source m") (simp_all add: decode_metadata_def)
qed (simp add: decode_metadata_def)

lemma exit_roundtrip [simp]:
  assumes "pred_option exit_fits e"
  shows "decode_exit (sint ((if e \<noteq> None then 1 else 0) :: i64))
     (sint ((case e of None \<Rightarrow> 0 | Some x \<Rightarrow> exit_reason_value (es_reason x)) :: i64))
     (sint ((case e of None \<Rightarrow> 0 | Some x \<Rightarrow> word_of_int (es_exit_code x)) :: i64))
     (sint ((case e of None \<Rightarrow> 0 | Some x \<Rightarrow> word_of_int (es_signal_number x)) :: i64)) = Some e"
proof (cases e)
  case (Some x)
  then have "fits_i64 (es_exit_code x)" "fits_i64 (es_signal_number x)" "exit_fits x"
    using assms by (simp_all add: exit_fits_def fits_i64_def)
  then show ?thesis using Some by (simp add: decode_exit_def exit_fits_def not_le[symmetric])
qed (simp add: decode_exit_def)

lemma placement_roundtrip:
  assumes cols: "columns_ok sq" and "spec_ok spec" and p: "p = js_gpu_placement spec"
    and commas: "\<forall>d \<in> set (gp_devices p). CHR '','' \<notin> set d"
  shows "decode_placement (nullable_text sq (placement_columns p ! 0)) (nullable_text sq (placement_columns p ! 1))
    (nullable_text sq (placement_columns p ! 2)) = Some p"
proof (cases "gp_mode p")
  case kAny
  then have "p = \<lparr>gp_mode = GpuPlacementMode.kAny, gp_devices = []\<rparr>"
    using assms(2) p by (cases p) (auto simp: spec_ok_def)
  then show ?thesis using cols by (simp add: placement_columns_def decode_placement_def columns_ok_def nullable_text_def)
next
  case kRequired
  let ?ds = "gp_devices p"
  have ds: "?ds \<noteq> []" "length ?ds \<le> 8" "\<forall>d \<in> set ?ds. uuid_valid d"
    using assms(2) p kRequired by (auto simp: spec_ok_def kMaxPlacementDevices_def)
  then have valid: "\<forall>d \<in> set ?ds. d \<noteq> [] \<and> length d \<le> uuid_kMaxBytes" by (auto simp: uuid_valid_def)
  then have "length (join_commas ?ds) \<le> length ?ds * uuid_kMaxBytes + length ?ds - 1"
    using length_join[OF ds(1)] by blast
  also have "\<dots> \<le> kMaxPlacementDevicesTextLength"
    using ds(2) mult_le_mono1[OF ds(2), of uuid_kMaxBytes]
    unfolding kMaxPlacementDevicesTextLength_def kMaxPlacementDevices_def by linarith
  finally have "length (join_commas ?ds) \<le> kMaxPlacementDevicesTextLength" .
  moreover have "join_commas ?ds \<noteq> []" using ds(1) valid by (intro join_not_Nil) auto
  moreover have "hd ?ds \<noteq> []" using ds(1) valid by auto
  ultimately show ?thesis
    using kRequired ds valid cols split_join[OF ds(1) commas]
    by (cases p) (auto simp: placement_columns_def decode_placement_def columns_ok_def nullable_text_def
        list_ex_iff Let_def)
next
  case kPreferred
  then obtain d where "gp_devices p = [d]" "uuid_valid d" using assms(2) p by (auto simp: spec_ok_def)
  then show ?thesis
    using kPreferred cols
    by (cases p) (simp add: placement_columns_def decode_placement_def columns_ok_def nullable_text_def)
qed

lemma columns_sel:
  assumes "columns_ok sq"
  shows "sq_column_int64 sq (SqlInt n) = n" "nullable_text sq (SqlText t) = Some t"
    "decode_string_list (sq_column_blob sq (SqlBlob (encode_string_list items)))
       = decode_string_list (Some (encode_string_list items))"
proof -
  have "encode_string_list items \<noteq> []" by (simp add: encode_string_list_def put_u32_le_def)
  then show "sq_column_int64 sq (SqlInt n) = n" "nullable_text sq (SqlText t) = Some t"
    "decode_string_list (sq_column_blob sq (SqlBlob (encode_string_list items)))
       = decode_string_list (Some (encode_string_list items))"
    using assms by (simp_all add: columns_ok_def nullable_text_def)
qed

lemma length_placement_columns [simp]: "length (placement_columns p) = 3"
  by (cases "gp_mode p") (simp_all add: placement_columns_def)

lemma spec_blobs:
  assumes "spec_ok spec"
  shows "decode_string_list (Some (encode_string_list (js_argv spec))) = Some (js_argv spec)"
    "decode_string_list (Some (encode_string_list (env_items_of (js_env spec)))) = Some (env_items_of (js_env spec))"
proof -
  have "length item < 2 ^ 32" if "item \<in> set (js_argv spec)" for item
    using that assms by (force simp: spec_ok_def kMaxSingleArgumentBytes_def)
  then show "decode_string_list (Some (encode_string_list (js_argv spec))) = Some (js_argv spec)"
    using assms by (intro decode_encode_string_list) (auto simp: spec_ok_def kMaxArgumentCount_def kMaxEncodedItems_def)
  have "length item < 2 ^ 32" if "item \<in> set (env_items_of (js_env spec))" for item
    using set_env_items[OF that] assms
    by (force simp: spec_ok_def kMaxEnvironmentNameBytes_def kMaxEnvironmentValueBytes_def)
  then show "decode_string_list (Some (encode_string_list (env_items_of (js_env spec)))) = Some (env_items_of (js_env spec))"
    using assms
    by (intro decode_encode_string_list) (auto simp: spec_ok_def kMaxEnvironmentVariables_def kMaxEncodedItems_def)
qed

lemma check_decoded_stored: "stored_job_ok i r \<Longrightarrow> check_decoded r = Inr r"
  using revision_fits_queued[of "sj_state r" "sj_revision r"] by (auto simp: check_decoded_def stored_job_ok_def)

lemma job_row_nth:
  "job_row r ! 28 = placement_columns (js_gpu_placement (sj_spec r)) ! 0"
  "job_row r ! 29 = placement_columns (js_gpu_placement (sj_spec r)) ! 1"
  "job_row r ! 30 = placement_columns (js_gpu_placement (sj_spec r)) ! 2"
  by (simp_all add: job_row_def Let_def nth_append)

lemma identity_nonneg:
  assumes "stored_job_ok i r"
  shows "0 \<le> pi_pid (er_identity (sj_execution r))" "0 \<le> pi_pgid (er_identity (sj_execution r))"
proof -
  have "er_identity (sj_execution r) = blank_identity \<or> identity_valid (er_identity (sj_execution r))"
    using assms by (simp add: stored_job_ok_def validate_execution_iff execution_ok_def)
  then show "0 \<le> pi_pid (er_identity (sj_execution r))" "0 \<le> pi_pgid (er_identity (sj_execution r))"
    by (auto simp: blank_identity_def identity_valid_def)
qed

lemma time_column [simp]:
  assumes "pred_option fits_i64 t"
  shows "(if sint ((if t \<noteq> None then 1 else 0) :: i64) = 1
      then Some (decode_time (case t of None \<Rightarrow> 0 | Some t \<Rightarrow> encode_time t)) else None) = t"
  using assms by (cases t) simp_all

lemma job_row_ints:
  assumes "columns_ok sq"
  shows "sq_column_int64 sq (job_row r ! 0) = sj_id r" "sq_column_int64 sq (job_row r ! 1) = job_state_value (sj_state r)"
    "sq_column_int64 sq (job_row r ! 2) = sj_revision r"
    "sq_column_int64 sq (job_row r ! 3) = ucast (js_owner_uid (sj_spec r))"
    "sq_column_int64 sq (job_row r ! 4) = ucast (js_owner_gid (sj_spec r))"
    "sq_column_int64 sq (job_row r ! 8) = ucast (js_gpu_request (sj_spec r))"
    "sq_column_int64 sq (job_row r ! 11) = encode_time (js_submit_time (sj_spec r))"
    "sq_column_int64 sq (job_row r ! 12) = word_of_int (pi_pid (er_identity (sj_execution r)))"
    "sq_column_int64 sq (job_row r ! 13) = word_of_int (pi_pgid (er_identity (sj_execution r)))"
    "sq_column_int64 sq (job_row r ! 14) = pi_start_ticks (er_identity (sj_execution r))"
    "sq_column_int64 sq (job_row r ! 15) = (if er_start_time (sj_execution r) \<noteq> None then 1 else 0)"
    "sq_column_int64 sq (job_row r ! 16) = (case er_start_time (sj_execution r) of None \<Rightarrow> 0 | Some t \<Rightarrow> encode_time t)"
    "sq_column_int64 sq (job_row r ! 17) = (if er_end_time (sj_execution r) \<noteq> None then 1 else 0)"
    "sq_column_int64 sq (job_row r ! 18) = (case er_end_time (sj_execution r) of None \<Rightarrow> 0 | Some t \<Rightarrow> encode_time t)"
    "sq_column_int64 sq (job_row r ! 19) = (if er_exit (sj_execution r) \<noteq> None then 1 else 0)"
    "sq_column_int64 sq (job_row r ! 20)
       = (case er_exit (sj_execution r) of None \<Rightarrow> 0 | Some x \<Rightarrow> exit_reason_value (es_reason x))"
    "sq_column_int64 sq (job_row r ! 21)
       = (case er_exit (sj_execution r) of None \<Rightarrow> 0 | Some x \<Rightarrow> word_of_int (es_exit_code x))"
    "sq_column_int64 sq (job_row r ! 22)
       = (case er_exit (sj_execution r) of None \<Rightarrow> 0 | Some x \<Rightarrow> word_of_int (es_signal_number x))"
  unfolding job_row_def Let_def by (simp_all add: columns_sel[OF assms])

lemma job_row_texts:
  assumes "columns_ok sq"
  shows "nullable_text sq (job_row r ! 6) = Some (js_cwd (sj_spec r))"
    "nullable_text sq (job_row r ! 9) = js_launch_profile (sj_spec r)"
    "nullable_text sq (job_row r ! 10) = js_tensorboard_logdir (sj_spec r)"
    "nullable_text sq (job_row r ! 23) = er_failure_reason (sj_execution r)"
    "nullable_text sq (job_row r ! 24) = er_log_path (sj_execution r)"
    "nullable_text sq (job_row r ! 25) = js_executable (sj_spec r)"
    "nullable_text sq (job_row r ! 26) = map_option (\<lambda>m. EnvSource_to_string (em_source m)) (js_env_metadata (sj_spec r))"
    "nullable_text sq (job_row r ! 27)
       = (case js_env_metadata (sj_spec r) of None \<Rightarrow> None | Some m \<Rightarrow> em_python_version m)"
  unfolding job_row_def Let_def by (simp_all add: columns_sel[OF assms] columns_opt[OF assms])

lemma job_row_blobs:
  assumes "columns_ok sq" "spec_ok (sj_spec r)"
  shows "decode_string_list (sq_column_blob sq (job_row r ! 5)) = Some (js_argv (sj_spec r))"
    "decode_string_list (sq_column_blob sq (job_row r ! 7)) = Some (env_items_of (js_env (sj_spec r)))"
  unfolding job_row_def Let_def by (simp_all add: columns_sel[OF assms(1)] spec_blobs[OF assms(2)])

lemma sint_flag: "sint ((if b then 1 else 0) :: i64) \<noteq> 0 \<and> sint ((if b then 1 else 0) :: i64) \<noteq> 1 \<longleftrightarrow> False"
  by simp

lemma stored_job_eta:
  "\<lparr>sj_id = sj_id r,
    sj_spec = \<lparr>js_owner_uid = js_owner_uid (sj_spec r), js_owner_gid = js_owner_gid (sj_spec r),
      js_argv = js_argv (sj_spec r), js_cwd = js_cwd (sj_spec r), js_env = js_env (sj_spec r),
      js_executable = js_executable (sj_spec r), js_env_metadata = js_env_metadata (sj_spec r),
      js_gpu_request = js_gpu_request (sj_spec r), js_gpu_placement = js_gpu_placement (sj_spec r),
      js_launch_profile = js_launch_profile (sj_spec r),
      js_tensorboard_logdir = js_tensorboard_logdir (sj_spec r), js_submit_time = js_submit_time (sj_spec r)\<rparr>,
    sj_state = sj_state r, sj_revision = sj_revision r,
    sj_execution = \<lparr>er_identity = \<lparr>pi_pid = pi_pid (er_identity (sj_execution r)),
        pi_pgid = pi_pgid (er_identity (sj_execution r)),
        pi_start_ticks = pi_start_ticks (er_identity (sj_execution r))\<rparr>,
      er_start_time = er_start_time (sj_execution r), er_end_time = er_end_time (sj_execution r),
      er_exit = er_exit (sj_execution r), er_failure_reason = er_failure_reason (sj_execution r),
      er_log_path = er_log_path (sj_execution r)\<rparr>\<rparr> = r"
  by (auto intro!: StoredJob.equality JobSpec.equality JobExecutionRecord.equality ProcessIdentity.equality)

lemma job_row_roundtrip:
  assumes cols: "columns_ok sq" and ok: "stored_job_ok i r" and fits: "record_fits r"
  shows "decode_row sq (job_row r) = Inr r"
proof -
  have spec: "spec_ok (sj_spec r)" using ok by (simp add: stored_job_ok_def job_validate_iff)
  have rev: "\<not> sint (sj_revision r) < 0"
  proof -
    have "sj_revision r \<le> 4" using ok revision_fits_bound by (auto simp: stored_job_ok_def)
    then have "uint (sj_revision r) \<le> 4" by (simp add: word_le_def)
    then show ?thesis by (simp add: sint_small)
  qed
  have u32: "\<not> uint (n :: u32) < 0" "\<not> 0xFFFFFFFF < uint n" for n
    using uint_bounded[of n] by simp_all
  have state: "\<not> sint (job_state_value (sj_state r)) < 0" "\<not> 7 < sint (job_state_value (sj_state r))"
    by (simp_all add: not_less)
  have env: "foldl emplace_env [] (js_env (sj_spec r)) = js_env (sj_spec r)"
    using fits fold_emplace_sorted[of "[]"] by (simp add: record_fits_def)
  have pl: "decode_placement (nullable_text sq (job_row r ! 28)) (nullable_text sq (job_row r ! 29))
      (nullable_text sq (job_row r ! 30)) = Some (js_gpu_placement (sj_spec r))"
    unfolding job_row_nth by (rule placement_roundtrip[OF cols spec refl]) (use fits in \<open>simp add: record_fits_def\<close>)
  have ids: "\<not> pi_pid (er_identity (sj_execution r)) < 0" "\<not> pi_pgid (er_identity (sj_execution r)) < 0"
      "\<not> sint (pi_start_ticks (er_identity (sj_execution r))) < 0"
    using identity_nonneg[OF ok] fits by (simp_all add: record_fits_def)
  have times: "fits_i64 (pi_pid (er_identity (sj_execution r)))" "fits_i64 (pi_pgid (er_identity (sj_execution r)))"
      "fits_i64 (js_submit_time (sj_spec r))" "pred_option fits_i64 (er_start_time (sj_execution r))"
      "pred_option fits_i64 (er_end_time (sj_execution r))" "pred_option exit_fits (er_exit (sj_execution r))"
    using fits by (simp_all add: record_fits_def)
  show ?thesis
    unfolding decode_row_def Let_def pl job_row_ints[OF cols] job_row_texts[OF cols] job_row_blobs[OF cols spec]
      option.case sint_flag exit_roundtrip[OF times(6)] time_column[OF times(4)] time_column[OF times(5)]
      metadata_roundtrip
    using check_decoded_stored[OF ok] by (simp add: times(1-3) state rev u32 env ids stored_job_eta)
qed

section \<open>Tables\<close>

text \<open>The tables of a database: the rows of \<open>yori_jobs\<close> by rowid, those of \<open>yori_leases\<close> by key.\<close>

record database =
  db_version :: i64
  db_revision :: i64
  db_jobs :: "(int, sql_value list) omap"
  db_leases :: "(string, sql_value list) omap"

definition lease_row :: "GpuLease \<Rightarrow> sql_value list" where
  "lease_row l = [SqlText (gl_gpu_uuid l), SqlInt (gl_job_id l)]"

definition jobs_stored :: "job_table \<Rightarrow> (int, sql_value list) omap \<Rightarrow> bool" where
  "jobs_stored jobs rows \<longleftrightarrow>
     omap_wf rows \<and> set rows = (\<lambda>(i, r). (sint i, job_row r)) ` set jobs"

definition leases_stored :: "lease_table \<Rightarrow> (string, sql_value list) omap \<Rightarrow> bool" where
  "leases_stored leases rows \<longleftrightarrow> rows = map (\<lambda>(u, l). (u, lease_row l)) leases"

lemma set_omap_put_wf:
  assumes "omap_wf m"
  shows "set (omap_put k v m) = insert (k, v) {e \<in> set m. fst e \<noteq> k}"
proof -
  have "(a, b) \<in> set (omap_put k v m) \<longleftrightarrow> (a, b) \<in> insert (k, v) {e \<in> set m. fst e \<noteq> k}" for a b
    using omap_lookup_iff[of "omap_put k v m" a b] omap_lookup_iff[OF assms, of a b] omap_wf_put[OF assms]
    by (auto simp: omap_simps split: if_splits)
  then show ?thesis by auto
qed

lemma jobs_stored_put:
  assumes "jobs_stored jobs rows" "omap_wf jobs"
  shows "jobs_stored (omap_put i r jobs) (omap_put (sint i) (job_row r) rows)"
proof -
  have inj: "sint a = sint i \<longleftrightarrow> a = i" for a :: u64 by (auto intro: signed_word_eqI)
  have "set (omap_put (sint i) (job_row r) rows) = (\<lambda>(i, r). (sint i, job_row r)) ` set (omap_put i r jobs)"
    using assms by (auto simp: jobs_stored_def set_omap_put_wf inj image_iff case_prod_beta)
  then show ?thesis using assms by (auto simp: jobs_stored_def)
qed

lemma omap_put_map: "omap_put u (f v) (map (\<lambda>(u, l). (u, f l)) m) = map (\<lambda>(u, l). (u, f l)) (omap_put u v m)"
  by (induction m) auto

lemma omap_erase_map: "omap_erase u (map (\<lambda>(u, l). (u, f l)) m) = map (\<lambda>(u, l). (u, f l)) (omap_erase u m)"
  by (induction m) (auto simp: omap_erase_def)

lemma leases_stored_put: "leases_stored leases rows \<Longrightarrow>
    leases_stored (omap_put u l leases) (omap_put u (lease_row l) rows)"
  by (simp add: leases_stored_def omap_put_map)

lemma leases_stored_erase: "leases_stored leases rows \<Longrightarrow> leases_stored (omap_erase u leases) (omap_erase u rows)"
  by (simp add: leases_stored_def omap_erase_map)

text \<open>The tables that hold a content, and those that hold one that can be read back.\<close>

definition tables_hold :: "database \<Rightarrow> store_content \<Rightarrow> bool" where
  "tables_hold t c \<longleftrightarrow>
     db_version t = 4 \<and> db_revision t = sc_revision c
   \<and> jobs_stored (sc_jobs c) (db_jobs t) \<and> leases_stored (sc_leases c) (db_leases t)"

definition content_fits :: "store_content \<Rightarrow> bool" where
  "content_fits c \<longleftrightarrow> content_wf c \<and> (\<forall>r \<in> snd ` set (sc_jobs c). record_fits r) \<and> sc_revision c \<le> int64_max"

definition stores :: "database \<Rightarrow> store_content \<Rightarrow> bool" where
  "stores t c \<longleftrightarrow> content_fits c \<and> tables_hold t c"

section \<open>Reading tables\<close>

lemma decode_job_rows_fold:
  assumes "\<forall>r \<in> set rs. decode_row sq (job_row r) = Inr r" "distinct (map sj_id rs)"
    and "\<forall>r \<in> set rs. map_of jobs (sj_id r) = None"
  shows "decode_job_rows sq (map job_row rs) jobs = Inr (put_jobs rs jobs)"
  using assms
proof (induction rs arbitrary: jobs)
  case (Cons r rs)
  have "\<forall>x \<in> set rs. map_of (omap_put (sj_id r) r jobs) (sj_id x) = None"
    using Cons.prems by (auto simp: omap_simps) (metis image_eqI)
  then show ?case using Cons by (simp add: put_jobs_Cons omap_contains_def)
qed simp

text \<open>Putting all values of a table into an empty one, in any order, gives the table.\<close>

lemma map_of_fold_put:
  assumes "distinct (map key rs)"
  shows "map_of (fold (\<lambda>r. omap_put (key r) r) rs m) k =
    (case find (\<lambda>r. key r = k) rs of Some r \<Rightarrow> Some r | None \<Rightarrow> map_of m k)"
  using assms
proof (induction rs arbitrary: m)
  case (Cons r rs)
  then have "key r = k \<Longrightarrow> find (\<lambda>r. key r = k) rs = None" by (auto simp: find_None_iff) (metis image_eqI)
  with Cons show ?case by (auto simp: omap_simps split: option.split)
qed simp

lemma fold_put_wf: "omap_wf m \<Longrightarrow> omap_wf (fold (\<lambda>r. omap_put (key r) r) rs m)"
  by (induction rs arbitrary: m) auto

lemma fold_put_all:
  assumes wf: "omap_wf m" and keys: "\<forall>(k, v) \<in> set m. key v = k"
    and rs: "distinct (map key rs)" "set rs = snd ` set m"
  shows "fold (\<lambda>r. omap_put (key r) r) rs [] = m"
proof (rule om.wf_ext[OF _ wf])
  show "omap_wf (fold (\<lambda>r. omap_put (key r) r) rs [])" by (rule fold_put_wf) simp
  have look: "map_of m k = Some v \<longleftrightarrow> v \<in> set rs \<and> key v = k" for k v
  proof -
    have "(k, v) \<in> set m \<longleftrightarrow> v \<in> snd ` set m \<and> key v = k" using keys by (auto simp: image_iff) force
    then show ?thesis by (simp only: omap_lookup_iff[OF wf] rs(2))
  qed
  have "map_of m k = find (\<lambda>r. key r = k) rs" for k
  proof (cases "find (\<lambda>r. key r = k) rs")
    case None
    then have "\<not> (\<exists>v. map_of m k = Some v)" unfolding look by (auto simp: find_None_iff)
    then show ?thesis using None by simp
  next
    case (Some r)
    then have "map_of m k = Some r" unfolding look using find_SomeD[OF Some] by simp
    then show ?thesis using Some by simp
  qed
  then show "map_of (fold (\<lambda>r. omap_put (key r) r) rs []) = map_of m"
    by (simp add: fun_eq_iff map_of_fold_put[OF rs(1)] split: option.split)
qed

lemma put_jobs_all:
  assumes "job_table_ok jobs" "distinct (map sj_id rs)" "set rs = snd ` set jobs"
  shows "put_jobs rs [] = jobs"
  unfolding put_jobs_def using assms
  by (intro fold_put_all) (auto simp: job_table_ok_def list_all_iff stored_job_ok_def)

lemma put_leases_all:
  assumes "lease_table_ok leases" "distinct (map gl_gpu_uuid ls)" "set ls = snd ` set leases"
  shows "put_leases ls [] = leases"
  unfolding put_leases_def using assms
  by (intro fold_put_all) (auto simp: lease_table_ok_def list_all_iff)

lemma lease_eta: "\<lparr>gl_gpu_uuid = gl_gpu_uuid l, gl_job_id = gl_job_id l\<rparr> = l"
  by (rule GpuLease.equality) simp_all

lemma decode_lease_rows_fold:
  assumes "columns_ok sq" "\<forall>l \<in> set ls. uuid_valid (gl_gpu_uuid l) \<and> job_id_valid (gl_job_id l)
      \<and> omap_contains (gl_job_id l) jobs"
    and "distinct (map gl_gpu_uuid ls)" "\<forall>l \<in> set ls. map_of leases (gl_gpu_uuid l) = None"
  shows "decode_lease_rows sq jobs (map lease_row ls) leases = Inr (put_leases ls leases)"
  using assms(2-)
proof (induction ls arbitrary: leases)
  case (Cons l ls)
  have "\<forall>x \<in> set ls. map_of (omap_put (gl_gpu_uuid l) l leases) (gl_gpu_uuid x) = None"
    using Cons.prems by (auto simp: omap_simps) (metis image_eqI)
  then show ?case
    using Cons.IH Cons.prems
    by (simp add: put_leases_def omap_contains_def lease_row_def Let_def lease_eta columns_sel(1,2)[OF assms(1)])
qed (simp add: put_leases_def)

text \<open>Rows that a query has answered, in any order and possibly not all: they come from distinct values
  of the table.\<close>

lemma rows_of_values:
  assumes keys: "distinct (map key ws)" and inj: "inj_on row (set ws)"
    and rows: "mset (rows @ rest) = mset (map row ws)"
  obtains vs where "rows = map row vs" "distinct (map key vs)" "set vs \<subseteq> set ws"
    "rest = [] \<Longrightarrow> set vs = set ws"
proof -
  let ?f = "the_inv_into (set ws) row"
  have "mset (map ?f (rows @ rest)) = image_mset ?f (mset (map row ws))" unfolding rows[symmetric] by simp
  also have "\<dots> = mset (map (\<lambda>w. ?f (row w)) ws)" by (simp add: image_mset.compositionality comp_def)
  also have "map (\<lambda>w. ?f (row w)) ws = ws" by (rule map_idI) (rule the_inv_into_f_f[OF inj])
  finally have zs: "mset (map ?f (rows @ rest)) = mset ws" .
  have "mset (map key (map ?f (rows @ rest))) = mset (map key ws)" unfolding mset_map[of key] zs ..
  then have "distinct (map key (map ?f (rows @ rest)))" using keys mset_eq_imp_distinct_iff by blast
  then have 1: "distinct (map key (map ?f rows))" by (simp only: map_append distinct_append)
  have sub: "x \<in> row ` set ws" if "x \<in> set rows" for x using that mset_eq_setD[OF rows] by auto
  have "map row (map ?f rows) = rows"
    unfolding map_map comp_def by (rule map_idI) (rule f_the_inv_into_f[OF inj sub])
  moreover have "set (map ?f rows) \<subseteq> set ws" "rest = [] \<Longrightarrow> set (map ?f rows) = set ws"
    using mset_eq_setD[OF zs] by auto
  ultimately show thesis using that[of "map ?f rows"] 1 by simp
qed

end
