(* ===== verification/Sqlite_Props.thy ===== *)
theory Sqlite_Props
  imports Sqlite_Laws
begin

text \<open>
  What the SQLite backend promises. The documented behaviour of the library is \<open>sqlite_ok\<close>: what a
  statement does to the tables, that a query answers rows of them, and that a transaction that is not
  committed leaves no trace. Under it the backend answers as the in-memory backend does on the same
  content, or that it is unavailable, and then the content is as it was. The last part is the migration
  of databases of the earlier schema versions.
\<close>

section \<open>The library\<close>

fun query_rows :: "sql_query \<Rightarrow> database \<Rightarrow> sql_value list list" where
  "query_rows Select_Schema_Version t = [[SqlInt (db_version t)]]"
| "query_rows Select_Revision t = [[SqlInt (db_revision t)]]"
| "query_rows Select_Jobs t = map snd (db_jobs t)"
| "query_rows Select_Leases t = map snd (db_leases t)"

text \<open>What a statement does: \<open>INSERT OR REPLACE\<close> by the integer primary key, \<open>DELETE\<close> by the text primary
  key, \<open>INSERT\<close> under the two uniqueness constraints of \<^verbatim>\<open>yori_leases\<close>. \<open>None\<close> is a violated constraint.\<close>

fun statement_effect :: "sql_update \<Rightarrow> sql_value list \<Rightarrow> database \<Rightarrow> database option" where
  "statement_effect Replace_Job (SqlInt i # row) t =
     Some (t\<lparr>db_jobs := omap_put (sint i) (SqlInt i # row) (db_jobs t)\<rparr>)"
| "statement_effect Delete_Lease [SqlText u] t = Some (t\<lparr>db_leases := omap_erase u (db_leases t)\<rparr>)"
| "statement_effect Insert_Lease [SqlText u, SqlInt i] t =
     (if omap_contains u (db_leases t) \<or> list_ex (\<lambda>(_, row). row ! 1 = SqlInt i) (db_leases t) then None
      else Some (t\<lparr>db_leases := omap_put u [SqlText u, SqlInt i] (db_leases t)\<rparr>))"
| "statement_effect Update_Revision [SqlInt v] t = Some (t\<lparr>db_revision := v\<rparr>)"
| "statement_effect _ _ t = None"

text \<open>What a script does: the schema script creates what is missing, a migration appends columns.\<close>

definition empty_database :: database where
  "empty_database = \<lparr>db_version = 4, db_revision = 0, db_jobs = [], db_leases = []\<rparr>"

definition add_columns :: "(sql_value list \<Rightarrow> sql_value list) \<Rightarrow> i64 \<Rightarrow> database \<Rightarrow> database" where
  "add_columns f version t = t\<lparr>db_version := version, db_jobs := map (\<lambda>(i, row). (i, row @ f row)) (db_jobs t)\<rparr>"

fun script_effect :: "sql_script \<Rightarrow> database option \<Rightarrow> database option" where
  "script_effect kSchemaSql x = (case x of None \<Rightarrow> Some empty_database | Some t \<Rightarrow> Some t)"
| "script_effect kMigrationV1ToV2Sql x = map_option (add_columns (\<lambda>_. [SqlNull, SqlNull, SqlNull]) 2) x"
| "script_effect kMigrationV2ToV3Sql x = map_option (add_columns (\<lambda>_. [SqlNull, SqlNull]) 3) x"
| "script_effect kMigrationV3ToV4Sql x =
     map_option (add_columns (\<lambda>row. [if row ! 28 = SqlText ''required'' then row ! 29 else SqlNull]) 4) x"
| "script_effect _ x = x"

fun script_version :: "sql_script \<Rightarrow> i64 option" where
  "script_version kMigrationV1ToV2Sql = Some 1"
| "script_version kMigrationV2ToV3Sql = Some 2"
| "script_version kMigrationV3ToV4Sql = Some 3"
| "script_version _ = None"

definition plain_scripts :: "sql_script set" where
  "plain_scripts = {kSchemaSql, kMigrationV1ToV2Sql, kMigrationV2ToV3Sql, kMigrationV3ToV4Sql}"

text \<open>The documented behaviour, over the tables the connection sees and, inside a transaction, those it
  began with. A failed statement or commit leaves the transaction open or has rolled it back.\<close>

definition begin_law where
  "begin_law sq tables saved \<longleftrightarrow>
     (\<forall>db ok db'. saved db = None \<longrightarrow> sq_exec sq Begin_Immediate db = (ok, db') \<longrightarrow>
        tables db' = tables db \<and> saved db' = (if ok then Some (tables db) else None))"

definition rolled_back where
  "rolled_back tables saved b db \<longleftrightarrow> saved db = None \<and> tables db = b"

definition rollback_law where
  "rollback_law sq tables saved \<longleftrightarrow>
     (\<forall>db b. saved db = Some b \<or> rolled_back tables saved b db \<longrightarrow>
        rolled_back tables saved b (snd (sq_exec sq Rollback db)))"

definition commit_law where
  "commit_law sq tables saved \<longleftrightarrow>
     (\<forall>db b ok db'. saved db = Some b \<longrightarrow> sq_exec sq Commit db = (ok, db') \<longrightarrow>
        (if ok then saved db' = None \<and> tables db' = tables db
         else saved db' = Some b \<or> rolled_back tables saved b db'))"

definition update_law where
  "update_law sq tables saved \<longleftrightarrow>
     (\<forall>db b t u vs ok db'. saved db = Some b \<longrightarrow> tables db = Some t \<longrightarrow> sq_update sq u vs db = (ok, db') \<longrightarrow>
        (if ok then saved db' = Some b \<and> tables db' = statement_effect u vs t
         else saved db' = Some b \<or> rolled_back tables saved b db'))"

definition query_law where
  "query_law sq tables \<longleftrightarrow>
     (\<forall>db t q rows finished. tables db = Some t \<longrightarrow> sq_query sq q db = Some (rows, finished) \<longrightarrow>
        (\<exists>rest. mset (rows @ rest) = mset (query_rows q t) \<and> (finished \<longrightarrow> rest = [])))"

definition script_law where
  "script_law sq tables saved \<longleftrightarrow>
     (\<forall>db s db'. saved db = None \<longrightarrow> s \<in> plain_scripts \<longrightarrow> sq_exec sq s db = (True, db') \<longrightarrow>
        saved db' = None \<and> tables db' = script_effect s (tables db))"

definition sqlite_ok ::
  "'d Sqlite \<Rightarrow> ('d \<Rightarrow> database option) \<Rightarrow> ('d \<Rightarrow> database option option) \<Rightarrow> bool" where
  "sqlite_ok sq tables saved \<longleftrightarrow>
     columns_ok sq \<and> begin_law sq tables saved \<and> rollback_law sq tables saved \<and> commit_law sq tables saved
   \<and> update_law sq tables saved \<and> query_law sq tables \<and> script_law sq tables saved"

text \<open>A library that is up: no call fails that need not.\<close>

definition sqlite_up ::
  "'d Sqlite \<Rightarrow> ('d \<Rightarrow> database option) \<Rightarrow> ('d \<Rightarrow> database option option) \<Rightarrow> ('d \<Rightarrow> bool) \<Rightarrow> bool" where
  "sqlite_up sq tables saved up \<longleftrightarrow>
     (\<forall>db. up db \<longrightarrow> saved db = None \<longrightarrow> fst (sq_exec sq Begin_Immediate db) \<and> up (snd (sq_exec sq Begin_Immediate db)))
   \<and> (\<forall>db. up db \<longrightarrow> up (snd (sq_exec sq Rollback db)))
   \<and> (\<forall>db b. up db \<longrightarrow> saved db = Some b \<longrightarrow> fst (sq_exec sq Commit db) \<and> up (snd (sq_exec sq Commit db)))
   \<and> (\<forall>db b t u vs. up db \<longrightarrow> saved db = Some b \<longrightarrow> tables db = Some t \<longrightarrow> statement_effect u vs t \<noteq> None \<longrightarrow>
        fst (sq_update sq u vs db) \<and> up (snd (sq_update sq u vs db)))
   \<and> (\<forall>db t q. up db \<longrightarrow> tables db = Some t \<longrightarrow> (\<exists>rows. sq_query sq q db = Some (rows, True)))
   \<and> (\<forall>db. up db \<longrightarrow> saved db = None \<longrightarrow> fst (sq_exec sq kSchemaSql db) \<and> up (snd (sq_exec sq kSchemaSql db)))
   \<and> (\<forall>db t s. up db \<longrightarrow> saved db = None \<longrightarrow> tables db = Some t \<longrightarrow> script_version s = Some (db_version t) \<longrightarrow>
        fst (sq_exec sq s db) \<and> up (snd (sq_exec sq s db)))"

section \<open>Reading a content\<close>

text \<open>Every query runs to its end.\<close>

definition answers :: "'d Sqlite \<Rightarrow> 'd \<Rightarrow> bool" where
  "answers sq db \<longleftrightarrow> (\<forall>q. \<exists>rows. sq_query sq q db = Some (rows, True))"

lemma answersD: "answers sq db \<Longrightarrow> \<exists>rows. sq_query sq q db = Some (rows, True)"
  by (simp add: answers_def)

lemma query_lawE:
  assumes "query_law sq tables" "tables db = Some t" "sq_query sq q db = Some (rows, finished)"
  obtains rest where "mset (rows @ rest) = mset (query_rows q t)" "finished \<Longrightarrow> rest = []"
  using assms unfolding query_law_def by blast

lemma one_row:
  assumes "query_law sq tables" "tables db = Some t" "sq_query sq q db = Some (rows, finished)" "query_rows q t = [x]"
  shows "rows = [x] \<or> rows = [] \<and> \<not> finished"
proof -
  obtain rest where rest: "mset (rows @ rest) = mset (query_rows q t)" "finished \<Longrightarrow> rest = []"
    using query_lawE[OF assms(1-3)] by blast
  from rest(1) have "mset (rows @ rest) = {#x#}" by (simp add: assms(4))
  then have "rows @ rest = [x]" by (simp only: mset_single_iff)
  then show ?thesis using rest(2) by (auto simp: append_eq_Cons_conv)
qed

lemma sint_nonneg: "(v :: i64) \<le> int64_max \<Longrightarrow> 0 \<le> sint v"
proof -
  assume "v \<le> int64_max"
  then have "uint v < 2 ^ 63" by (simp add: word_le_def int64_max_def)
  then show ?thesis by (simp add: sint_small)
qed

lemma read_revision_stored:
  assumes laws: "columns_ok sq" "query_law sq tables" and t: "tables db = Some t" "stores t c"
  shows "read_revision sq db = Some (sc_revision c) \<or> read_revision sq db = None \<and> \<not> answers sq db"
proof (cases "sq_query sq Select_Revision db")
  case None
  then show ?thesis using answersD[of sq db Select_Revision] by (auto simp: read_revision_def)
next
  case (Some q)
  obtain rows finished where q: "q = (rows, finished)" by (cases q)
  have "db_revision t = sc_revision c" "\<not> sint (sc_revision c) < 0"
    using t(2) sint_nonneg by (auto simp: stores_def content_fits_def tables_hold_def not_less)
  then show ?thesis
    using one_row[OF laws(2) t(1), of Select_Revision rows finished] Some q answersD[of sq db Select_Revision]
    by (auto simp: read_revision_def columns_sel(1)[OF laws(1)])
qed

lemma jobs_stored_mset:
  assumes "jobs_stored jobs rows" "omap_wf jobs"
  shows "mset (map snd rows) = mset (map job_row (map snd jobs))"
proof -
  let ?f = "\<lambda>(i, r). (sint i, job_row r)"
  have d: "distinct rows" "distinct (map fst jobs)"
    using assms by (auto simp: jobs_stored_def omap_wf_def distinct_map strict_sorted_iff)
  have "inj_on ?f (set jobs)"
    using eq_key_imp_eq_value[OF d(2)] by (auto simp: inj_on_def dest!: signed_word_eqI)
  then have "distinct (map ?f jobs)" using d(2) by (simp add: distinct_map)
  then have "mset rows = mset (map ?f jobs)"
    using assms(1) d(1) by (subst set_eq_iff_mset_eq_distinct[symmetric]) (auto simp: jobs_stored_def)
  then have "mset (map snd rows) = mset (map snd (map ?f jobs))" by (simp only: mset_map)
  also have "map snd (map ?f jobs) = map job_row (map snd jobs)" by auto
  finally show ?thesis .
qed

lemma job_table_values:
  assumes "job_table_ok jobs"
  shows "map sj_id (map snd jobs) = map fst jobs" "distinct (map sj_id (map snd jobs))"
    "r \<in> set (map snd jobs) \<Longrightarrow> stored_job_ok (sj_id r) r"
proof -
  have "stored_job_ok i r" if "(i, r) \<in> set jobs" for i r
    using that assms by (auto simp: job_table_ok_def list_all_iff)
  then show 1: "map sj_id (map snd jobs) = map fst jobs" by (auto simp: stored_job_ok_def)
  show "distinct (map sj_id (map snd jobs))"
    unfolding 1 using assms by (auto simp: job_table_ok_def omap_wf_def strict_sorted_iff)
  show "stored_job_ok (sj_id r) r" if "r \<in> set (map snd jobs)"
    using that \<open>\<And>i r. (i, r) \<in> set jobs \<Longrightarrow> stored_job_ok i r\<close> by (auto simp: stored_job_ok_def)
qed

lemma decode_jobs_stored:
  assumes laws: "columns_ok sq" "query_law sq tables" and t: "tables db = Some t" "stores t c"
  shows "decode_jobs sq db = Inr (sc_jobs c)
    \<or> decode_jobs sq db = Inl StateStoreErrorCode.kBackendUnavailable \<and> \<not> answers sq db"
proof (cases "sq_query sq Select_Jobs db")
  case None
  then show ?thesis using answersD[of sq db Select_Jobs] by (auto simp: decode_jobs_def)
next
  case (Some q)
  obtain rows finished where q: "sq_query sq Select_Jobs db = Some (rows, finished)" using Some by (cases q) auto
  have jt: "job_table_ok (sc_jobs c)" and st: "jobs_stored (sc_jobs c) (db_jobs t)"
    using t(2) by (auto simp: stores_def content_fits_def tables_hold_def content_wf_def)
  have row: "decode_row sq (job_row r) = Inr r" if "r \<in> set (map snd (sc_jobs c))" for r
    by (rule job_row_roundtrip[OF laws(1) job_table_values(3)[OF jt that]])
      (use that t(2) in \<open>auto simp: stores_def content_fits_def\<close>)
  then have inj: "inj_on job_row (set (map snd (sc_jobs c)))" unfolding inj_on_def by (metis sum.inject(2))
  obtain rest where rest: "mset (rows @ rest) = mset (map snd (db_jobs t))" "finished \<Longrightarrow> rest = []"
    using query_lawE[OF laws(2) t(1) q] unfolding query_rows.simps by blast
  have "mset (rows @ rest) = mset (map job_row (map snd (sc_jobs c)))"
    unfolding rest(1) by (rule jobs_stored_mset[OF st]) (use jt in \<open>simp add: job_table_ok_def\<close>)
  then obtain rs where rs: "rows = map job_row rs" "distinct (map sj_id rs)" "set rs \<subseteq> set (map snd (sc_jobs c))"
      "rest = [] \<Longrightarrow> set rs = set (map snd (sc_jobs c))"
    using rows_of_values[OF job_table_values(2)[OF jt] inj] by blast
  have "decode_job_rows sq rows [] = Inr (put_jobs rs [])"
    unfolding rs(1) by (rule decode_job_rows_fold) (use rs row in auto)
  moreover have "put_jobs rs [] = sc_jobs c" if finished
    using put_jobs_all[OF jt rs(2)] rs(4) rest(2) that by simp
  ultimately show ?thesis using q answersD[of sq db Select_Jobs] by (auto simp: decode_jobs_def)
qed

lemma lease_matrix_leases:
  assumes "content_wf c" "l \<in> snd ` set (sc_leases c)"
  shows "uuid_valid (gl_gpu_uuid l) \<and> job_id_valid (gl_job_id l) \<and> omap_contains (gl_job_id l) (sc_jobs c)"
proof -
  from assms have "uuid_valid (gl_gpu_uuid l)" "map_of (sc_jobs c) (gl_job_id l) \<noteq> None"
    by (auto simp: content_wf_def lease_table_ok_def lease_matrix_ok_def list_all_iff split: option.splits)
  then show ?thesis using job_table_okD assms(1) by (fastforce simp: omap_contains_def content_wf_def stored_job_ok_def)
qed

lemma decode_leases_stored:
  assumes laws: "columns_ok sq" "query_law sq tables" and t: "tables db = Some t" "stores t c"
  shows "decode_leases sq (sc_jobs c) db = Inr (sc_leases c)
    \<or> decode_leases sq (sc_jobs c) db = Inl StateStoreErrorCode.kBackendUnavailable \<and> \<not> answers sq db"
proof (cases "sq_query sq Select_Leases db")
  case None
  then show ?thesis using answersD[of sq db Select_Leases] by (auto simp: decode_leases_def)
next
  case (Some q)
  obtain rows finished where q: "sq_query sq Select_Leases db = Some (rows, finished)" using Some by (cases q) auto
  have wf: "content_wf c" and st: "leases_stored (sc_leases c) (db_leases t)"
    using t(2) by (auto simp: stores_def content_fits_def tables_hold_def)
  then have lt: "lease_table_ok (sc_leases c)" by (simp add: content_wf_def)
  have "map gl_gpu_uuid (map snd (sc_leases c)) = map fst (sc_leases c)"
    using lt by (auto simp: lease_table_ok_def list_all_iff)
  then have keys: "distinct (map gl_gpu_uuid (map snd (sc_leases c)))"
    using lt omap_wf_distinct[of "sc_leases c"] by (simp add: lease_table_ok_def del: map_map)
  have inj: "inj_on lease_row (set (map snd (sc_leases c)))"
    by (auto simp: inj_on_def lease_row_def intro: GpuLease.equality)
  obtain rest where rest: "mset (rows @ rest) = mset (map snd (db_leases t))" "finished \<Longrightarrow> rest = []"
    using query_lawE[OF laws(2) t(1) q] unfolding query_rows.simps by blast
  have "map snd (db_leases t) = map lease_row (map snd (sc_leases c))"
    using st by (auto simp: leases_stored_def)
  note same = rest(1)[unfolded this]
  obtain ls where ls: "rows = map lease_row ls" "distinct (map gl_gpu_uuid ls)"
      "set ls \<subseteq> set (map snd (sc_leases c))" "rest = [] \<Longrightarrow> set ls = set (map snd (sc_leases c))"
    using rows_of_values[OF keys inj same] by blast
  have "decode_lease_rows sq (sc_jobs c) rows [] = Inr (put_leases ls [])"
    unfolding ls(1) by (rule decode_lease_rows_fold) (use ls laws(1) lease_matrix_leases[OF wf] in auto)
  moreover have "put_leases ls [] = sc_leases c" if finished
    using put_leases_all[OF lt ls(2)] ls(4) rest(2) that by simp
  moreover have "\<not> list_ex (\<lambda>(i, r). leaseable (sj_state r) \<and> lease_count i (sc_leases c) \<noteq> 1
      \<or> \<not> leaseable (sj_state r) \<and> lease_count i (sc_leases c) \<noteq> 0) (sc_jobs c)"
    using wf by (auto simp: content_wf_def lease_matrix_ok_def list_all_iff list_ex_iff)
  ultimately show ?thesis using q answersD[of sq db Select_Leases] by (auto simp: decode_leases_def)
qed

definition decoded :: "store_content \<Rightarrow> DecodedState" where
  "decoded c = \<lparr>ds_revision = sc_revision c, ds_jobs = sc_jobs c, ds_leases = sc_leases c\<rparr>"

lemma decode_state_stored:
  assumes "columns_ok sq" "query_law sq tables" "tables db = Some t" "stores t c"
  shows "decode_state sq db = (sc_revision c, Inr (decoded c))
    \<or> snd (decode_state sq db) = Inl StateStoreErrorCode.kBackendUnavailable \<and> \<not> answers sq db"
  using read_revision_stored[OF assms] decode_jobs_stored[OF assms] decode_leases_stored[OF assms]
  by (auto simp: decode_state_def decoded_def)

section \<open>Writing a content\<close>

text \<open>A transaction that began with the tables \<open>b\<close> and now sees \<open>t\<close>; one that can only be rolled back.\<close>

definition in_tx where
  "in_tx tables saved b t db \<longleftrightarrow> saved db = Some (Some b) \<and> tables db = Some t"

definition failed_tx where
  "failed_tx tables saved b db \<longleftrightarrow> saved db = Some (Some b) \<or> rolled_back tables saved (Some b) db"

fun effect_each :: "sql_update \<Rightarrow> ('a \<Rightarrow> sql_value list) \<Rightarrow> 'a list \<Rightarrow> database \<Rightarrow> database option" where
  "effect_each u f [] t = Some t"
| "effect_each u f (x # xs) t = Option.bind (statement_effect u (f x) t) (effect_each u f xs)"

lemma update_step:
  assumes laws: "update_law sq tables saved" "sqlite_up sq tables saved up" and tx: "in_tx tables saved b t db"
    and eff: "statement_effect u vs t = Some t'" and res: "sq_update sq u vs db = (ok, db')"
  shows "ok \<Longrightarrow> in_tx tables saved b t' db'" "\<not> ok \<Longrightarrow> failed_tx tables saved b db'" "up db \<Longrightarrow> ok \<and> up db'"
proof -
  have 1: "saved db = Some (Some b)" "tables db = Some t" using tx by (simp_all add: in_tx_def)
  note step = laws(1)[unfolded update_law_def, rule_format, OF 1 res]
  show "ok \<Longrightarrow> in_tx tables saved b t' db'" "\<not> ok \<Longrightarrow> failed_tx tables saved b db'"
    using step eff by (auto simp: in_tx_def failed_tx_def)
  show "ok \<and> up db'" if "up db"
  proof -
    have "fst (sq_update sq u vs db) \<and> up (snd (sq_update sq u vs db))"
      using laws(2) that 1 eff unfolding sqlite_up_def by blast
    then show ?thesis using res by simp
  qed
qed

lemma update_each:
  assumes laws: "update_law sq tables saved" "sqlite_up sq tables saved up" and "in_tx tables saved b t db"
    and "effect_each u f xs t = Some t'" and "write_each (\<lambda>x. sq_update sq u (f x)) xs db = (ok, db')"
  shows "(ok \<longrightarrow> in_tx tables saved b t' db') \<and> (\<not> ok \<longrightarrow> failed_tx tables saved b db') \<and> (up db \<longrightarrow> ok \<and> up db')"
  using assms(3-)
proof (induction xs arbitrary: t db)
  case (Cons x xs)
  obtain t1 where t1: "statement_effect u (f x) t = Some t1" "effect_each u f xs t1 = Some t'"
    using Cons.prems(2) by (auto simp: bind_eq_Some_conv)
  obtain ok1 db1 where s: "sq_update sq u (f x) db = (ok1, db1)" by fastforce
  note step = update_step[OF laws Cons.prems(1) t1(1) s]
  show ?case
  proof (cases ok1)
    case True
    then show ?thesis using Cons.IH[OF step(1) t1(2)] Cons.prems(3) s step(3) by auto
  next
    case False
    then show ?thesis using Cons.prems(3) s step(2,3) by auto
  qed
qed simp

text \<open>A triple for the writes of a transaction: from \<open>A\<close> the write ends in \<open>B\<close> or fails, and a library that
  is up does not fail.\<close>

definition tx_triple where
  "tx_triple tables saved up b A f B \<longleftrightarrow>
     (\<forall>db ok db'. A db \<longrightarrow> f db = (ok, db') \<longrightarrow>
        (ok \<longrightarrow> B db') \<and> (\<not> ok \<longrightarrow> failed_tx tables saved b db') \<and> (up db \<longrightarrow> ok \<and> up db'))"

lemma tx_seq:
  assumes "tx_triple tables saved up b A f B" "tx_triple tables saved up b B g C"
  shows "tx_triple tables saved up b A (\<lambda>db. case f db of (ok, db1) \<Rightarrow> if \<not> ok then (False, db1) else g db1) C"
  unfolding tx_triple_def
proof (intro allI impI)
  fix db ok db' assume a: "A db" and r: "(case f db of (ok, db1) \<Rightarrow> if \<not> ok then (False, db1) else g db1) = (ok, db')"
  obtain ok1 db1 where f: "f db = (ok1, db1)" by fastforce
  note 1 = assms(1)[unfolded tx_triple_def, rule_format, OF a f]
  show "(ok \<longrightarrow> C db') \<and> (\<not> ok \<longrightarrow> failed_tx tables saved b db') \<and> (up db \<longrightarrow> ok \<and> up db')"
  proof (cases ok1)
    case True
    then have "g db1 = (ok, db')" using r f by simp
    with 1 True show ?thesis using assms(2)[unfolded tx_triple_def] by blast
  next
    case False
    then show ?thesis using 1 r f by auto
  qed
qed

definition tx_holds where
  "tx_holds tables saved b c db \<longleftrightarrow> (\<exists>t. in_tx tables saved b t db \<and> tables_hold t c)"

lemma tx_each:
  assumes "update_law sq tables saved" "sqlite_up sq tables saved up"
    and "\<And>t. tables_hold t c \<Longrightarrow> \<exists>t'. effect_each u f xs t = Some t' \<and> tables_hold t' c'"
  shows "tx_triple tables saved up b (tx_holds tables saved b c)
    (write_each (\<lambda>x. sq_update sq u (f x)) xs) (tx_holds tables saved b c')"
  unfolding tx_triple_def
proof (intro allI impI)
  fix db ok db'
  assume "tx_holds tables saved b c db" and w: "write_each (\<lambda>x. sq_update sq u (f x)) xs db = (ok, db')"
  then obtain t where t: "in_tx tables saved b t db" "tables_hold t c" by (auto simp: tx_holds_def)
  obtain t' where t': "effect_each u f xs t = Some t'" "tables_hold t' c'" using assms(3)[OF t(2)] by blast
  show "(ok \<longrightarrow> tx_holds tables saved b c' db') \<and> (\<not> ok \<longrightarrow> failed_tx tables saved b db') \<and> (up db \<longrightarrow> ok \<and> up db')"
    using update_each[OF assms(1,2) t(1) t'(1) w] t'(2) by (auto simp: tx_holds_def)
qed

text \<open>What each group of writes makes of the content.\<close>

lemma replace_job_effect:
  "statement_effect Replace_Job (job_row r) t = Some (t\<lparr>db_jobs := omap_put (sint (sj_id r)) (job_row r) (db_jobs t)\<rparr>)"
  by (simp add: job_row_def Let_def)

lemma effect_jobs:
  "omap_wf (sc_jobs c) \<Longrightarrow> tables_hold t c \<Longrightarrow> \<exists>t'. effect_each Replace_Job job_row rs t = Some t'
     \<and> tables_hold t' (c\<lparr>sc_jobs := put_jobs rs (sc_jobs c)\<rparr>)"
proof (induction rs arbitrary: t c)
  case (Cons r rs)
  have "tables_hold (t\<lparr>db_jobs := omap_put (sint (sj_id r)) (job_row r) (db_jobs t)\<rparr>)
      (c\<lparr>sc_jobs := omap_put (sj_id r) r (sc_jobs c)\<rparr>)"
    using Cons.prems jobs_stored_put[of "sc_jobs c" "db_jobs t" "sj_id r" r] by (simp add: tables_hold_def)
  from Cons.IH[OF _ this] show ?case using Cons.prems(1) by (auto simp: replace_job_effect put_jobs_Cons)
qed simp

lemma effect_releases:
  "tables_hold t c \<Longrightarrow> \<exists>t'. effect_each Delete_Lease (\<lambda>u. [SqlText u]) us t = Some t'
     \<and> tables_hold t' (c\<lparr>sc_leases := fold omap_erase us (sc_leases c)\<rparr>)"
proof (induction us arbitrary: t c)
  case (Cons u us)
  have "tables_hold (t\<lparr>db_leases := omap_erase u (db_leases t)\<rparr>) (c\<lparr>sc_leases := omap_erase u (sc_leases c)\<rparr>)"
    using Cons.prems leases_stored_erase by (simp add: tables_hold_def)
  from Cons.IH[OF this] show ?case by simp
qed simp

lemma put_leases_Cons: "put_leases (l # ls) leases = put_leases ls (omap_put (gl_gpu_uuid l) l leases)"
  by (simp add: put_leases_def)

lemma insert_lease_effect:
  assumes "tables_hold t c" "\<not> omap_contains (gl_gpu_uuid l) (sc_leases c)"
    "\<not> list_ex (\<lambda>(_, e). gl_job_id e = gl_job_id l) (sc_leases c)"
  shows "statement_effect Insert_Lease [SqlText (gl_gpu_uuid l), SqlInt (gl_job_id l)] t
    = Some (t\<lparr>db_leases := omap_put (gl_gpu_uuid l) (lease_row l) (db_leases t)\<rparr>)"
proof -
  have rows: "db_leases t = map (\<lambda>(u, l). (u, lease_row l)) (sc_leases c)"
    using assms(1) by (simp add: tables_hold_def leases_stored_def)
  have "map_of (db_leases t) u = map_option lease_row (map_of (sc_leases c) u)" for u
    unfolding rows by (simp add: map_of_map)
  then have "\<not> omap_contains (gl_gpu_uuid l) (db_leases t)" using assms(2) by (simp add: omap_contains_def)
  moreover have "\<not> list_ex (\<lambda>(_, row). row ! 1 = SqlInt (gl_job_id l)) (db_leases t)"
    using assms(3) unfolding rows by (auto simp: list_ex_iff lease_row_def)
  ultimately show ?thesis by (simp add: lease_row_def)
qed

lemma effect_acquires:
  "apply_acquires config jobs ls (sc_leases c) = Inr leases' \<Longrightarrow> tables_hold t c \<Longrightarrow>
   \<exists>t'. effect_each Insert_Lease (\<lambda>l. [SqlText (gl_gpu_uuid l), SqlInt (gl_job_id l)]) ls t = Some t'
     \<and> tables_hold t' (c\<lparr>sc_leases := put_leases ls (sc_leases c)\<rparr>)"
proof (induction ls arbitrary: t c)
  case Nil
  then show ?case by (simp add: put_leases_def tables_hold_def)
next
  case (Cons l ls)
  let ?c = "c\<lparr>sc_leases := omap_put (gl_gpu_uuid l) l (sc_leases c)\<rparr>"
  have 1: "\<not> omap_contains (gl_gpu_uuid l) (sc_leases c)" "\<not> list_ex (\<lambda>(_, e). gl_job_id e = gl_job_id l) (sc_leases c)"
      "apply_acquires config jobs ls (sc_leases ?c) = Inr leases'"
    using Cons.prems(1) by (auto split: if_splits)
  have "tables_hold (t\<lparr>db_leases := omap_put (gl_gpu_uuid l) (lease_row l) (db_leases t)\<rparr>) ?c"
    using Cons.prems(2) leases_stored_put by (simp add: tables_hold_def)
  from Cons.IH[OF 1(3) this] show ?case
    unfolding effect_each.simps insert_lease_effect[OF Cons.prems(2) 1(1,2)] put_leases_Cons by simp
qed

lemma write_each_single: "write_each f [x] = f x"
  by (rule ext) (simp split: prod.split)

lemma tx_commit:
  assumes "commit_law sq tables saved" "sqlite_up sq tables saved up"
  shows "tx_triple tables saved up b (tx_holds tables saved b c) (sq_exec sq Commit)
    (\<lambda>db. saved db = None \<and> (\<exists>t. tables db = Some t \<and> tables_hold t c))"
  unfolding tx_triple_def
proof (intro allI impI)
  fix db ok db' assume "tx_holds tables saved b c db" and r: "sq_exec sq Commit db = (ok, db')"
  then obtain t where t: "saved db = Some (Some b)" "tables db = Some t" "tables_hold t c"
    by (auto simp: tx_holds_def in_tx_def)
  have "fst (sq_exec sq Commit db) \<and> up (snd (sq_exec sq Commit db))" if "up db"
    using assms(2) that t(1) unfolding sqlite_up_def by blast
  then show "(ok \<longrightarrow> saved db' = None \<and> (\<exists>t. tables db' = Some t \<and> tables_hold t c))
      \<and> (\<not> ok \<longrightarrow> failed_tx tables saved b db') \<and> (up db \<longrightarrow> ok \<and> up db')"
    using assms(1)[unfolded commit_law_def, rule_format, OF t(1) r] t(2,3) r by (auto simp: failed_tx_def)
qed

lemma write_rows_triple:
  assumes laws: "sqlite_ok sq tables saved" "sqlite_up sq tables saved up" and wf: "content_wf c"
    and ok: "mutation_ok (apply_mutation (sc_jobs c) (sc_leases c) (sc_revision c) config m)"
  shows "tx_triple tables saved up b (tx_holds tables saved b c) (write_rows sq m (sc_revision c + 1))
    (\<lambda>db. saved db = None \<and> (\<exists>t. tables db = Some t \<and> tables_hold t (mutation_effect c m)))"
proof -
  let ?c1 = "c\<lparr>sc_jobs := put_jobs (sm_create_jobs m) (sc_jobs c)\<rparr>"
  let ?c2 = "?c1\<lparr>sc_jobs := put_jobs (sm_update_jobs m) (sc_jobs ?c1)\<rparr>"
  let ?c3 = "?c2\<lparr>sc_leases := fold omap_erase (sm_release_leases m) (sc_leases ?c2)\<rparr>"
  let ?c4 = "?c3\<lparr>sc_leases := put_leases (sm_acquire_leases m) (sc_leases ?c3)\<rparr>"
  have jobs: "omap_wf (sc_jobs c)" using wf by (simp add: content_wf_def job_table_ok_def)
  obtain jobs2 leases1 leases2 where
      "apply_releases (sm_release_leases m) (sc_leases c) = Inr leases1"
    and aq: "apply_acquires config jobs2 (sm_acquire_leases m) leases1 = Inr leases2"
    using ok unfolding apply_mutation_ok_iff by blast
  then have "leases1 = fold omap_erase (sm_release_leases m) (sc_leases c)"
    using apply_releases_sound wf unfolding content_wf_def by blast
  then have aq': "apply_acquires config jobs2 (sm_acquire_leases m) (sc_leases ?c3) = Inr leases2"
    using aq by simp
  have U: "update_law sq tables saved" "commit_law sq tables saved" using laws(1) by (simp_all add: sqlite_ok_def)
  note each = tx_each[OF U(1) laws(2), where b = b]
  have 1: "tx_triple tables saved up b (tx_holds tables saved b c) (write_each (write_job_row sq) (sm_create_jobs m))
      (tx_holds tables saved b ?c1)"
    unfolding write_job_row_def[abs_def] by (rule each) (rule effect_jobs[OF jobs])
  have 2: "tx_triple tables saved up b (tx_holds tables saved b ?c1) (write_each (write_job_row sq) (sm_update_jobs m))
      (tx_holds tables saved b ?c2)"
    unfolding write_job_row_def[abs_def] by (rule each) (rule effect_jobs, use jobs in auto)
  have 3: "tx_triple tables saved up b (tx_holds tables saved b ?c2)
      (write_each (delete_lease_row sq) (sm_release_leases m)) (tx_holds tables saved b ?c3)"
    unfolding delete_lease_row_def[abs_def] by (rule each) (rule effect_releases)
  have 4: "tx_triple tables saved up b (tx_holds tables saved b ?c3)
      (write_each (insert_lease_row sq) (sm_acquire_leases m)) (tx_holds tables saved b ?c4)"
    unfolding insert_lease_row_def[abs_def] by (rule each) (rule effect_acquires[OF aq'])
  have c5: "?c4\<lparr>sc_revision := sc_revision c + 1\<rparr> = mutation_effect c m"
    by (simp add: mutation_effect_def put_jobs_append)
  have 5: "tx_triple tables saved up b (tx_holds tables saved b ?c4) (write_revision sq (sc_revision c + 1))
      (tx_holds tables saved b (mutation_effect c m))"
  proof -
    have "write_revision sq (sc_revision c + 1)
        = write_each (\<lambda>v. sq_update sq Update_Revision [SqlInt v]) [sc_revision c + 1]"
      unfolding write_each_single by (rule ext) (simp add: write_revision_def)
    then show ?thesis unfolding c5[symmetric] by (simp only:) (rule each, simp add: tables_hold_def)
  qed
  show ?thesis
    unfolding write_rows_def[abs_def]
    by (rule tx_seq[OF 1 tx_seq[OF 2 tx_seq[OF 3 tx_seq[OF 4 tx_seq[OF 5 tx_commit[OF U(2) laws(2)]]]]]])
qed

section \<open>The simulation\<close>

text \<open>An open store whose tables hold a content, and the in-memory store with the same content and
  limits.\<close>

definition holds ::
  "('d \<Rightarrow> database option) \<Rightarrow> ('d \<Rightarrow> database option option) \<Rightarrow> 'd SqliteStateStore \<Rightarrow> store_content \<Rightarrow> bool" where
  "holds tables saved s c \<longleftrightarrow>
     sqs_open s \<and> saved (sqs_db s) = None \<and> (\<exists>t. tables (sqs_db s) = Some t \<and> stores t c)"

definition memory_of :: "'d SqliteStateStore \<Rightarrow> store_content \<Rightarrow> InMemoryStateStore" where
  "memory_of s c =
     \<lparr>im_config = \<lparr>vc_max_jobs = sqc_max_jobs (sqs_config s), vc_max_leases = sqc_max_leases (sqs_config s)\<rparr>,
      im_revision = sc_revision c, im_jobs = sc_jobs c, im_leases = sc_leases c,
      im_failure = None, im_next_apply_failure = None\<rparr>"

definition mutation_fits :: "StateMutation \<Rightarrow> bool" where
  "mutation_fits m \<longleftrightarrow> (\<forall>r \<in> set (sm_create_jobs m @ sm_update_jobs m). record_fits r)"

lemma put_jobs_values: "snd ` set (put_jobs rs jobs) \<subseteq> set rs \<union> snd ` set jobs"
proof (induction rs arbitrary: jobs)
  case (Cons r rs)
  have "snd ` set (omap_put (sj_id r) r jobs) \<subseteq> insert r (snd ` set jobs)"
    using set_omap_put[of "sj_id r" r jobs] by auto
  then show ?case unfolding put_jobs_Cons by (intro order_trans[OF Cons.IH]) auto
qed simp

lemma effect_fits:
  assumes "content_fits c" "mutation_fits m" "content_wf (mutation_effect c m)" "sc_revision c < int64_max"
  shows "content_fits (mutation_effect c m)"
proof -
  have "record_fits r" if "r \<in> snd ` set (sc_jobs (mutation_effect c m))" for r
  proof -
    have "r \<in> set (sm_create_jobs m @ sm_update_jobs m) \<union> snd ` set (sc_jobs c)"
      using that put_jobs_values by (auto simp only: mutation_effect_def store_content.simps)
    then show ?thesis using assms(1,2) unfolding content_fits_def mutation_fits_def by blast
  qed
  moreover have "sc_revision (mutation_effect c m) \<le> int64_max"
    using inc_le[OF assms(4)] by (simp add: mutation_effect_def)
  ultimately show ?thesis using assms(3) by (simp add: content_fits_def)
qed

lemma content_eta: "\<lparr>sc_revision = sc_revision c, sc_jobs = sc_jobs c, sc_leases = sc_leases c\<rparr> = c"
  by (cases c) simp

lemma im_apply_memory:
  fixes s :: "'d SqliteStateStore" and c m
  defines "config \<equiv> im_config (memory_of s c)"
  defines "out \<equiv> apply_mutation (sc_jobs c) (sc_leases c) (sc_revision c) config m"
  assumes wf: "content_wf c"
  shows "im_apply (memory_of s c) m =
    (if mutation_ok out then (\<lparr>swr_code = StateStoreErrorCode.kNone, swr_revision = sc_revision c + 1\<rparr>,
        memory_of s (mutation_effect c m))
     else (\<lparr>swr_code = mo_code out, swr_revision = sc_revision c\<rparr>, memory_of s c))"
proof (cases "mutation_ok out")
  case True
  have "content_wf \<lparr>sc_revision = sc_revision c, sc_jobs = sc_jobs c, sc_leases = sc_leases c\<rparr>"
    unfolding content_eta by (rule wf)
  note sound = apply_mutation_sound(2)[OF True[unfolded out_def] this]
  then have "out = \<lparr>mo_code = StateStoreErrorCode.kNone, mo_next_revision = sc_revision c + 1,
      mo_next_jobs = sc_jobs (mutation_effect c m), mo_next_leases = sc_leases (mutation_effect c m)\<rparr>"
    by (simp add: out_def Let_def mutation_effect_def content_eta)
  then show ?thesis
    using True by (simp add: im_apply_def memory_of_def out_def config_def Let_def mutation_effect_def)
next
  case False
  then show ?thesis by (simp add: im_apply_def memory_of_def out_def config_def Let_def mutation_ok_def)
qed

lemma rollback_gives:
  assumes "sqlite_ok sq tables saved" "failed_tx tables saved b db" "stores b c" "sqs_open s"
  shows "holds tables saved (s\<lparr>sqs_db := snd (sq_exec sq Rollback db)\<rparr>) c"
proof -
  have "rolled_back tables saved (Some b) (snd (sq_exec sq Rollback db))"
  proof -
    have "rollback_law sq tables saved" using assms(1) by (simp add: sqlite_ok_def)
    then show ?thesis using assms(2) unfolding rollback_law_def failed_tx_def by blast
  qed
  then show ?thesis using assms(3,4) by (auto simp: holds_def rolled_back_def)
qed

lemma begin_gives:
  assumes laws: "sqlite_ok sq tables saved" "sqlite_up sq tables saved up" and h: "holds tables saved s c"
    and e: "sq_exec sq Begin_Immediate (sqs_db s) = (begun, db)"
  obtains b where "stores b c" "tables db = Some b" "begun \<Longrightarrow> saved db = Some (Some b)"
    "\<not> begun \<Longrightarrow> saved db = None" "up (sqs_db s) \<Longrightarrow> begun \<and> up db"
proof -
  obtain b where b: "saved (sqs_db s) = None" "tables (sqs_db s) = Some b" "stores b c" using h by (auto simp: holds_def)
  have "begin_law sq tables saved" using laws(1) by (simp add: sqlite_ok_def)
  note step = this[unfolded begin_law_def, rule_format, OF b(1) e]
  moreover have "fst (sq_exec sq Begin_Immediate (sqs_db s)) \<and> up (snd (sq_exec sq Begin_Immediate (sqs_db s)))"
    if "up (sqs_db s)"
    using laws(2) that b(1) by (simp add: sqlite_up_def)
  ultimately show thesis using that[of b] b e by simp
qed

lemma up_answers:
  assumes "sqlite_up sq tables saved up" "up db" "tables db = Some t"
  shows "answers sq db"
proof -
  have "\<forall>db t q. up db \<longrightarrow> tables db = Some t \<longrightarrow> (\<exists>rows. sq_query sq q db = Some (rows, True))"
    using assms(1) unfolding sqlite_up_def by (elim conjE)
  then show ?thesis using assms(2,3) by (simp add: answers_def)
qed

lemma memory_simps [simp]:
  "im_content (memory_of s c) = c" "memory_of (s\<lparr>sqs_db := db\<rparr>) c = memory_of s c"
  by (simp_all add: im_content_def memory_of_def)

text \<open>The part of \<open>apply\<close> inside the transaction, after the state has been read.\<close>

lemma apply_decoded:
  assumes e: "sqs_open s" "sq_exec sq Begin_Immediate (sqs_db s) = (True, db)"
    and d: "decode_state sq db = (sc_revision c, Inr (decoded c))" and wf: "content_wf c"
    and room: "sc_revision c < int64_max"
  shows "sqlite_apply sq s m =
    (let out = apply_mutation (sc_jobs c) (sc_leases c) (sc_revision c) (im_config (memory_of s c)) m;
         give_up = (\<lambda>code db. (\<lparr>swr_code = code, swr_revision = sc_revision c\<rparr>, s\<lparr>sqs_db := snd (sq_exec sq Rollback db)\<rparr>)) in
     if \<not> mutation_ok out then give_up (mo_code out) db
     else case write_rows sq m (sc_revision c + 1) db of (written, db1) \<Rightarrow>
       if \<not> written then give_up StateStoreErrorCode.kBackendUnavailable db1
       else (\<lparr>swr_code = StateStoreErrorCode.kNone, swr_revision = sc_revision c + 1\<rparr>, s\<lparr>sqs_db := db1\<rparr>))"
proof -
  let ?out = "apply_mutation (sc_jobs c) (sc_leases c) (sc_revision c) (im_config (memory_of s c)) m"
  have "mo_next_revision ?out = sc_revision c + 1" if "mutation_ok ?out"
    using that unfolding apply_mutation_ok_iff by auto
  moreover have "\<not> int64_max < sc_revision c + 1" using inc_le[OF room] by (simp add: not_less)
  ultimately show ?thesis
    using e by (simp add: sqlite_apply_def d decoded_def Let_def memory_of_def mutation_ok_def split: prod.split)
qed

lemma up_rollback: "sqlite_up sq tables saved up \<Longrightarrow> up db \<Longrightarrow> up (snd (sq_exec sq Rollback db))"
  by (simp add: sqlite_up_def)

lemma committed_holds:
  assumes laws: "sqlite_ok sq tables saved" "sqlite_up sq tables saved up" and st: "stores b c" "in_tx tables saved b b db"
    and fits: "mutation_fits m" and room: "sc_revision c < int64_max" and s: "sqs_open s"
    and ok: "mutation_ok (apply_mutation (sc_jobs c) (sc_leases c) (sc_revision c) config m)"
    and w: "write_rows sq m (sc_revision c + 1) db = (written, db1)"
  shows "written \<Longrightarrow> holds tables saved (s\<lparr>sqs_db := db1\<rparr>) (mutation_effect c m)"
    "\<not> written \<Longrightarrow> failed_tx tables saved b db1" "up db \<Longrightarrow> written \<and> up db1"
proof -
  have wf: "content_wf c" "content_fits c" using st by (simp_all add: stores_def content_fits_def)
  have "tx_holds tables saved b c db" using st by (auto simp: tx_holds_def stores_def)
  note 1 = write_rows_triple[OF laws wf(1) ok, where b = b, unfolded tx_triple_def, rule_format, OF this w]
  then show "\<not> written \<Longrightarrow> failed_tx tables saved b db1" "up db \<Longrightarrow> written \<and> up db1" by blast+
  have "content_wf (mutation_effect c m)"
    using apply_mutation_sound(1)[of "sc_jobs c" "sc_leases c" "sc_revision c" config m] ok wf(1) by (simp add: content_eta)
  from effect_fits[OF wf(2) fits this room]
  show "written \<Longrightarrow> holds tables saved (s\<lparr>sqs_db := db1\<rparr>) (mutation_effect c m)"
    using 1 s by (auto simp: holds_def stores_def)
qed

lemma decoded_refines:
  assumes laws: "sqlite_ok sq tables saved" "sqlite_up sq tables saved up" and b: "stores b c"
    and tx: "in_tx tables saved b b db" and s: "sqs_open s" and e: "sq_exec sq Begin_Immediate (sqs_db s) = (True, db)"
    and d: "decode_state sq db = (sc_revision c, Inr (decoded c))"
    and fits: "mutation_fits m" and room: "sc_revision c < int64_max"
    and ap: "sqlite_apply sq s m = (r, s')" and im: "im_apply (memory_of s c) m = (r0, im')"
  shows "swr_code r = StateStoreErrorCode.kBackendUnavailable \<and> holds tables saved s' c \<and> \<not> up db
    \<or> r = r0 \<and> holds tables saved s' (im_content im') \<and> im' = memory_of s' (im_content im')
      \<and> (up db \<longrightarrow> up (sqs_db s'))"
proof -
  let ?out = "apply_mutation (sc_jobs c) (sc_leases c) (sc_revision c) (im_config (memory_of s c)) m"
  have wf: "content_wf c" using b by (simp add: stores_def content_fits_def)
  note im2 = im[unfolded im_apply_memory[OF wf]] and ap2 = ap[unfolded apply_decoded[OF s e d wf room] Let_def]
  have failed: "failed_tx tables saved b db" using tx by (simp add: in_tx_def failed_tx_def)
  show ?thesis
  proof (cases "mutation_ok ?out")
    case False
    then show ?thesis
      using ap2 im2 rollback_gives[OF laws(1) failed b s] up_rollback[OF laws(2)] by auto
  next
    case True
    obtain written db1 where w: "write_rows sq m (sc_revision c + 1) db = (written, db1)" by fastforce
    note c = committed_holds[OF laws b tx fits room s True w]
    show ?thesis
    proof (cases written)
      case False
      then show ?thesis using ap2 w True c(3) rollback_gives[OF laws(1) c(2) b s] by auto
    next
      case True
      then show ?thesis using ap2 im2 w \<open>mutation_ok ?out\<close> c(1,3) by auto
    qed
  qed
qed


text \<open>\<open>load\<close> reads the content, or reports that the backend is unavailable.\<close>

lemma sqlite_load_refines:
  assumes "sqlite_ok sq tables saved" "sqlite_up sq tables saved up" "holds tables saved s c"
  shows "sqlite_load sq s = im_load (memory_of s c)
    \<or> sqlite_load sq s = \<lparr>slr_code = StateStoreErrorCode.kBackendUnavailable, slr_snapshot = empty_snapshot\<rparr>
      \<and> \<not> up (sqs_db s)"
proof -
  obtain t where t: "sqs_open s" "tables (sqs_db s) = Some t" "stores t c" using assms(3) by (auto simp: holds_def)
  have cols: "columns_ok sq" "query_law sq tables" using assms(1) by (simp_all add: sqlite_ok_def)
  show ?thesis
    using decode_state_stored[OF cols t(2,3)] t(1) up_answers[OF assms(2) _ t(2)]
    by (auto simp: sqlite_load_def im_load_def memory_of_def decoded_def)
qed

section \<open>Earlier schema versions\<close>

text \<open>The columns of \<^verbatim>\<open>yori_jobs\<close> in version \<open>n\<close>, and the jobs that version could express.\<close>

fun row_width :: "nat \<Rightarrow> nat" where
  "row_width n = (if n = 1 then 25 else if n = 2 then 28 else if n = 3 then 30 else 31)"

definition expressible :: "nat \<Rightarrow> StoredJob \<Rightarrow> bool" where
  "expressible n r \<longleftrightarrow>
     (n \<le> 1 \<longrightarrow> js_executable (sj_spec r) = None \<and> js_env_metadata (sj_spec r) = None)
   \<and> (n \<le> 2 \<longrightarrow> gp_mode (js_gpu_placement (sj_spec r)) = GpuPlacementMode.kAny)
   \<and> (n \<le> 3 \<longrightarrow> gp_mode (js_gpu_placement (sj_spec r)) \<noteq> GpuPlacementMode.kPreferred
        \<and> (gp_mode (js_gpu_placement (sj_spec r)) = GpuPlacementMode.kRequired \<longrightarrow>
            length (gp_devices (js_gpu_placement (sj_spec r))) = 1))"

definition stores_as :: "nat \<Rightarrow> database \<Rightarrow> store_content \<Rightarrow> bool" where
  "stores_as n t c \<longleftrightarrow>
     content_fits c \<and> db_version t = of_nat n \<and> db_revision t = sc_revision c \<and> omap_wf (db_jobs t)
   \<and> set (db_jobs t) = (\<lambda>(i, r). (sint i, take (row_width n) (job_row r))) ` set (sc_jobs c)
   \<and> (\<forall>r \<in> snd ` set (sc_jobs c). expressible n r) \<and> leases_stored (sc_leases c) (db_leases t)"

lemma length_job_row [simp]: "length (job_row r) = 31"
  by (simp add: job_row_def Let_def)

lemma stores_as_current: "stores_as 4 t c \<Longrightarrow> stores t c"
  by (simp add: stores_as_def stores_def tables_hold_def jobs_stored_def)

lemma omap_wf_map: "omap_wf (map (\<lambda>(i, row). (i, f row)) m) \<longleftrightarrow> omap_wf m"
proof -
  have "map fst (map (\<lambda>(i, row). (i, f row)) m) = map fst m" by (induction m) auto
  then show ?thesis by (simp only: omap_wf_def)
qed

lemma add_columns_step:
  assumes "stores_as n t c" "n' = Suc n"
    and "\<And>r. expressible n r \<Longrightarrow> take (row_width n) (job_row r) @ f (take (row_width n) (job_row r)) = take (row_width n') (job_row r)"
  shows "stores_as n' (add_columns f (of_nat n') t) c"
proof -
  have ex: "expressible n r" if "(i, r) \<in> set (sc_jobs c)" for i r using assms(1) that by (force simp: stores_as_def)
  let ?g = "\<lambda>k (i, r). (sint i, take (row_width k) (job_row r))"
  have "set (db_jobs (add_columns f (of_nat n') t)) = (\<lambda>(i, row). (i, row @ f row)) ` ?g n ` set (sc_jobs c)"
    using assms(1) by (simp add: add_columns_def stores_as_def)
  also have "\<dots> = ?g n' ` set (sc_jobs c)"
    unfolding image_image by (rule image_cong) (use ex assms(3) in auto)
  finally show ?thesis
    using assms(1,2) ex omap_wf_map[of "\<lambda>row. row @ f row" "db_jobs t"]
    by (auto simp: stores_as_def add_columns_def expressible_def)
qed

lemma migrations:
  "stores_as 1 t c \<Longrightarrow> \<exists>t'. script_effect kMigrationV1ToV2Sql (Some t) = Some t' \<and> stores_as 2 t' c"
  "stores_as 2 t c \<Longrightarrow> \<exists>t'. script_effect kMigrationV2ToV3Sql (Some t) = Some t' \<and> stores_as 3 t' c"
  "stores_as 3 t c \<Longrightarrow> \<exists>t'. script_effect kMigrationV3ToV4Sql (Some t) = Some t' \<and> stores_as 4 t' c"
proof -
  assume "stores_as 1 t c"
  from add_columns_step[OF this, of 2 "\<lambda>_. [SqlNull, SqlNull, SqlNull]"]
  show "\<exists>t'. script_effect kMigrationV1ToV2Sql (Some t) = Some t' \<and> stores_as 2 t' c"
    by (simp add: expressible_def job_row_def Let_def opt_text_def)
next
  assume "stores_as 2 t c"
  from add_columns_step[OF this, of 3 "\<lambda>_. [SqlNull, SqlNull]"]
  show "\<exists>t'. script_effect kMigrationV2ToV3Sql (Some t) = Some t' \<and> stores_as 3 t' c"
    by (simp add: expressible_def job_row_def Let_def placement_columns_def)
next
  assume a: "stores_as 3 t c"
  let ?f = "\<lambda>row. [if row ! 28 = SqlText ''required'' then row ! 29 else SqlNull]"
  have "take (row_width 3) (job_row r) @ ?f (take (row_width 3) (job_row r)) = take (row_width 4) (job_row r)" if ex: "expressible 3 r" for r
  proof (cases "gp_mode (js_gpu_placement (sj_spec r))")
    case kRequired
    then obtain d where "gp_devices (js_gpu_placement (sj_spec r)) = [d]"
      using ex by (auto simp: expressible_def length_Suc_conv)
    then show ?thesis using kRequired by (simp add: job_row_def Let_def placement_columns_def)
  qed (use ex in \<open>simp_all add: expressible_def job_row_def Let_def placement_columns_def\<close>)
  from add_columns_step[OF a _ this]
  show "\<exists>t'. script_effect kMigrationV3ToV4Sql (Some t) = Some t' \<and> stores_as 4 t' c" by simp
qed

text \<open>Opening a database: the connection is outside a transaction and its tables hold the content in
  version \<open>n\<close>.\<close>

definition opened_as where
  "opened_as tables saved n c db \<longleftrightarrow> saved db = None \<and> (\<exists>t. tables db = Some t \<and> stores_as n t c)"

text \<open>The result of the migrations so far: they failed, which a library that is up excludes, or the
  database is in version \<open>n\<close>.\<close>

definition reaches where
  "reaches tables saved up db n c x \<longleftrightarrow>
     (case x of Inl _ \<Rightarrow> \<not> up db
      | Inr (v, db') \<Rightarrow> v = int n \<and> opened_as tables saved n c db' \<and> (up db \<longrightarrow> up db'))"

lemma migrate_step:
  assumes laws: "script_law sq tables saved" "sqlite_up sq tables saved up"
    and x: "reaches tables saved up db0 n c x" and k: "script_version script = Some (of_nat k)" "from = int k"
    and eff: "\<And>t. stores_as k t c \<Longrightarrow> \<exists>t'. script_effect script (Some t) = Some t' \<and> stores_as k' t' c" "k' = Suc k"
  shows "reaches tables saved up db0 (if n = k then k' else n) c
    (case x of Inl e \<Rightarrow> Inl e | Inr y \<Rightarrow> migrate sq from script failed y)"
proof (cases "\<exists>db. x = Inr (int k, db)")
  case True
  then obtain db where db: "x = Inr (int k, db)" by blast
  then obtain t where n: "n = k" and t: "saved db = None" "tables db = Some t" "stores_as k t c" "up db0 \<longrightarrow> up db"
    using x by (auto simp: opened_as_def reaches_def)
  obtain ok db' where e: "sq_exec sq script db = (ok, db')" by fastforce
  have v: "db_version t = of_nat k" using t(3) by (simp add: stores_as_def)
  have up: "fst (sq_exec sq script db) \<and> up (snd (sq_exec sq script db))" if "up db0"
    using laws(2) that t k(1) v unfolding sqlite_up_def by simp
  have plain: "script \<in> plain_scripts" using k(1) by (cases script) (simp_all add: plain_scripts_def)
  have "opened_as tables saved k' c db'" if ok
  proof -
    have "saved db' = None \<and> tables db' = script_effect script (Some t)"
      using laws(1)[unfolded script_law_def, rule_format, OF t(1) plain] e that t(2) by simp
    then show ?thesis using eff(1)[OF t(3)] by (auto simp: opened_as_def)
  qed
  then show ?thesis using n db e up k(2) eff(2) by (cases ok) (auto simp: migrate_def reaches_def)
next
  case False
  then show ?thesis using x k(2) by (cases x) (auto simp: reaches_def migrate_def)
qed

lemma migrate_schema_opens:
  assumes laws: "script_law sq tables saved" "sqlite_up sq tables saved up"
    and o: "opened_as tables saved n c db" "1 \<le> n" "n \<le> 4" "up db0 \<longrightarrow> up db"
  shows "reaches tables saved up db0 4 c (migrate_schema sq (int n, db))"
proof -
  note step = migrate_step[OF laws]
  let ?n1 = "if n = 1 then 2 else n"
  let ?n2 = "if ?n1 = 2 then 3 else ?n1"
  have 0: "reaches tables saved up db0 n c (Inr (int n, db))" using o by (simp add: reaches_def)
  have 1: "reaches tables saved up db0 ?n1 c
      (case Inr (int n, db) of Inl e \<Rightarrow> Inl e | Inr y \<Rightarrow> migrate sq 1 kMigrationV1ToV2Sql ''v1->v2 migration failed: '' y)"
    by (rule step[OF 0]) (simp_all add: migrations(1)[simplified])
  have 2: "reaches tables saved up db0 ?n2 c
      (case migrate sq 1 kMigrationV1ToV2Sql ''v1->v2 migration failed: '' (int n, db) of
         Inl e \<Rightarrow> Inl e | Inr y \<Rightarrow> migrate sq 2 kMigrationV2ToV3Sql ''v2->v3 migration failed: '' y)"
    by (rule step[OF 1[unfolded sum.case]]) (simp_all add: migrations(2)[simplified])
  have 3: "reaches tables saved up db0 (if ?n2 = 3 then 4 else ?n2) c
      (case (case migrate sq 1 kMigrationV1ToV2Sql ''v1->v2 migration failed: '' (int n, db) of
         Inl e \<Rightarrow> Inl e | Inr y \<Rightarrow> migrate sq 2 kMigrationV2ToV3Sql ''v2->v3 migration failed: '' y) of
       Inl e \<Rightarrow> Inl e | Inr y \<Rightarrow> migrate sq 3 kMigrationV3ToV4Sql ''v3->v4 migration failed: '' y)"
    by (rule step[OF 2]) (simp_all add: migrations(3)[simplified])
  have "(if ?n2 = 3 then 4 else ?n2) = 4" using o(2,3) by auto
  with 3 show ?thesis by (auto simp: migrate_schema_def split: sum.splits)
qed

text \<open>A file that has no tables yet, or the tables of some version.\<close>

definition empty_content :: store_content where
  "empty_content = \<lparr>sc_revision = 0, sc_jobs = [], sc_leases = []\<rparr>"

definition openable where
  "openable tables db c \<longleftrightarrow>
     tables db = None \<and> c = empty_content
   \<or> (\<exists>n t. tables db = Some t \<and> 1 \<le> n \<and> n \<le> 4 \<and> stores_as n t c)"

lemma stores_as_empty: "stores_as 4 empty_database empty_content"
  by (simp add: stores_as_def empty_database_def empty_content_def content_fits_def content_wf_def job_table_ok_def
      lease_table_ok_def lease_matrix_ok_def leases_stored_def)

lemma schema_script:
  assumes laws: "sqlite_ok sq tables saved" "sqlite_up sq tables saved up"
    and o: "saved db0 = None" "openable tables db0 c" and e: "sq_exec sq kSchemaSql db0 = (ok, db)"
  shows "ok \<Longrightarrow> \<exists>n. 1 \<le> n \<and> n \<le> 4 \<and> opened_as tables saved n c db" "up db0 \<Longrightarrow> ok \<and> up db"
proof -
  have law: "script_law sq tables saved" using laws(1) by (simp add: sqlite_ok_def)
  have "fst (sq_exec sq kSchemaSql db0) \<and> up (snd (sq_exec sq kSchemaSql db0))" if "up db0"
    using laws(2) that o(1) by (simp add: sqlite_up_def)
  then show "ok \<and> up db" if "up db0" using that e by simp
  show "\<exists>n. 1 \<le> n \<and> n \<le> 4 \<and> opened_as tables saved n c db" if ok
  proof -
    have "saved db = None \<and> tables db = script_effect kSchemaSql (tables db0)"
      using law[unfolded script_law_def, rule_format, OF o(1), of kSchemaSql db] e that by (simp add: plain_scripts_def)
    then show ?thesis using o(2) stores_as_empty by (force simp: openable_def opened_as_def)
  qed
qed

text \<open>
  Property C24. A database of every schema version opens with its content. A file without tables becomes the
  empty content; tables of version 1, 2, 3 or 4 whose rows have the columns of that version are migrated,
  and the store then holds the same jobs and leases in the current version. The only other outcome is
  \<open>SCHEMA_INIT_FAILED\<close> with the store closed, which a library that is up excludes.
\<close>

theorem open_migrates:
  assumes laws: "sqlite_ok sq tables saved" "sqlite_up sq tables saved up"
    and o: "saved (sqs_db s) = None" "openable tables (sqs_db s) c" and i: "init_schema sq s = (r, s')"
  shows "sor_code r = SqliteStoreOpenCode.kOpened \<and> holds tables saved s' c \<and> (up (sqs_db s) \<longrightarrow> up (sqs_db s'))
    \<or> sor_code r = kSchemaInitFailed \<and> \<not> sqs_open s' \<and> \<not> up (sqs_db s)"
proof -
  obtain ok db where e: "sq_exec sq kSchemaSql (sqs_db s) = (ok, db)" by fastforce
  note schema = schema_script[OF laws o e]
  have law: "script_law sq tables saved" "query_law sq tables" "columns_ok sq"
    using laws(1) by (simp_all add: sqlite_ok_def)
  show ?thesis
  proof (cases ok)
    case False
    then show ?thesis using i e schema(2) by (auto simp: init_schema_def)
  next
    case True
    obtain n where n: "1 \<le> n" "n \<le> 4" "opened_as tables saved n c db" using schema(1)[OF True] by blast
    obtain t where t: "tables db = Some t" "db_version t = of_nat n" using n(3) by (auto simp: opened_as_def stores_as_def)
    have version: "sint (of_nat n :: i64) = int n" using n(1,2) by (simp add: sint_small uint_nat unat_of_nat)
    note m = migrate_schema_opens[OF law(1) laws(2) n(3,1,2), of "sqs_db s"]
    show ?thesis
    proof (cases "\<exists>rest finished. sq_query sq Select_Schema_Version db = Some ([SqlInt (of_nat n)] # rest, finished)")
      case q: True
      show ?thesis
        using i e True q version m schema(2) stores_as_current
        by (cases "migrate_schema sq (int n, db)")
          (auto simp: init_schema_def Let_def columns_sel(1)[OF law(3)] reaches_def opened_as_def holds_def)
    next
      case False
      then have "\<not> answers sq db" and q: "sq_query sq Select_Schema_Version db = None
          \<or> (\<exists>finished. sq_query sq Select_Schema_Version db = Some ([], finished))"
        using answersD[of sq db Select_Schema_Version] one_row[OF law(2) t(1), of Select_Schema_Version] t(2)
        by (fastforce, cases "sq_query sq Select_Schema_Version db") fastforce+
      then show ?thesis using i e True schema(2) up_answers[OF laws(2) _ t(1)]
        by (auto simp: init_schema_def)
    qed
  qed
qed

section \<open>A library in memory\<close>

text \<open>The documented behaviour can be had: a connection is its tables and, inside a transaction, the
  tables to return to.\<close>

record connection =
  cn_tables :: "database option"
  cn_saved :: "database option option"

fun ref_exec :: "sql_script \<Rightarrow> connection \<Rightarrow> bool \<times> connection" where
  "ref_exec Begin_Immediate db =
     (if cn_saved db = None then (True, db\<lparr>cn_saved := Some (cn_tables db)\<rparr>) else (False, db))"
| "ref_exec Rollback db =
     (case cn_saved db of None \<Rightarrow> (False, db) | Some b \<Rightarrow> (True, \<lparr>cn_tables = b, cn_saved = None\<rparr>))"
| "ref_exec Commit db = (case cn_saved db of None \<Rightarrow> (False, db) | Some b \<Rightarrow> (True, db\<lparr>cn_saved := None\<rparr>))"
| "ref_exec s db = (True, db\<lparr>cn_tables := script_effect s (cn_tables db)\<rparr>)"

definition ref_update :: "sql_update \<Rightarrow> sql_value list \<Rightarrow> connection \<Rightarrow> bool \<times> connection" where
  "ref_update u vs db =
     (case Option.bind (cn_tables db) (statement_effect u vs) of
        None \<Rightarrow> (False, db) | Some t \<Rightarrow> (True, db\<lparr>cn_tables := Some t\<rparr>))"

definition ref_sqlite :: "connection Sqlite" where
  "ref_sqlite =
     \<lparr>sq_exec = ref_exec,
      sq_query = (\<lambda>q db. map_option (\<lambda>t. (query_rows q t, True)) (cn_tables db)),
      sq_update = ref_update,
      sq_column_int64 = (\<lambda>v. case v of SqlInt n \<Rightarrow> n | _ \<Rightarrow> 0),
      sq_column_text = (\<lambda>v. case v of SqlText s \<Rightarrow> Some s | _ \<Rightarrow> None),
      sq_column_blob = (\<lambda>v. case v of SqlBlob b \<Rightarrow> if b = [] then None else Some b | _ \<Rightarrow> None),
      sq_errmsg = (\<lambda>_. ''error'')\<rparr>"

lemma ref_sqlite_ok: "sqlite_ok ref_sqlite cn_tables cn_saved"
  unfolding sqlite_ok_def
proof (intro conjI)
  show "columns_ok ref_sqlite" by (simp add: columns_ok_def ref_sqlite_def)
  show "begin_law ref_sqlite cn_tables cn_saved" by (auto simp: begin_law_def ref_sqlite_def)
  show "rollback_law ref_sqlite cn_tables cn_saved" by (auto simp: rollback_law_def rolled_back_def ref_sqlite_def)
  show "commit_law ref_sqlite cn_tables cn_saved" by (auto simp: commit_law_def ref_sqlite_def)
  show "update_law ref_sqlite cn_tables cn_saved"
    by (auto simp: update_law_def ref_sqlite_def ref_update_def split: option.splits)
  show "query_law ref_sqlite cn_tables" by (auto simp: query_law_def ref_sqlite_def intro: exI[of _ "[]"])
  show "script_law ref_sqlite cn_tables cn_saved"
    by (auto simp: script_law_def plain_scripts_def ref_sqlite_def split: option.splits)
qed

lemma ref_sqlite_up: "sqlite_up ref_sqlite cn_tables cn_saved (\<lambda>_. True)"
proof -
  have "fst (ref_exec s db)" if "script_version s = Some v" for s v db
    using that by (cases s) simp_all
  then show ?thesis
    by (auto simp: sqlite_up_def ref_sqlite_def ref_update_def split: option.splits)
qed

lemma demo_job_fits: "record_fits demo_job"
  by (simp add: record_fits_def demo_job_def demo_spec_def blank_execution_def blank_identity_def fits_i64_def
      omap_wf_def)

lemma demo_content_fits: "content_fits (im_content demo_store1)"
  using demo_store1_inv demo_job_fits
  by (simp add: content_fits_def im_inv_def im_content_def demo_store1_def empty_store_def int64_max_def)

definition demo_sqlite :: "nat \<Rightarrow> connection SqliteStateStore" where
  "demo_sqlite n =
     \<lparr>sqs_config = \<lparr>sqc_library_path = ''libsqlite3.so.0'', sqc_database_path = ''/var/lib/yori/state.db'',
        sqc_max_jobs = 4, sqc_max_leases = 2, sqc_busy_timeout_ms = 1000\<rparr>,
      sqs_open = (n = 4),
      sqs_db = \<lparr>cn_tables = Some \<lparr>db_version = of_nat n, db_revision = 1,
          db_jobs = [(7, take (row_width n) (job_row demo_job))], db_leases = []\<rparr>, cn_saved = None\<rparr>\<rparr>"

lemma demo_sqlite_stores:
  assumes "expressible n demo_job"
  shows "stores_as n (the (cn_tables (sqs_db (demo_sqlite n)))) (im_content demo_store1)"
  using assms demo_content_fits
  by (simp add: stores_as_def demo_sqlite_def im_content_def demo_store1_def empty_store_def leases_stored_def
      omap_wf_def del: row_width.simps)

lemma demo_memory: "memory_of (demo_sqlite 4) (im_content demo_store1) = demo_store1"
  by (simp add: memory_of_def demo_sqlite_def im_content_def demo_store1_def empty_store_def demo_config_def)


theorem open_migrates_witness:
  "sor_code (fst (init_schema ref_sqlite (demo_sqlite 2))) = SqliteStoreOpenCode.kOpened
   \<and> holds cn_tables cn_saved (snd (init_schema ref_sqlite (demo_sqlite 2))) (im_content demo_store1)"
proof -
  have "expressible 2 demo_job" by (simp add: expressible_def demo_job_def demo_spec_def)
  from demo_sqlite_stores[OF this]
  have "openable cn_tables (sqs_db (demo_sqlite 2)) (im_content demo_store1)"
    unfolding openable_def by (intro disjI2 exI[of _ "2 :: nat"]) (auto simp: demo_sqlite_def)
  moreover have "cn_saved (sqs_db (demo_sqlite 2)) = None" by (simp add: demo_sqlite_def)
  ultimately show ?thesis
    using open_migrates[OF ref_sqlite_ok ref_sqlite_up, of "demo_sqlite 2" "im_content demo_store1"]
    by (metis prod.collapse)
qed

end
