(* ===== verification/Nvml_Provider.thy ===== *)
theory Nvml_Provider
  imports Gpu_Model
begin

text \<open>
  The NVML provider (\<^verbatim>\<open>src/include/yori/gpu/nvml_gpu_provider.hpp\<close>, \<^verbatim>\<open>src/src/gpu/nvml_gpu_provider.cpp\<close>,
  \<^verbatim>\<open>src/src/gpu/nvml_api.hpp\<close>): loading the library, and one observation of all devices.

  The library is a record of the functions the code binds, on a state \<open>'w\<close> that stands for the driver and
  the clock: every call answers a return code, the values it writes through its pointers, and the next
  state. A return code is an \<open>int\<close>, since the driver may return codes that \<^verbatim>\<open>nvml_api.hpp\<close> does not name.
\<close>

section \<open>The library\<close>

type_synonym nvmlReturn_t = int
type_synonym nvmlDevice_t = nat

abbreviation NVML_SUCCESS :: nvmlReturn_t where "NVML_SUCCESS \<equiv> 0"
abbreviation NVML_ERROR_UNINITIALIZED :: nvmlReturn_t where "NVML_ERROR_UNINITIALIZED \<equiv> 1"
abbreviation NVML_ERROR_INVALID_ARGUMENT :: nvmlReturn_t where "NVML_ERROR_INVALID_ARGUMENT \<equiv> 2"
abbreviation NVML_ERROR_NOT_SUPPORTED :: nvmlReturn_t where "NVML_ERROR_NOT_SUPPORTED \<equiv> 3"
abbreviation NVML_ERROR_NO_PERMISSION :: nvmlReturn_t where "NVML_ERROR_NO_PERMISSION \<equiv> 4"
abbreviation NVML_ERROR_INSUFFICIENT_SIZE :: nvmlReturn_t where "NVML_ERROR_INSUFFICIENT_SIZE \<equiv> 7"
abbreviation NVML_ERROR_DRIVER_NOT_LOADED :: nvmlReturn_t where "NVML_ERROR_DRIVER_NOT_LOADED \<equiv> 8"
abbreviation NVML_ERROR_TIMEOUT :: nvmlReturn_t where "NVML_ERROR_TIMEOUT \<equiv> 9"
abbreviation NVML_ERROR_LIBRARY_NOT_FOUND :: nvmlReturn_t where "NVML_ERROR_LIBRARY_NOT_FOUND \<equiv> 11"
abbreviation NVML_ERROR_FUNCTION_NOT_FOUND :: nvmlReturn_t where "NVML_ERROR_FUNCTION_NOT_FOUND \<equiv> 12"
abbreviation NVML_ERROR_GPU_IS_LOST :: nvmlReturn_t where "NVML_ERROR_GPU_IS_LOST \<equiv> 14"
abbreviation NVML_ERROR_UNKNOWN :: nvmlReturn_t where "NVML_ERROR_UNKNOWN \<equiv> 999"

text \<open>The bound functions. A handle is \<open>None\<close> for a null pointer; the UUID call answers the 128 bytes of the
  buffer. The optional symbol of the third version of the process query is \<open>None\<close> when it is missing.\<close>

record 'w NvmlSymbols =
  nv_init :: "'w \<Rightarrow> nvmlReturn_t \<times> 'w"
  nv_shutdown :: "'w \<Rightarrow> nvmlReturn_t \<times> 'w"
  nv_device_get_count :: "'w \<Rightarrow> nvmlReturn_t \<times> u32 \<times> 'w"
  nv_device_get_handle :: "u32 \<Rightarrow> 'w \<Rightarrow> nvmlReturn_t \<times> nvmlDevice_t option \<times> 'w"
  nv_device_get_uuid :: "nvmlDevice_t \<Rightarrow> 'w \<Rightarrow> nvmlReturn_t \<times> string \<times> 'w"
  nv_device_get_utilization :: "nvmlDevice_t \<Rightarrow> 'w \<Rightarrow> nvmlReturn_t \<times> u32 \<times> 'w"
  nv_device_get_memory :: "nvmlDevice_t \<Rightarrow> 'w \<Rightarrow> nvmlReturn_t \<times> (u64 \<times> u64) \<times> 'w"
  nv_device_get_compute_processes_v3 :: "(nvmlDevice_t \<Rightarrow> 'w \<Rightarrow> nvmlReturn_t \<times> u32 \<times> 'w) option"
  nv_device_get_compute_processes_v2 :: "(nvmlDevice_t \<Rightarrow> 'w \<Rightarrow> nvmlReturn_t \<times> u32 \<times> 'w) option"
  nv_error_string :: "(nvmlReturn_t \<Rightarrow> string option) option"

section \<open>Return codes\<close>

definition nvml_kDetailLimit :: nat where "nvml_kDetailLimit = 200"

definition nvml_truncate_detail :: "string option \<Rightarrow> string" where
  "nvml_truncate_detail raw = (case raw of None \<Rightarrow> [] | Some detail \<Rightarrow> take nvml_kDetailLimit detail)"

definition map_init_error :: "nvmlReturn_t \<Rightarrow> GpuProviderErrorCode" where
  "map_init_error status =
     (if status = NVML_ERROR_DRIVER_NOT_LOADED \<or> status = NVML_ERROR_LIBRARY_NOT_FOUND
         \<or> status = NVML_ERROR_UNINITIALIZED then GpuProviderErrorCode.kBackendUnavailable
      else if status = NVML_ERROR_NO_PERMISSION then GpuProviderErrorCode.kPermissionDenied
      else GpuProviderErrorCode.kObservationFailed)"

definition map_observe_error :: "nvmlReturn_t \<Rightarrow> GpuProviderErrorCode" where
  "map_observe_error status =
     (if status = NVML_ERROR_UNINITIALIZED \<or> status = NVML_ERROR_DRIVER_NOT_LOADED
         \<or> status = NVML_ERROR_LIBRARY_NOT_FOUND then GpuProviderErrorCode.kBackendUnavailable
      else if status = NVML_ERROR_NO_PERMISSION then GpuProviderErrorCode.kPermissionDenied
      else GpuProviderErrorCode.kObservationFailed)"

datatype OccupancyCode = kFree | kExternalBusy | kUnavailable | kPermissionDenied | kFailed

text \<open>The process query: the third version, and the second one if the first is missing or says so.\<close>

definition query_processes ::
  "'w NvmlSymbols \<Rightarrow> nvmlDevice_t \<Rightarrow> 'w \<Rightarrow> nvmlReturn_t \<times> u32 \<times> 'w" where
  "query_processes nv device w =
     (case (case nv_device_get_compute_processes_v3 nv of
              None \<Rightarrow> (NVML_ERROR_FUNCTION_NOT_FOUND, 0, w) | Some f \<Rightarrow> f device w) of
        (status, n, w1) \<Rightarrow>
          if status = NVML_ERROR_FUNCTION_NOT_FOUND
          then (case nv_device_get_compute_processes_v2 nv of
                  None \<Rightarrow> (status, n, w1) | Some f \<Rightarrow> f device w1)
          else (status, n, w1))"

definition query_occupancy :: "'w NvmlSymbols \<Rightarrow> nvmlDevice_t \<Rightarrow> 'w \<Rightarrow> OccupancyCode \<times> 'w" where
  "query_occupancy nv device w =
     (case query_processes nv device w of
        (status, n, w1) \<Rightarrow>
          (if status = NVML_SUCCESS then (if n > 0 then OccupancyCode.kExternalBusy else OccupancyCode.kFree)
           else if status = NVML_ERROR_INSUFFICIENT_SIZE then OccupancyCode.kExternalBusy
           else if status = NVML_ERROR_NOT_SUPPORTED \<or> status = NVML_ERROR_GPU_IS_LOST
                \<or> status = NVML_ERROR_TIMEOUT \<or> status = NVML_ERROR_INVALID_ARGUMENT
             then OccupancyCode.kUnavailable
           else if status = NVML_ERROR_NO_PERMISSION then OccupancyCode.kPermissionDenied
           else kFailed, w1))"

definition extract_uuid :: "string \<Rightarrow> GpuUuid option" where
  "extract_uuid buffer =
     (if NUL \<notin> set buffer then None
      else let uuid = takeWhile (\<lambda>c. c \<noteq> NUL) buffer in if uuid_valid uuid then Some uuid else None)"

definition describe :: "'w NvmlSymbols \<Rightarrow> nvmlReturn_t \<Rightarrow> string" where
  "describe nv status =
     (case nv_error_string nv of
        Some error_string \<Rightarrow> nvml_truncate_detail (error_string status)
      | None \<Rightarrow> ''nvml error '' @ int_to_string status)"

section \<open>Loading\<close>

record NvmlGpuProviderConfig =
  ngc_library_path :: string
  ngc_max_devices :: nat

datatype NvmlProviderLoadCode =
    kLoaded | kAlreadyLoaded | kInvalidConfig | kLibraryOpenFailed | kSymbolMissing
  | kBackendUnavailable | kPermissionDenied | kInitFailed

fun NvmlProviderLoadCode_to_string :: "NvmlProviderLoadCode \<Rightarrow> string" where
  "NvmlProviderLoadCode_to_string kLoaded = ''loaded''"
| "NvmlProviderLoadCode_to_string kAlreadyLoaded = ''already loaded''"
| "NvmlProviderLoadCode_to_string kInvalidConfig = ''invalid config''"
| "NvmlProviderLoadCode_to_string kLibraryOpenFailed = ''library open failed''"
| "NvmlProviderLoadCode_to_string kSymbolMissing = ''symbol missing''"
| "NvmlProviderLoadCode_to_string NvmlProviderLoadCode.kBackendUnavailable = ''backend unavailable''"
| "NvmlProviderLoadCode_to_string NvmlProviderLoadCode.kPermissionDenied = ''permission denied''"
| "NvmlProviderLoadCode_to_string kInitFailed = ''init failed''"

record NvmlProviderLoadResult =
  nlr_code :: NvmlProviderLoadCode
  nlr_detail :: string

definition nlr_ok :: "NvmlProviderLoadResult \<Rightarrow> bool" where
  "nlr_ok r \<longleftrightarrow> nlr_code r = kLoaded \<or> nlr_code r = kAlreadyLoaded"

text \<open>\<open>np_symbols\<close> is the symbol table of the loaded library.\<close>

record 'w NvmlGpuProvider =
  np_config :: NvmlGpuProviderConfig
  np_symbols :: "'w NvmlSymbols option"
  np_next_revision :: u64

abbreviation np_loaded :: "'w NvmlGpuProvider \<Rightarrow> bool" where
  "np_loaded p \<equiv> np_symbols p \<noteq> None"

text \<open>What the dynamic linker answers: the functions of the library if it opens, the names it has, and
  the text of \<open>dlerror\<close>.\<close>

record 'w nvml_linker =
  nl_dlopen :: "'w NvmlSymbols option"
  nl_dlsym :: "string \<Rightarrow> bool"
  nl_dlerror :: "string option"

definition nvml_bindings :: "string list" where
  "nvml_bindings =
     [''nvmlInit_v2'', ''nvmlShutdown'', ''nvmlDeviceGetCount_v2'', ''nvmlDeviceGetHandleByIndex_v2'',
      ''nvmlDeviceGetUUID'', ''nvmlDeviceGetUtilizationRates'', ''nvmlDeviceGetMemoryInfo'',
      ''nvmlDeviceGetComputeRunningProcesses_v2'', ''nvmlErrorString'']"

definition nvml_load ::
  "'w nvml_linker \<Rightarrow> 'w NvmlGpuProvider \<Rightarrow> 'w \<Rightarrow> NvmlProviderLoadResult \<times> 'w NvmlGpuProvider \<times> 'w" where
  "nvml_load dl p w =
     (let refuse = (\<lambda>code detail. (\<lparr>nlr_code = code, nlr_detail = detail\<rparr>, p, w)) in
      if np_loaded p then refuse kAlreadyLoaded []
      else if ngc_library_path (np_config p) = [] \<or> ngc_max_devices (np_config p) = 0
           \<or> ngc_max_devices (np_config p) > gpu_kMaxDevices
        then refuse kInvalidConfig ''library_path must be non-empty and max_devices within 1..128''
      else case nl_dlopen dl of
        None \<Rightarrow> refuse kLibraryOpenFailed (nvml_truncate_detail (nl_dlerror dl))
      | Some library \<Rightarrow>
          if list_ex (\<lambda>name. \<not> nl_dlsym dl name) nvml_bindings
            then refuse kSymbolMissing (nvml_truncate_detail (nl_dlerror dl))
          else
            (let nv = (if nl_dlsym dl ''nvmlDeviceGetComputeRunningProcesses_v3'' then library
                       else library\<lparr>nv_device_get_compute_processes_v3 := None\<rparr>) in
             case nv_init nv w of (status, w1) \<Rightarrow>
               if status \<noteq> NVML_SUCCESS then
                 (\<lparr>nlr_code = (case map_init_error status of
                      GpuProviderErrorCode.kBackendUnavailable \<Rightarrow> NvmlProviderLoadCode.kBackendUnavailable
                    | GpuProviderErrorCode.kPermissionDenied \<Rightarrow> NvmlProviderLoadCode.kPermissionDenied
                    | _ \<Rightarrow> kInitFailed),
                   nlr_detail = describe nv status\<rparr>, p, w1)
               else (\<lparr>nlr_code = kLoaded, nlr_detail = []\<rparr>, p\<lparr>np_symbols := Some nv\<rparr>, w1)))"

definition teardown :: "'w NvmlGpuProvider \<Rightarrow> 'w \<Rightarrow> 'w NvmlGpuProvider \<times> 'w" where
  "teardown p w =
     (case np_symbols p of
        None \<Rightarrow> (p, w)
      | Some nv \<Rightarrow> (p\<lparr>np_symbols := None\<rparr>, snd (nv_shutdown nv w)))"

section \<open>Observing\<close>

definition empty_observation_snapshot :: GpuObservationSnapshot where
  "empty_observation_snapshot = \<lparr>gs_revision = 0, gs_observed_at = 0, gs_devices = []\<rparr>"

text \<open>The telemetry of one device: a failed or inconsistent reading leaves its fields out.\<close>

definition read_telemetry :: "'w NvmlSymbols \<Rightarrow> nvmlDevice_t \<Rightarrow> 'w \<Rightarrow> GpuTelemetry \<times> 'w" where
  "read_telemetry nv device w =
     (case nv_device_get_utilization nv device w of (status1, gpu, w1) \<Rightarrow>
      case nv_device_get_memory nv device w1 of (status2, (mem_total, mem_used), w2) \<Rightarrow>
      (let mem = (status2 = NVML_SUCCESS \<and> mem_used \<le> mem_total) in
       (\<lparr>gt_utilization_percent = (if status1 = NVML_SUCCESS \<and> gpu \<le> 100 then Some gpu else None),
         gt_memory_total_bytes = (if mem then Some mem_total else None),
         gt_memory_used_bytes = (if mem then Some mem_used else None)\<rparr>, w2)))"

text \<open>The body of the device loop.\<close>

definition observe_device ::
  "'w NvmlSymbols \<Rightarrow> u32 \<Rightarrow> 'w \<Rightarrow> (GpuProviderErrorCode + GpuObservation) \<times> 'w" where
  "observe_device nv index w =
     (case nv_device_get_handle nv index w of (status, handle, w1) \<Rightarrow>
      if status \<noteq> NVML_SUCCESS \<or> handle = None
        then (Inl (map_observe_error (if status = NVML_SUCCESS then NVML_ERROR_UNKNOWN else status)), w1)
      else
        (let device = the handle in
         case nv_device_get_uuid nv device w1 of (status, buffer, w2) \<Rightarrow>
         if status \<noteq> NVML_SUCCESS then (Inl (map_observe_error status), w2)
         else case extract_uuid buffer of
           None \<Rightarrow> (Inl GpuProviderErrorCode.kObservationFailed, w2)
         | Some uuid \<Rightarrow>
             (case read_telemetry nv device w2 of (telemetry, w3) \<Rightarrow>
              case query_occupancy nv device w3 of (occupancy, w4) \<Rightarrow>
                (let seen = (\<lambda>state. (Inr \<lparr>go_uuid = uuid, go_index = index, go_state = state,
                                           go_telemetry = telemetry\<rparr>, w4)) in
                 case occupancy of
                   OccupancyCode.kFree \<Rightarrow> seen GpuObservedState.kFree
                 | OccupancyCode.kExternalBusy \<Rightarrow> seen GpuObservedState.kExternalBusy
                 | OccupancyCode.kUnavailable \<Rightarrow> seen GpuObservedState.kUnavailable
                 | OccupancyCode.kPermissionDenied \<Rightarrow> (Inl GpuProviderErrorCode.kPermissionDenied, w4)
                 | OccupancyCode.kFailed \<Rightarrow> (Inl GpuProviderErrorCode.kObservationFailed, w4)))))"

fun observe_devices ::
  "'w NvmlSymbols \<Rightarrow> u32 list \<Rightarrow> 'w \<Rightarrow> (GpuProviderErrorCode + GpuObservation list) \<times> 'w" where
  "observe_devices nv [] w = (Inr [], w)"
| "observe_devices nv (index # rest) w =
     (case observe_device nv index w of
        (Inl e, w1) \<Rightarrow> (Inl e, w1)
      | (Inr d, w1) \<Rightarrow>
          (case observe_devices nv rest w1 of (r, w2) \<Rightarrow> (map_sum id (\<lambda>ds. d # ds) r, w2)))"

definition failed_observation :: "GpuProviderErrorCode \<Rightarrow> GpuProviderResult" where
  "failed_observation e = \<lparr>gpr_code = e, gpr_snapshot = empty_observation_snapshot\<rparr>"

definition nvml_observe ::
  "('w \<Rightarrow> time_point) \<Rightarrow> 'w NvmlGpuProvider \<Rightarrow> 'w \<Rightarrow> GpuProviderResult \<times> 'w NvmlGpuProvider \<times> 'w" where
  "nvml_observe system_clock p w =
     (case np_symbols p of
        None \<Rightarrow> (failed_observation GpuProviderErrorCode.kBackendUnavailable, p, w)
      | Some nv \<Rightarrow>
          (case nv_device_get_count nv w of (status, device_count, w1) \<Rightarrow>
           if status \<noteq> NVML_SUCCESS then (failed_observation (map_observe_error status), p, w1)
           else if unat device_count > ngc_max_devices (np_config p)
             then (failed_observation GpuProviderErrorCode.kObservationFailed, p, w1)
           else case observe_devices nv (map of_nat [0..<unat device_count]) w1 of
             (Inl e, w2) \<Rightarrow> (failed_observation e, p, w2)
           | (Inr devices, w2) \<Rightarrow>
               (\<lparr>gpr_code = GpuProviderErrorCode.kNone,
                 gpr_snapshot = \<lparr>gs_revision = np_next_revision p + 1, gs_observed_at = system_clock w2,
                                 gs_devices = devices\<rparr>\<rparr>,
                p\<lparr>np_next_revision := np_next_revision p + 1\<rparr>, w2)))"

section \<open>What an observation says\<close>

text \<open>The device at an index was read: its handle and UUID came from the library, it is reported free only
  if the process query answered zero processes, and its telemetry is what the library said.\<close>

definition device_read :: "'w NvmlSymbols \<Rightarrow> u32 \<Rightarrow> GpuObservation \<Rightarrow> bool" where
  "device_read nv index d \<longleftrightarrow>
     go_index d = index \<and> uuid_valid (go_uuid d)
   \<and> (\<exists>h w0 w1 w2 w3 buffer.
        nv_device_get_handle nv index w0 = (NVML_SUCCESS, Some h, w1)
      \<and> nv_device_get_uuid nv h w2 = (NVML_SUCCESS, buffer, w3) \<and> extract_uuid buffer = Some (go_uuid d)
      \<and> (\<exists>w4. go_telemetry d = fst (read_telemetry nv h w4))
      \<and> (go_state d = GpuObservedState.kFree \<longrightarrow> (\<exists>w5 w6. query_processes nv h w5 = (NVML_SUCCESS, 0, w6))))"

lemma occupancy_free:
  "query_occupancy nv h w = (OccupancyCode.kFree, w') \<Longrightarrow> query_processes nv h w = (NVML_SUCCESS, 0, w')"
  by (auto simp: query_occupancy_def word_neq_0_conv[symmetric] split: prod.splits if_splits)

lemma observe_device_read:
  assumes "observe_device nv index w = (Inr d, w')"
  shows "device_read nv index d"
proof -
  obtain h w1 where h: "nv_device_get_handle nv index w = (NVML_SUCCESS, Some h, w1)"
    using assms by (auto simp: observe_device_def split: prod.splits if_splits)
  obtain status buffer w2 where "nv_device_get_uuid nv h w1 = (status, buffer, w2)" using prod_cases3 by blast
  with assms h obtain uuid where b: "nv_device_get_uuid nv h w1 = (NVML_SUCCESS, buffer, w2)" "extract_uuid buffer = Some uuid"
    by (auto simp: observe_device_def Let_def split: if_splits option.splits)
  obtain telemetry w3 where t: "read_telemetry nv h w2 = (telemetry, w3)" by fastforce
  obtain occupancy w4 where o: "query_occupancy nv h w3 = (occupancy, w4)" by fastforce
  have d: "go_index d = index" "go_uuid d = uuid" "go_telemetry d = telemetry"
      "go_state d = GpuObservedState.kFree \<Longrightarrow> occupancy = OccupancyCode.kFree"
    using assms h b t o by (auto simp: observe_device_def Let_def split: OccupancyCode.splits)
  have "uuid_valid uuid" using b(2) by (auto simp: extract_uuid_def Let_def split: if_splits)
  moreover have "telemetry = fst (read_telemetry nv h w2)" using t by simp
  moreover have "go_state d = GpuObservedState.kFree \<Longrightarrow> query_processes nv h w3 = (NVML_SUCCESS, 0, w4)"
    using occupancy_free[of nv h w3 w4] d(4) o by simp
  ultimately show ?thesis unfolding device_read_def d(1-3) using h b by blast
qed

lemma observe_devices_read:
  "observe_devices nv is w = (Inr ds, w') \<Longrightarrow> list_all2 (device_read nv) is ds"
proof (induction "is" arbitrary: w ds)
  case (Cons index rest)
  then show ?case
    by (auto split: prod.splits sum.splits simp: map_sum_def intro: observe_device_read)
qed simp

lemma observe_device_error: "observe_device nv index w = (Inl e, w') \<Longrightarrow> e \<noteq> GpuProviderErrorCode.kNone"
  by (auto simp: observe_device_def map_observe_error_def Let_def
      split: prod.splits if_splits option.splits OccupancyCode.splits)

lemma observe_devices_error: "observe_devices nv is w = (Inl e, w') \<Longrightarrow> e \<noteq> GpuProviderErrorCode.kNone"
  by (induction "is" arbitrary: w)
    (auto simp: map_sum_def split: prod.splits sum.splits dest: observe_device_error)

text \<open>What NVML documents: the UUID identifies the device, the total memory of a device is not zero.\<close>

definition distinct_identities :: "'w NvmlSymbols \<Rightarrow> bool" where
  "distinct_identities nv \<longleftrightarrow>
     (\<exists>f. inj f \<and> (\<forall>index h w0 w1 w2 w3 buffer uuid.
        nv_device_get_handle nv index w0 = (NVML_SUCCESS, Some h, w1) \<longrightarrow>
        nv_device_get_uuid nv h w2 = (NVML_SUCCESS, buffer, w3) \<longrightarrow> extract_uuid buffer = Some uuid \<longrightarrow> uuid = f index))"

definition memory_installed :: "'w NvmlSymbols \<Rightarrow> bool" where
  "memory_installed nv \<longleftrightarrow>
     (\<forall>h w tot used w'. nv_device_get_memory nv h w = (NVML_SUCCESS, (tot, used), w') \<longrightarrow> tot \<noteq> 0)"

lemma read_telemetry_ok: "memory_installed nv \<Longrightarrow> telemetry_ok (fst (read_telemetry nv h w))"
  by (fastforce simp: read_telemetry_def telemetry_ok_def memory_installed_def Let_def split: prod.splits if_splits)

text \<open>A library that reports a total of zero bytes makes the observation one that \<open>validate\<close> rejects.\<close>

lemma zero_memory_refused:
  assumes "nv_device_get_utilization nv h w = (status, gpu, w1)"
    "nv_device_get_memory nv h w1 = (NVML_SUCCESS, (0, 0), w2)"
  shows "gt_memory_total_bytes (fst (read_telemetry nv h w)) = Some 0 \<and> \<not> telemetry_ok (fst (read_telemetry nv h w))"
  using assms by (simp add: read_telemetry_def telemetry_ok_def Let_def)

lemma devices_distinct:
  assumes ids: "distinct_identities nv" and ds: "list_all2 (device_read nv) is ds" and "distinct is"
  shows "map go_index ds = is" "distinct (map go_uuid ds)"
proof -
  obtain f where f: "inj f" and uuid: "device_read nv index d \<Longrightarrow> go_uuid d = f index" for index d
    using ids unfolding distinct_identities_def device_read_def by blast
  show 1: "map go_index ds = is" using ds by (induction rule: list_all2_induct) (auto simp: device_read_def)
  have "map go_uuid ds = map f is" using ds by (induction rule: list_all2_induct) (auto simp: uuid)
  then show "distinct (map go_uuid ds)" using f assms(3) by (simp add: distinct_map inj_on_def inj_def)
qed

lemma indices_distinct: "n \<le> 2 ^ 32 \<Longrightarrow> distinct (map of_nat [0..<n] :: u32 list)"
  by (auto simp: distinct_map inj_on_def unat_of_nat dest!: arg_cong[of _ _ unat])

text \<open>A loaded provider has a configuration within the limit of a snapshot.\<close>

lemma load_keeps_config:
  assumes "nvml_load dl p w = (r, p', w')" "\<not> np_loaded p" "np_loaded p'"
  shows "ngc_max_devices (np_config p') \<le> gpu_kMaxDevices \<and> nlr_ok r"
  using assms by (auto simp: nvml_load_def Let_def nlr_ok_def split: if_splits option.splits prod.splits)

lemma observed_cases:
  assumes "np_symbols p = Some nv" "nvml_observe system_clock p w = (r, p', w')"
  shows "gpr_code r \<noteq> GpuProviderErrorCode.kNone \<and> gpr_snapshot r = empty_observation_snapshot \<and> p' = p
    \<or> (\<exists>n w1 ds w2. nv_device_get_count nv w = (NVML_SUCCESS, n, w1) \<and> unat n \<le> ngc_max_devices (np_config p)
        \<and> observe_devices nv (map of_nat [0..<unat n]) w1 = (Inr ds, w2)
        \<and> gpr_code r = GpuProviderErrorCode.kNone
        \<and> gpr_snapshot r = \<lparr>gs_revision = np_next_revision p + 1, gs_observed_at = system_clock w2, gs_devices = ds\<rparr>
        \<and> p' = p\<lparr>np_next_revision := np_next_revision p + 1\<rparr>)"
  using assms
  by (auto dest: observe_devices_error simp: nvml_observe_def failed_observation_def map_observe_error_def not_less
      split: prod.splits if_splits sum.splits)


text \<open>Two devices, the first free, the second in use and without telemetry.\<close>

definition demo_uuid :: "u32 \<Rightarrow> string" where
  "demo_uuid index = ''GPU-'' @ replicate (unat index) (CHR ''a'')"

definition demo_nvml :: "unit NvmlSymbols" where
  "demo_nvml =
     \<lparr>nv_init = (\<lambda>w. (0, w)), nv_shutdown = (\<lambda>w. (0, w)),
      nv_device_get_count = (\<lambda>w. (0, 2, w)),
      nv_device_get_handle = (\<lambda>index w. if index < 2 then (0, Some (unat index), w) else (2, None, w)),
      nv_device_get_uuid = (\<lambda>h w. (0, demo_uuid (of_nat h) @ replicate (124 - h) NUL, w)),
      nv_device_get_utilization = (\<lambda>h w. (if h = 0 then 0 else 3, 40, w)),
      nv_device_get_memory = (\<lambda>h w. (if h = 0 then 0 else 3, (16000, 500), w)),
      nv_device_get_compute_processes_v3 = Some (\<lambda>h w. (12, 0, w)),
      nv_device_get_compute_processes_v2 = Some (\<lambda>h w. (if h = 0 then 0 else 7, 0, w)),
      nv_error_string = None\<rparr>"

definition demo_nvml_provider :: "unit NvmlGpuProvider" where
  "demo_nvml_provider =
     \<lparr>np_config = \<lparr>ngc_library_path = ''libnvidia-ml.so.1'', ngc_max_devices = 128\<rparr>, np_symbols = Some demo_nvml,
      np_next_revision = 6\<rparr>"

lemma demo_uuid_inj: "inj demo_uuid"
proof (rule injI)
  fix i j assume "demo_uuid i = demo_uuid j"
  then have "length (demo_uuid i) = length (demo_uuid j)" by simp
  then have "unat i = unat j" by (simp add: demo_uuid_def)
  then show "i = j" by (rule unsigned_word_eqI)
qed

lemma demo_uuid_NUL: "NUL \<notin> set (demo_uuid index)"
  by (simp add: demo_uuid_def NUL_def)

lemma demo_extract:
  assumes "extract_uuid (demo_uuid index @ replicate n NUL) = Some uuid" shows "uuid = demo_uuid index"
proof -
  have "takeWhile (\<lambda>c. c \<noteq> NUL) (demo_uuid index @ replicate n NUL)
      = demo_uuid index @ takeWhile (\<lambda>c. c \<noteq> NUL) (replicate n NUL)"
    by (rule takeWhile_append2) (use demo_uuid_NUL[of index] in auto)
  also have "\<dots> = demo_uuid index" by (cases n) simp_all
  finally have "takeWhile (\<lambda>c. c \<noteq> NUL) (demo_uuid index @ replicate n NUL) = demo_uuid index" .
  then show ?thesis using assms by (auto simp: extract_uuid_def Let_def split: if_splits)
qed


end
