(* ===== verification/Gpu_Manager.thy ===== *)
theory Gpu_Manager
  imports Gpu_Model
begin

text \<open>
  The GPU manager (\<^verbatim>\<open>src/src/runtime/gpu_manager.hpp\<close>, \<^verbatim>\<open>src/src/runtime/gpu_manager.cpp\<close>): the periodic
  observation, the snapshot it publishes, and the events it sends when the state of a device changes.

  What the code calls is a record \<open>GpuRuntime\<close> of operations on a state \<open>'w\<close>: the provider (\<open>None\<close> is a thrown
  exception), the double buffer, the event channel, the listener and the timer of the executor library.
  Counters are 64-bit words and wrap. A tick runs under the tick lock; a tick that finds the lock taken is
  one that overlaps another.
\<close>

section \<open>Types\<close>

datatype GpuManagerEventKind = kGpuStateChanged | kErrorStreakStarted | kErrorStreakEnded

record GpuManagerEvent =
  ge_kind :: GpuManagerEventKind
  ge_revision :: u64
  ge_error :: GpuProviderErrorCode
  ge_error_streak :: u64
  ge_changed :: "GpuUuid list"
  ge_dropped_earlier_events :: bool

definition blank_event :: GpuManagerEvent where
  "blank_event = \<lparr>ge_kind = kGpuStateChanged, ge_revision = 0, ge_error = GpuProviderErrorCode.kNone,
     ge_error_streak = 0, ge_changed = [], ge_dropped_earlier_events = False\<rparr>"

record GpuManagerStats =
  gst_ticks :: u64
  gst_ticks_ok :: u64
  gst_ticks_failed :: u64
  gst_tick_exceptions :: u64
  gst_snapshots_published :: u64
  gst_publish_rejected :: u64
  gst_state_change_events :: u64
  gst_events_dropped :: u64
  gst_skipped_overlapping_ticks :: u64
  gst_error_streak :: u64
  gst_last_error :: GpuProviderErrorCode
  gst_last_good_revision :: u64

text \<open>Durations in milliseconds.\<close>

record GpuManagerConfig =
  gmc_sample_period :: int
  gmc_event_capacity :: nat
  gmc_stop_join_timeout :: int

datatype GpuManagerStartCode =
    kStarted | kAlreadyStarted | kStopped | kInvalidConfig | kInitialObservationFailed | kExecutorRejected

record GpuManagerStartResult =
  gsr_code :: GpuManagerStartCode
  gsr_provider_error :: GpuProviderErrorCode
  gsr_message :: string

datatype GpuManagerStopCode = kStopped | kNotRunning | kAlreadyStopped | kJoinTimedOut

record GpuManagerStopResult =
  gsp_code :: GpuManagerStopCode
  gsp_message :: string

datatype SampleCode = kOk | kFailed | kSkipped

type_synonym StateMap = "(GpuUuid, GpuObservedState) omap"

text \<open>The atomic counters are kept in the record that \<open>stats\<close> copies them to.\<close>

record GpuManager =
  gm_config :: GpuManagerConfig
  gm_started :: bool
  gm_stopped :: bool
  gm_baseline_established :: bool
  gm_stopping :: bool
  gm_tick_lock :: bool
  gm_baseline :: StateMap
  gm_stats :: GpuManagerStats
  gm_dropped_events_pending :: bool

record 'w GpuRuntime =
  gr_observe :: "'w \<Rightarrow> GpuProviderResult option \<times> 'w"
  gr_try_publish :: "GpuObservationSnapshot \<Rightarrow> 'w \<Rightarrow> bool \<times> 'w"
  gr_try_load :: "'w \<Rightarrow> GpuObservationSnapshot option"
  gr_try_send :: "GpuManagerEvent \<Rightarrow> 'w \<Rightarrow> bool \<times> 'w"
  gr_try_receive :: "'w \<Rightarrow> GpuManagerEvent option \<times> 'w"
  gr_notify :: "'w \<Rightarrow> 'w"
  gr_submit_periodic :: "'w \<Rightarrow> bool \<times> 'w"
  gr_cancel :: "'w \<Rightarrow> 'w"

section \<open>Differences\<close>

definition build_state_map :: "GpuObservationSnapshot \<Rightarrow> StateMap" where
  "build_state_map snapshot =
     foldl (\<lambda>states device. if omap_contains (go_uuid device) states then states
                            else omap_put (go_uuid device) (go_state device) states) [] (gs_devices snapshot)"

definition diff_states :: "StateMap \<Rightarrow> StateMap \<Rightarrow> GpuUuid list" where
  "diff_states previous current =
     map fst (filter (\<lambda>(uuid, state). map_of previous uuid \<noteq> Some state) current)
   @ map fst (filter (\<lambda>(uuid, _). \<not> omap_contains uuid current) previous)"

section \<open>Events\<close>

definition send_event ::
  "'w GpuRuntime \<Rightarrow> GpuManagerEvent \<Rightarrow> GpuManager \<Rightarrow> 'w \<Rightarrow> bool \<times> GpuManager \<times> 'w" where
  "send_event rt event s w =
     (let event1 = (if gm_dropped_events_pending s then event\<lparr>ge_dropped_earlier_events := True\<rparr> else event) in
      case gr_try_send rt event1 w of (ok, w1) \<Rightarrow>
        if \<not> ok then
          (False, s\<lparr>gm_stats := (gm_stats s)\<lparr>gst_events_dropped := gst_events_dropped (gm_stats s) + 1\<rparr>,
                    gm_dropped_events_pending := True\<rparr>, w1)
        else (True, s\<lparr>gm_dropped_events_pending := False\<rparr>, gr_notify rt w1))"

definition record_failure ::
  "'w GpuRuntime \<Rightarrow> GpuProviderErrorCode \<Rightarrow> GpuManager \<Rightarrow> 'w \<Rightarrow> GpuManager \<times> 'w" where
  "record_failure rt error s w =
     (let st = gm_stats s; streak = gst_error_streak st + 1;
          s1 = s\<lparr>gm_stats := st\<lparr>gst_ticks_failed := gst_ticks_failed st + 1, gst_last_error := error,
                               gst_error_streak := streak\<rparr>\<rparr> in
      if streak = 1
      then snd (send_event rt (blank_event\<lparr>ge_kind := kErrorStreakStarted, ge_error := error,
                                 ge_error_streak := streak\<rparr>) s1 w)
      else (s1, w))"

definition record_success :: "'w GpuRuntime \<Rightarrow> u64 \<Rightarrow> GpuManager \<Rightarrow> 'w \<Rightarrow> GpuManager \<times> 'w" where
  "record_success rt revision s w =
     (let st = gm_stats s; streak = gst_error_streak st;
          s1 = s\<lparr>gm_stats := st\<lparr>gst_ticks_ok := gst_ticks_ok st + 1, gst_last_error := GpuProviderErrorCode.kNone,
                               gst_last_good_revision := revision, gst_error_streak := 0\<rparr>\<rparr> in
      if streak > 0
      then snd (send_event rt (blank_event\<lparr>ge_kind := kErrorStreakEnded, ge_revision := revision,
                                 ge_error_streak := streak\<rparr>) s1 w)
      else (s1, w))"

section \<open>One sample\<close>

text \<open>The detection of changes, after the snapshot has been published.\<close>

definition detect_changes :: "'w GpuRuntime \<Rightarrow> u64 \<Rightarrow> GpuManager \<Rightarrow> 'w \<Rightarrow> GpuManager \<times> 'w" where
  "detect_changes rt revision s w =
     (case gr_try_load rt w of
        None \<Rightarrow> (s, w)
      | Some loaded \<Rightarrow>
          if gs_revision loaded \<noteq> revision then (s, w)
          else
            (let next_baseline = build_state_map loaded in
             if \<not> gm_baseline_established s
               then (s\<lparr>gm_baseline := next_baseline, gm_baseline_established := True\<rparr>, w)
             else
               (let changed = diff_states (gm_baseline s) next_baseline in
                if changed = [] then (s\<lparr>gm_baseline := next_baseline\<rparr>, w)
                else case send_event rt (blank_event\<lparr>ge_kind := kGpuStateChanged, ge_revision := revision,
                                           ge_changed := changed\<rparr>) s w of
                  (sent, s1, w1) \<Rightarrow>
                    if \<not> sent then (s1, w1)
                    else (s1\<lparr>gm_stats := (gm_stats s1)\<lparr>gst_state_change_events := gst_state_change_events (gm_stats s1) + 1\<rparr>,
                             gm_baseline := next_baseline\<rparr>, w1))))"

text \<open>The sample of a tick that holds the lock.\<close>

definition sample_locked :: "'w GpuRuntime \<Rightarrow> GpuManager \<Rightarrow> 'w \<Rightarrow> SampleCode \<times> GpuManager \<times> 'w" where
  "sample_locked rt s w =
     (let s0 = s\<lparr>gm_stats := (gm_stats s)\<lparr>gst_ticks := gst_ticks (gm_stats s) + 1\<rparr>\<rparr> in
      case gr_observe rt w of
        (None, w1) \<Rightarrow>
          (kFailed, record_failure rt GpuProviderErrorCode.kObservationFailed
             (s0\<lparr>gm_stats := (gm_stats s0)\<lparr>gst_tick_exceptions := gst_tick_exceptions (gm_stats s0) + 1\<rparr>\<rparr>) w1)
      | (Some observed, w1) \<Rightarrow>
          if gpr_code observed \<noteq> GpuProviderErrorCode.kNone then (kFailed, record_failure rt (gpr_code observed) s0 w1)
          else if \<not> gov_ok (gpu_validate (gpr_snapshot observed))
            then (kFailed, record_failure rt GpuProviderErrorCode.kObservationFailed s0 w1)
          else
            (let revision = gs_revision (gpr_snapshot observed) in
             case gr_try_publish rt (gpr_snapshot observed) w1 of (published, w2) \<Rightarrow>
               if \<not> published then
                 (kOk, s0\<lparr>gm_stats := (gm_stats s0)\<lparr>gst_publish_rejected := gst_publish_rejected (gm_stats s0) + 1\<rparr>\<rparr>, w2)
               else
                 (let s1 = s0\<lparr>gm_stats := (gm_stats s0)\<lparr>gst_snapshots_published := gst_snapshots_published (gm_stats s0) + 1\<rparr>\<rparr> in
                  case record_success rt revision s1 w2 of (s2, w3) \<Rightarrow> (kOk, detect_changes rt revision s2 w3))))"

text \<open>\<open>sample_once\<close> with its guard.\<close>

definition sample_once :: "'w GpuRuntime \<Rightarrow> GpuManager \<Rightarrow> 'w \<Rightarrow> SampleCode \<times> GpuManager \<times> 'w" where
  "sample_once rt s w =
     (if gm_stopping s then (kSkipped, s, w)
      else if gm_tick_lock s
        then (kSkipped, s\<lparr>gm_stats := (gm_stats s)\<lparr>gst_skipped_overlapping_ticks :=
                            gst_skipped_overlapping_ticks (gm_stats s) + 1\<rparr>\<rparr>, w)
      else case sample_locked rt (s\<lparr>gm_tick_lock := True\<rparr>) w of (code, s1, w1) \<Rightarrow> (code, s1\<lparr>gm_tick_lock := False\<rparr>, w1))"

definition tick :: "'w GpuRuntime \<Rightarrow> GpuManager \<Rightarrow> 'w \<Rightarrow> GpuManager \<times> 'w" where
  "tick rt s w = snd (sample_once rt s w)"

section \<open>Start, stop and reading\<close>

definition gpu_manager_start ::
  "'w GpuRuntime \<Rightarrow> GpuManager \<Rightarrow> 'w \<Rightarrow> GpuManagerStartResult \<times> GpuManager \<times> 'w" where
  "gpu_manager_start rt s w =
     (let answer = (\<lambda>code error message. \<lparr>gsr_code = code, gsr_provider_error = error, gsr_message = message\<rparr>);
          cfg = gm_config s in
      if gm_stopped s then (answer GpuManagerStartCode.kStopped GpuProviderErrorCode.kNone
                              ''gpu manager was stopped and cannot restart'', s, w)
      else if gm_started s then (answer GpuManagerStartCode.kAlreadyStarted GpuProviderErrorCode.kNone [], s, w)
      else if gmc_sample_period cfg < 1 \<or> gmc_sample_period cfg > 24 * 60 * 60 * 1000 \<or> gmc_event_capacity cfg = 0
           \<or> gmc_stop_join_timeout cfg < 0
        then (answer GpuManagerStartCode.kInvalidConfig GpuProviderErrorCode.kNone ''invalid gpu manager config'', s, w)
      else case sample_once rt s w of (code, s1, w1) \<Rightarrow>
        if code \<noteq> kOk
          then (answer kInitialObservationFailed (gst_last_error (gm_stats s1)) ''initial observation failed'', s1, w1)
        else case gr_submit_periodic rt w1 of (submitted, w2) \<Rightarrow>
          if \<not> submitted
            then (answer kExecutorRejected GpuProviderErrorCode.kNone ''executor rejected the periodic task'', s1, w2)
          else (answer GpuManagerStartCode.kStarted GpuProviderErrorCode.kNone [], s1\<lparr>gm_started := True\<rparr>, w2))"

text \<open>The bounded join of \<open>stop\<close>. Another thread holds and releases the tick lock: \<open>locked n\<close> and \<open>clock n\<close> are what
  the \<open>n\<close>-th reading of the lock and the clock gives; the deadline is taken from reading 0. \<open>None\<close> is a loop that has not ended within the fuel.\<close>

fun join_loop :: "nat \<Rightarrow> (nat \<Rightarrow> bool) \<Rightarrow> (nat \<Rightarrow> int) \<Rightarrow> int \<Rightarrow> nat \<Rightarrow> GpuManagerStopResult option" where
  "join_loop 0 locked clock deadline n = None"
| "join_loop (Suc fuel) locked clock deadline n =
     (if \<not> locked n then Some \<lparr>gsp_code = GpuManagerStopCode.kStopped, gsp_message = []\<rparr>
      else if clock n \<ge> deadline
        then Some \<lparr>gsp_code = kJoinTimedOut,
                   gsp_message = ''in-flight sample tick did not finish within stop_join_timeout''\<rparr>
      else join_loop fuel locked clock deadline (Suc n))"

definition gpu_manager_stop ::
  "'w GpuRuntime \<Rightarrow> nat \<Rightarrow> (nat \<Rightarrow> bool) \<Rightarrow> (nat \<Rightarrow> int) \<Rightarrow> GpuManager \<Rightarrow> 'w
     \<Rightarrow> GpuManagerStopResult option \<times> GpuManager \<times> 'w" where
  "gpu_manager_stop rt fuel locked clock s w =
     (if gm_stopped s then (Some \<lparr>gsp_code = kAlreadyStopped, gsp_message = []\<rparr>, s, w)
      else
        (let s1 = s\<lparr>gm_stopped := True, gm_stopping := True\<rparr> in
         if \<not> gm_started s then (Some \<lparr>gsp_code = kNotRunning, gsp_message = []\<rparr>, s1, w)
         else (join_loop fuel locked clock (clock 0 + gmc_stop_join_timeout (gm_config s)) 1,
               s1\<lparr>gm_started := False\<rparr>, gr_cancel rt w)))"

definition try_get_snapshot :: "'w GpuRuntime \<Rightarrow> 'w \<Rightarrow> GpuObservationSnapshot option" where
  "try_get_snapshot rt w =
     (case gr_try_load rt w of
        None \<Rightarrow> None
      | Some snapshot \<Rightarrow> if gs_revision snapshot = 0 then None else Some snapshot)"

definition gpu_manager_stats :: "GpuManager \<Rightarrow> GpuManagerStats" where
  "gpu_manager_stats s = gm_stats s"

section \<open>Printed names\<close>

fun GpuManagerEventKind_to_string :: "GpuManagerEventKind \<Rightarrow> string" where
  "GpuManagerEventKind_to_string kGpuStateChanged = ''gpu state changed''"
| "GpuManagerEventKind_to_string kErrorStreakStarted = ''error streak started''"
| "GpuManagerEventKind_to_string kErrorStreakEnded = ''error streak ended''"

fun GpuManagerStartCode_to_string :: "GpuManagerStartCode \<Rightarrow> string" where
  "GpuManagerStartCode_to_string GpuManagerStartCode.kStarted = ''started''"
| "GpuManagerStartCode_to_string GpuManagerStartCode.kAlreadyStarted = ''already started''"
| "GpuManagerStartCode_to_string GpuManagerStartCode.kStopped = ''stopped''"
| "GpuManagerStartCode_to_string GpuManagerStartCode.kInvalidConfig = ''invalid config''"
| "GpuManagerStartCode_to_string kInitialObservationFailed = ''initial observation failed''"
| "GpuManagerStartCode_to_string kExecutorRejected = ''executor rejected''"

fun GpuManagerStopCode_to_string :: "GpuManagerStopCode \<Rightarrow> string" where
  "GpuManagerStopCode_to_string GpuManagerStopCode.kStopped = ''stopped''"
| "GpuManagerStopCode_to_string kNotRunning = ''not running''"
| "GpuManagerStopCode_to_string kAlreadyStopped = ''already stopped''"
| "GpuManagerStopCode_to_string kJoinTimedOut = ''join timed out''"

end
