(* ===== verification/Gpu_Manager_Props.thy ===== *)
theory Gpu_Manager_Props
  imports Gpu_Manager
begin

text \<open>
  What the GPU manager promises over any interleaving of a tick in flight with further ticks, \<open>start\<close>,
  \<open>stop\<close> and the consumer: only valid snapshots are published, and no change of a device state is lost.
\<close>

section \<open>The communication library\<close>

text \<open>\<open>buf\<close> is the value in the double buffer, \<open>sent\<close> the events the channel has accepted so far.\<close>

definition comm_ok ::
  "'w GpuRuntime \<Rightarrow> ('w \<Rightarrow> GpuObservationSnapshot) \<Rightarrow> ('w \<Rightarrow> GpuManagerEvent list) \<Rightarrow> bool" where
  "comm_ok rt buf sent \<longleftrightarrow>
     (\<forall>w. buf (snd (gr_observe rt w)) = buf w \<and> sent (snd (gr_observe rt w)) = sent w)
   \<and> (\<forall>x w ok w'. gr_try_publish rt x w = (ok, w') \<longrightarrow> buf w' = (if ok then x else buf w) \<and> sent w' = sent w)
   \<and> (\<forall>w x. gr_try_load rt w = Some x \<longrightarrow> x = buf w)
   \<and> (\<forall>e w ok w'. gr_try_send rt e w = (ok, w') \<longrightarrow>
        buf w' = buf w \<and> sent w' = (if ok then sent w @ [e] else sent w))
   \<and> (\<forall>w. buf (snd (gr_try_receive rt w)) = buf w \<and> sent (snd (gr_try_receive rt w)) = sent w)
   \<and> (\<forall>w. buf (gr_notify rt w) = buf w \<and> sent (gr_notify rt w) = sent w)
   \<and> (\<forall>w. buf (snd (gr_submit_periodic rt w)) = buf w \<and> sent (snd (gr_submit_periodic rt w)) = sent w)
   \<and> (\<forall>w. buf (gr_cancel rt w) = buf w \<and> sent (gr_cancel rt w) = sent w)"

lemma comm_send: "comm_ok rt buf sent \<Longrightarrow> gr_try_send rt e w = (ok, w') \<Longrightarrow>
    buf w' = buf w \<and> sent w' = (if ok then sent w @ [e] else sent w)"
  unfolding comm_ok_def by (elim conjE) (simp only:)

lemma comm_publish: "comm_ok rt buf sent \<Longrightarrow> gr_try_publish rt x w = (ok, w') \<Longrightarrow>
    buf w' = (if ok then x else buf w) \<and> sent w' = sent w"
  unfolding comm_ok_def by (elim conjE) (simp only:)

lemma comm_load: "comm_ok rt buf sent \<Longrightarrow> gr_try_load rt w = Some x \<Longrightarrow> x = buf w"
  unfolding comm_ok_def by (elim conjE) (simp only:)

lemma comm_frame:
  assumes "comm_ok rt buf sent"
  shows "buf (snd (gr_observe rt w)) = buf w" "sent (snd (gr_observe rt w)) = sent w"
    "buf (snd (gr_try_receive rt w)) = buf w" "sent (snd (gr_try_receive rt w)) = sent w"
    "buf (gr_notify rt w) = buf w" "sent (gr_notify rt w) = sent w"
    "buf (snd (gr_submit_periodic rt w)) = buf w" "sent (snd (gr_submit_periodic rt w)) = sent w"
    "buf (gr_cancel rt w) = buf w" "sent (gr_cancel rt w) = sent w"
  using assms by (simp_all add: comm_ok_def)

section \<open>Differences\<close>

lemma build_state_map_wf: "omap_wf (build_state_map x)"
proof -
  have "omap_wf m \<Longrightarrow> omap_wf (foldl (\<lambda>states device. if omap_contains (go_uuid device) states then states
      else omap_put (go_uuid device) (go_state device) states) m ds)" for m ds
    by (induction ds arbitrary: m) auto
  from this[OF omap_wf_Nil] show ?thesis unfolding build_state_map_def .
qed

text \<open>The differences are exactly the devices whose state differs, those that appear and those that
  disappear included.\<close>

lemma diff_states_iff:
  assumes "omap_wf previous" "omap_wf current"
  shows "uuid \<in> set (diff_states previous current) \<longleftrightarrow> map_of previous uuid \<noteq> map_of current uuid"
proof -
  have "uuid \<in> set (diff_states previous current) \<longleftrightarrow>
      (\<exists>state. map_of current uuid = Some state \<and> map_of previous uuid \<noteq> Some state)
    \<or> (\<exists>state. map_of previous uuid = Some state \<and> map_of current uuid = None)"
    by (auto simp: diff_states_def omap_lookup_iff[OF assms(1), symmetric] omap_lookup_iff[OF assms(2), symmetric]
        omap_contains_def image_iff)
  then show ?thesis by (cases "map_of previous uuid"; cases "map_of current uuid") auto
qed

section \<open>Steps\<close>

text \<open>A tick takes the lock (\<open>acquire\<close>) and later runs its sample and releases it (\<open>run\<close>); between the two,
  anything else may happen, including ticks that find the lock taken. A tick that has passed the check of
  \<open>stopping\<close> may take the lock after a \<open>stop\<close>, so \<open>acquire\<close> does not ask for the flag.\<close>

inductive gm_step :: "'w GpuRuntime \<Rightarrow> GpuManager \<times> 'w \<Rightarrow> GpuManager \<times> 'w \<Rightarrow> bool" for rt where
  acquire: "\<not> gm_tick_lock s \<Longrightarrow> gm_step rt (s, w) (s\<lparr>gm_tick_lock := True\<rparr>, w)"
| run: "gm_tick_lock s \<Longrightarrow> sample_locked rt s w = (code, s', w') \<Longrightarrow> gm_step rt (s, w) (s'\<lparr>gm_tick_lock := False\<rparr>, w')"
| tick: "gm_step rt (s, w) (tick rt s w)"
| start: "gpu_manager_start rt s w = (r, s', w') \<Longrightarrow> gm_step rt (s, w) (s', w')"
| stop: "gpu_manager_stop rt fuel locked clock s w = (q, s', w') \<Longrightarrow> gm_step rt (s, w) (s', w')"
| receive: "gm_step rt (s, w) (s, snd (gr_try_receive rt w))"

definition new_gpu_manager :: "GpuManagerConfig \<Rightarrow> GpuManager" where
  "new_gpu_manager config =
     \<lparr>gm_config = config, gm_started = False, gm_stopped = False, gm_baseline_established = False,
      gm_stopping = False, gm_tick_lock = False, gm_baseline = [],
      gm_stats = \<lparr>gst_ticks = 0, gst_ticks_ok = 0, gst_ticks_failed = 0, gst_tick_exceptions = 0,
        gst_snapshots_published = 0, gst_publish_rejected = 0, gst_state_change_events = 0, gst_events_dropped = 0,
        gst_skipped_overlapping_ticks = 0, gst_error_streak = 0, gst_last_error = GpuProviderErrorCode.kNone,
        gst_last_good_revision = 0\<rparr>,
      gm_dropped_events_pending = False\<rparr>"

text \<open>A property of the state that a sample keeps, and that does not depend on the flags of the life cycle,
  is kept by every step.\<close>

lemma sample_once_cases:
  assumes "sample_once rt s w = (code, s', w')"
  shows "s' = s \<and> w' = w
    \<or> s' = s\<lparr>gm_stats := (gm_stats s)\<lparr>gst_skipped_overlapping_ticks := gst_skipped_overlapping_ticks (gm_stats s) + 1\<rparr>\<rparr> \<and> w' = w
    \<or> (\<exists>s1. sample_locked rt (s\<lparr>gm_tick_lock := True\<rparr>) w = (code, s1, w') \<and> s' = s1\<lparr>gm_tick_lock := False\<rparr>)"
  using assms by (auto simp: sample_once_def split: if_splits prod.splits)

definition flag_free :: "(GpuManager \<Rightarrow> 'w \<Rightarrow> bool) \<Rightarrow> bool" where
  "flag_free P \<longleftrightarrow> (\<forall>s w n b. P s w \<longrightarrow> P (s\<lparr>gm_tick_lock := b\<rparr>) w \<and> P (s\<lparr>gm_started := b\<rparr>) w
     \<and> P (s\<lparr>gm_stopped := True, gm_stopping := True\<rparr>) w
     \<and> P (s\<lparr>gm_stats := (gm_stats s)\<lparr>gst_skipped_overlapping_ticks := n\<rparr>\<rparr>) w)"

lemma flag_freeD:
  assumes "flag_free P" "P s w"
  shows "P (s\<lparr>gm_tick_lock := b\<rparr>) w" "P (s\<lparr>gm_started := b\<rparr>) w" "P (s\<lparr>gm_stopped := True, gm_stopping := True\<rparr>) w"
    "P (s\<lparr>gm_stats := (gm_stats s)\<lparr>gst_skipped_overlapping_ticks := n\<rparr>\<rparr>) w"
  using assms by (simp_all add: flag_free_def)

lemma sample_once_keeps:
  assumes "flag_free P" "P s w" "sample_once rt s w = (code, s', w')"
    and "\<And>s w code s' w'. P s w \<Longrightarrow> sample_locked rt s w = (code, s', w') \<Longrightarrow> P s' w'"
  shows "P s' w'"
  using sample_once_cases[OF assms(3)] assms(2) flag_freeD[OF assms(1)] assms(4) by metis

lemma gm_step_keeps:
  assumes step: "gm_step rt (s, w) (s', w')" and P: "P s w" "flag_free P"
    and sample: "\<And>s w code s' w'. P s w \<Longrightarrow> sample_locked rt s w = (code, s', w') \<Longrightarrow> P s' w'"
    and frame: "\<And>s w. P s w \<Longrightarrow> P s (snd (gr_try_receive rt w)) \<and> P s (snd (gr_submit_periodic rt w)) \<and> P s (gr_cancel rt w)"
  shows "P s' w'"
  using step
proof cases
  case acquire
  then show ?thesis using P flag_freeD(1)[OF P(2)] by simp
next
  case (run code s1)
  then show ?thesis using sample[OF P(1)] flag_freeD(1)[OF P(2)] by simp
next
  case tick
  then show ?thesis using sample_once_keeps[OF P(2,1) _ sample] by (cases "sample_once rt s w") (auto simp: tick_def)
next
  case (start r)
  obtain code s1 w1 where o: "sample_once rt s w = (code, s1, w1)" using prod_cases3 by blast
  have 1: "P s1 w1" by (rule sample_once_keeps[OF P(2,1) o sample])
  show ?thesis
    using start o P(1) 1 frame[OF 1] flag_freeD(2)[OF P(2)]
    by (auto simp: gpu_manager_start_def Let_def split: if_splits prod.splits)
next
  case (stop fuel locked clock q)
  then show ?thesis
    using P(1) frame[OF P(1)] frame[OF flag_freeD(2)[OF P(2) flag_freeD(3)[OF P(2,1)]]] flag_freeD(3)[OF P(2,1)]
    by (auto simp: gpu_manager_stop_def Let_def split: if_splits)
next
  case receive
  then show ?thesis using frame[OF P(1)] by simp
qed

section \<open>Only valid snapshots\<close>

text \<open>Every tick that ran is counted once, as good, as failed or as one whose snapshot the buffer refused.\<close>

definition accounted :: "GpuManagerStats \<Rightarrow> bool" where
  "accounted st \<longleftrightarrow>
     gst_ticks st = gst_ticks_ok st + gst_ticks_failed st + gst_publish_rejected st
   \<and> gst_snapshots_published st = gst_ticks_ok st"

definition counts :: "GpuManagerStats \<Rightarrow> u64 \<times> u64 \<times> u64 \<times> u64 \<times> u64" where
  "counts st = (gst_ticks st, gst_ticks_ok st, gst_ticks_failed st, gst_publish_rejected st, gst_snapshots_published st)"

lemma send_event_effect:
  assumes "comm_ok rt buf sent" "send_event rt e s w = (ok, s', w')"
  shows "buf w' = buf w"
    "sent w' = (if ok then sent w @ [if gm_dropped_events_pending s then e\<lparr>ge_dropped_earlier_events := True\<rparr> else e] else sent w)"
    "gm_baseline s' = gm_baseline s" "gm_baseline_established s' = gm_baseline_established s"
    "gm_dropped_events_pending s' = (\<not> ok)"
    "counts (gm_stats s') = counts (gm_stats s)"
proof -
  let ?e = "if gm_dropped_events_pending s then e\<lparr>ge_dropped_earlier_events := True\<rparr> else e"
  obtain ok1 w1 where t: "gr_try_send rt ?e w = (ok1, w1)" by fastforce
  note 1 = comm_send[OF assms(1) t] and 2 = comm_frame(5,6)[OF assms(1), of w1]
  show "buf w' = buf w" "sent w' = (if ok then sent w @ [?e] else sent w)"
    "gm_baseline s' = gm_baseline s" "gm_baseline_established s' = gm_baseline_established s"
    "gm_dropped_events_pending s' = (\<not> ok)" "counts (gm_stats s') = counts (gm_stats s)"
    using assms(2) t 1 2 by (auto simp: send_event_def counts_def Let_def split: if_splits)
qed

text \<open>Recording a result counts it and sends at most one event, which is not about a device.\<close>

lemma record_failure_cases:
  assumes "record_failure rt error s w = (s', w')"
  obtains s1 e ok where "s\<lparr>gm_stats := gm_stats s1\<rparr> = s1"
    "counts (gm_stats s1) = (let (t, a, f, x, p) = counts (gm_stats s) in (t, a, f + 1, x, p))"
    "send_event rt e s1 w = (ok, s', w') \<or> s' = s1 \<and> w' = w"
proof -
  let ?s1 = "s\<lparr>gm_stats := (gm_stats s)\<lparr>gst_ticks_failed := gst_ticks_failed (gm_stats s) + 1, gst_last_error := error,
      gst_error_streak := gst_error_streak (gm_stats s) + 1\<rparr>\<rparr>"
  have "(\<exists>e ok. send_event rt e ?s1 w = (ok, s', w')) \<or> s' = ?s1 \<and> w' = w"
    using assms by (auto simp: record_failure_def Let_def prod_eq_iff split: if_splits)
  then show thesis using that[of ?s1] by (auto simp: counts_def)
qed

lemma record_success_cases:
  assumes "record_success rt revision s w = (s', w')"
  obtains s1 e ok where "s\<lparr>gm_stats := gm_stats s1\<rparr> = s1"
    "counts (gm_stats s1) = (let (t, a, f, x, p) = counts (gm_stats s) in (t, a + 1, f, x, p))"
    "send_event rt e s1 w = (ok, s', w') \<or> s' = s1 \<and> w' = w"
proof -
  let ?s1 = "s\<lparr>gm_stats := (gm_stats s)\<lparr>gst_ticks_ok := gst_ticks_ok (gm_stats s) + 1,
      gst_last_error := GpuProviderErrorCode.kNone, gst_last_good_revision := revision, gst_error_streak := 0\<rparr>\<rparr>"
  have "(\<exists>e ok. send_event rt e ?s1 w = (ok, s', w')) \<or> s' = ?s1 \<and> w' = w"
    using assms by (auto simp: record_success_def Let_def prod_eq_iff split: if_splits)
  then show thesis using that[of ?s1] by (auto simp: counts_def)
qed

definition change_event :: "u64 \<Rightarrow> StateMap \<Rightarrow> StateMap \<Rightarrow> GpuManagerEvent" where
  "change_event revision previous current =
     blank_event\<lparr>ge_kind := kGpuStateChanged, ge_revision := revision, ge_changed := diff_states previous current\<rparr>"

lemma detect_changes_cases:
  assumes "detect_changes rt revision s w = (s', w')"
  obtains (none) "s' = s" "w' = w"
  | (first) x where "gr_try_load rt w = Some x" "\<not> gm_baseline_established s"
      "s' = s\<lparr>gm_baseline := build_state_map x, gm_baseline_established := True\<rparr>" "w' = w"
  | (same) x where "gr_try_load rt w = Some x" "gm_baseline_established s"
      "diff_states (gm_baseline s) (build_state_map x) = []" "s' = s\<lparr>gm_baseline := build_state_map x\<rparr>" "w' = w"
  | (dropped) x where "gr_try_load rt w = Some x" "gm_baseline_established s"
      "send_event rt (change_event revision (gm_baseline s) (build_state_map x)) s w = (False, s', w')"
  | (reported) x s1 n where "gr_try_load rt w = Some x" "gm_baseline_established s"
      "send_event rt (change_event revision (gm_baseline s) (build_state_map x)) s w = (True, s1, w')"
      "s' = s1\<lparr>gm_stats := (gm_stats s1)\<lparr>gst_state_change_events := n\<rparr>, gm_baseline := build_state_map x\<rparr>"
proof (cases "\<exists>x. gr_try_load rt w = Some x \<and> gs_revision x = revision")
  case False
  then have "s' = s \<and> w' = w" using assms by (cases "gr_try_load rt w") (simp_all add: detect_changes_def)
  then have "s' = s" "w' = w" by blast+
  then show thesis by (rule none)
next
  case True
  then obtain x where x: "gr_try_load rt w = Some x" "gs_revision x = revision" by blast
  let ?d = "diff_states (gm_baseline s) (build_state_map x)"
  obtain ok s1 w1 where e: "send_event rt (change_event revision (gm_baseline s) (build_state_map x)) s w = (ok, s1, w1)"
    using prod_cases3 by blast
  consider (a) "\<not> gm_baseline_established s" | (b) "gm_baseline_established s" "?d = []" | (c) "gm_baseline_established s" "?d \<noteq> []"
    by blast
  then show thesis
  proof cases
    case a
    then show thesis using first[OF x(1) a] assms x by (simp add: detect_changes_def Let_def)
  next
    case b
    then show thesis using same[OF x(1) b] assms x by (simp add: detect_changes_def Let_def)
  next
    case c
    then have d: "(s', w') = (if \<not> ok then (s1, w1) else
        (s1\<lparr>gm_stats := (gm_stats s1)\<lparr>gst_state_change_events := gst_state_change_events (gm_stats s1) + 1\<rparr>,
            gm_baseline := build_state_map x\<rparr>, w1))"
      using assms x e by (simp add: detect_changes_def Let_def change_event_def)
    show thesis
    proof (cases ok)
      case True
      then show thesis using reported[OF x(1) c(1), of s1 "gst_state_change_events (gm_stats s1) + 1"] e d by simp
    next
      case False
      then show thesis using dropped[OF x(1) c(1)] e d by simp
    qed
  qed
qed

text \<open>A sample under the lock: it fails, the buffer refuses the snapshot, or a valid one is published.\<close>

lemma sample_locked_cases:
  assumes "sample_locked rt s w = (code, s', w')"
  obtains (failed) e s1 where "s\<lparr>gm_stats := gm_stats s1\<rparr> = s1"
      "counts (gm_stats s1) = (let (t, a, f, x, p) = counts (gm_stats s) in (t + 1, a, f, x, p))"
      "record_failure rt e s1 (snd (gr_observe rt w)) = (s', w')"
  | (refused) x where "gr_try_publish rt x (snd (gr_observe rt w)) = (False, w')" "s\<lparr>gm_stats := gm_stats s'\<rparr> = s'"
      "counts (gm_stats s') = (let (t, a, f, y, p) = counts (gm_stats s) in (t + 1, a, f, y + 1, p))"
  | (published) x w2 s1 s2 w3 where "gov_ok (gpu_validate x)" "gr_try_publish rt x (snd (gr_observe rt w)) = (True, w2)"
      "s\<lparr>gm_stats := gm_stats s1\<rparr> = s1"
      "counts (gm_stats s1) = (let (t, a, f, x, p) = counts (gm_stats s) in (t + 1, a, f, x, p + 1))"
      "record_success rt (gs_revision x) s1 w2 = (s2, w3)" "detect_changes rt (gs_revision x) s2 w3 = (s', w')"
proof -
  obtain ob w1 where o: "gr_observe rt w = (ob, w1)" by fastforce
  let ?s0 = "s\<lparr>gm_stats := (gm_stats s)\<lparr>gst_ticks := gst_ticks (gm_stats s) + 1\<rparr>\<rparr>"
  let ?s1 = "?s0\<lparr>gm_stats := (gm_stats ?s0)\<lparr>gst_tick_exceptions := gst_tick_exceptions (gm_stats ?s0) + 1\<rparr>\<rparr>"
  let ?s2 = "?s0\<lparr>gm_stats := (gm_stats ?s0)\<lparr>gst_snapshots_published := gst_snapshots_published (gm_stats ?s0) + 1\<rparr>\<rparr>"
  note fail = failed[of ?s0, unfolded o] failed[of ?s1, unfolded o]
  show thesis
  proof (cases "\<exists>x. ob = Some x \<and> gpr_code x = GpuProviderErrorCode.kNone \<and> gov_ok (gpu_validate (gpr_snapshot x))")
    case False
    then show thesis
      using assms o fail by (simp add: sample_locked_def counts_def Let_def split: option.splits if_splits; blast)
  next
    case True
    then obtain x where x: "ob = Some x" "gpr_code x = GpuProviderErrorCode.kNone" "gov_ok (gpu_validate (gpr_snapshot x))"
      by blast
    obtain ok w2 where p: "gr_try_publish rt (gpr_snapshot x) w1 = (ok, w2)" by fastforce
    obtain s3 w3 where r: "record_success rt (gs_revision (gpr_snapshot x)) ?s2 w2 = (s3, w3)" by fastforce
    show thesis
      using assms o x p r refused[of "gpr_snapshot x"] published[OF x(3), of w2 ?s2 s3 w3]
      by (cases ok) (auto simp: sample_locked_def counts_def Let_def)
  qed
qed

text \<open>The invariant of the published value.\<close>

definition published_ok where
  "published_ok buf s w \<longleftrightarrow> (gs_revision (buf w) = 0 \<or> gov_ok (gpu_validate (buf w))) \<and> accounted (gm_stats s)"

lemma accounted_counts: "accounted st \<longleftrightarrow> (case counts st of (t, a, f, x, p) \<Rightarrow> t = a + f + x \<and> p = a)"
  by (simp add: accounted_def counts_def)

lemma detect_changes_frame:
  assumes "comm_ok rt buf sent" "detect_changes rt revision s w = (s', w')"
  shows "buf w' = buf w \<and> counts (gm_stats s') = counts (gm_stats s)"
  using assms(2)
proof (cases rule: detect_changes_cases)
  case (dropped x)
  then show ?thesis using send_event_effect(1,6)[OF assms(1) dropped(3)] by simp
next
  case (reported x s1 n)
  then show ?thesis using send_event_effect(1,6)[OF assms(1) reported(3)] by (simp add: counts_def)
qed simp_all

lemma maybe_sent:
  assumes "comm_ok rt buf sent" "send_event rt e s1 w = (ok, s', w') \<or> s' = s1 \<and> w' = w"
  shows "buf w' = buf w" "counts (gm_stats s') = counts (gm_stats s1)"
  using assms(2) by (auto dest: send_event_effect(1,6)[OF assms(1)])

lemma sample_published_ok:
  assumes ok: "comm_ok rt buf sent" and P: "published_ok buf s w" and sm: "sample_locked rt s w = (code, s', w')"
  shows "published_ok buf s' w'"
proof -
  have b: "buf (snd (gr_observe rt w)) = buf w" by (rule comm_frame(1)[OF ok])
  from sm show ?thesis
  proof (cases rule: sample_locked_cases)
    case (failed e s1)
    obtain s2 e2 ok2 where s2: "counts (gm_stats s2) = (let (t, a, f, x, p) = counts (gm_stats s1) in (t, a, f + 1, x, p))"
        "send_event rt e2 s2 (snd (gr_observe rt w)) = (ok2, s', w') \<or> s' = s2 \<and> w' = snd (gr_observe rt w)"
      using record_failure_cases[OF failed(3)] by blast
    show ?thesis
      using P maybe_sent[OF ok s2(2)] s2(1) failed(2) b
      by (auto simp: published_ok_def accounted_counts Let_def split: prod.splits)
  next
    case (refused x)
    then show ?thesis
      using P comm_publish[OF ok refused(1)] b by (auto simp: published_ok_def accounted_counts Let_def split: prod.splits)
  next
    case (published x w2 s1 s2 w3)
    obtain s4 e4 ok4 where s4: "counts (gm_stats s4) = (let (t, a, f, x, p) = counts (gm_stats s1) in (t, a + 1, f, x, p))"
        "send_event rt e4 s4 w2 = (ok4, s2, w3) \<or> s2 = s4 \<and> w3 = w2"
      using record_success_cases[OF published(5)] by blast
    have "buf w' = x" using comm_publish[OF ok published(2)] maybe_sent[OF ok s4(2)] detect_changes_frame[OF ok published(6)] by simp
    then show ?thesis
      using P published(1,4) s4(1) maybe_sent[OF ok s4(2)] detect_changes_frame[OF ok published(6)]
      by (auto simp: published_ok_def accounted_counts Let_def split: prod.splits)
  qed
qed

lemma published_ok_flag_free: "flag_free (published_ok buf)"
  by (simp add: flag_free_def published_ok_def accounted_def)

lemma gm_steps_published:
  assumes ok: "comm_ok rt buf sent"
  shows "(gm_step rt)\<^sup>*\<^sup>* x y \<Longrightarrow> published_ok buf (fst x) (snd x) \<Longrightarrow> published_ok buf (fst y) (snd y)"
proof (induction rule: rtranclp_induct)
  case (step y z)
  then have "gm_step rt (fst y, snd y) (fst z, snd z)" "published_ok buf (fst y) (snd y)" by simp_all
  then show ?case
    by (rule gm_step_keeps[where P = "published_ok buf", OF _ _ published_ok_flag_free sample_published_ok[OF ok]])
      (simp_all add: published_ok_def comm_frame[OF ok])
qed

text \<open>
  Property C20. Consumers of the GPU manager only ever see valid snapshots. However ticks, \<open>start\<close>, \<open>stop\<close> and
  reads interleave after construction, with any provider, a snapshot that \<open>try_get_snapshot\<close> returns passes
  \<open>validate\<close>; and every tick that took the lock is counted exactly once, as successful, as failed or as refused by
  the buffer.
\<close>

theorem gpu_snapshots_valid:
  assumes "comm_ok rt buf sent" "gs_revision (buf w0) = 0"
    and "(gm_step rt)\<^sup>*\<^sup>* (new_gpu_manager config, w0) (s, w)"
  shows "(\<forall>x. try_get_snapshot rt w = Some x \<longrightarrow> gov_ok (gpu_validate x))
    \<and> accounted (gpu_manager_stats s)"
proof -
  have "published_ok buf (new_gpu_manager config) w0"
    using assms(2) by (simp add: published_ok_def accounted_def new_gpu_manager_def)
  then have "published_ok buf s w" using gm_steps_published[OF assms(1,3)] by simp
  then show ?thesis
    using comm_load[OF assms(1), of w]
    by (auto simp: published_ok_def try_get_snapshot_def gpu_manager_stats_def split: option.splits if_splits)
qed

section \<open>No change is lost\<close>

text \<open>What happened between two states: events were accepted; a device whose state in the baseline differs is
  named by one of them; if an event had been dropped, the next accepted one says so.\<close>

definition reports where
  "reports sent s w s' w' \<longleftrightarrow>
     (\<exists>es. sent w' = sent w @ es
      \<and> (\<forall>uuid. map_of (gm_baseline s) uuid \<noteq> map_of (gm_baseline s') uuid \<longrightarrow>
           (\<exists>e \<in> set es. ge_kind e = kGpuStateChanged \<and> uuid \<in> set (ge_changed e)))
      \<and> (gm_dropped_events_pending s \<longrightarrow>
           (if es = [] then gm_dropped_events_pending s' else ge_dropped_earlier_events (hd es))))"

lemma reports_refl: "gm_baseline s' = gm_baseline s \<Longrightarrow> gm_dropped_events_pending s' = gm_dropped_events_pending s \<Longrightarrow>
    sent w' = sent w \<Longrightarrow> reports sent s w s' w'"
  by (simp add: reports_def)

lemma reports_trans:
  assumes "reports sent s w s1 w1" "reports sent s1 w1 s2 w2"
  shows "reports sent s w s2 w2"
proof -
  obtain es where es: "sent w1 = sent w @ es"
      "\<And>uuid. map_of (gm_baseline s) uuid \<noteq> map_of (gm_baseline s1) uuid \<Longrightarrow>
         \<exists>e \<in> set es. ge_kind e = kGpuStateChanged \<and> uuid \<in> set (ge_changed e)"
      "gm_dropped_events_pending s \<longrightarrow> (if es = [] then gm_dropped_events_pending s1 else ge_dropped_earlier_events (hd es))"
    using assms(1) unfolding reports_def by blast
  obtain fs where fs: "sent w2 = sent w1 @ fs"
      "\<And>uuid. map_of (gm_baseline s1) uuid \<noteq> map_of (gm_baseline s2) uuid \<Longrightarrow>
         \<exists>e \<in> set fs. ge_kind e = kGpuStateChanged \<and> uuid \<in> set (ge_changed e)"
      "gm_dropped_events_pending s1 \<longrightarrow> (if fs = [] then gm_dropped_events_pending s2 else ge_dropped_earlier_events (hd fs))"
    using assms(2) unfolding reports_def by blast
  have "\<exists>e \<in> set (es @ fs). ge_kind e = kGpuStateChanged \<and> uuid \<in> set (ge_changed e)"
    if "map_of (gm_baseline s) uuid \<noteq> map_of (gm_baseline s2) uuid" for uuid
    using es(2)[of uuid] fs(2)[of uuid] that by (cases "map_of (gm_baseline s) uuid = map_of (gm_baseline s1) uuid") auto
  then show ?thesis
    unfolding reports_def using es(1,3) fs(1,3) by (intro exI[of _ "es @ fs"]) (auto simp: hd_append)
qed

lemma send_event_reports:
  assumes "comm_ok rt buf sent" "send_event rt e s w = (ok, s', w')"
  shows "reports sent s w s' w'"
  using send_event_effect[OF assms]
  by (auto simp: reports_def intro!: exI[of _ "if ok then [if gm_dropped_events_pending s
    then e\<lparr>ge_dropped_earlier_events := True\<rparr> else e] else []"])

lemma detect_changes_reports:
  assumes ok: "comm_ok rt buf sent" and wf: "omap_wf (gm_baseline s)" "gm_baseline_established s"
    and d: "detect_changes rt revision s w = (s', w')"
  shows "reports sent s w s' w' \<and> omap_wf (gm_baseline s') \<and> gm_baseline_established s'"
  using d
proof (cases rule: detect_changes_cases)
  case none
  then show ?thesis using wf by (simp add: reports_refl)
next
  case (first x)
  then show ?thesis using wf by simp
next
  case (same x)
  have "map_of (gm_baseline s) uuid = map_of (build_state_map x) uuid" for uuid
    using diff_states_iff[OF wf(1) build_state_map_wf, of uuid x] same(3) by simp
  then show ?thesis using same wf build_state_map_wf by (simp add: reports_def)
next
  case (dropped x)
  then show ?thesis using send_event_reports[OF ok dropped(3)] send_event_effect(3,4)[OF ok dropped(3)] wf by simp
next
  case (reported x s1 n)
  let ?e = "change_event revision (gm_baseline s) (build_state_map x)"
  note e = send_event_effect[OF ok reported(3)]
  have "reports sent s w s' w'"
    unfolding reports_def
    using e(2) reported(4) diff_states_iff[OF wf(1) build_state_map_wf]
    by (intro exI[of _ "[if gm_dropped_events_pending s then ?e\<lparr>ge_dropped_earlier_events := True\<rparr> else ?e]"])
      (simp add: change_event_def)
  then show ?thesis using e(4) reported(4) wf build_state_map_wf by simp
qed

text \<open>The invariant relative to a state \<open>s0\<close>, \<open>w0\<close> from which changes are counted.\<close>

definition tracks where
  "tracks sent s0 w0 s w \<longleftrightarrow> reports sent s0 w0 s w \<and> omap_wf (gm_baseline s) \<and> gm_baseline_established s"

lemma tracks_cong:
  assumes "tracks sent s0 w0 s w" "s\<lparr>gm_stats := gm_stats s1\<rparr> = s1" "sent w1 = sent w"
  shows "tracks sent s0 w0 s1 w1"
proof -
  have s1: "gm_baseline s1 = gm_baseline s" "gm_dropped_events_pending s1 = gm_dropped_events_pending s"
      "gm_baseline_established s1 = gm_baseline_established s"
    by (subst assms(2)[symmetric], simp)+
  have "reports sent s0 w0 s w" using assms(1) by (simp add: tracks_def)
  from reports_trans[OF this reports_refl[of _ _ sent, OF s1(1,2) assms(3)]]
  show ?thesis using assms(1) s1 by (simp add: tracks_def)
qed

lemma tracks_sent:
  assumes ok: "comm_ok rt buf sent" and t: "tracks sent s0 w0 s w"
    and e: "send_event rt e s w = (sent_ok, s', w') \<or> s' = s \<and> w' = w"
  shows "tracks sent s0 w0 s' w'"
  using e
proof
  assume e: "send_event rt e s w = (sent_ok, s', w')"
  have "reports sent s0 w0 s w" using t by (simp add: tracks_def)
  from reports_trans[OF this send_event_reports[OF ok e]]
  show ?thesis using t send_event_effect(3,4)[OF ok e] by (simp add: tracks_def)
qed (use t in simp)

lemma sample_tracks:
  assumes ok: "comm_ok rt buf sent" and t: "tracks sent s0 w0 s w" and sm: "sample_locked rt s w = (code, s', w')"
  shows "tracks sent s0 w0 s' w'"
proof -
  have b: "sent (snd (gr_observe rt w)) = sent w" by (rule comm_frame(2)[OF ok])
  from sm show ?thesis
  proof (cases rule: sample_locked_cases)
    case (failed e s1)
    obtain s2 e2 ok2 where s2: "s1\<lparr>gm_stats := gm_stats s2\<rparr> = s2"
        "send_event rt e2 s2 (snd (gr_observe rt w)) = (ok2, s', w') \<or> s' = s2 \<and> w' = snd (gr_observe rt w)"
      using record_failure_cases[OF failed(3)] by blast
    show ?thesis by (rule tracks_sent[OF ok tracks_cong[OF tracks_cong[OF t failed(1) b] s2(1) refl] s2(2)])
  next
    case (refused x)
    then show ?thesis using tracks_cong[OF t refused(2)] comm_publish[OF ok refused(1)] b by simp
  next
    case (published x w2 s1 s2 w3)
    obtain s4 e4 ok4 where s4: "s1\<lparr>gm_stats := gm_stats s4\<rparr> = s4"
        "send_event rt e4 s4 w2 = (ok4, s2, w3) \<or> s2 = s4 \<and> w3 = w2"
      using record_success_cases[OF published(5)] by blast
    have "sent w2 = sent w" using comm_publish[OF ok published(2)] b by simp
    from tracks_sent[OF ok tracks_cong[OF tracks_cong[OF t published(3) this] s4(1) refl] s4(2)]
    have t3: "tracks sent s0 w0 s2 w3" .
    then have d: "reports sent s2 w3 s' w' \<and> omap_wf (gm_baseline s') \<and> gm_baseline_established s'"
      using detect_changes_reports[OF ok _ _ published(6)] by (simp add: tracks_def)
    have "reports sent s0 w0 s2 w3" using t3 by (simp add: tracks_def)
    from reports_trans[OF this conjunct1[OF d]] d show ?thesis by (simp add: tracks_def)
  qed
qed

lemma tracks_flag_free: "flag_free (tracks sent s0 w0)"
  by (simp add: flag_free_def tracks_def reports_def)

lemma gm_steps_track:
  assumes ok: "comm_ok rt buf sent"
  shows "(gm_step rt)\<^sup>*\<^sup>* x y \<Longrightarrow> tracks sent s0 w0 (fst x) (snd x) \<Longrightarrow> tracks sent s0 w0 (fst y) (snd y)"
proof (induction rule: rtranclp_induct)
  case (step y z)
  then have "gm_step rt (fst y, snd y) (fst z, snd z)" "tracks sent s0 w0 (fst y) (snd y)" by simp_all
  then show ?case
    by (rule gm_step_keeps[where P = "tracks sent s0 w0", OF _ _ tracks_flag_free sample_tracks[OF ok]])
      (simp_all add: tracks_def reports_def comm_frame[OF ok])
qed

lemma sample_baseline_wf:
  assumes "comm_ok rt buf sent" "omap_wf (gm_baseline s)" "sample_locked rt s w = (code, s', w')"
  shows "omap_wf (gm_baseline s')"
proof -
  have sub: "gm_baseline s1 = gm_baseline s2" if "s2\<lparr>gm_stats := gm_stats s1\<rparr> = s1" for s1 s2 by (subst that[symmetric]) simp
  have sent: "gm_baseline s2 = gm_baseline s1" if "send_event rt e s1 w1 = (ok, s2, w2) \<or> s2 = s1 \<and> w2 = w1" for e s1 w1 ok s2 w2
    using that send_event_effect(3)[OF assms(1)] by auto
  from assms(3) show ?thesis
  proof (cases rule: sample_locked_cases)
    case (failed e s1)
    obtain s2 e2 ok2 where s2: "s1\<lparr>gm_stats := gm_stats s2\<rparr> = s2"
        "send_event rt e2 s2 (snd (gr_observe rt w)) = (ok2, s', w') \<or> s' = s2 \<and> w' = snd (gr_observe rt w)"
      using record_failure_cases[OF failed(3)] by blast
    show ?thesis using sub[OF failed(1)] sub[OF s2(1)] sent[OF s2(2)] assms(2) by simp
  next
    case (refused x)
    then show ?thesis using sub[OF refused(2)] assms(2) by simp
  next
    case (published x w2 s1 s2 w3)
    obtain s4 e4 ok4 where s4: "s1\<lparr>gm_stats := gm_stats s4\<rparr> = s4"
        "send_event rt e4 s4 w2 = (ok4, s2, w3) \<or> s2 = s4 \<and> w3 = w2"
      using record_success_cases[OF published(5)] by blast
    have wf: "omap_wf (gm_baseline s2)" using sub[OF published(3)] sub[OF s4(1)] sent[OF s4(2)] assms(2) by simp
    from published(6) wf show ?thesis
      by (cases rule: detect_changes_cases) (auto simp: build_state_map_wf dest: send_event_effect(3)[OF assms(1)])
  qed
qed

lemma gm_steps_baseline_wf:
  assumes ok: "comm_ok rt buf sent"
  shows "(gm_step rt)\<^sup>*\<^sup>* x y \<Longrightarrow> omap_wf (gm_baseline (fst x)) \<Longrightarrow> omap_wf (gm_baseline (fst y))"
proof (induction rule: rtranclp_induct)
  case (step y z)
  have free: "flag_free (\<lambda>s w. omap_wf (gm_baseline s))" by (simp add: flag_free_def)
  from step have "gm_step rt (fst y, snd y) (fst z, snd z)" "omap_wf (gm_baseline (fst y))" by simp_all
  then show ?case
    by (rule gm_step_keeps[where P = "\<lambda>s w. omap_wf (gm_baseline s)", OF _ _ free sample_baseline_wf[OF ok]]) simp_all
qed


text \<open>The baseline follows the published snapshot, unless the event about the difference was dropped; the next
  sample then reports the accumulated difference.\<close>

lemma baseline_follows:
  assumes "gr_try_load rt w = Some x" "gs_revision x = revision" "detect_changes rt revision s w = (s', w')"
    "comm_ok rt buf sent"
  shows "gm_baseline s' = build_state_map x \<or> gm_dropped_events_pending s' \<and> gm_baseline s' = gm_baseline s"
proof -
  let ?e = "change_event revision (gm_baseline s) (build_state_map x)"
  obtain ok s1 w1 where e: "send_event rt ?e s w = (ok, s1, w1)" using prod_cases3 by blast
  show ?thesis
    using assms(1-3) e send_event_effect(3,5)[OF assms(4) e]
    by (auto simp: detect_changes_def change_event_def Let_def split: if_splits)
qed

section \<open>Stopping\<close>

text \<open>The join of \<open>stop\<close> returns: every round sleeps a millisecond, so the clock passes the deadline within as many
  rounds as the timeout has milliseconds. It answers \<open>kStopped\<close> only if it saw the lock released.\<close>

lemma join_loop_returns:
  assumes clock: "\<And>k. clock k + 1 \<le> clock (Suc k)" and "deadline - clock n < int fuel" "0 < fuel"
  shows "\<exists>r. join_loop fuel locked clock deadline n = Some r
    \<and> (gsp_code r = GpuManagerStopCode.kStopped \<and> (\<exists>k \<ge> n. \<not> locked k)
       \<or> gsp_code r = kJoinTimedOut \<and> (\<exists>k \<ge> n. locked k \<and> deadline \<le> clock k))"
  using assms(2,3)
proof (induction fuel arbitrary: n)
  case (Suc fuel)
  show ?case
  proof (cases "locked n \<and> clock n < deadline")
    case True
    have d: "deadline - clock n < 1 + int fuel" using Suc.prems(1) by simp
    have 1: "deadline - clock (Suc n) < int fuel" using clock[of n] d by linarith
    have 2: "0 < fuel" using True d by (cases fuel) simp_all
    obtain r where r: "join_loop fuel locked clock deadline (Suc n) = Some r"
        "gsp_code r = GpuManagerStopCode.kStopped \<and> (\<exists>k \<ge> Suc n. \<not> locked k)
         \<or> gsp_code r = kJoinTimedOut \<and> (\<exists>k \<ge> Suc n. locked k \<and> deadline \<le> clock k)"
      using Suc.IH[OF 1 2] by blast
    have "join_loop (Suc fuel) locked clock deadline n = Some r"
      unfolding join_loop.simps using True r(1) by simp
    moreover have "k \<ge> n" if "k \<ge> Suc n" for k using that by simp
    ultimately show ?thesis using r(2) by metis
  next
    case False
    show ?thesis
    proof (cases "locked n")
      case True
      with False show ?thesis by (intro exI conjI disjI2) (simp_all, auto)
    next
      case False
      then show ?thesis by (intro exI conjI disjI1) (simp_all, auto)
    qed
  qed
qed simp

lemma stop_returns:
  assumes "\<And>k. clock k + 1 \<le> clock (Suc k)" "0 \<le> gmc_stop_join_timeout (gm_config s)"
    "nat (gmc_stop_join_timeout (gm_config s)) < fuel"
  shows "fst (gpu_manager_stop rt fuel locked clock s w) \<noteq> None"
proof -
  have "\<exists>r. join_loop fuel locked clock (clock 0 + gmc_stop_join_timeout (gm_config s)) 1 = Some r"
  proof -
    have "gmc_stop_join_timeout (gm_config s) < int fuel" "0 < fuel" using assms(2,3) by (simp_all add: nat_less_iff)
    moreover have "clock 0 \<le> clock 1" using assms(1)[of 0] by simp
    ultimately have "clock 0 + gmc_stop_join_timeout (gm_config s) - clock 1 < int fuel" by linarith
    from join_loop_returns[OF assms(1) this \<open>0 < fuel\<close>] show ?thesis by blast
  qed
  then show ?thesis by (auto simp: gpu_manager_stop_def Let_def)
qed

section \<open>A run\<close>

text \<open>A double buffer and a channel that refuse nothing, and a provider that answers a list of results.\<close>

record demo_comm =
  dc_buffer :: GpuObservationSnapshot
  dc_sent :: "GpuManagerEvent list"
  dc_results :: "GpuProviderResult list"

definition demo_runtime :: "demo_comm GpuRuntime" where
  "demo_runtime =
     \<lparr>gr_observe = (\<lambda>w. case dc_results w of [] \<Rightarrow> (None, w) | r # rs \<Rightarrow> (Some r, w\<lparr>dc_results := rs\<rparr>)),
      gr_try_publish = (\<lambda>x w. (True, w\<lparr>dc_buffer := x\<rparr>)), gr_try_load = (\<lambda>w. Some (dc_buffer w)),
      gr_try_send = (\<lambda>e w. (True, w\<lparr>dc_sent := dc_sent w @ [e]\<rparr>)), gr_try_receive = (\<lambda>w. (None, w)),
      gr_notify = (\<lambda>w. w), gr_submit_periodic = (\<lambda>w. (True, w)), gr_cancel = (\<lambda>w. w)\<rparr>"

lemma demo_runtime_ok: "comm_ok demo_runtime dc_buffer dc_sent"
  by (simp add: comm_ok_def demo_runtime_def split: list.split)

definition demo_result :: "u64 \<Rightarrow> GpuObservedState \<Rightarrow> GpuProviderResult" where
  "demo_result revision state =
     \<lparr>gpr_code = GpuProviderErrorCode.kNone,
      gpr_snapshot = \<lparr>gs_revision = revision, gs_observed_at = 10, gs_devices =
        [\<lparr>go_uuid = ''GPU-a'', go_index = 0, go_state = state, go_telemetry = \<lparr>gt_utilization_percent = None,
          gt_memory_total_bytes = None, gt_memory_used_bytes = None\<rparr>\<rparr>]\<rparr>\<rparr>"

definition demo_comm0 :: demo_comm where
  "demo_comm0 = \<lparr>dc_buffer = \<lparr>gs_revision = 0, gs_observed_at = 0, gs_devices = []\<rparr>, dc_sent = [],
     dc_results = [demo_result 1 GpuObservedState.kFree, demo_result 2 GpuObservedState.kExternalBusy]\<rparr>"

definition demo_gpu_config :: GpuManagerConfig where
  "demo_gpu_config = \<lparr>gmc_sample_period = 5000, gmc_event_capacity = 64, gmc_stop_join_timeout = 10000\<rparr>"

definition demo_tick1 :: "GpuManager \<times> demo_comm" where
  "demo_tick1 = tick demo_runtime (new_gpu_manager demo_gpu_config) demo_comm0"

definition demo_tick2 :: "GpuManager \<times> demo_comm" where
  "demo_tick2 = tick demo_runtime (fst demo_tick1) (snd demo_tick1)"

lemma demo_steps:
  "(gm_step demo_runtime)\<^sup>*\<^sup>* (new_gpu_manager demo_gpu_config, demo_comm0) demo_tick1"
  "(gm_step demo_runtime)\<^sup>*\<^sup>* demo_tick1 demo_tick2"
  using gm_step.tick[of demo_runtime "new_gpu_manager demo_gpu_config" demo_comm0]
    gm_step.tick[of demo_runtime "fst demo_tick1" "snd demo_tick1"]
  by (simp_all add: demo_tick1_def[symmetric] demo_tick2_def[symmetric])

theorem gpu_snapshots_valid_witness:
  "(\<exists>x. try_get_snapshot demo_runtime (snd demo_tick2) = Some x \<and> gov_ok (gpu_validate x) \<and> gs_revision x = 2)
   \<and> accounted (gpu_manager_stats (fst demo_tick2))"
proof -
  have "map_option gs_revision (try_get_snapshot demo_runtime (snd demo_tick2)) = Some 2" by code_simp
  then obtain x where x: "try_get_snapshot demo_runtime (snd demo_tick2) = Some x" "gs_revision x = 2" by blast
  have run: "(gm_step demo_runtime)\<^sup>*\<^sup>* (new_gpu_manager demo_gpu_config, demo_comm0) (fst demo_tick2, snd demo_tick2)"
    using demo_steps by simp
  have "gs_revision (dc_buffer demo_comm0) = 0" by (simp add: demo_comm0_def)
  from gpu_snapshots_valid[OF demo_runtime_ok this run] x show ?thesis by blast
qed


end
