(* ===== verification/Spec2Isabelle.thy ===== *)
theory Spec2Isabelle
  imports Scheduler_Props Recovery_Props Ipc_Props Launch_Props Process_Props Log_Sink_Props
    Log_Streamer_Props Exit_Monitor Job_Command_Props Ipc_Service_Props Sqlite_Props Nvml_Provider Gpu_Manager_Props
begin

text \<open>
  A verification development for yori, the daemon that queues the GPU jobs of several users on one
  machine, leases each started job one GPU, supervises its process and keeps the job table in a
  state store. Clients talk to the daemon over a socket protocol; the request service turns requests
  into commands of the job manager, the only writer of the store. The manager runs the scheduler over
  the queue, the store and the snapshot of the GPU manager, launches the scheduled job, and settles it
  when its process exits. After a restart, recovery decides which processes are still those of a job.

  \<^bold>\<open>Conventions.\<close> A struct is a record whose fields carry a prefix per struct, an enumeration a datatype with
  the enumerators of the source, a fixed-width integer a word, \<open>std::map\<close> a key-ordered association list. A
  component is a state record with one function per operation, which returns the result and the new
  state; an early return is a branch, an error a value of the source's error enumeration. What is not
  under \<^verbatim>\<open>src/\<close> (the operating system, SQLite, NVML, the executor library, the clocks) is a record of
  operations on a state of arbitrary type; what a theorem needs of it is a named predicate that states
  its documented behaviour, and the witness of the theorem gives an instance.

  \<^bold>\<open>Parts of the program and their theories\<close>

  \<^item> \<^verbatim>\<open>Yori_Prelude\<close>: words, time points, C strings and \<open>std::map\<close> (\<open>omap\<close>), with the interface \<open>ordered_table\<close>.
  \<^item> \<^verbatim>\<open>Job_Model\<close>: \<^verbatim>\<open>src/include/yori/job/job.hpp\<close>, \<^verbatim>\<open>src/src/job/job.cpp\<close>,
    \<^verbatim>\<open>src/include/yori/gpu/gpu_uuid.hpp\<close>. The job specification, its validation loop by loop, the state graph,
    the \<open>Job\<close> object. Validation accepts exactly what \<open>spec_ok\<close> says; a log directory stays below the working
    directory; revisions and states advance together.
  \<^item> \<^verbatim>\<open>Gpu_Model\<close>: \<^verbatim>\<open>src/include/yori/gpu/gpu_provider.hpp\<close>, \<^verbatim>\<open>src/src/gpu/gpu_provider.cpp\<close>. Observations,
    their validation, leases, the logical state of a device.
  \<^item> \<^verbatim>\<open>Nvml_Provider\<close>: \<^verbatim>\<open>src/src/gpu/nvml_gpu_provider.cpp\<close>. Loading the library and one observation of all devices;
    a successful observation is valid and complete, a failed one is empty.
  \<^item> \<^verbatim>\<open>Gpu_Manager\<close>, \<^verbatim>\<open>Gpu_Manager_Props\<close>: \<^verbatim>\<open>src/src/runtime/gpu_manager.cpp\<close>. The tick under its lock, publication,
    change detection, start and stop. The step relation \<open>gm_step\<close> interleaves a tick in flight with everything
    else; only valid snapshots are published, and every change of a device's state in the baseline is named by an
    accepted event.
  \<^item> \<^verbatim>\<open>Process_Identity\<close>, \<^verbatim>\<open>Process_Supervisor\<close>, \<^verbatim>\<open>Process_Props\<close>: \<^verbatim>\<open>src/src/process/process_supervisor.cpp\<close>. The
    identity triple and the parser of \<^verbatim>\<open>/proc/pid/stat\<close>, spawn with the path of the child up to \<open>execve\<close>,
    adoption, cancellation and escalation. The child leaves the identity of the daemon before it runs the
    job; a group is killed only after the grace period.
  \<^item> \<^verbatim>\<open>Store_Model\<close>, \<^verbatim>\<open>Store_Laws\<close>: \<^verbatim>\<open>src/src/store/state_store.cpp\<close>, \<^verbatim>\<open>src/src/store/mutation_core.cpp\<close> and
    \<^verbatim>\<open>src/src/testing/in_memory_state_store.cpp\<close>. The mutation rules as one total function, the in-memory
    backend, and the contract of a backend as the locales \<open>state_store\<close> and \<open>available_store\<close>, which the
    in-memory backend interprets. Mutations are atomic, a GPU has one lease, a job keeps its specification.
  \<^item> \<^verbatim>\<open>Sqlite_Store\<close>, \<^verbatim>\<open>Sqlite_Laws\<close>, \<^verbatim>\<open>Sqlite_Props\<close>: \<^verbatim>\<open>src/src/store/sqlite_state_store.cpp\<close>. The encoding of a job
    as a row and back, the checks on a database, migration, \<open>load\<close> and \<open>apply\<close> as transactions. Over a library
    that does what its documentation says (\<open>sqlite_ok\<close>) the backend refines the in-memory one for records
    that fit the columns (\<open>content_fits\<close>); an empty file and one of any schema version opens with its content, or
    opening fails and the store stays closed.
  \<^item> \<^verbatim>\<open>Job_Queue\<close>: \<^verbatim>\<open>src/src/queue/job_queue.cpp\<close>. The FIFO queue over the locale \<open>job_queue\<close>.
  \<^item> \<^verbatim>\<open>Scheduler\<close>, \<^verbatim>\<open>Scheduler_Laws\<close>, \<^verbatim>\<open>Scheduler_Props\<close>: \<^verbatim>\<open>src/src/scheduler/scheduler.cpp\<close>. One pass with its window
    scan, placement, commit and rollback; proved over every backend that keeps the contract. A pass only
    takes free devices, skips only jobs that no device can serve, and schedules a job of the window if one can
    start and the store is healthy.
  \<^item> \<^verbatim>\<open>Recovery\<close>, \<^verbatim>\<open>Recovery_Laws\<close>, \<^verbatim>\<open>Recovery_Props\<close>: \<^verbatim>\<open>src/src/recovery/job_recovery.cpp\<close>. The plan and the
    chunked writes; exactly the verified active jobs stay active, every outcome is safe, a healthy store gives
    success, and repeating it changes nothing.
  \<^item> \<^verbatim>\<open>Launch\<close>, \<^verbatim>\<open>Launch_Props\<close>: \<^verbatim>\<open>src/src/launch/launch_adapter.cpp\<close>, \<^verbatim>\<open>src/src/launch/environment_capture.cpp\<close>. The
    launch plan and the captured environment, in closed form.
  \<^item> \<^verbatim>\<open>Log_Sink\<close>, \<^verbatim>\<open>Log_Sink_Props\<close>, \<^verbatim>\<open>Log_Streamer\<close>, \<^verbatim>\<open>Log_Streamer_Props\<close>: \<^verbatim>\<open>src/src/observe/log_sink.cpp\<close>,
    \<^verbatim>\<open>src/src/runtime/log_streamer.cpp\<close>. Every byte is written or counted as dropped; a replay is the abstract log
    with its gap announced.
  \<^item> \<^verbatim>\<open>Exit_Monitor\<close>: \<^verbatim>\<open>src/src/runtime/process_exit_monitor.cpp\<close>, \<^verbatim>\<open>src/src/runtime/grace_escalation.cpp\<close>.
  \<^item> \<^verbatim>\<open>Job_Manager\<close>, \<^verbatim>\<open>Job_Lifecycle\<close>, \<^verbatim>\<open>Job_Manager_Laws\<close>, \<^verbatim>\<open>Job_Manager_Props\<close>, \<^verbatim>\<open>Job_Command_Props\<close>:
    \<^verbatim>\<open>src/src/runtime/job_manager.cpp\<close>. All handlers of the worker over the components above. Store, queue and
    supervised processes stay consistent over every run; submission, cancellation and exits do what they say.
  \<^item> \<^verbatim>\<open>Ipc_Codec\<close>, \<^verbatim>\<open>Ipc_Messages\<close>, \<^verbatim>\<open>Ipc_Laws\<close>, \<^verbatim>\<open>Ipc_Props\<close>: \<^verbatim>\<open>src/src/ipc/ipc_protocol.cpp\<close>. Byte writers and readers
    with the locales \<open>codec\<close> and \<open>lossy_codec\<close>; all messages in all versions.
    A message in range decodes to its wire form, and what is accepted is within the limits; the device
    count of an INSPECT response wraps at 256 devices.
  \<^item> \<^verbatim>\<open>Ipc_Service\<close>, \<^verbatim>\<open>Ipc_Service_Props\<close>: \<^verbatim>\<open>src/src/ipc/ipc_service.cpp\<close>. One handler per request; responses
    are in the range of the protocol and do not depend on what the peer must not see.

  \<^bold>\<open>Bounds and fuel.\<close> The rewrite of a job makes at most three attempts, as the source does
  (\<open>rewrite_attempts\<close>). The command loop takes a bound on its turns (\<open>process_commands\<close>), and answers \<open>None\<close> when it is
  reached; a run of the manager uses any bound. The writing loop of the log sink is a \<open>partial_function\<close>
  (\<open>append_loop\<close>), and it returns whenever the file limit is positive. The join of the GPU manager's \<open>stop\<close> takes fuel
  (\<open>join_loop\<close>); one more turn than the timeout has milliseconds is enough (\<open>stop_returns\<close>), since every turn
  sleeps a millisecond. The splitting of a log directory and the two searches of \<open>PATH\<close> are functions with a
  termination proof; all other loops are structural.

  \<^bold>\<open>Not modelled.\<close> The socket transport (\<^verbatim>\<open>src/src/ipc/ipc_transport.cpp\<close>, \<^verbatim>\<open>uds_client.cpp\<close>, \<^verbatim>\<open>uds_io.cpp\<close>,
  \<^verbatim>\<open>src/src/runtime/ipc_server.cpp\<close>), the log pump and the follow service are poll loops over descriptors; the
  codec, the sink and the streamer they drive are modelled. The task runners and the executor runtime are thin
  wrappers over the executor library. The assembly of the daemon and its signal handling, the parsing and
  printing of the command line client, and the fake GPU provider of the tests are left out, as are worker
  threads, wake-up pipes, descriptors, \<open>chmod\<close>, and the interpreter probe of the environment capture, which runs
  a child process.
\<close>

end
